(* ===== verification/Prelude.thy ===== *)
theory Prelude
  imports Complex_Main
begin

text \<open>
  Shared vocabulary of the development: identifiers, instants and durations, the exceptions
  the services raise, result types, row-set operations, and the two interfaces that several
  components share (a keyed entity store and a transition table).

  Instants are integers counting microseconds since the epoch, the resolution of both Python's
  \<open>datetime\<close> and PostgreSQL's \<open>timestamptz\<close>; a \<open>timedelta\<close> is a difference of instants.
  Identifiers (\<open>uuid.uuid4()\<close>) are numbers below \<open>2 ^ 128\<close>, drawn from a counter so that two
  draws never collide.
\<close>

named_theorems frame
  \<comment> \<open>equations: which tables an operation leaves alone\<close>
named_theorems effect
  \<comment> \<open>equations: what an operation does to the table it writes\<close>

type_synonym uuid = nat
type_synonym time = int

definition secs :: "int \<Rightarrow> time" where
  "secs n = n * 1000000"

definition days :: "int \<Rightarrow> time" where
  "days n = secs (86400 * n)"

lemma days_pos [simp]: "0 < days n \<longleftrightarrow> 0 < n"
  by (auto simp: days_def secs_def)

lemma days_nonneg [simp]: "0 \<le> days n \<longleftrightarrow> 0 \<le> n"
  by (auto simp: days_def secs_def)

lemma days_mono [simp]: "days m \<le> days n \<longleftrightarrow> m \<le> n"
  by (auto simp: days_def secs_def)

lemma days_add: "days (m + n) = days m + days n"
  by (simp add: days_def secs_def algebra_simps)

lemma days_mult: "days (m * n) = m * days n"
  by (simp add: days_def secs_def algebra_simps)

subsection \<open>Exceptions and results\<close>

text \<open>
  One constructor per exception class that a branch of the code raises or lets through. Messages
  are kept where the code stores them; elsewhere only the class is.
\<close>

datatype exc =
    InvoiceNotFoundError
  | InvoiceValidationError
  | InvoiceStateError
  | WalletUnavailableError string
  | SubscriptionNotFoundError
  | SubscriptionValidationError
  | SubscriptionStateError
  | SkipRenewalError string string  \<comment> \<open>message, result type\<close>
  | CustomerNotFoundError
  | CustomerValidationError
  | CustomerConflictError
  | WebhookRetryNotFoundError
  | WebhookRetryConflictError
  | WebhookRetryInvalidStateError
  | EncryptionError
  | DecryptionError
  | MoneroRPCError "int option" string
  | MoneroRPCConnectionError string
  | HTTPException nat
  | MultipleResultsFound
  | IntegrityError
  | DataError
  | InvalidRequestError
  | InvalidOperation
  | OverflowError
  | ValueError
  | TypeError
  | KeyError
  | AttributeError

text \<open>
  An operation on the state returns its outcome and the state it leaves. The state is kept in
  the error case as well, since Python does not undo the writes that precede a \<open>raise\<close>.
\<close>

type_synonym ('s, 'a) outcome = "(exc + 'a) \<times> 's"

fun is_ok :: "('s, 'a) outcome \<Rightarrow> bool" where
  "is_ok (Inr _, _) = True"
| "is_ok (Inl _, _) = False"

text \<open>
  A statement that the database refuses leaves the SQLAlchemy session unusable: everything after
  it raises until the transaction is rolled back, whether or not the exception is caught.
\<close>

fun poisons :: "exc \<Rightarrow> bool" where
  "poisons IntegrityError = True"
| "poisons DataError = True"
| "poisons _ = False"

text \<open>\<open>scalar_one_or_none\<close>: no row gives \<open>None\<close>, one row that row, more rows an exception.\<close>

fun scalar_one_or_none :: "'a list \<Rightarrow> exc + 'a option" where
  "scalar_one_or_none [] = Inr None"
| "scalar_one_or_none [x] = Inr (Some x)"
| "scalar_one_or_none (x # y # zs) = Inl MultipleResultsFound"

lemma scalar_one_or_none_Some:
  "scalar_one_or_none xs = Inr (Some x) \<longleftrightarrow> xs = [x]"
  by (cases xs rule: scalar_one_or_none.cases) auto

lemma scalar_one_or_none_None:
  "scalar_one_or_none xs = Inr None \<longleftrightarrow> xs = []"
  by (cases xs rule: scalar_one_or_none.cases) auto

lemma scalar_one_or_none_short:
  "length xs \<le> 1 \<Longrightarrow> \<exists>r. scalar_one_or_none xs = Inr r"
  by (cases xs rule: scalar_one_or_none.cases) auto

text \<open>A \<open>for\<close> loop over a list; an exception of its body ends it.\<close>

fun for_each :: "('x \<Rightarrow> 's \<Rightarrow> ('s, unit) outcome) \<Rightarrow> 'x list \<Rightarrow> 's \<Rightarrow> ('s, unit) outcome" where
  "for_each f [] d = (Inr (), d)"
| "for_each f (x # xs) d =
     (case f x d of (Inl err, d1) \<Rightarrow> (Inl err, d1) | (Inr _, d1) \<Rightarrow> for_each f xs d1)"

lemma for_each_invariant:
  assumes "\<And>x d. x \<in> set xs \<Longrightarrow> P d \<Longrightarrow> P (snd (f x d))" and "P d"
  shows "P (snd (for_each f xs d))"
  using assms
proof (induction xs arbitrary: d)
  case Nil
  then show ?case by simp
next
  case (Cons x xs)
  obtain r d1 where f: "f x d = (r, d1)" by (cases "f x d")
  have 1: "P d1" using Cons.prems(1)[of x d] Cons.prems(2) f by simp
  have "P (snd (for_each f xs d1))" by (rule Cons.IH[OF _ 1]) (simp add: Cons.prems(1))
  then show ?case using 1 f by (simp split: sum.split)
qed

lemma for_each_total:
  assumes "\<And>x d. P d \<Longrightarrow> x \<in> set xs \<Longrightarrow> \<exists>d'. f x d = (Inr (), d') \<and> P d'" and "P d"
  shows "\<exists>d'. for_each f xs d = (Inr (), d') \<and> P d'"
  using assms
proof (induction xs arbitrary: d)
  case (Cons x xs)
  obtain d1 where "f x d = (Inr (), d1)" and "P d1"
    using Cons.prems(1)[of d x] Cons.prems(2) by auto
  with Cons.IH[of d1] Cons.prems(1) show ?case by simp
qed simp

subsection \<open>Row sets\<close>

text \<open>A table is a list of rows; a row is found and updated by its primary key.\<close>

definition get_row :: "('r \<Rightarrow> nat) \<Rightarrow> nat \<Rightarrow> 'r list \<Rightarrow> 'r option" where
  "get_row key i rs = find (\<lambda>r. key r = i) rs"

definition upd_row :: "('r \<Rightarrow> nat) \<Rightarrow> nat \<Rightarrow> ('r \<Rightarrow> 'r) \<Rightarrow> 'r list \<Rightarrow> 'r list" where
  "upd_row key i f rs = map (\<lambda>r. if key r = i then f r else r) rs"

definition del_row :: "('r \<Rightarrow> nat) \<Rightarrow> nat \<Rightarrow> 'r list \<Rightarrow> 'r list" where
  "del_row key i rs = filter (\<lambda>r. key r \<noteq> i) rs"

lemma get_row_Nil [simp]: "get_row key i [] = None"
  by (simp add: get_row_def)

lemma get_row_Cons [simp]:
  "get_row key i (r # rs) = (if key r = i then Some r else get_row key i rs)"
  by (simp add: get_row_def)

lemma get_row_key: "get_row key i rs = Some r \<Longrightarrow> key r = i"
  by (induction rs) (auto split: if_splits)

lemma get_row_in: "get_row key i rs = Some r \<Longrightarrow> r \<in> set rs"
  by (induction rs) (auto split: if_splits)

lemma get_row_None: "get_row key i rs = None \<longleftrightarrow> i \<notin> key ` set rs"
  by (induction rs) auto

lemma get_row_distinct:
  "distinct (map key rs) \<Longrightarrow> r \<in> set rs \<Longrightarrow> get_row key (key r) rs = Some r"
  by (induction rs) auto

lemma get_row_append:
  "get_row key i (rs @ ss) = (case get_row key i rs of None \<Rightarrow> get_row key i ss | Some r \<Rightarrow> Some r)"
  by (induction rs) auto

lemma get_row_upd:
  assumes "\<And>r. key (f r) = key r"
  shows "get_row key j (upd_row key i f rs) =
    (if i = j then map_option f (get_row key j rs) else get_row key j rs)"
  using assms by (induction rs) (auto simp: upd_row_def)

lemma get_row_upd_found:
  "get_row key i rs = Some r \<Longrightarrow> key (f r) = i \<Longrightarrow> get_row key i (upd_row key i f rs) = Some (f r)"
  by (induction rs) (auto simp: upd_row_def split: if_splits)

lemma get_row_map:
  assumes "\<And>r. key (g r) = key r"
  shows "get_row key i (map g rs) = map_option g (get_row key i rs)"
  using assms by (induction rs) auto

lemma get_row_filter_key:
  "get_row key i (filter (\<lambda>r. P (key r)) rs) = (if P i then get_row key i rs else None)"
  by (induction rs) auto

lemma upd_row_keys:
  assumes "\<And>r. key (f r) = key r"
  shows "map key (upd_row key i f rs) = map key rs"
  using assms by (simp add: upd_row_def)

lemma upd_row_fields:
  assumes "\<And>r. g (f r) = g r"
  shows "map g (upd_row key i f rs) = map g rs"
  using assms by (simp add: upd_row_def)

lemma upd_row_absent: "get_row key i rs = None \<Longrightarrow> upd_row key i f rs = rs"
  by (induction rs) (auto simp: upd_row_def split: if_splits)

lemma upd_row_length [simp]: "length (upd_row key i f rs) = length rs"
  by (simp add: upd_row_def)

lemma in_upd_row:
  "r \<in> set (upd_row key i f rs) \<longleftrightarrow>
     (\<exists>q \<in> set rs. r = (if key q = i then f q else q))"
  by (simp only: upd_row_def set_map image_iff)

lemma set_upd_row:
  assumes "distinct (map key rs)" and "get_row key i rs = Some q"
  shows "set (upd_row key i f rs) = insert (f q) {r \<in> set rs. key r \<noteq> i}"
proof -
  have q: "q \<in> set rs" "key q = i"
    using get_row_in[OF assms(2)] get_row_key[OF assms(2)] by simp_all
  have uniq: "r = q" if "r \<in> set rs" and "key r = i" for r
    using get_row_distinct[OF assms(1) that(1)] that(2) assms(2) by simp
  show ?thesis
  proof (rule set_eqI)
    fix r
    have "r \<in> set (upd_row key i f rs) \<longleftrightarrow> (\<exists>p \<in> set rs. key p = i \<and> r = f p \<or> key p \<noteq> i \<and> r = p)"
      unfolding in_upd_row by (rule bex_cong) auto
    then show "r \<in> set (upd_row key i f rs) \<longleftrightarrow> r \<in> insert (f q) {r \<in> set rs. key r \<noteq> i}"
      using q uniq by blast
  qed
qed

text \<open>\<open>ORDER BY c DESC LIMIT l OFFSET o\<close>; rows that tie keep their table order.\<close>

definition order_desc :: "('r \<Rightarrow> int) \<Rightarrow> 'r list \<Rightarrow> 'r list" where
  "order_desc c rs = sort_key (\<lambda>r. - c r) rs"

definition order_asc :: "('r \<Rightarrow> int) \<Rightarrow> 'r list \<Rightarrow> 'r list" where
  "order_asc c rs = sort_key c rs"

definition page :: "nat \<Rightarrow> nat \<Rightarrow> 'r list \<Rightarrow> 'r list" where
  "page off n rs = take n (drop off rs)"

lemma set_order_desc [simp]: "set (order_desc c rs) = set rs"
  by (simp add: order_desc_def)

lemma set_order_asc [simp]: "set (order_asc c rs) = set rs"
  by (simp add: order_asc_def)

lemma length_order_desc [simp]: "length (order_desc c rs) = length rs"
  by (simp add: order_desc_def)

lemma distinct_order_desc [simp]: "distinct (order_desc c rs) = distinct rs"
  by (simp add: order_desc_def)

lemma set_page: "set (page off n rs) \<subseteq> set rs"
  by (auto simp: page_def dest: in_set_takeD in_set_dropD)

lemma length_page: "length (page off n rs) \<le> n"
  by (simp add: page_def)

subsection \<open>An interface: a keyed entity store\<close>

text \<open>
  What every service relies on when it loads an object by id, mutates it and adds new ones: a
  lookup returns a row with the id asked for, a mutation is seen by lookups of that id and by
  no other, an added row is found under its id. The data model interprets this once per table.
\<close>

locale entity_store =
  fixes look :: "nat \<Rightarrow> 'd \<Rightarrow> 'r option"
    and modify :: "nat \<Rightarrow> ('r \<Rightarrow> 'r) \<Rightarrow> 'd \<Rightarrow> 'd"
    and add :: "'r \<Rightarrow> 'd \<Rightarrow> 'd"
    and key :: "'r \<Rightarrow> nat"
  assumes look_key: "look i d = Some r \<Longrightarrow> key r = i"
    and look_modify: "(\<And>r. key (f r) = key r) \<Longrightarrow>
      look j (modify i f d) = (if i = j then map_option f (look j d) else look j d)"
    and look_add: "look j (add r d) =
      (case look j d of None \<Rightarrow> if key r = j then Some r else None | Some q \<Rightarrow> Some q)"
begin

lemma look_modify_same:
  assumes "\<And>r. key (f r) = key r" and "look i d = Some r"
  shows "look i (modify i f d) = Some (f r)"
  using assms by (simp add: look_modify)

lemma look_modify_other:
  assumes "\<And>r. key (f r) = key r" and "i \<noteq> j"
  shows "look j (modify i f d) = look j d"
  using assms by (simp add: look_modify)

lemma look_add_fresh: "look (key r) d = None \<Longrightarrow> look (key r) (add r d) = Some r"
  by (simp add: look_add)

lemma look_add_kept: "look j d = Some q \<Longrightarrow> look j (add r d) = Some q"
  by (simp add: look_add)

text \<open>A field that a mutation does not write reads the same through every lookup.\<close>

lemma look_modify_field:
  assumes "\<And>r. key (f r) = key r" and "\<And>r. g (f r) = g r"
  shows "map_option g (look j (modify i f d)) = map_option g (look j d)"
  using assms by (simp add: look_modify option.map_comp comp_def)

text \<open>Two mutations of one object are one mutation.\<close>

lemma look_modify_twice:
  assumes "\<And>r. key (f r) = key r" and "\<And>r. key (g r) = key r"
  shows "look j (modify i g (modify i f d)) = look j (modify i (\<lambda>r. g (f r)) d)"
  using assms by (simp add: look_modify option.map_comp comp_def)

text \<open>Mutations of different objects do not depend on their order.\<close>

lemma look_modify_commute:
  assumes "\<And>r. key (f r) = key r" and "\<And>r. key (g r) = key r" and "i \<noteq> k"
  shows "look j (modify i f (modify k g d)) = look j (modify k g (modify i f d))"
  using assms by (simp add: look_modify)

end

subsection \<open>An interface: a transition table with terminal states\<close>

text \<open>
  Invoices and subscriptions are both driven by a dictionary from a status to the statuses it
  may move to, and a set of terminal statuses. \<open>guarded\<close> is the check both services perform:
  staying put is free, every other move must be listed.
\<close>

definition guarded :: "('s \<Rightarrow> 's list) \<Rightarrow> 's \<Rightarrow> 's \<Rightarrow> bool" where
  "guarded tab a b \<longleftrightarrow> a = b \<or> b \<in> set (tab a)"

fun guarded_path :: "('s \<Rightarrow> 's list) \<Rightarrow> 's \<Rightarrow> 's list \<Rightarrow> bool" where
  "guarded_path tab a [] = True"
| "guarded_path tab a (b # bs) = (guarded tab a b \<and> guarded_path tab b bs)"

locale transition_table =
  fixes tab :: "'s \<Rightarrow> 's list" and terminal :: "'s set"
  assumes terminal_iff: "tab s = [] \<longleftrightarrow> s \<in> terminal"
    and irrefl: "s \<notin> set (tab s)"
begin

lemma terminal_stuck: "a \<in> terminal \<Longrightarrow> guarded tab a b \<Longrightarrow> b = a"
  using terminal_iff[of a] by (auto simp: guarded_def)

lemma terminal_path: "a \<in> terminal \<Longrightarrow> guarded_path tab a bs \<Longrightarrow> set bs \<subseteq> {a}"
proof (induction bs)
  case Nil
  then show ?case by simp
next
  case (Cons b bs)
  then have "b = a" by (auto dest: terminal_stuck)
  with Cons show ?case by auto
qed

lemma nonterminal_moves: "a \<notin> terminal \<Longrightarrow> \<exists>b. b \<noteq> a \<and> guarded tab a b"
  using terminal_iff[of a] irrefl[of a]
  by (cases "tab a") (auto simp: guarded_def)

end

end
