(* ===== verification/Values.thy ===== *)
theory Values
  imports Prelude
begin

text \<open>
  Values the services compute with: XMR amounts and their conversion to piconero
  (\<open>services/monero_rpc.py\<close>), JSON documents (the JSONB columns), the text form of identifiers
  (\<open>str(uuid)\<close>, \<open>uuid.UUID(s)\<close>) and of instants (\<open>isoformat()\<close>).

  A finite \<open>Decimal\<close> is a rational: every amount the code builds has at most 28 significant
  digits, where Python's default context is exact. The three special values are kept, because
  they reach the validation code. How \<open>str()\<close> of a Decimal places zeros and exponents is not
  modelled: a JSON string holding such a text is \<open>JDec\<close> of the number.
\<close>

section \<open>XMR amounts\<close>

datatype pydec = Fin rat | PosInf | NegInf | NaN

definition piconero :: int where
  "piconero = 1000000000000"

definition dust_threshold_atomic :: int where
  "dust_threshold_atomic = 100000000"

text \<open>\<open>int(x)\<close> cuts towards zero.\<close>

definition py_trunc :: "rat \<Rightarrow> int" where
  "py_trunc x = (if 0 \<le> x then \<lfloor>x\<rfloor> else \<lceil>x\<rceil>)"

definition atomic_to_xmr :: "int \<Rightarrow> rat" where
  "atomic_to_xmr atomic = of_int atomic / of_int piconero"

definition xmr_to_atomic :: "rat \<Rightarrow> int" where
  "xmr_to_atomic xmr = py_trunc (xmr * of_int piconero)"

text \<open>\<open>quantize(Decimal("0.000000000001"), rounding=ROUND_DOWN)\<close>.\<close>

definition quantize_down12 :: "rat \<Rightarrow> rat" where
  "quantize_down12 x = of_int (py_trunc (x * of_int piconero)) / of_int piconero"

text \<open>\<open>quantize(Decimal("0.01"))\<close>, in the default rounding (half to even).\<close>

definition round_half_even :: "rat \<Rightarrow> int" where
  "round_half_even x =
     (let f = \<lfloor>x\<rfloor>; r = x - of_int f
      in if r < 1/2 then f else if 1/2 < r then f + 1 else if even f then f else f + 1)"

definition quantize_cents :: "rat \<Rightarrow> rat" where
  "quantize_cents x = of_int (round_half_even (x * 100)) / 100"

text \<open>
  What a \<open>NUMERIC(p, s)\<close> column stores, rounded half away from zero to \<open>s\<close> decimals, and whether
  PostgreSQL accepts it: at most \<open>p - s\<close> digits before the point.
\<close>

definition pg_numeric :: "nat \<Rightarrow> rat \<Rightarrow> rat" where
  "pg_numeric s x =
     (if 0 \<le> x then of_int \<lfloor>x * 10 ^ s + 1/2\<rfloor> / 10 ^ s else - (of_int \<lfloor>- x * 10 ^ s + 1/2\<rfloor> / 10 ^ s))"

definition numeric_fits :: "nat \<Rightarrow> nat \<Rightarrow> rat \<Rightarrow> bool" where
  "numeric_fits p s x \<longleftrightarrow> \<bar>pg_numeric s x\<bar> < 10 ^ (p - s)"

definition bigint_fits :: "int \<Rightarrow> bool" where
  "bigint_fits n \<longleftrightarrow> - (2 ^ 63) \<le> n \<and> n < 2 ^ 63"

definition integer_fits :: "int \<Rightarrow> bool" where
  "integer_fits n \<longleftrightarrow> - (2 ^ 31) \<le> n \<and> n < 2 ^ 31"

lemma piconero_pos [simp]: "0 < piconero" "0 \<le> piconero" "piconero \<noteq> 0"
  by (simp_all add: piconero_def)

lemma piconero_pos_rat [simp]: "0 < (of_int piconero :: rat)" "0 \<le> (of_int piconero :: rat)"
  by (simp_all add: piconero_def)

lemma py_trunc_of_int [simp]: "py_trunc (of_int n) = n"
  by (simp add: py_trunc_def)

lemma py_trunc_nonneg: "0 \<le> x \<Longrightarrow> 0 \<le> py_trunc x"
  by (simp add: py_trunc_def)

lemma py_trunc_mono: "x \<le> y \<Longrightarrow> py_trunc x \<le> py_trunc y"
proof -
  assume le: "x \<le> y"
  show ?thesis
  proof (cases "0 \<le> x \<or> y < 0")
    case True
    with le show ?thesis by (auto simp: py_trunc_def intro: floor_mono ceiling_mono)
  next
    case False
    then have "\<lceil>x\<rceil> \<le> 0" and "0 \<le> \<lfloor>y\<rfloor>" by auto
    then have "\<lceil>x\<rceil> \<le> \<lfloor>y\<rfloor>" by linarith
    with False show ?thesis by (auto simp: py_trunc_def)
  qed
qed

lemma py_trunc_bounds: "0 \<le> x \<Longrightarrow> of_int (py_trunc x) \<le> x \<and> x < of_int (py_trunc x) + 1"
  by (simp add: py_trunc_def) linarith

lemma xmr_to_atomic_atomic_to_xmr: "xmr_to_atomic (atomic_to_xmr n) = n"
  by (simp add: xmr_to_atomic_def atomic_to_xmr_def)

lemma xmr_to_atomic_mono: "x \<le> y \<Longrightarrow> xmr_to_atomic x \<le> xmr_to_atomic y"
  by (simp add: xmr_to_atomic_def py_trunc_mono mult_right_mono)

text \<open>Converting to piconero loses less than one piconero, and never rounds up.\<close>

lemma xmr_to_atomic_bounds:
  assumes "0 \<le> x"
  shows "atomic_to_xmr (xmr_to_atomic x) \<le> x \<and> x < atomic_to_xmr (xmr_to_atomic x + 1)"
proof -
  have "0 \<le> x * of_int piconero" using assms by simp
  from py_trunc_bounds[OF this] show ?thesis
    by (simp add: xmr_to_atomic_def atomic_to_xmr_def divide_le_eq less_divide_eq)
qed

lemma quantize_down12_eq: "quantize_down12 x = atomic_to_xmr (xmr_to_atomic x)"
  by (simp add: quantize_down12_def atomic_to_xmr_def xmr_to_atomic_def)

lemma piconero_power: "(10::rat) ^ 12 = of_int piconero"
  by (simp add: piconero_def)

lemma pg_numeric_exact: "pg_numeric 12 (atomic_to_xmr n) = atomic_to_xmr n"
proof (cases "0 \<le> n")
  case True
  then have "0 \<le> atomic_to_xmr n" unfolding atomic_to_xmr_def by (intro divide_nonneg_nonneg) auto
  then show ?thesis unfolding pg_numeric_def piconero_power
    by simp (simp add: atomic_to_xmr_def floor_eq_iff)
next
  case False
  then have neg: "\<not> 0 \<le> atomic_to_xmr n" by (simp add: atomic_to_xmr_def zero_le_divide_iff not_le)
  have "\<lfloor>- of_int n + 1/2 :: rat\<rfloor> = - n" by (simp add: floor_eq_iff)
  with neg show ?thesis unfolding pg_numeric_def piconero_power
    by simp (simp add: atomic_to_xmr_def)
qed

section \<open>JSON documents\<close>

datatype json =
    JNull
  | JBool bool
  | JInt int
  | JFloat rat
  | JDec rat
  | JStr string
  | JList "json list"
  | JObj "(string \<times> json) list"

text \<open>A Python dict keeps insertion order; setting a present key keeps its place.\<close>

fun dict_set :: "'k \<Rightarrow> 'v \<Rightarrow> ('k \<times> 'v) list \<Rightarrow> ('k \<times> 'v) list" where
  "dict_set k v [] = [(k, v)]"
| "dict_set k v ((k', v') # kvs) = (if k = k' then (k, v) # kvs else (k', v') # dict_set k v kvs)"

definition dict_update :: "('k \<times> 'v) list \<Rightarrow> ('k \<times> 'v) list \<Rightarrow> ('k \<times> 'v) list" where
  "dict_update base upd = fold (\<lambda>(k, v) acc. dict_set k v acc) upd base"

lemma map_of_dict_set [simp]: "map_of (dict_set k v kvs) = (map_of kvs)(k \<mapsto> v)"
  by (induction k v kvs rule: dict_set.induct) (auto simp: fun_eq_iff)

lemma keys_dict_set: "fst ` set (dict_set k v kvs) = insert k (fst ` set kvs)"
  by (induction k v kvs rule: dict_set.induct) auto

lemma distinct_dict_set: "distinct (map fst kvs) \<Longrightarrow> distinct (map fst (dict_set k v kvs))"
proof (induction k v kvs rule: dict_set.induct)
  case (2 k v k' v' kvs)
  then show ?case
    using keys_dict_set[of k v kvs] by (auto simp flip: set_map)
qed simp

fun jget :: "string \<Rightarrow> json \<Rightarrow> json option" where
  "jget k (JObj kvs) = map_of kvs k"
| "jget k _ = None"

fun jset :: "string \<Rightarrow> json \<Rightarrow> json \<Rightarrow> json" where
  "jset k v (JObj kvs) = JObj (dict_set k v kvs)"
| "jset k v j = j"

lemma jget_jset: "jget k (jset k' v (JObj kvs)) = (if k = k' then Some v else map_of kvs k)"
  by simp

text \<open>\<open>x or default\<close>, where the value is a JSON document: empty ones are false.\<close>

fun truthy :: "json \<Rightarrow> bool" where
  "truthy JNull = False"
| "truthy (JBool b) = b"
| "truthy (JInt n) = (n \<noteq> 0)"
| "truthy (JFloat x) = (x \<noteq> 0)"
| "truthy (JDec x) = True"
| "truthy (JStr s) = (s \<noteq> [])"
| "truthy (JList xs) = (xs \<noteq> [])"
| "truthy (JObj kvs) = (kvs \<noteq> [])"

definition jopt :: "('a \<Rightarrow> json) \<Rightarrow> 'a option \<Rightarrow> json" where
  "jopt f x = (case x of None \<Rightarrow> JNull | Some y \<Rightarrow> f y)"

end
