(* ===== verification/Textual.thy ===== *)
theory Textual
  imports Prelude
begin

text \<open>
  Text forms: decimal and hexadecimal numbers, identifiers (\<open>str(uuid)\<close> and \<open>uuid.UUID(s)\<close>),
  instants (\<open>datetime.isoformat()\<close>), and the string operations the code uses
  (\<open>startswith\<close>, \<open>split\<close> with \<open>maxsplit\<close>, \<open>strip\<close>, \<open>lower\<close>, \<open>rstrip\<close>).
\<close>

section \<open>Digits\<close>

definition hexdigit :: "nat \<Rightarrow> char" where
  "hexdigit n = char_of (if n < 10 then 48 + n else 87 + n)"

definition hexval :: "char \<Rightarrow> nat option" where
  "hexval c = (let n = (of_char c :: nat) in
     if 48 \<le> n \<and> n \<le> 57 then Some (n - 48)
     else if 97 \<le> n \<and> n \<le> 102 then Some (n - 87)
     else if 65 \<le> n \<and> n \<le> 70 then Some (n - 55)
     else None)"

lemma hexval_hexdigit [simp]: "n < 16 \<Longrightarrow> hexval (hexdigit n) = Some n"
  by (auto simp: hexval_def hexdigit_def Let_def of_char_of)

fun hexn :: "nat \<Rightarrow> nat \<Rightarrow> string" where
  "hexn 0 n = []"
| "hexn (Suc k) n = hexn k (n div 16) @ [hexdigit (n mod 16)]"

definition hex_value :: "string \<Rightarrow> nat option" where
  "hex_value s = fold (\<lambda>c acc. case acc of None \<Rightarrow> None | Some v \<Rightarrow>
     (case hexval c of None \<Rightarrow> None | Some d \<Rightarrow> Some (16 * v + d))) s (Some 0)"

lemma length_hexn [simp]: "length (hexn k n) = k"
  by (induction k arbitrary: n) auto

lemma hex_value_snoc:
  "hex_value (s @ [c]) = (case hex_value s of None \<Rightarrow> None | Some v \<Rightarrow>
     (case hexval c of None \<Rightarrow> None | Some d \<Rightarrow> Some (16 * v + d)))"
  by (simp add: hex_value_def)

lemma hex_value_hexn: "n < 16 ^ k \<Longrightarrow> hex_value (hexn k n) = Some n"
proof (induction k arbitrary: n)
  case 0
  then show ?case by (simp add: hex_value_def)
next
  case (Suc k)
  then have "n div 16 < 16 ^ k" by (simp add: less_mult_imp_div_less mult.commute)
  with Suc.IH show ?case by (simp add: hex_value_snoc)
qed

lemma hexn_chars: "c \<in> set (hexn k n) \<Longrightarrow> \<exists>d < 16. c = hexdigit d"
  by (induction k arbitrary: n) (auto, force)

text \<open>Decimal text of a natural number, and of an integer.\<close>

fun nat_str :: "nat \<Rightarrow> string" where
  "nat_str n = (if n < 10 then [hexdigit n] else nat_str (n div 10) @ [hexdigit (n mod 10)])"

declare nat_str.simps [simp del]

definition int_str :: "int \<Rightarrow> string" where
  "int_str n = (if n < 0 then ''-'' @ nat_str (nat (- n)) else nat_str (nat n))"

fun decn :: "nat \<Rightarrow> nat \<Rightarrow> string" where
  "decn 0 n = []"
| "decn (Suc k) n = decn k (n div 10) @ [hexdigit (n mod 10)]"

lemma length_decn [simp]: "length (decn k n) = k"
  by (induction k arbitrary: n) auto

section \<open>String operations\<close>

definition startswith :: "string \<Rightarrow> string \<Rightarrow> bool" where
  "startswith s p \<longleftrightarrow> take (length p) s = p"

definition endswith :: "string \<Rightarrow> string \<Rightarrow> bool" where
  "endswith s p \<longleftrightarrow> length p \<le> length s \<and> drop (length s - length p) s = p"

text \<open>\<open>p in s\<close>.\<close>

definition contains :: "string \<Rightarrow> string \<Rightarrow> bool" where
  "contains p s = list_ex (\<lambda>i. startswith (drop i s) p) [0..<Suc (length s)]"

lemma startswith_append [simp]: "startswith (p @ s) p"
  by (simp add: startswith_def)

definition lower_char :: "char \<Rightarrow> char" where
  "lower_char c = (let n = (of_char c :: nat) in
     if 65 \<le> n \<and> n \<le> 90 then char_of (n + 32) else c)"

definition lower :: "string \<Rightarrow> string" where
  "lower s = map lower_char s"

lemma lower_char_idem [simp]: "lower_char (lower_char c) = lower_char c"
  by (auto simp: lower_char_def Let_def of_char_of)

lemma lower_lower [simp]: "lower (lower s) = lower s"
  by (simp add: lower_def)

lemma lower_hexdigit [simp]: "n < 16 \<Longrightarrow> lower_char (hexdigit n) = hexdigit n"
  by (auto simp: lower_char_def hexdigit_def Let_def of_char_of)

definition is_space :: "char \<Rightarrow> bool" where
  "is_space c \<longleftrightarrow> (let n = (of_char c :: nat) in n = 32 \<or> (9 \<le> n \<and> n \<le> 13) \<or> (28 \<le> n \<and> n \<le> 31))"

definition rstrip_chars :: "(char \<Rightarrow> bool) \<Rightarrow> string \<Rightarrow> string" where
  "rstrip_chars p s = rev (dropWhile p (rev s))"

definition strip_chars :: "(char \<Rightarrow> bool) \<Rightarrow> string \<Rightarrow> string" where
  "strip_chars p s = rstrip_chars p (dropWhile p s)"

definition strip :: "string \<Rightarrow> string" where
  "strip s = strip_chars is_space s"

text \<open>\<open>s.split(c, maxsplit=k)\<close> for a one-character separator.\<close>

fun split_max :: "nat \<Rightarrow> char \<Rightarrow> string \<Rightarrow> string list" where
  "split_max 0 c s = [s]"
| "split_max (Suc k) c s =
     (case dropWhile (\<lambda>x. x \<noteq> c) s of
        [] \<Rightarrow> [s]
      | _ # rest \<Rightarrow> takeWhile (\<lambda>x. x \<noteq> c) s # split_max k c rest)"

lemma split_max_Suc:
  assumes "c \<notin> set a"
  shows "split_max (Suc k) c (a @ c # s) = a # split_max k c s"
proof -
  have "dropWhile (\<lambda>x. x \<noteq> c) (a @ c # s) = c # s" and "takeWhile (\<lambda>x. x \<noteq> c) (a @ c # s) = a"
    using assms by (induction a) auto
  then show ?thesis by simp
qed

text \<open>\<open>s.replace(p, "")\<close>.\<close>

fun del_sub :: "string \<Rightarrow> string \<Rightarrow> string" where
  "del_sub p [] = []"
| "del_sub p (c # cs) =
     (if p \<noteq> [] \<and> startswith (c # cs) p then del_sub p (drop (length p - 1) cs)
      else c # del_sub p cs)"

lemma del_sub_absent: "p \<noteq> [] \<Longrightarrow> hd p \<notin> set s \<Longrightarrow> del_sub p s = s"
proof (induction s)
  case (Cons c cs)
  then have "\<not> startswith (c # cs) p" by (cases p) (auto simp: startswith_def)
  with Cons show ?case by simp
qed simp

lemma strip_chars_none: "\<forall>c \<in> set s. \<not> p c \<Longrightarrow> strip_chars p s = s"
  by (simp add: strip_chars_def rstrip_chars_def dropWhile_eq_self_iff)
     (metis dropWhile_eq_self_iff hd_in_set rev_rev_ident set_rev)

section \<open>Identifiers\<close>

text \<open>
  \<open>str(uuid)\<close>: 32 hexadecimal digits in groups of 8, 4, 4, 4 and 12. \<open>uuid.UUID(s)\<close> deletes
  the prefixes \<open>urn:\<close> and \<open>uuid:\<close>, surrounding braces and all hyphens, and wants 32 digits;
  the spellings that only \<open>int(s, 16)\<close> would add (underscores, signs) are not accepted here.
\<close>

definition uuid_groups :: "string \<Rightarrow> string" where
  "uuid_groups h =
     take 8 h @ ''-'' @ take 4 (drop 8 h) @ ''-'' @ take 4 (drop 12 h) @ ''-'' @
     take 4 (drop 16 h) @ ''-'' @ drop 20 h"

definition uuid_str :: "uuid \<Rightarrow> string" where
  "uuid_str u = uuid_groups (hexn 32 u)"

definition uuid_parse :: "string \<Rightarrow> uuid option" where
  "uuid_parse s =
     (let s1 = del_sub ''uuid:'' (del_sub ''urn:'' s);
          s2 = filter (\<lambda>c. c \<noteq> CHR ''-'') (strip_chars (\<lambda>c. c = CHR ''{'' \<or> c = CHR ''}'') s1)
      in if length s2 = 32 then hex_value s2 else None)"

lemma hexdigit_plain:
  "n < 16 \<Longrightarrow> hexdigit n \<noteq> CHR ''-'' \<and> hexdigit n \<noteq> CHR ''u'' \<and> hexdigit n \<noteq> CHR ''{'' \<and>
     hexdigit n \<noteq> CHR ''}''"
  by (auto simp: hexdigit_def dest: arg_cong[where f = "of_char :: char \<Rightarrow> nat"] simp: of_char_of)

lemma hexn_plain:
  assumes "c \<in> set (hexn k n)"
  shows "c \<noteq> CHR ''-''" and "c \<noteq> CHR ''u''" and "c \<noteq> CHR ''{''" and "c \<noteq> CHR ''}''"
proof -
  obtain d where "d < 16" and "c = hexdigit d" using hexn_chars[OF assms] by blast
  then show "c \<noteq> CHR ''-''" and "c \<noteq> CHR ''u''" and "c \<noteq> CHR ''{''" and "c \<noteq> CHR ''}''"
    using hexdigit_plain[of d] by simp_all
qed

lemma set_uuid_groups: "set (uuid_groups h) \<subseteq> insert (CHR ''-'') (set h)"
proof -
  have "set (take n (drop m h)) \<subseteq> set h" for n m
    by (rule order_trans[OF set_take_subset set_drop_subset])
  then have "set (take 4 (drop 8 h)) \<union> set (take 4 (drop 12 h)) \<union> set (take 4 (drop 16 h)) \<subseteq> set h"
    by blast
  then show ?thesis
    unfolding uuid_groups_def set_append
    using set_take_subset[of 8 h] set_drop_subset[of 20 h] by auto
qed

lemma groups_join:
  "take 8 h @ take 4 (drop 8 h) @ take 4 (drop 12 h) @ take 4 (drop 16 h) @ drop 20 h = h"
proof -
  have "take 4 (drop 16 h) @ drop 20 h = drop 16 h"
    using append_take_drop_id[of 4 "drop 16 h"] by (simp add: drop_drop)
  moreover have "take 4 (drop 12 h) @ drop 16 h = drop 12 h"
    using append_take_drop_id[of 4 "drop 12 h"] by (simp add: drop_drop)
  moreover have "take 4 (drop 8 h) @ drop 12 h = drop 8 h"
    using append_take_drop_id[of 4 "drop 8 h"] by (simp add: drop_drop)
  ultimately show ?thesis by simp
qed

lemma filter_uuid_groups:
  assumes "CHR ''-'' \<notin> set h"
  shows "filter (\<lambda>c. c \<noteq> CHR ''-'') (uuid_groups h) = h"
proof -
  have keep: "filter (\<lambda>c. c \<noteq> CHR ''-'') s = s" if "set s \<subseteq> set h" for s
    using that assms by (intro filter_True) blast
  have sub: "set (take n (drop m h)) \<subseteq> set h" "set (drop m h) \<subseteq> set h" "set (take n h) \<subseteq> set h" for n m
    by (rule order_trans[OF set_take_subset set_drop_subset], rule set_drop_subset, rule set_take_subset)
  have "filter (\<lambda>c. c \<noteq> CHR ''-'') (uuid_groups h) =
    take 8 h @ take 4 (drop 8 h) @ take 4 (drop 12 h) @ take 4 (drop 16 h) @ drop 20 h"
    unfolding uuid_groups_def filter_append
    by (simp only: keep[OF sub(1)] keep[OF sub(2)] keep[OF sub(3)]) simp
  then show ?thesis by (simp only: groups_join)
qed

lemma uuid_roundtrip: "u < 2 ^ 128 \<Longrightarrow> uuid_parse (uuid_str u) = Some u"
proof -
  assume u: "u < 2 ^ 128"
  let ?s = "uuid_str u"
  have no_hyphen: "CHR ''-'' \<notin> set (hexn 32 u)"
    using hexn_plain(1) by blast
  have plain: "c \<noteq> CHR ''u'' \<and> c \<noteq> CHR ''{'' \<and> c \<noteq> CHR ''}''" if "c \<in> set ?s" for c
  proof -
    have "c = CHR ''-'' \<or> c \<in> set (hexn 32 u)"
      using that set_uuid_groups[of "hexn 32 u"] unfolding uuid_str_def by blast
    then show ?thesis using hexn_plain[of c 32 u] by auto
  qed
  then have "CHR ''u'' \<notin> set ?s" by blast
  then have del: "del_sub ''uuid:'' (del_sub ''urn:'' ?s) = ?s"
    by (simp add: del_sub_absent)
  have strip: "strip_chars (\<lambda>c. c = CHR ''{'' \<or> c = CHR ''}'') ?s = ?s"
    using plain by (intro strip_chars_none) blast
  have "(2::nat) ^ 128 = 16 ^ 32" by simp
  with u have "hex_value (hexn 32 u) = Some u" by (simp only: hex_value_hexn)
  then show ?thesis
    using filter_uuid_groups[OF no_hyphen]
    by (simp add: uuid_parse_def del strip uuid_str_def[symmetric])
qed

section \<open>Instants\<close>

text \<open>Year, month and day of a count of days since 1970-01-01 (proleptic Gregorian calendar).\<close>

definition civil_doe :: "int \<Rightarrow> int" where
  "civil_doe z0 = (z0 + 719468) mod 146097"

definition civil_yoe :: "int \<Rightarrow> int" where
  "civil_yoe z0 = (let doe = civil_doe z0
     in (doe - doe div 1460 + doe div 36524 - doe div 146096) div 365)"

definition civil_doy :: "int \<Rightarrow> int" where
  "civil_doy z0 = (let yoe = civil_yoe z0
     in civil_doe z0 - (365 * yoe + yoe div 4 - yoe div 100))"

definition civil_from_days :: "int \<Rightarrow> int \<times> int \<times> int" where
  "civil_from_days z0 =
     (let y = civil_yoe z0 + (z0 + 719468) div 146097 * 400;
          mp = (5 * civil_doy z0 + 2) div 153;
          d = civil_doy z0 - (153 * mp + 2) div 5 + 1;
          m = (if mp < 10 then mp + 3 else mp - 9)
      in (if m \<le> 2 then y + 1 else y, m, d))"

definition day_of :: "time \<Rightarrow> int" where
  "day_of t = t div days 1"

definition date_str :: "time \<Rightarrow> string" where
  "date_str t = (case civil_from_days (day_of t) of (y, m, d) \<Rightarrow>
     decn 4 (nat y) @ ''-'' @ decn 2 (nat m) @ ''-'' @ decn 2 (nat d))"

definition clock_str :: "time \<Rightarrow> string" where
  "clock_str t =
     (let us = t mod days 1; s = us div 1000000; f = us mod 1000000
      in decn 2 (nat (s div 3600)) @ '':'' @ decn 2 (nat (s div 60 mod 60)) @ '':'' @
         decn 2 (nat (s mod 60)) @ (if f = 0 then [] else ''.'' @ decn 6 (nat f)))"

text \<open>\<open>isoformat()\<close> of an aware UTC datetime, and \<open>str()\<close> of one.\<close>

definition isoformat :: "time \<Rightarrow> string" where
  "isoformat t = date_str t @ ''T'' @ clock_str t @ ''+00:00''"

definition datetime_str :: "time \<Rightarrow> string" where
  "datetime_str t = date_str t @ '' '' @ clock_str t @ ''+00:00''"

text \<open>Midnight UTC of the first day of the month of an instant.\<close>

definition month_start :: "time \<Rightarrow> time" where
  "month_start t = (case civil_from_days (day_of t) of (y, m, d) \<Rightarrow> days (day_of t - (d - 1)))"

lemma month_start_le: "month_start t \<le> t"
proof -
  obtain y m d where ymd: "civil_from_days (day_of t) = (y, m, d)" by (cases "civil_from_days (day_of t)")
  define doy where "doy = civil_doy (day_of t)"
  have d: "d = doy - (153 * ((5 * doy + 2) div 153) + 2) div 5 + 1"
    using ymd unfolding civil_from_days_def Let_def doy_def by simp
  have "153 * ((5 * doy + 2) div 153) \<le> 5 * doy + 2" by simp
  then have "(153 * ((5 * doy + 2) div 153) + 2) div 5 \<le> doy" by linarith
  then have "1 \<le> d" using d by simp
  then have "day_of t - (d - 1) \<le> day_of t" by simp
  then have "days (day_of t - (d - 1)) \<le> days (day_of t)" by simp
  also have "\<dots> \<le> t" by (simp add: day_of_def days_def secs_def)
  finally show ?thesis by (simp add: month_start_def ymd)
qed

end
