(* ===== verification/Tor_Proxy.thy ===== *)
theory Tor_Proxy
  imports Textual
begin

text \<open>
  \<open>core/tor_proxy.py\<close>: the policy on webhook URLs. A URL is its text together with what
  \<open>urlparse\<close> and \<open>ip_address\<close> say of it (scheme, credentials, host, address class); the policy
  is the code's decision on these.
\<close>

record ip_class =
  is_private :: bool
  is_loopback :: bool
  is_link_local :: bool
  is_multicast :: bool
  is_reserved :: bool
  is_unspecified :: bool

record weburl =
  url_text :: string
  url_parses :: bool  \<comment> \<open>\<open>urlparse\<close> does not raise\<close>
  url_scheme :: string
  url_username :: "string option"
  url_password :: "string option"
  url_hostname :: "string option"
  url_ip :: "ip_class option"  \<comment> \<open>\<open>ip_address(hostname)\<close>, \<open>None\<close> where it raises ValueError\<close>

definition nonempty :: "string option \<Rightarrow> bool" where
  "nonempty s \<longleftrightarrow> (case s of None \<Rightarrow> False | Some t \<Rightarrow> t \<noteq> [])"

definition is_onion_url :: "weburl \<Rightarrow> bool" where
  "is_onion_url u \<longleftrightarrow> url_parses u \<and>
     (case url_hostname u of None \<Rightarrow> False | Some h \<Rightarrow> endswith h ''.onion'')"

definition ip_refused :: "ip_class \<Rightarrow> bool" where
  "ip_refused i \<longleftrightarrow> is_private i \<or> is_loopback i \<or> is_link_local i \<or> is_multicast i \<or>
     is_reserved i \<or> is_unspecified i"

datatype url_error = UrlInvalid | UrlScheme | UrlCredentials | UrlNoHost | UrlNotOnion | UrlPrivate

text \<open>\<open>None\<close> is the code's \<open>(True, None)\<close>; a refusal carries which message it has.\<close>

definition validate_webhook_url :: "bool \<Rightarrow> weburl \<Rightarrow> url_error option" where
  "validate_webhook_url tor_only u =
     (if \<not> url_parses u then Some UrlInvalid
      else if url_scheme u \<noteq> ''http'' \<and> url_scheme u \<noteq> ''https'' then Some UrlScheme
      else if nonempty (url_username u) \<or> nonempty (url_password u) then Some UrlCredentials
      else if \<not> nonempty (url_hostname u) then Some UrlNoHost
      else let onion = endswith (the (url_hostname u)) ''.onion'' in
        if tor_only \<and> \<not> onion then Some UrlNotOnion
        else if \<not> onion \<and> (case url_ip u of None \<Rightarrow> False | Some i \<Rightarrow> ip_refused i) then Some UrlPrivate
        else None)"

definition webhook_url_ok :: "bool \<Rightarrow> weburl \<Rightarrow> bool" where
  "webhook_url_ok tor_only u \<longleftrightarrow> validate_webhook_url tor_only u = None"

lemma webhook_url_ok_iff:
  "webhook_url_ok tor_only u \<longleftrightarrow>
     url_parses u \<and> url_scheme u \<in> {''http'', ''https''} \<and>
     \<not> nonempty (url_username u) \<and> \<not> nonempty (url_password u) \<and> nonempty (url_hostname u) \<and>
     (is_onion_url u \<or> \<not> tor_only \<and> (\<forall>i. url_ip u = Some i \<longrightarrow> \<not> ip_refused i))"
  by (auto simp: webhook_url_ok_def validate_webhook_url_def is_onion_url_def nonempty_def Let_def
      split: option.splits)

text \<open>The options of the HTTP client: the proxy is set exactly when Tor is enabled.\<close>

record client_kwargs =
  kw_timeout :: rat
  kw_proxy :: "string option"

definition get_client_kwargs :: "bool \<Rightarrow> string \<Rightarrow> rat \<Rightarrow> client_kwargs" where
  "get_client_kwargs enabled proxy_url timeout =
     \<lparr>kw_timeout = timeout, kw_proxy = (if enabled then Some proxy_url else None)\<rparr>"

end
