(* ===== verification/Wallet_RPC.thy ===== *)
theory Wallet_RPC
  imports Textual
begin

text \<open>
  \<open>services/monero_rpc.py\<close>: the retry loop around monero-wallet-rpc and the calls the services
  make. The wallet itself is outside the repository: what it replies to each attempt is an
  argument. A reply is a result, a JSON-RPC error (code and message), or a transport failure
  (connection refused, timeout, HTTP error status) with the text of the exception.
\<close>

datatype 'r rpc_reply =
    RpcResult 'r
  | RpcError "int option" string
  | RpcTransport string

definition max_retries :: nat where
  "max_retries = 3"

definition retryable_rpc_errors :: "int list" where
  "retryable_rpc_errors = [-4, -13, -14]"

fun retryable :: "int option \<Rightarrow> bool" where
  "retryable None = False"
| "retryable (Some c) = (c \<in> set retryable_rpc_errors)"

text \<open>\<open>RETRY_BACKOFF_BASE * (2**attempt)\<close>, in seconds.\<close>

definition backoff :: "nat \<Rightarrow> nat" where
  "backoff attempt = 2 ^ attempt"

text \<open>
  \<open>MoneroRPC._call\<close> from attempt \<open>k\<close> on, with the last failure's text: the outcome and the
  list of the waits the loop slept.
\<close>

function rpc_loop :: "string \<Rightarrow> (nat \<Rightarrow> 'r rpc_reply) \<Rightarrow> nat \<Rightarrow> string \<Rightarrow> (exc + 'r) \<times> nat list" where
  "rpc_loop meth reply k last_exception =
     (if k < max_retries then
        (let retry = (\<lambda>m. case rpc_loop meth reply (Suc k) m of (r, waits) \<Rightarrow>
               (r, if k < max_retries - 1 then backoff k # waits else waits))
         in case reply k of
              RpcResult r \<Rightarrow> (Inr r, [])
            | RpcError c m \<Rightarrow> if retryable c then retry m else (Inl (MoneroRPCError c m), [])
            | RpcTransport m \<Rightarrow> retry m)
      else (Inl (MoneroRPCConnectionError
              (''wallet-rpc '' @ meth @ '' failed after '' @ nat_str max_retries @ '' retries: '' @ last_exception)), []))"
  by pat_completeness auto
termination
  by (relation "measure (\<lambda>(meth, reply, k, m). max_retries - k)") auto

declare rpc_loop.simps [simp del]

definition rpc_call :: "string \<Rightarrow> (nat \<Rightarrow> 'r rpc_reply) \<Rightarrow> exc + 'r" where
  "rpc_call meth reply = fst (rpc_loop meth reply 0 ''None'')"

definition rpc_waits :: "string \<Rightarrow> (nat \<Rightarrow> 'r rpc_reply) \<Rightarrow> nat list" where
  "rpc_waits meth reply = snd (rpc_loop meth reply 0 ''None'')"

text \<open>A reply that the loop answers by trying again.\<close>

fun retried :: "'r rpc_reply \<Rightarrow> bool" where
  "retried (RpcResult r) = False"
| "retried (RpcError c m) = retryable c"
| "retried (RpcTransport m) = True"

fun reply_outcome :: "'r rpc_reply \<Rightarrow> exc + 'r" where
  "reply_outcome (RpcResult r) = Inr r"
| "reply_outcome (RpcError c m) = Inl (MoneroRPCError c m)"
| "reply_outcome (RpcTransport m) = Inl (MoneroRPCConnectionError m)"

lemma rpc_loop_done:
  "k < max_retries \<Longrightarrow> \<not> retried (reply k) \<Longrightarrow> rpc_loop meth reply k m = (reply_outcome (reply k), [])"
  by (cases "reply k") (simp_all add: rpc_loop.simps[of meth reply k m])

lemma rpc_loop_retry:
  assumes "k < max_retries" and "retried (reply k)"
  shows "\<exists>m'. rpc_loop meth reply k m = (case rpc_loop meth reply (Suc k) m' of (r, waits) \<Rightarrow>
    (r, if k < max_retries - 1 then backoff k # waits else waits))"
  using assms by (cases "reply k") (auto simp: rpc_loop.simps[of meth reply k m])

lemma rpc_loop_exhausted:
  "\<not> k < max_retries \<Longrightarrow> rpc_loop meth reply k m = (Inl (MoneroRPCConnectionError
     (''wallet-rpc '' @ meth @ '' failed after '' @ nat_str max_retries @ '' retries: '' @ m)), [])"
  by (simp add: rpc_loop.simps[of meth reply k m])

text \<open>The outcome is decided by the first attempt that is not retried, if one of the three is.\<close>

lemma rpc_call_decided:
  assumes "k < max_retries" and "\<And>j. j < k \<Longrightarrow> retried (reply j)" and "\<not> retried (reply k)"
  shows "rpc_call meth reply = reply_outcome (reply k)"
proof -
  have "fst (rpc_loop meth reply (k - i) m) = reply_outcome (reply k)" if "i \<le> k" for i m
    using that
  proof (induction i arbitrary: m)
    case 0
    then show ?case using assms by (simp add: rpc_loop_done)
  next
    case (Suc i)
    then have "k - Suc i < max_retries" and "retried (reply (k - Suc i))"
      using assms(1,2) by auto
    then obtain m' where "rpc_loop meth reply (k - Suc i) m =
      (case rpc_loop meth reply (Suc (k - Suc i)) m' of (r, waits) \<Rightarrow>
        (r, if k - Suc i < max_retries - 1 then backoff (k - Suc i) # waits else waits))"
      using rpc_loop_retry by blast
    moreover have "Suc (k - Suc i) = k - i" using Suc.prems by simp
    ultimately show ?case using Suc by (simp add: case_prod_beta)
  qed
  from this[of k "''None''"] show ?thesis by (simp add: rpc_call_def)
qed

lemma rpc_call_exhausted:
  assumes "\<And>j. j < max_retries \<Longrightarrow> retried (reply j)"
  shows "(\<exists>m. rpc_call meth reply = Inl (MoneroRPCConnectionError m)) \<and> rpc_waits meth reply = [1, 2]"
proof -
  have three: "0 < max_retries" "Suc 0 < max_retries" "Suc (Suc 0) < max_retries" "\<not> Suc (Suc (Suc 0)) < max_retries"
    by (simp_all add: max_retries_def)
  obtain m1 where 1: "rpc_loop meth reply 0 ''None'' = (case rpc_loop meth reply (Suc 0) m1 of (r, waits) \<Rightarrow>
      (r, if 0 < max_retries - 1 then backoff 0 # waits else waits))"
    using rpc_loop_retry[where reply = reply and k = 0, OF three(1) assms[OF three(1)]] by blast
  obtain m2 where 2: "rpc_loop meth reply (Suc 0) m1 = (case rpc_loop meth reply (Suc (Suc 0)) m2 of (r, waits) \<Rightarrow>
      (r, if Suc 0 < max_retries - 1 then backoff (Suc 0) # waits else waits))"
    using rpc_loop_retry[where reply = reply and k = "Suc 0", OF three(2) assms[OF three(2)]] by blast
  obtain m3 where 3: "rpc_loop meth reply (Suc (Suc 0)) m2 = (case rpc_loop meth reply (Suc (Suc (Suc 0))) m3 of (r, waits) \<Rightarrow>
      (r, if Suc (Suc 0) < max_retries - 1 then backoff (Suc (Suc 0)) # waits else waits))"
    using rpc_loop_retry[where reply = reply and k = "Suc (Suc 0)", OF three(3) assms[OF three(3)]] by blast
  show ?thesis
    by (simp add: rpc_call_def rpc_waits_def 1 2 3 rpc_loop_exhausted[OF three(4)] max_retries_def backoff_def)
qed

section \<open>Calls\<close>

text \<open>A transfer as wallet-rpc describes it; \<open>None\<close> is a missing key.\<close>

record transfer =
  tx_txid :: string
  tx_amount :: int
  tx_major :: int
  tx_minor :: "int option"
  tx_confirmations :: "int option"
  tx_height :: "int option"
  tx_type :: string

definition create_address :: "(nat \<Rightarrow> (string \<times> int) rpc_reply) \<Rightarrow> exc + string \<times> int" where
  "create_address reply = rpc_call ''create_address'' reply"

text \<open>\<open>get_transfers\<close>: its request parameters, and the merge of confirmed and mempool transfers.\<close>

record transfers_request =
  rq_account_index :: int
  rq_in :: bool
  rq_pool :: bool
  rq_filter_by_height :: bool
  rq_min_height :: "int option"
  rq_max_height :: "int option"

record transfers_reply =
  rp_in :: "transfer list option"
  rp_pool :: "transfer list option"

definition get_transfers_params :: "int \<Rightarrow> int \<Rightarrow> int \<Rightarrow> bool \<Rightarrow> bool \<Rightarrow> bool \<Rightarrow> transfers_request" where
  "get_transfers_params account_index min_height max_height pool incoming filter_by_height =
     \<lparr>rq_account_index = account_index, rq_in = incoming, rq_pool = pool,
      rq_filter_by_height = filter_by_height,
      rq_min_height = (if filter_by_height \<and> 0 < min_height then Some min_height else None),
      rq_max_height = (if filter_by_height \<and> 0 < max_height then Some max_height else None)\<rparr>"

definition merge_transfers :: "bool \<Rightarrow> bool \<Rightarrow> transfers_reply \<Rightarrow> transfer list" where
  "merge_transfers incoming pool result =
     (if incoming then (case rp_in result of None \<Rightarrow> [] | Some ts \<Rightarrow> ts) else []) @
     (if pool then (case rp_pool result of None \<Rightarrow> [] | Some ts \<Rightarrow> ts) else [])"

definition get_transfers ::
    "(transfers_request \<Rightarrow> nat \<Rightarrow> transfers_reply rpc_reply) \<Rightarrow> int \<Rightarrow> int \<Rightarrow> int \<Rightarrow> bool \<Rightarrow> bool \<Rightarrow> bool
      \<Rightarrow> exc + transfer list" where
  "get_transfers wallet account_index min_height max_height pool incoming filter_by_height =
     (case rpc_call ''get_transfers''
             (wallet (get_transfers_params account_index min_height max_height pool incoming filter_by_height)) of
        Inl x \<Rightarrow> Inl x
      | Inr result \<Rightarrow> Inr (merge_transfers incoming pool result))"

text \<open>
  \<open>get_transfer_by_txid\<close>: an RPC error means "no such transfer" when its code is -8 or its
  message contains "not found" in any case. The connection error is a subclass of the RPC error
  (with no code), so it takes the same branch.
\<close>

definition says_not_found :: "int option \<Rightarrow> string \<Rightarrow> bool" where
  "says_not_found c m \<longleftrightarrow> c = Some (- 8) \<or> contains ''not found'' (lower m)"

definition get_transfer_by_txid :: "(nat \<Rightarrow> transfer option rpc_reply) \<Rightarrow> exc + transfer option" where
  "get_transfer_by_txid reply =
     (case rpc_call ''get_transfer_by_txid'' reply of
        Inr t \<Rightarrow> Inr t
      | Inl (MoneroRPCError c m) \<Rightarrow> if says_not_found c m then Inr None else Inl (MoneroRPCError c m)
      | Inl (MoneroRPCConnectionError m) \<Rightarrow>
          if says_not_found None m then Inr None else Inl (MoneroRPCConnectionError m)
      | Inl x \<Rightarrow> Inl x)"

definition get_height :: "(nat \<Rightarrow> int rpc_reply) \<Rightarrow> exc + int" where
  "get_height reply = rpc_call ''get_height'' reply"

text \<open>Calls of the wrapper that no service makes: the version, the balance (total and unlocked), and the check
  of a transaction key (confirmed, received).\<close>

definition get_version :: "(nat \<Rightarrow> string option rpc_reply) \<Rightarrow> exc + string" where
  "get_version reply = (case rpc_call ''get_version'' reply of
      Inl x \<Rightarrow> Inl x | Inr v \<Rightarrow> Inr (case v of None \<Rightarrow> ''unknown'' | Some s \<Rightarrow> s))"

definition get_balance :: "(nat \<Rightarrow> (int \<times> int) rpc_reply) \<Rightarrow> exc + int \<times> int" where
  "get_balance reply = rpc_call ''get_balance'' reply"

definition check_tx_key :: "(nat \<Rightarrow> (bool option \<times> int option) rpc_reply) \<Rightarrow> exc + bool \<times> int" where
  "check_tx_key reply = (case rpc_call ''check_tx_key'' reply of
      Inl x \<Rightarrow> Inl x
    | Inr (good, received) \<Rightarrow> Inr (good = Some True, case received of None \<Rightarrow> 0 | Some n \<Rightarrow> n))"

end
