(* ===== verification/Models.thy ===== *)
theory Models
  imports Values Textual Tor_Proxy Wallet_RPC
begin

text \<open>
  The data model of \<open>db/models.py\<close>: one record per ORM class with its columns, one datatype per
  enum, and the database as a record of tables. A table is the list of its rows in insertion
  order. The services and the background tasks are functions on this record.
\<close>

section \<open>Enums\<close>

datatype invoice_status = IPending | IPaid | IExpired | IPartially | IOverpaid | ILate | ICancelled

datatype payment_status = PDetected | PConfirmed | POrphaned

datatype subscription_status = SActive | SPaused | SPastDue | SCancelled | SExpired | STrialing

datatype webhook_status = WPending | WDelivered | WFailed | WDeadLettered

fun invoice_status_value :: "invoice_status \<Rightarrow> string" where
  "invoice_status_value IPending = ''pending''"
| "invoice_status_value IPaid = ''paid''"
| "invoice_status_value IExpired = ''expired''"
| "invoice_status_value IPartially = ''partially_paid''"
| "invoice_status_value IOverpaid = ''overpaid''"
| "invoice_status_value ILate = ''late_paid''"
| "invoice_status_value ICancelled = ''cancelled''"

fun payment_status_value :: "payment_status \<Rightarrow> string" where
  "payment_status_value PDetected = ''detected''"
| "payment_status_value PConfirmed = ''confirmed''"
| "payment_status_value POrphaned = ''orphaned''"

fun subscription_status_value :: "subscription_status \<Rightarrow> string" where
  "subscription_status_value SActive = ''active''"
| "subscription_status_value SPaused = ''paused''"
| "subscription_status_value SPastDue = ''past_due''"
| "subscription_status_value SCancelled = ''cancelled''"
| "subscription_status_value SExpired = ''expired''"
| "subscription_status_value STrialing = ''trialing''"

fun webhook_status_value :: "webhook_status \<Rightarrow> string" where
  "webhook_status_value WPending = ''pending''"
| "webhook_status_value WDelivered = ''delivered''"
| "webhook_status_value WFailed = ''failed''"
| "webhook_status_value WDeadLettered = ''dead_lettered''"

section \<open>Rows\<close>

record merchant =
  mer_id :: uuid
  mer_name :: string
  mer_email :: "string option"
  mer_address :: string
  mer_view_key :: "string option"
  mer_webhook_url :: "weburl option"
  mer_webhook_secret :: "string option"
  mer_environment :: string
  mer_active :: bool
  mer_metadata :: "json option"
  mer_prepay_plans :: "json option"
  mer_created_at :: time
  mer_updated_at :: time

record invoice =
  inv_id :: uuid
  inv_merchant :: uuid
  inv_amount_atomic :: int
  inv_amount_xmr :: rat
  inv_fiat_currency :: "string option"
  inv_fiat_amount :: "rat option"
  inv_fiat_rate :: "rat option"
  inv_status :: invoice_status
  inv_description :: "string option"
  inv_metadata :: "json option"
  inv_expires_at :: time
  inv_paid_at :: "time option"
  inv_created_at :: time
  inv_updated_at :: time

record invoice_address =
  adr_id :: uuid
  adr_invoice :: uuid
  adr_address :: string
  adr_index :: int
  adr_account :: int
  adr_created_at :: time

record payment =
  pay_id :: uuid
  pay_invoice :: uuid
  pay_tx_hash :: string
  pay_amount_atomic :: int
  pay_amount_xmr :: rat
  pay_status :: payment_status
  pay_confirmations :: int
  pay_block_height :: "int option"
  pay_detected_at :: time
  pay_confirmed_at :: "time option"
  pay_created_at :: time

record customer =
  cus_id :: uuid
  cus_merchant :: uuid
  cus_external_id :: "string option"
  cus_email :: "string option"
  cus_metadata :: "json option"
  cus_created_at :: time

record subscription =
  sub_id :: uuid
  sub_merchant :: uuid
  sub_customer :: uuid
  sub_amount_atomic :: int
  sub_amount_xmr :: rat
  sub_interval_days :: int
  sub_status :: subscription_status
  sub_grace_soft :: int
  sub_grace_hard :: int
  sub_next_due_at :: "time option"
  sub_cancelled_at :: "time option"
  sub_trial_days :: "int option"
  sub_trial_end_at :: "time option"
  sub_metadata :: "json option"
  sub_billing_anchor_at :: time
  sub_pending_amount_atomic :: "int option"
  sub_pending_amount_xmr :: "rat option"
  sub_pending_interval_days :: "int option"
  sub_pending_grace_soft :: "int option"
  sub_pending_grace_hard :: "int option"
  sub_prepaid_until :: "time option"
  sub_prepay_invoice :: "uuid option"
  sub_created_at :: time
  sub_updated_at :: time

record subscription_payment =
  sp_id :: uuid
  sp_subscription :: uuid
  sp_invoice :: uuid
  sp_period_start :: time
  sp_period_end :: time
  sp_created_at :: time

record renewal_event =
  ev_id :: uuid
  ev_subscription :: uuid
  ev_result :: string
  ev_invoice :: "uuid option"
  ev_error :: "string option"
  ev_details :: json
  ev_created_at :: time

record api_key =
  key_id :: uuid
  key_merchant :: uuid
  key_hash :: string
  key_prefix :: string
  key_label :: "string option"
  key_environment :: string
  key_active :: bool
  key_last_used_at :: "time option"
  key_created_at :: time

record webhook_delivery =
  del_id :: uuid
  del_merchant :: uuid
  del_invoice :: "uuid option"
  del_event_type :: string
  del_payload :: json
  del_url :: weburl
  del_status :: webhook_status
  del_attempts :: nat
  del_max_attempts :: nat
  del_last_attempt_at :: "time option"
  del_next_retry_at :: "time option"
  del_response_code :: "int option"
  del_response_body :: "string option"
  del_created_at :: time

record dead_letter =
  dlq_id :: uuid
  dlq_delivery :: uuid
  dlq_merchant :: uuid
  dlq_event_type :: string
  dlq_payload :: json
  dlq_original_created_at :: time
  dlq_dead_lettered_at :: time
  dlq_retry_count :: nat
  dlq_retry_delivery :: "uuid option"
  dlq_last_retry_at :: "time option"
  dlq_last_error :: "string option"
  dlq_resolved :: bool
  dlq_resolved_at :: "time option"
  dlq_created_at :: time

record license =
  lic_id :: uuid
  lic_key_hash :: string
  lic_key_prefix :: string
  lic_email :: string
  lic_tier :: string
  lic_active :: bool
  lic_expires_at :: "time option"
  lic_note :: "string option"
  lic_created_at :: time

record audit_log =
  aud_merchant :: "uuid option"
  aud_action :: string
  aud_entity_type :: "string option"
  aud_entity_id :: "uuid option"
  aud_details :: json
  aud_created_at :: time

section \<open>The database\<close>

text \<open>
  The last two fields are not tables: \<open>db_next_id\<close> is the next identifier \<open>uuid4()\<close> returns
  (a counter, so that identifiers never collide), and \<open>db_rpc_calls\<close> counts the subaddresses
  asked of wallet-rpc, which is how the model consults the wallet below.
\<close>

record db =
  db_merchants :: "merchant list"
  db_invoices :: "invoice list"
  db_addresses :: "invoice_address list"
  db_payments :: "payment list"
  db_customers :: "customer list"
  db_subs :: "subscription list"
  db_sub_payments :: "subscription_payment list"
  db_events :: "renewal_event list"
  db_api_keys :: "api_key list"
  db_deliveries :: "webhook_delivery list"
  db_dead_letters :: "dead_letter list"
  db_licenses :: "license list"
  db_audit :: "audit_log list"
  db_next_id :: nat
  db_rpc_calls :: nat

definition empty_db :: db where
  "empty_db = \<lparr>db_merchants = [], db_invoices = [], db_addresses = [], db_payments = [],
     db_customers = [], db_subs = [], db_sub_payments = [], db_events = [], db_api_keys = [],
     db_deliveries = [], db_dead_letters = [], db_licenses = [], db_audit = [],
     db_next_id = 1, db_rpc_calls = 0\<rparr>"

text \<open>
  What an operation reads besides the database: the clock, the \<open>TOR_ONLY\<close> setting,
  wallet-rpc, whose reply to attempt \<open>k\<close> of the n-th \<open>create_address\<close> is \<open>env_wallet n k\<close>,
  and \<open>str(exc)\<close>, whose wording the interpreter and the database driver choose.
\<close>

record env =
  env_now :: time
  env_tor_only :: bool
  env_wallet :: "nat \<Rightarrow> nat \<Rightarrow> (string \<times> int) rpc_reply"
  env_exc_text :: "exc \<Rightarrow> string"

type_synonym 'a op = "db \<Rightarrow> (db, 'a) outcome"

subsection \<open>Rows by primary key\<close>

definition find_merchant :: "uuid \<Rightarrow> db \<Rightarrow> merchant option" where
  "find_merchant i d = get_row mer_id i (db_merchants d)"

definition find_invoice :: "uuid \<Rightarrow> db \<Rightarrow> invoice option" where
  "find_invoice i d = get_row inv_id i (db_invoices d)"

definition modify_invoice :: "uuid \<Rightarrow> (invoice \<Rightarrow> invoice) \<Rightarrow> db \<Rightarrow> db" where
  "modify_invoice i f d = d\<lparr>db_invoices := upd_row inv_id i f (db_invoices d)\<rparr>"

definition add_invoice :: "invoice \<Rightarrow> db \<Rightarrow> db" where
  "add_invoice r d = d\<lparr>db_invoices := db_invoices d @ [r]\<rparr>"

definition find_payment :: "uuid \<Rightarrow> db \<Rightarrow> payment option" where
  "find_payment i d = get_row pay_id i (db_payments d)"

definition modify_payment :: "uuid \<Rightarrow> (payment \<Rightarrow> payment) \<Rightarrow> db \<Rightarrow> db" where
  "modify_payment i f d = d\<lparr>db_payments := upd_row pay_id i f (db_payments d)\<rparr>"

definition add_payment :: "payment \<Rightarrow> db \<Rightarrow> db" where
  "add_payment r d = d\<lparr>db_payments := db_payments d @ [r]\<rparr>"

definition find_sub :: "uuid \<Rightarrow> db \<Rightarrow> subscription option" where
  "find_sub i d = get_row sub_id i (db_subs d)"

definition modify_sub :: "uuid \<Rightarrow> (subscription \<Rightarrow> subscription) \<Rightarrow> db \<Rightarrow> db" where
  "modify_sub i f d = d\<lparr>db_subs := upd_row sub_id i f (db_subs d)\<rparr>"

definition add_sub :: "subscription \<Rightarrow> db \<Rightarrow> db" where
  "add_sub r d = d\<lparr>db_subs := db_subs d @ [r]\<rparr>"

definition find_delivery :: "uuid \<Rightarrow> db \<Rightarrow> webhook_delivery option" where
  "find_delivery i d = get_row del_id i (db_deliveries d)"

definition modify_delivery :: "uuid \<Rightarrow> (webhook_delivery \<Rightarrow> webhook_delivery) \<Rightarrow> db \<Rightarrow> db" where
  "modify_delivery i f d = d\<lparr>db_deliveries := upd_row del_id i f (db_deliveries d)\<rparr>"

definition add_delivery :: "webhook_delivery \<Rightarrow> db \<Rightarrow> db" where
  "add_delivery r d = d\<lparr>db_deliveries := db_deliveries d @ [r]\<rparr>"

definition find_dead_letter :: "uuid \<Rightarrow> db \<Rightarrow> dead_letter option" where
  "find_dead_letter i d = get_row dlq_id i (db_dead_letters d)"

definition modify_dead_letter :: "uuid \<Rightarrow> (dead_letter \<Rightarrow> dead_letter) \<Rightarrow> db \<Rightarrow> db" where
  "modify_dead_letter i f d = d\<lparr>db_dead_letters := upd_row dlq_id i f (db_dead_letters d)\<rparr>"

definition add_dead_letter :: "dead_letter \<Rightarrow> db \<Rightarrow> db" where
  "add_dead_letter r d = d\<lparr>db_dead_letters := db_dead_letters d @ [r]\<rparr>"

definition find_customer :: "uuid \<Rightarrow> db \<Rightarrow> customer option" where
  "find_customer i d = get_row cus_id i (db_customers d)"

definition modify_customer :: "uuid \<Rightarrow> (customer \<Rightarrow> customer) \<Rightarrow> db \<Rightarrow> db" where
  "modify_customer i f d = d\<lparr>db_customers := upd_row cus_id i f (db_customers d)\<rparr>"

definition add_customer :: "customer \<Rightarrow> db \<Rightarrow> db" where
  "add_customer r d = d\<lparr>db_customers := db_customers d @ [r]\<rparr>"

definition find_license :: "uuid \<Rightarrow> db \<Rightarrow> license option" where
  "find_license i d = get_row lic_id i (db_licenses d)"

definition modify_license :: "uuid \<Rightarrow> (license \<Rightarrow> license) \<Rightarrow> db \<Rightarrow> db" where
  "modify_license i f d = d\<lparr>db_licenses := upd_row lic_id i f (db_licenses d)\<rparr>"

definition add_license :: "license \<Rightarrow> db \<Rightarrow> db" where
  "add_license r d = d\<lparr>db_licenses := db_licenses d @ [r]\<rparr>"

definition add_audit :: "audit_log \<Rightarrow> db \<Rightarrow> db" where
  "add_audit r d = d\<lparr>db_audit := db_audit d @ [r]\<rparr>"

definition add_event :: "renewal_event \<Rightarrow> db \<Rightarrow> db" where
  "add_event r d = d\<lparr>db_events := db_events d @ [r]\<rparr>"

definition add_sub_payment :: "subscription_payment \<Rightarrow> db \<Rightarrow> db" where
  "add_sub_payment r d = d\<lparr>db_sub_payments := db_sub_payments d @ [r]\<rparr>"

text \<open>\<open>uuid4()\<close>.\<close>

definition tick_id :: "db \<Rightarrow> db" where
  "tick_id d = d\<lparr>db_next_id := Suc (db_next_id d)\<rparr>"

definition audit :: "env \<Rightarrow> uuid option \<Rightarrow> string \<Rightarrow> string \<Rightarrow> uuid \<Rightarrow> (string \<times> json) list \<Rightarrow> db \<Rightarrow> db" where
  "audit e mid action etype eid details d = add_audit
     \<lparr>aud_merchant = mid, aud_action = action, aud_entity_type = Some etype,
      aud_entity_id = Some eid, aud_details = JObj details, aud_created_at = env_now e\<rparr> d"

lemmas table_defs =
  find_merchant_def find_invoice_def modify_invoice_def add_invoice_def find_payment_def
  modify_payment_def add_payment_def find_sub_def modify_sub_def add_sub_def find_delivery_def
  modify_delivery_def add_delivery_def find_dead_letter_def modify_dead_letter_def
  add_dead_letter_def find_customer_def modify_customer_def add_customer_def find_license_def
  modify_license_def add_license_def add_audit_def add_event_def add_sub_payment_def tick_id_def
  audit_def

section \<open>Each table is a keyed entity store\<close>

interpretation invoices: entity_store find_invoice modify_invoice add_invoice inv_id
  by unfold_locales (auto simp: table_defs get_row_append get_row_upd dest: get_row_key split: option.splits)

interpretation payments: entity_store find_payment modify_payment add_payment pay_id
  by unfold_locales (auto simp: table_defs get_row_append get_row_upd dest: get_row_key split: option.splits)

interpretation subs: entity_store find_sub modify_sub add_sub sub_id
  by unfold_locales (auto simp: table_defs get_row_append get_row_upd dest: get_row_key split: option.splits)

interpretation deliveries: entity_store find_delivery modify_delivery add_delivery del_id
  by unfold_locales (auto simp: table_defs get_row_append get_row_upd dest: get_row_key split: option.splits)

interpretation dead_letters: entity_store find_dead_letter modify_dead_letter add_dead_letter dlq_id
  by unfold_locales (auto simp: table_defs get_row_append get_row_upd dest: get_row_key split: option.splits)

interpretation customers: entity_store find_customer modify_customer add_customer cus_id
  by unfold_locales (auto simp: table_defs get_row_append get_row_upd dest: get_row_key split: option.splits)

interpretation licenses: entity_store find_license modify_license add_license lic_id
  by unfold_locales (auto simp: table_defs get_row_append get_row_upd dest: get_row_key split: option.splits)

section \<open>What an elementary write leaves alone\<close>

lemma audit_fields [simp]:
  "db_merchants (audit e m a t i x d) = db_merchants d"
  "db_invoices (audit e m a t i x d) = db_invoices d"
  "db_addresses (audit e m a t i x d) = db_addresses d"
  "db_payments (audit e m a t i x d) = db_payments d"
  "db_customers (audit e m a t i x d) = db_customers d"
  "db_subs (audit e m a t i x d) = db_subs d"
  "db_sub_payments (audit e m a t i x d) = db_sub_payments d"
  "db_events (audit e m a t i x d) = db_events d"
  "db_api_keys (audit e m a t i x d) = db_api_keys d"
  "db_deliveries (audit e m a t i x d) = db_deliveries d"
  "db_dead_letters (audit e m a t i x d) = db_dead_letters d"
  "db_licenses (audit e m a t i x d) = db_licenses d"
  "db_next_id (audit e m a t i x d) = db_next_id d"
  "db_rpc_calls (audit e m a t i x d) = db_rpc_calls d"
  by (simp_all add: audit_def add_audit_def)

lemma add_event_fields [simp]:
  "db_merchants (add_event r d) = db_merchants d"
  "db_invoices (add_event r d) = db_invoices d"
  "db_addresses (add_event r d) = db_addresses d"
  "db_payments (add_event r d) = db_payments d"
  "db_customers (add_event r d) = db_customers d"
  "db_subs (add_event r d) = db_subs d"
  "db_sub_payments (add_event r d) = db_sub_payments d"
  "db_api_keys (add_event r d) = db_api_keys d"
  "db_deliveries (add_event r d) = db_deliveries d"
  "db_dead_letters (add_event r d) = db_dead_letters d"
  "db_licenses (add_event r d) = db_licenses d"
  "db_audit (add_event r d) = db_audit d"
  "db_next_id (add_event r d) = db_next_id d"
  "db_rpc_calls (add_event r d) = db_rpc_calls d"
  by (simp_all add: add_event_def)

lemma tick_id_fields [simp]:
  "db_merchants (tick_id d) = db_merchants d"
  "db_invoices (tick_id d) = db_invoices d"
  "db_addresses (tick_id d) = db_addresses d"
  "db_payments (tick_id d) = db_payments d"
  "db_customers (tick_id d) = db_customers d"
  "db_subs (tick_id d) = db_subs d"
  "db_sub_payments (tick_id d) = db_sub_payments d"
  "db_events (tick_id d) = db_events d"
  "db_api_keys (tick_id d) = db_api_keys d"
  "db_deliveries (tick_id d) = db_deliveries d"
  "db_dead_letters (tick_id d) = db_dead_letters d"
  "db_licenses (tick_id d) = db_licenses d"
  "db_audit (tick_id d) = db_audit d"
  "db_rpc_calls (tick_id d) = db_rpc_calls d"
  by (simp_all add: tick_id_def)

lemma tick_id_next [simp]: "db_next_id (tick_id d) = Suc (db_next_id d)"
  by (simp add: tick_id_def)

lemma modify_invoice_fields [simp]:
  "db_merchants (modify_invoice i f d) = db_merchants d"
  "db_addresses (modify_invoice i f d) = db_addresses d"
  "db_payments (modify_invoice i f d) = db_payments d"
  "db_customers (modify_invoice i f d) = db_customers d"
  "db_subs (modify_invoice i f d) = db_subs d"
  "db_sub_payments (modify_invoice i f d) = db_sub_payments d"
  "db_events (modify_invoice i f d) = db_events d"
  "db_api_keys (modify_invoice i f d) = db_api_keys d"
  "db_deliveries (modify_invoice i f d) = db_deliveries d"
  "db_dead_letters (modify_invoice i f d) = db_dead_letters d"
  "db_licenses (modify_invoice i f d) = db_licenses d"
  "db_audit (modify_invoice i f d) = db_audit d"
  "db_next_id (modify_invoice i f d) = db_next_id d"
  "db_rpc_calls (modify_invoice i f d) = db_rpc_calls d"
  by (simp_all add: modify_invoice_def)

lemma modify_payment_fields [simp]:
  "db_merchants (modify_payment i f d) = db_merchants d"
  "db_invoices (modify_payment i f d) = db_invoices d"
  "db_addresses (modify_payment i f d) = db_addresses d"
  "db_customers (modify_payment i f d) = db_customers d"
  "db_subs (modify_payment i f d) = db_subs d"
  "db_sub_payments (modify_payment i f d) = db_sub_payments d"
  "db_events (modify_payment i f d) = db_events d"
  "db_api_keys (modify_payment i f d) = db_api_keys d"
  "db_deliveries (modify_payment i f d) = db_deliveries d"
  "db_dead_letters (modify_payment i f d) = db_dead_letters d"
  "db_licenses (modify_payment i f d) = db_licenses d"
  "db_audit (modify_payment i f d) = db_audit d"
  "db_next_id (modify_payment i f d) = db_next_id d"
  "db_rpc_calls (modify_payment i f d) = db_rpc_calls d"
  by (simp_all add: modify_payment_def)

lemma add_payment_fields [simp]:
  "db_merchants (add_payment r d) = db_merchants d"
  "db_invoices (add_payment r d) = db_invoices d"
  "db_addresses (add_payment r d) = db_addresses d"
  "db_customers (add_payment r d) = db_customers d"
  "db_subs (add_payment r d) = db_subs d"
  "db_sub_payments (add_payment r d) = db_sub_payments d"
  "db_events (add_payment r d) = db_events d"
  "db_api_keys (add_payment r d) = db_api_keys d"
  "db_deliveries (add_payment r d) = db_deliveries d"
  "db_dead_letters (add_payment r d) = db_dead_letters d"
  "db_licenses (add_payment r d) = db_licenses d"
  "db_audit (add_payment r d) = db_audit d"
  "db_next_id (add_payment r d) = db_next_id d"
  "db_rpc_calls (add_payment r d) = db_rpc_calls d"
  by (simp_all add: add_payment_def)

lemma modify_sub_fields [simp]:
  "db_merchants (modify_sub i f d) = db_merchants d"
  "db_invoices (modify_sub i f d) = db_invoices d"
  "db_addresses (modify_sub i f d) = db_addresses d"
  "db_payments (modify_sub i f d) = db_payments d"
  "db_customers (modify_sub i f d) = db_customers d"
  "db_sub_payments (modify_sub i f d) = db_sub_payments d"
  "db_events (modify_sub i f d) = db_events d"
  "db_api_keys (modify_sub i f d) = db_api_keys d"
  "db_deliveries (modify_sub i f d) = db_deliveries d"
  "db_dead_letters (modify_sub i f d) = db_dead_letters d"
  "db_licenses (modify_sub i f d) = db_licenses d"
  "db_audit (modify_sub i f d) = db_audit d"
  "db_next_id (modify_sub i f d) = db_next_id d"
  "db_rpc_calls (modify_sub i f d) = db_rpc_calls d"
  by (simp_all add: modify_sub_def)

lemma add_sub_payment_fields [simp]:
  "db_merchants (add_sub_payment r d) = db_merchants d"
  "db_invoices (add_sub_payment r d) = db_invoices d"
  "db_addresses (add_sub_payment r d) = db_addresses d"
  "db_payments (add_sub_payment r d) = db_payments d"
  "db_customers (add_sub_payment r d) = db_customers d"
  "db_subs (add_sub_payment r d) = db_subs d"
  "db_events (add_sub_payment r d) = db_events d"
  "db_api_keys (add_sub_payment r d) = db_api_keys d"
  "db_deliveries (add_sub_payment r d) = db_deliveries d"
  "db_dead_letters (add_sub_payment r d) = db_dead_letters d"
  "db_licenses (add_sub_payment r d) = db_licenses d"
  "db_audit (add_sub_payment r d) = db_audit d"
  "db_next_id (add_sub_payment r d) = db_next_id d"
  "db_rpc_calls (add_sub_payment r d) = db_rpc_calls d"
  by (simp_all add: add_sub_payment_def)

lemma add_delivery_fields [simp]:
  "db_merchants (add_delivery r d) = db_merchants d"
  "db_invoices (add_delivery r d) = db_invoices d"
  "db_addresses (add_delivery r d) = db_addresses d"
  "db_payments (add_delivery r d) = db_payments d"
  "db_customers (add_delivery r d) = db_customers d"
  "db_subs (add_delivery r d) = db_subs d"
  "db_sub_payments (add_delivery r d) = db_sub_payments d"
  "db_events (add_delivery r d) = db_events d"
  "db_api_keys (add_delivery r d) = db_api_keys d"
  "db_dead_letters (add_delivery r d) = db_dead_letters d"
  "db_licenses (add_delivery r d) = db_licenses d"
  "db_audit (add_delivery r d) = db_audit d"
  "db_next_id (add_delivery r d) = db_next_id d"
  "db_rpc_calls (add_delivery r d) = db_rpc_calls d"
  by (simp_all add: add_delivery_def)

end
