(* ===== verification/Webhook_Payloads.thy ===== *)
theory Webhook_Payloads
  imports Models
begin

text \<open>
  \<open>services/webhook_payloads.py\<close>: the event registry, the HMAC signature and its check, the
  retry schedule and the payload builders. HMAC-SHA256 itself (\<open>hmac.new(..).hexdigest()\<close>) is an
  argument \<open>mac\<close> from key and message to the hexadecimal digest.
\<close>

definition max_attempts :: nat where
  "max_attempts = 7"

definition retry_delays :: "int list" where
  "retry_delays = [60, 300, 1800, 7200, 43200, 86400]"

definition valid_events :: "string list" where
  "valid_events =
    [''payment.detected'', ''payment.confirmed'', ''payment.orphaned'',
     ''invoice.paid'', ''invoice.expired'', ''invoice.partially_paid'', ''invoice.overpaid'',
     ''invoice.late_paid'', ''invoice.exception_payment'', ''invoice.reverted'',
     ''subscription.created'', ''subscription.renewed'', ''subscription.past_due'',
     ''subscription.cancelled'', ''subscription.payment_confirmed'', ''subscription.updated'',
     ''subscription.paused'', ''subscription.resumed'', ''subscription.expired'',
     ''subscription.trial_started'', ''subscription.trial_ended'', ''subscription.prepaid'']"

section \<open>Signatures\<close>

definition signed_message :: "string \<Rightarrow> string option \<Rightarrow> string option \<Rightarrow> string" where
  "signed_message payload_bytes timestamp delivery_id =
     (case (timestamp, delivery_id) of
        (Some t, Some i) \<Rightarrow> t @ ''.'' @ i @ ''.'' @ payload_bytes
      | _ \<Rightarrow> payload_bytes)"

definition sign_payload ::
    "(string \<Rightarrow> string \<Rightarrow> string) \<Rightarrow> string \<Rightarrow> string \<Rightarrow> string option \<Rightarrow> string option \<Rightarrow> string" where
  "sign_payload mac payload_bytes secret timestamp delivery_id =
     mac secret (signed_message payload_bytes timestamp delivery_id)"

definition verify_signature ::
    "(string \<Rightarrow> string \<Rightarrow> string) \<Rightarrow> string \<Rightarrow> string \<Rightarrow> string \<Rightarrow> string option \<Rightarrow> string option \<Rightarrow> bool" where
  "verify_signature mac payload_bytes secret signature timestamp delivery_id =
     (let normalized = lower signature in
        if timestamp \<noteq> None \<and> delivery_id \<noteq> None \<and>
           lower (sign_payload mac payload_bytes secret timestamp delivery_id) = normalized then True
        else lower (sign_payload mac payload_bytes secret None None) = normalized)"

lemma verify_signature_iff:
  "verify_signature mac p s sig t i \<longleftrightarrow>
     lower sig = lower (sign_payload mac p s t i) \<or> lower sig = lower (mac s p)"
  by (auto simp: verify_signature_def sign_payload_def signed_message_def Let_def split: option.splits)

section \<open>Retry schedule\<close>

text \<open>
  \<open>calculate_next_retry\<close>: \<open>RETRY_DELAYS[attempt_count - 1]\<close>, where index -1 is Python's last
  element, and nothing past the end of the list.
\<close>

definition calculate_next_retry :: "time \<Rightarrow> nat \<Rightarrow> time option" where
  "calculate_next_retry now attempt_count =
     (if attempt_count = 0 then Some (now + secs (last retry_delays))
      else if length retry_delays \<le> attempt_count - 1 then None
      else Some (now + secs (retry_delays ! (attempt_count - 1))))"

lemma calculate_next_retry_Some:
  "n < max_attempts \<Longrightarrow> \<exists>t. calculate_next_retry now n = Some t \<and> now < t"
proof -
  assume n: "n < max_attempts"
  show ?thesis
  proof (cases n)
    case 0
    then show ?thesis by (simp add: calculate_next_retry_def retry_delays_def secs_def)
  next
    case (Suc m)
    with n have m: "m < length retry_delays" by (simp add: max_attempts_def retry_delays_def)
    have "\<forall>x \<in> set retry_delays. 0 < x" by (simp add: retry_delays_def)
    with m have "0 < retry_delays ! m" by (meson nth_mem)
    with Suc m show ?thesis by (simp add: calculate_next_retry_def secs_def)
  qed
qed

section \<open>Payloads\<close>

definition jtime :: "time \<Rightarrow> json" where
  "jtime t = JStr (isoformat t)"

definition juuid :: "uuid \<Rightarrow> json" where
  "juuid u = JStr (uuid_str u)"

definition build_payment_payload :: "payment \<Rightarrow> invoice \<Rightarrow> json" where
  "build_payment_payload p i = JObj
    [(''payment'', JObj
       [(''id'', juuid (pay_id p)),
        (''invoice_id'', juuid (pay_invoice p)),
        (''tx_hash'', JStr (pay_tx_hash p)),
        (''amount_atomic'', JInt (pay_amount_atomic p)),
        (''amount_xmr'', JDec (pay_amount_xmr p)),
        (''status'', JStr (payment_status_value (pay_status p))),
        (''confirmations'', JInt (pay_confirmations p)),
        (''block_height'', jopt JInt (pay_block_height p)),
        (''detected_at'', jtime (pay_detected_at p)),
        (''confirmed_at'', jopt jtime (pay_confirmed_at p))]),
     (''invoice'', JObj
       [(''id'', juuid (inv_id i)),
        (''status'', JStr (invoice_status_value (inv_status i))),
        (''amount_atomic'', JInt (inv_amount_atomic i)),
        (''amount_xmr'', JDec (inv_amount_xmr i)),
        (''description'', jopt JStr (inv_description i))])]"

definition build_invoice_payload :: "invoice \<Rightarrow> json" where
  "build_invoice_payload i = JObj
    [(''invoice'', JObj
       [(''id'', juuid (inv_id i)),
        (''status'', JStr (invoice_status_value (inv_status i))),
        (''amount_atomic'', JInt (inv_amount_atomic i)),
        (''amount_xmr'', JDec (inv_amount_xmr i)),
        (''fiat_amount'',
           case inv_fiat_amount i of None \<Rightarrow> JNull | Some f \<Rightarrow> if f = 0 then JNull else JDec f),
        (''fiat_currency'', jopt JStr (inv_fiat_currency i)),
        (''description'', jopt JStr (inv_description i)),
        (''expires_at'', jtime (inv_expires_at i)),
        (''paid_at'', jopt jtime (inv_paid_at i))])]"

definition build_invoice_exception_payment_payload :: "invoice \<Rightarrow> payment \<Rightarrow> json" where
  "build_invoice_exception_payment_payload i p =
     jset ''exception'' (JStr ''cancelled_invoice_payment'')
       (jset ''payment'' (JObj
          [(''id'', juuid (pay_id p)),
           (''invoice_id'', juuid (pay_invoice p)),
           (''tx_hash'', JStr (pay_tx_hash p)),
           (''amount_atomic'', JInt (pay_amount_atomic p)),
           (''amount_xmr'', JDec (pay_amount_xmr p)),
           (''status'', JStr (payment_status_value (pay_status p))),
           (''confirmations'', JInt (pay_confirmations p)),
           (''block_height'', jopt JInt (pay_block_height p))])
         (build_invoice_payload i))"

definition build_invoice_reverted_payload :: "invoice \<Rightarrow> json" where
  "build_invoice_reverted_payload i = jset ''reverted'' (JBool True) (build_invoice_payload i)"

definition subscription_fields :: "subscription \<Rightarrow> (string \<times> json) list" where
  "subscription_fields s =
     [(''id'', juuid (sub_id s)),
      (''merchant_id'', juuid (sub_merchant s)),
      (''customer_id'', juuid (sub_customer s)),
      (''status'', JStr (subscription_status_value (sub_status s))),
      (''amount_atomic'', JInt (sub_amount_atomic s)),
      (''amount_xmr'', JDec (sub_amount_xmr s)),
      (''interval_days'', JInt (sub_interval_days s)),
      (''next_due_at'', jopt jtime (sub_next_due_at s)),
      (''prepaid_until'', jopt jtime (sub_prepaid_until s)),
      (''created_at'', jtime (sub_created_at s))]"

definition subscription_extras ::
    "uuid option \<Rightarrow> time option \<Rightarrow> time option \<Rightarrow> string option \<Rightarrow> (string \<times> json) list" where
  "subscription_extras invoice_id period_start period_end reason =
     (case invoice_id of None \<Rightarrow> [] | Some i \<Rightarrow> [(''invoice_id'', juuid i)]) @
     (case period_start of None \<Rightarrow> [] | Some t \<Rightarrow> [(''period_start'', jtime t)]) @
     (case period_end of None \<Rightarrow> [] | Some t \<Rightarrow> [(''period_end'', jtime t)]) @
     (case reason of None \<Rightarrow> [] | Some r \<Rightarrow> if r = [] then [] else [(''reason'', JStr r)])"

definition build_subscription_payload ::
    "subscription \<Rightarrow> uuid option \<Rightarrow> time option \<Rightarrow> time option \<Rightarrow> string option \<Rightarrow> json" where
  "build_subscription_payload s invoice_id period_start period_end reason =
     JObj ((''subscription'', JObj (subscription_fields s)) #
           subscription_extras invoice_id period_start period_end reason)"

definition pending_fields :: "subscription \<Rightarrow> (string \<times> json) list" where
  "pending_fields s =
     (case sub_pending_amount_atomic s of None \<Rightarrow> []
      | Some a \<Rightarrow> [(''amount_atomic'', JInt a),
          (''amount_xmr'', case sub_pending_amount_xmr s of None \<Rightarrow> JStr ''None'' | Some x \<Rightarrow> JDec x)]) @
     (case sub_pending_interval_days s of None \<Rightarrow> [] | Some n \<Rightarrow> [(''interval_days'', JInt n)]) @
     (case sub_pending_grace_soft s of None \<Rightarrow> [] | Some n \<Rightarrow> [(''grace_days_soft'', JInt n)]) @
     (case sub_pending_grace_hard s of None \<Rightarrow> [] | Some n \<Rightarrow> [(''grace_days_hard'', JInt n)])"

definition build_subscription_updated_payload :: "subscription \<Rightarrow> json" where
  "build_subscription_updated_payload s = JObj
     ((''subscription'', JObj (subscription_fields s @
        [(''current'', JObj
            [(''amount_atomic'', JInt (sub_amount_atomic s)),
             (''interval_days'', JInt (sub_interval_days s)),
             (''grace_days_soft'', JInt (sub_grace_soft s)),
             (''grace_days_hard'', JInt (sub_grace_hard s))])])) #
      (if pending_fields s = [] then [] else [(''pending_changes'', JObj (pending_fields s))]))"

end
