(* ===== verification/Webhook_Service.thy ===== *)
theory Webhook_Service
  imports Webhook_Payloads
begin

text \<open>
  \<open>services/webhook_service.py\<close> and the cycle of \<open>tasks/webhook_worker.py\<close>: queueing, delivery,
  retry, the dead letter queue. The merchant's endpoint is outside the repository; what it
  replies to the POST of a delivery is an argument.
\<close>

section \<open>Queueing\<close>

definition new_delivery :: "env \<Rightarrow> uuid \<Rightarrow> merchant \<Rightarrow> weburl \<Rightarrow> string \<Rightarrow> json \<Rightarrow> uuid option \<Rightarrow> webhook_delivery" where
  "new_delivery e i m u event payload ivc =
     \<lparr>del_id = i, del_merchant = mer_id m, del_invoice = ivc, del_event_type = event,
      del_payload = payload, del_url = u, del_status = WPending, del_attempts = 0,
      del_max_attempts = max_attempts, del_last_attempt_at = None,
      del_next_retry_at = Some (env_now e), del_response_code = None, del_response_body = None,
      del_created_at = env_now e\<rparr>"

definition queue_webhook :: "env \<Rightarrow> merchant \<Rightarrow> string \<Rightarrow> json \<Rightarrow> uuid option \<Rightarrow> uuid option op" where
  "queue_webhook e m event_type payload invoice_id d =
     (if event_type \<notin> set valid_events then (Inl ValueError, d)
      else case mer_webhook_url m of
        None \<Rightarrow> (Inr None, d)
      | Some u \<Rightarrow>
          if url_text u = [] \<or> \<not> nonempty (mer_webhook_secret m) then (Inr None, d)
          else if \<not> webhook_url_ok (env_tor_only e) u then (Inr None, d)
          else (Inr (Some (db_next_id d)),
                add_delivery (new_delivery e (db_next_id d) m u event_type payload invoice_id) (tick_id d)))"

lemma queue_webhook_queued:
  assumes "queue_webhook e m ev p ivc d = (Inr (Some i), d')"
  obtains u where "mer_webhook_url m = Some u" and "webhook_url_ok (env_tor_only e) u" and "ev \<in> set valid_events"
    and "i = db_next_id d" and "d' = add_delivery (new_delivery e i m u ev p ivc) (tick_id d)"
proof -
  have ev: "ev \<in> set valid_events" using assms by (rule contrapos_pp) (simp add: queue_webhook_def)
  obtain u where u: "mer_webhook_url m = Some u"
    using assms ev by (cases "mer_webhook_url m") (simp_all add: queue_webhook_def)
  have "webhook_url_ok (env_tor_only e) u" "i = db_next_id d"
      "d' = add_delivery (new_delivery e i m u ev p ivc) (tick_id d)"
    using assms ev by (auto simp: queue_webhook_def u split: if_split_asm)
  then show ?thesis using that u ev by blast
qed

definition event_payload :: "env \<Rightarrow> string \<Rightarrow> invoice \<Rightarrow> payment option \<Rightarrow> json" where
  "event_payload e event_type ivc pay =
     (let body = (case pay of
            Some p \<Rightarrow> if startswith event_type ''payment.'' then build_payment_payload p ivc
                     else build_invoice_payload ivc
          | None \<Rightarrow> build_invoice_payload ivc)
      in jset ''timestamp'' (jtime (env_now e)) (jset ''event'' (JStr event_type) body))"

fun dispatch_events :: "env \<Rightarrow> string list \<Rightarrow> merchant \<Rightarrow> invoice \<Rightarrow> payment option \<Rightarrow> uuid list op" where
  "dispatch_events e [] m ivc pay d = (Inr [], d)"
| "dispatch_events e (ev # evs) m ivc pay d =
     (case queue_webhook e m ev (event_payload e ev ivc pay) (Some (inv_id ivc)) d of
        (Inl x, d1) \<Rightarrow> (Inl x, d1)
      | (Inr q, d1) \<Rightarrow>
          (case dispatch_events e evs m ivc pay d1 of
             (Inl x, d2) \<Rightarrow> (Inl x, d2)
           | (Inr ds, d2) \<Rightarrow> (Inr (case q of None \<Rightarrow> ds | Some i \<Rightarrow> i # ds), d2)))"

definition dispatch_subscription_event ::
    "env \<Rightarrow> string \<Rightarrow> subscription \<Rightarrow> uuid option \<Rightarrow> time option \<Rightarrow> time option \<Rightarrow> string option
      \<Rightarrow> uuid option op" where
  "dispatch_subscription_event e event_type s invoice_id period_start period_end reason d =
     (case find_merchant (sub_merchant s) d of
        None \<Rightarrow> (Inr None, d)
      | Some m \<Rightarrow>
          queue_webhook e m event_type
            (jset ''timestamp'' (jtime (env_now e)) (jset ''event'' (JStr event_type)
               (build_subscription_payload s invoice_id period_start period_end reason)))
            None d)"

text \<open>
  Queueing webhooks touches the delivery table and the id counter, nothing else. These facts are
  used wherever a service fires an event in the middle of its own work.
\<close>

definition billing_unchanged :: "db \<Rightarrow> db \<Rightarrow> bool" where
  "billing_unchanged d d' \<longleftrightarrow>
     db_merchants d' = db_merchants d \<and> db_invoices d' = db_invoices d \<and>
     db_addresses d' = db_addresses d \<and> db_payments d' = db_payments d \<and>
     db_customers d' = db_customers d \<and> db_subs d' = db_subs d \<and>
     db_sub_payments d' = db_sub_payments d \<and> db_events d' = db_events d \<and>
     db_api_keys d' = db_api_keys d \<and> db_dead_letters d' = db_dead_letters d \<and>
     db_licenses d' = db_licenses d \<and> db_audit d' = db_audit d \<and>
     db_rpc_calls d' = db_rpc_calls d \<and> db_next_id d \<le> db_next_id d'"

lemma billing_unchanged_refl [simp]: "billing_unchanged d d"
  by (simp add: billing_unchanged_def)

lemma billing_unchanged_trans: "billing_unchanged a b \<Longrightarrow> billing_unchanged b c \<Longrightarrow> billing_unchanged a c"
  by (simp add: billing_unchanged_def)

lemma billing_unchangedD:
  assumes "billing_unchanged d d'"
  shows "db_merchants d' = db_merchants d" "db_invoices d' = db_invoices d"
    "db_addresses d' = db_addresses d" "db_payments d' = db_payments d"
    "db_customers d' = db_customers d" "db_subs d' = db_subs d"
    "db_sub_payments d' = db_sub_payments d" "db_events d' = db_events d"
    "db_api_keys d' = db_api_keys d" "db_dead_letters d' = db_dead_letters d"
    "db_licenses d' = db_licenses d" "db_audit d' = db_audit d"
    "db_rpc_calls d' = db_rpc_calls d" "db_next_id d \<le> db_next_id d'"
  using assms by (simp_all add: billing_unchanged_def)

text \<open>
  The contract of an event sink, as the billing services see it: whatever it does, billing data
  stays as it was, so a query of billing data gives the same answer before and after.
\<close>

locale event_sink =
  fixes fire :: "'x \<Rightarrow> db \<Rightarrow> (db, 'a) outcome"
  assumes fire_frame: "billing_unchanged d (snd (fire x d))"
begin

lemmas fire_fields [frame] = billing_unchangedD[OF fire_frame]

lemma fire_find_invoice [frame]: "find_invoice i (snd (fire x d)) = find_invoice i d"
  by (simp add: find_invoice_def frame)

lemma fire_find_payment [frame]: "find_payment i (snd (fire x d)) = find_payment i d"
  by (simp add: find_payment_def frame)

lemma fire_find_sub [frame]: "find_sub i (snd (fire x d)) = find_sub i d"
  by (simp add: find_sub_def frame)

lemma fire_find_merchant [frame]: "find_merchant i (snd (fire x d)) = find_merchant i d"
  by (simp add: find_merchant_def frame)

end

lemma queue_webhook_frame: "billing_unchanged d (snd (queue_webhook e m ev p i d))"
  by (simp add: queue_webhook_def billing_unchanged_def add_delivery_def tick_id_def split: option.split)

lemma dispatch_events_frame: "billing_unchanged d (snd (dispatch_events e evs m ivc pay d))"
proof (induction evs arbitrary: d)
  case Nil
  then show ?case by simp
next
  case (Cons ev evs)
  obtain r d1 where q: "queue_webhook e m ev (event_payload e ev ivc pay) (Some (inv_id ivc)) d = (r, d1)"
    by (cases "queue_webhook e m ev (event_payload e ev ivc pay) (Some (inv_id ivc)) d")
  then have 1: "billing_unchanged d d1"
    using queue_webhook_frame[of d e m ev "event_payload e ev ivc pay" "Some (inv_id ivc)"] by simp
  obtain s d2 where s: "dispatch_events e evs m ivc pay d1 = (s, d2)"
    by (cases "dispatch_events e evs m ivc pay d1")
  with Cons[of d1] have "billing_unchanged d1 d2" by simp
  with 1 have "billing_unchanged d d2" by (rule billing_unchanged_trans)
  with 1 show ?case by (simp add: q s split: sum.split)
qed

lemma dispatch_subscription_event_frame:
  "billing_unchanged d (snd (dispatch_subscription_event e ev s i ps pe r d))"
  by (simp add: dispatch_subscription_event_def queue_webhook_frame split: option.split)

interpretation queue_sink: event_sink "\<lambda>(e, m, ev, p, i). queue_webhook e m ev p i"
  by unfold_locales (simp add: queue_webhook_frame split: prod.split)

interpretation dispatch_sink: event_sink "\<lambda>(e, evs, m, ivc, pay). dispatch_events e evs m ivc pay"
  by unfold_locales (simp add: dispatch_events_frame split: prod.split)

interpretation sub_sink:
  event_sink "\<lambda>(e, ev, s, i, ps, pe, r). dispatch_subscription_event e ev s i ps pe r"
  by unfold_locales (simp add: dispatch_subscription_event_frame split: prod.split)

lemmas queue_frames [frame] = queue_sink.fire_fields [where x = "(e, m, ev, p, i)" for e m ev p i, simplified]
lemmas dispatch_frames [frame] = dispatch_sink.fire_fields [where x = "(e, evs, m, ivc, pay)" for e evs m ivc pay, simplified]
lemmas sub_event_frames [frame] = sub_sink.fire_fields [where x = "(e, ev, s, i, ps, pe, r)" for e ev s i ps pe r, simplified]

text \<open>
  The weaker contract of the services that manage subscriptions: merchants, customers, and the
  ledger (invoices, their addresses and payments) stay as they were.
\<close>

definition ledger_unchanged :: "db \<Rightarrow> db \<Rightarrow> bool" where
  "ledger_unchanged d d' \<longleftrightarrow>
     db_merchants d' = db_merchants d \<and> db_invoices d' = db_invoices d \<and>
     db_addresses d' = db_addresses d \<and> db_payments d' = db_payments d \<and>
     db_customers d' = db_customers d \<and> db_rpc_calls d' = db_rpc_calls d \<and>
     db_next_id d \<le> db_next_id d'"

lemma ledger_unchanged_refl [simp]: "ledger_unchanged d d"
  by (simp add: ledger_unchanged_def)

lemma ledger_unchanged_trans: "ledger_unchanged a b \<Longrightarrow> ledger_unchanged b c \<Longrightarrow> ledger_unchanged a c"
  by (simp add: ledger_unchanged_def)

lemma billing_ledger: "billing_unchanged d d' \<Longrightarrow> ledger_unchanged d d'"
  by (simp add: billing_unchanged_def ledger_unchanged_def)

lemma ledger_unchanged_find:
  assumes "ledger_unchanged d d'"
  shows "find_invoice i d' = find_invoice i d" "find_payment i d' = find_payment i d"
    "find_merchant i d' = find_merchant i d"
  using assms by (simp_all add: ledger_unchanged_def find_invoice_def find_payment_def find_merchant_def)

section \<open>Delivery\<close>

datatype http_reply =
    HttpStatus int string  \<comment> \<open>status code and body\<close>
  | HttpFailure string  \<comment> \<open>\<open>httpx.HTTPError\<close>, a timeout or \<open>OSError\<close>, with its text\<close>

text \<open>The headers of the POST, for a serialisation \<open>dumps\<close> of the payload.\<close>

definition delivery_headers ::
    "(string \<Rightarrow> string \<Rightarrow> string) \<Rightarrow> (json \<Rightarrow> string) \<Rightarrow> time \<Rightarrow> webhook_delivery \<Rightarrow> string
      \<Rightarrow> (string \<times> string) list" where
  "delivery_headers mac dumps now del secret =
     (let payload_bytes = dumps (del_payload del); timestamp = isoformat now;
          delivery_id = uuid_str (del_id del)
      in [(''Content-Type'', ''application/json''),
          (''X-GhostBill-Signature'',
             sign_payload mac payload_bytes secret (Some timestamp) (Some delivery_id)),
          (''X-GhostBill-Signature-Version'', ''v2''),
          (''X-GhostBill-Timestamp'', timestamp),
          (''X-GhostBill-Delivery-Id'', delivery_id),
          (''X-GhostBill-Event-ID'', delivery_id),
          (''X-GhostBill-Event-Type'', del_event_type del),
          (''User-Agent'', ''GhostBill-Webhook/1.0'')])"

definition record_reply :: "http_reply \<Rightarrow> webhook_delivery \<Rightarrow> webhook_delivery" where
  "record_reply reply del =
     (case reply of
        HttpStatus code body \<Rightarrow>
          del\<lparr>del_response_code := Some code,
              del_response_body := (if body = [] then None else Some (take 2048 body))\<rparr>
      | HttpFailure text \<Rightarrow>
          del\<lparr>del_response_code := None, del_response_body := Some (take 2048 text)\<rparr>)"

fun reply_success :: "http_reply \<Rightarrow> bool" where
  "reply_success (HttpStatus code body) = (200 \<le> code \<and> code < 300)"
| "reply_success (HttpFailure text) = False"

definition attempt_delivery :: "http_reply \<Rightarrow> uuid \<Rightarrow> db \<Rightarrow> bool \<times> db" where
  "attempt_delivery reply i d = (reply_success reply, modify_delivery i (record_reply reply) d)"

definition due_delivery :: "time \<Rightarrow> webhook_delivery \<Rightarrow> bool" where
  "due_delivery now del \<longleftrightarrow> del_status del = WPending \<and>
     (case del_next_retry_at del of None \<Rightarrow> False | Some t \<Rightarrow> t \<le> now)"

definition get_pending_deliveries :: "env \<Rightarrow> nat \<Rightarrow> db \<Rightarrow> webhook_delivery list" where
  "get_pending_deliveries e limit d =
     page 0 limit (order_asc (\<lambda>del. the (del_next_retry_at del))
       (filter (due_delivery (env_now e)) (db_deliveries d)))"

definition claim_pending_deliveries :: "env \<Rightarrow> nat \<Rightarrow> db \<Rightarrow> uuid list \<times> db" where
  "claim_pending_deliveries e limit d =
     (let ids = map del_id (get_pending_deliveries e limit d)
      in (ids, fold (\<lambda>i. modify_delivery i (\<lambda>del. del\<lparr>del_last_attempt_at := Some (env_now e)\<rparr>)) ids d))"

section \<open>Dead letter queue\<close>

definition dlq_details :: "webhook_delivery \<Rightarrow> string option \<Rightarrow> json" where
  "dlq_details del failure_reason = JObj
     ([(''attempt_count'', JInt (int (del_attempts del))),
       (''max_attempts'', JInt (int (del_max_attempts del)))] @
      (if nonempty failure_reason then [(''failure_reason'', JStr (the failure_reason))] else []))"

definition new_dead_letter :: "env \<Rightarrow> uuid \<Rightarrow> webhook_delivery \<Rightarrow> string option \<Rightarrow> dead_letter" where
  "new_dead_letter e i del failure_reason =
     \<lparr>dlq_id = i, dlq_delivery = del_id del, dlq_merchant = del_merchant del,
      dlq_event_type = del_event_type del,
      dlq_payload = jset ''_dlq_details'' (dlq_details del failure_reason) (del_payload del),
      dlq_original_created_at = del_created_at del, dlq_dead_lettered_at = env_now e,
      dlq_retry_count = 0, dlq_retry_delivery = None, dlq_last_retry_at = None,
      dlq_last_error = Some (if nonempty failure_reason then the failure_reason
        else if nonempty (del_response_body del) then the (del_response_body del)
        else ''Max retries exceeded''),
      dlq_resolved = False, dlq_resolved_at = None, dlq_created_at = env_now e\<rparr>"

definition move_to_dlq :: "env \<Rightarrow> uuid \<Rightarrow> string option \<Rightarrow> db \<Rightarrow> db" where
  "move_to_dlq e i failure_reason d =
     (case find_delivery i d of
        None \<Rightarrow> d
      | Some del \<Rightarrow>
          add_dead_letter (new_dead_letter e (db_next_id d) del failure_reason)
            (tick_id (modify_delivery i
               (\<lambda>r. r\<lparr>del_status := WDeadLettered, del_next_retry_at := None\<rparr>) d)))"

definition process_delivery_result :: "env \<Rightarrow> uuid \<Rightarrow> bool \<Rightarrow> db \<Rightarrow> db" where
  "process_delivery_result e i success d =
     (let d1 = modify_delivery i (\<lambda>r. r\<lparr>del_attempts := Suc (del_attempts r),
                 del_last_attempt_at := Some (env_now e)\<rparr>) d
      in case find_delivery i d1 of
           None \<Rightarrow> d1
         | Some del \<Rightarrow>
             if success then
               modify_delivery i (\<lambda>r. r\<lparr>del_status := WDelivered, del_next_retry_at := None\<rparr>) d1
             else if del_max_attempts del \<le> del_attempts del then move_to_dlq e i None d1
             else modify_delivery i (\<lambda>r. r\<lparr>del_next_retry_at :=
                    calculate_next_retry (env_now e) (del_attempts r)\<rparr>) d1)"

definition retry_delivery :: "env \<Rightarrow> uuid \<Rightarrow> uuid \<Rightarrow> uuid op" where
  "retry_delivery e merchant_id delivery_id d =
     (case find_delivery delivery_id d of
        None \<Rightarrow> (Inl WebhookRetryNotFoundError, d)
      | Some del \<Rightarrow>
          if del_merchant del \<noteq> merchant_id then (Inl WebhookRetryNotFoundError, d)
          else if del_status del = WDelivered then (Inl WebhookRetryConflictError, d)
          else if del_status del \<noteq> WFailed \<and> del_status del \<noteq> WDeadLettered then
            (Inl WebhookRetryInvalidStateError, d)
          else (Inr delivery_id, modify_delivery delivery_id
                  (\<lambda>r. r\<lparr>del_status := WPending, del_attempts := 0,
                         del_next_retry_at := Some (env_now e)\<rparr>) d))"

definition retry_dead_letter :: "env \<Rightarrow> merchant \<Rightarrow> uuid \<Rightarrow> uuid op" where
  "retry_dead_letter e m i d =
     (case find_dead_letter i d of
        None \<Rightarrow> (Inl InvalidRequestError, d)
      | Some entry \<Rightarrow>
          if dlq_resolved entry then (Inl WebhookRetryConflictError, d)
          else case queue_webhook e m (dlq_event_type entry) (dlq_payload entry) None d of
            (Inl x, d1) \<Rightarrow> (Inl x, d1)
          | (Inr None, d1) \<Rightarrow> (Inl WebhookRetryInvalidStateError, d1)
          | (Inr (Some new), d1) \<Rightarrow>
              (Inr new, modify_dead_letter i (\<lambda>r. r\<lparr>dlq_retry_count := Suc (dlq_retry_count r),
                 dlq_retry_delivery := Some new, dlq_last_retry_at := Some (env_now e)\<rparr>) d1))"

text \<open>\<open>details = dict(payload.get("_dlq_details") or {})\<close>; a value that is not a dict raises.\<close>

definition resolve_payload :: "uuid \<Rightarrow> json \<Rightarrow> exc + json" where
  "resolve_payload delivery payload =
     (case jget ''_dlq_details'' payload of
        Some (JObj kvs) \<Rightarrow>
          Inr (jset ''_dlq_details'' (JObj (dict_set ''resolved_delivery_id'' (juuid delivery) kvs)) payload)
      | Some j \<Rightarrow>
          if truthy j then Inl TypeError
          else Inr (jset ''_dlq_details'' (JObj [(''resolved_delivery_id'', juuid delivery)]) payload)
      | None \<Rightarrow> Inr (jset ''_dlq_details'' (JObj [(''resolved_delivery_id'', juuid delivery)]) payload))"

definition mark_dlq_resolved_for_delivery :: "env \<Rightarrow> uuid \<Rightarrow> unit op" where
  "mark_dlq_resolved_for_delivery e i d =
     (case find_delivery i d of
        None \<Rightarrow> (Inl InvalidRequestError, d)
      | Some del \<Rightarrow>
          (case scalar_one_or_none (filter (\<lambda>r. dlq_retry_delivery r = Some i \<and>
                  dlq_merchant r = del_merchant del \<and> \<not> dlq_resolved r) (db_dead_letters d)) of
             Inl x \<Rightarrow> (Inl x, d)
           | Inr None \<Rightarrow> (Inr (), d)
           | Inr (Some entry) \<Rightarrow>
               (let d1 = modify_dead_letter (dlq_id entry)
                      (\<lambda>r. r\<lparr>dlq_resolved := True, dlq_resolved_at := Some (env_now e)\<rparr>) d
                in case resolve_payload i (dlq_payload entry) of
                     Inl x \<Rightarrow> (Inl x, d1)
                   | Inr p \<Rightarrow> (Inr (), modify_dead_letter (dlq_id entry) (\<lambda>r. r\<lparr>dlq_payload := p\<rparr>) d1))))"

section \<open>The worker\<close>

definition worker_batch_size :: nat where
  "worker_batch_size = 50"

text \<open>One delivery of a cycle: the new state and whether it counts as processed.\<close>

definition worker_deliver :: "env \<Rightarrow> (uuid \<Rightarrow> http_reply) \<Rightarrow> uuid \<Rightarrow> db \<Rightarrow> bool \<times> db" where
  "worker_deliver e http i d =
     (case find_delivery i d of
        None \<Rightarrow> (False, d)
      | Some del \<Rightarrow>
          (case find_merchant (del_merchant del) d of
             None \<Rightarrow> (False, move_to_dlq e i (Some ''merchant_not_found'') d)
           | Some m \<Rightarrow>
               if \<not> nonempty (mer_webhook_secret m) then
                 (False, move_to_dlq e i (Some ''webhook_secret_missing'') d)
               else case attempt_delivery (http i) i d of (success, d1) \<Rightarrow>
                 let d2 = process_delivery_result e i success d1
                 in if success then
                      (case mark_dlq_resolved_for_delivery e i d2 of
                         (Inl x, d3) \<Rightarrow> (False, d3)
                       | (Inr _, d3) \<Rightarrow> (True, d3))
                    else (True, d2)))"

fun worker_loop :: "env \<Rightarrow> (uuid \<Rightarrow> http_reply) \<Rightarrow> uuid list \<Rightarrow> db \<Rightarrow> nat \<times> db" where
  "worker_loop e http [] d = (0, d)"
| "worker_loop e http (i # is) d =
     (case worker_deliver e http i d of (counted, d1) \<Rightarrow>
        case worker_loop e http is d1 of (n, d2) \<Rightarrow> (if counted then Suc n else n, d2))"

definition worker_cycle :: "env \<Rightarrow> (uuid \<Rightarrow> http_reply) \<Rightarrow> db \<Rightarrow> nat \<times> db" where
  "worker_cycle e http d =
     (case claim_pending_deliveries e worker_batch_size d of (ids, d1) \<Rightarrow> worker_loop e http ids d1)"

end
