(* ===== verification/Invoice_Service.thy ===== *)
theory Invoice_Service
  imports Webhook_Service
begin

text \<open>
  \<open>services/invoice_service.py\<close>: validation, creation with a subaddress from wallet-rpc, lookup,
  listing, cancellation, and the status machine that every other service goes through.
\<close>

section \<open>The status machine\<close>

fun invoice_transitions :: "invoice_status \<Rightarrow> invoice_status list" where
  "invoice_transitions IPending = [IPaid, IPartially, IExpired, ICancelled]"
| "invoice_transitions IPartially = [IPaid, IOverpaid, IPending]"
| "invoice_transitions IExpired = [ILate]"
| "invoice_transitions IPaid = [IOverpaid, IPartially, IPending]"
| "invoice_transitions IOverpaid = [IPaid, IPartially, IPending]"
| "invoice_transitions ILate = [IExpired]"
| "invoice_transitions ICancelled = []"

definition invoice_terminal :: "invoice_status set" where
  "invoice_terminal = {ICancelled}"

definition can_transition :: "invoice_status \<Rightarrow> invoice_status \<Rightarrow> bool" where
  "can_transition current target \<longleftrightarrow> target \<in> set (invoice_transitions current)"

interpretation invoice_machine: transition_table invoice_transitions invoice_terminal
proof
  show "invoice_transitions s = [] \<longleftrightarrow> s \<in> invoice_terminal" for s
    by (cases s) (simp_all add: invoice_terminal_def)
  show "s \<notin> set (invoice_transitions s)" for s
    by (cases s) simp_all
qed

definition paid_statuses :: "invoice_status list" where
  "paid_statuses = [IPaid, IOverpaid, ILate]"

section \<open>Validation\<close>

definition expires_in_min :: int where "expires_in_min = 600"
definition expires_in_max :: int where "expires_in_max = 2592000"
definition expires_in_default :: int where "expires_in_default = 3600"

text \<open>
  \<open>_parse_amount_xmr\<close>, on the result of \<open>Decimal(str(raw))\<close> (\<open>None\<close> where that raises). Comparing
  a NaN with \<open><=\<close> raises \<open>InvalidOperation\<close> outside the \<open>try\<close>.
\<close>

fun parse_amount_xmr :: "pydec option \<Rightarrow> exc + rat" where
  "parse_amount_xmr None = Inl InvoiceValidationError"
| "parse_amount_xmr (Some NaN) = Inl InvalidOperation"
| "parse_amount_xmr (Some NegInf) = Inl InvoiceValidationError"
| "parse_amount_xmr (Some PosInf) = Inl InvoiceValidationError"
| "parse_amount_xmr (Some (Fin amount)) =
     (if amount \<le> 0 then Inl InvoiceValidationError
      else if 1000000000 < amount then Inl InvoiceValidationError
      else Inr amount)"

fun validate_expires_in :: "int option \<Rightarrow> exc + int" where
  "validate_expires_in None = Inr expires_in_default"
| "validate_expires_in (Some n) =
     (if n < expires_in_min \<or> expires_in_max < n then Inl InvoiceValidationError else Inr n)"

lemma parse_amount_xmr_Inr:
  "parse_amount_xmr raw = Inr a \<longleftrightarrow> raw = Some (Fin a) \<and> 0 < a \<and> a \<le> 1000000000"
  by (cases raw rule: parse_amount_xmr.cases) (auto simp: not_le not_less)

lemma validate_expires_in_bounds:
  "validate_expires_in x = Inr n \<Longrightarrow> expires_in_min \<le> n \<and> n \<le> expires_in_max"
  by (cases x) (auto simp: expires_in_min_def expires_in_max_def expires_in_default_def split: if_splits)

section \<open>Creation\<close>

text \<open>What the columns of \<open>invoices\<close> can hold; anything else makes the INSERT fail.\<close>

definition invoice_fits :: "invoice \<Rightarrow> bool" where
  "invoice_fits r \<longleftrightarrow>
     bigint_fits (inv_amount_atomic r) \<and> numeric_fits 18 12 (inv_amount_xmr r) \<and>
     (\<forall>x \<in> set_option (inv_fiat_amount r). numeric_fits 18 2 x) \<and>
     (\<forall>x \<in> set_option (inv_fiat_rate r). numeric_fits 18 8 x) \<and>
     (\<forall>x \<in> set_option (inv_fiat_currency r). length x \<le> 3) \<and>
     (\<forall>x \<in> set_option (inv_description r). length x \<le> 1024) \<and>
     0 < inv_amount_atomic r"

definition new_invoice ::
    "env \<Rightarrow> uuid \<Rightarrow> merchant \<Rightarrow> rat \<Rightarrow> string option \<Rightarrow> int \<Rightarrow> json option \<Rightarrow> rat option \<Rightarrow> string \<Rightarrow> invoice" where
  "new_invoice e i m amount_xmr description expires_in_sec metadata fiat_rate fiat_currency =
     \<lparr>inv_id = i, inv_merchant = mer_id m, inv_amount_atomic = xmr_to_atomic amount_xmr,
      inv_amount_xmr = amount_xmr,
      inv_fiat_currency = (case fiat_rate of None \<Rightarrow> None | Some r \<Rightarrow> if r = 0 then None else Some fiat_currency),
      inv_fiat_amount = (case fiat_rate of None \<Rightarrow> None
        | Some r \<Rightarrow> if 0 < r then Some (quantize_cents (amount_xmr * r)) else None),
      inv_fiat_rate = fiat_rate, inv_status = IPending, inv_description = description,
      inv_metadata = metadata, inv_expires_at = env_now e + secs expires_in_sec, inv_paid_at = None,
      inv_created_at = env_now e, inv_updated_at = env_now e\<rparr>"

text \<open>What the database keeps of it: the numeric columns are rounded.\<close>

definition stored_invoice :: "invoice \<Rightarrow> invoice" where
  "stored_invoice r = r\<lparr>inv_amount_xmr := pg_numeric 12 (inv_amount_xmr r),
     inv_fiat_amount := map_option (pg_numeric 2) (inv_fiat_amount r),
     inv_fiat_rate := map_option (pg_numeric 8) (inv_fiat_rate r)\<rparr>"

definition new_address :: "env \<Rightarrow> uuid \<Rightarrow> uuid \<Rightarrow> string \<Rightarrow> int \<Rightarrow> invoice_address" where
  "new_address e i invoice_id address index =
     \<lparr>adr_id = i, adr_invoice = invoice_id, adr_address = address, adr_index = index,
      adr_account = 0, adr_created_at = env_now e\<rparr>"

text \<open>The unique constraints of \<open>invoice_addresses\<close> and its column sizes.\<close>

definition address_free :: "invoice_address \<Rightarrow> db \<Rightarrow> bool" where
  "address_free a d \<longleftrightarrow>
     length (adr_address a) \<le> 128 \<and> integer_fits (adr_index a) \<and>
     (\<forall>b \<in> set (db_addresses d). adr_address b \<noteq> adr_address a \<and> adr_invoice b \<noteq> adr_invoice a \<and>
        (adr_account b, adr_index b) \<noteq> (adr_account a, adr_index a))"

definition add_address :: "invoice_address \<Rightarrow> db \<Rightarrow> db" where
  "add_address a d = d\<lparr>db_addresses := db_addresses d @ [a]\<rparr>"

definition tick_rpc :: "db \<Rightarrow> db" where
  "tick_rpc d = d\<lparr>db_rpc_calls := Suc (db_rpc_calls d)\<rparr>"

definition delete_invoice :: "uuid \<Rightarrow> db \<Rightarrow> db" where
  "delete_invoice i d = d\<lparr>db_invoices := del_row inv_id i (db_invoices d)\<rparr>"

fun wallet_unavailable :: "exc \<Rightarrow> exc" where
  "wallet_unavailable (MoneroRPCConnectionError m) =
     WalletUnavailableError ''Payment system is temporarily unavailable. Please try again later.''"
| "wallet_unavailable (MoneroRPCError c m) =
     WalletUnavailableError ''Payment system error. Please try again later.''"
| "wallet_unavailable x = x"

definition create_invoice ::
    "env \<Rightarrow> merchant \<Rightarrow> pydec option \<Rightarrow> string option \<Rightarrow> int option \<Rightarrow> json option \<Rightarrow> rat option \<Rightarrow> string
      \<Rightarrow> uuid op" where
  "create_invoice e m amount_xmr_raw description expires_in metadata fiat_rate fiat_currency d =
     (case parse_amount_xmr amount_xmr_raw of
        Inl x \<Rightarrow> (Inl x, d)
      | Inr amount_xmr \<Rightarrow>
     (case validate_expires_in expires_in of
        Inl x \<Rightarrow> (Inl x, d)
      | Inr expires_in_sec \<Rightarrow>
      if xmr_to_atomic amount_xmr \<le> 0 then (Inl InvoiceValidationError, d)
      else
        let i = db_next_id d;
            r = new_invoice e i m amount_xmr description expires_in_sec metadata fiat_rate fiat_currency
        in if \<not> invoice_fits r then (Inl DataError, tick_id d)
           else
             let d1 = tick_rpc (add_invoice (stored_invoice r) (tick_id d))
             in case create_address (env_wallet e (db_rpc_calls d)) of
                  Inl x \<Rightarrow> (Inl (wallet_unavailable x), delete_invoice i d1)
                | Inr (subaddress, address_index) \<Rightarrow>
                    let a = new_address e (db_next_id d1) i subaddress address_index
                    in if \<not> address_free a d1 then (Inl IntegrityError, tick_id d1)
                       else (Inr i,
                         audit e (Some (mer_id m)) ''invoice.created'' ''invoice'' i
                           [(''amount_atomic'', JInt (xmr_to_atomic amount_xmr)),
                            (''expires_in'', JInt expires_in_sec),
                            (''address_index'', JInt address_index)]
                           (add_address a (tick_id d1)))))"

section \<open>Lookup, listing, cancellation\<close>

definition get_invoice :: "uuid \<Rightarrow> uuid \<Rightarrow> invoice op" where
  "get_invoice merchant_id invoice_id d =
     (case find_invoice invoice_id d of
        None \<Rightarrow> (Inl InvoiceNotFoundError, d)
      | Some r \<Rightarrow> if inv_merchant r \<noteq> merchant_id then (Inl InvoiceNotFoundError, d) else (Inr r, d))"

definition clamp_page :: "int \<Rightarrow> int \<Rightarrow> nat \<times> nat" where
  "clamp_page limit offset = (nat (max 1 (min limit 100)), nat (max 0 offset))"

definition list_invoices ::
    "uuid \<Rightarrow> invoice_status option \<Rightarrow> int \<Rightarrow> int \<Rightarrow> db \<Rightarrow> invoice list \<times> nat" where
  "list_invoices merchant_id status limit offset d =
     (let rows = filter (\<lambda>r. inv_merchant r = merchant_id \<and>
                    (case status of None \<Rightarrow> True | Some s \<Rightarrow> inv_status r = s)) (db_invoices d)
      in case clamp_page limit offset of (l, off) \<Rightarrow>
        (page off l (order_desc inv_created_at rows), length rows))"

definition active_payment :: "uuid \<Rightarrow> payment \<Rightarrow> bool" where
  "active_payment i p \<longleftrightarrow> pay_invoice p = i \<and> (pay_status p = PDetected \<or> pay_status p = PConfirmed)"

definition set_invoice_status :: "env \<Rightarrow> uuid \<Rightarrow> invoice_status \<Rightarrow> db \<Rightarrow> db" where
  "set_invoice_status e i s = modify_invoice i (\<lambda>r. r\<lparr>inv_status := s, inv_updated_at := env_now e\<rparr>)"

definition cancel_invoice :: "env \<Rightarrow> uuid \<Rightarrow> uuid \<Rightarrow> uuid op" where
  "cancel_invoice e merchant_id invoice_id d =
     (case get_invoice merchant_id invoice_id d of
        (Inl x, d1) \<Rightarrow> (Inl x, d1)
      | (Inr r, d1) \<Rightarrow>
          if inv_status r \<noteq> IPending then (Inl InvoiceStateError, d1)
          else if 0 < length (filter (active_payment invoice_id) (db_payments d1)) then
            (Inl InvoiceStateError, d1)
          else (Inr invoice_id,
            audit e (Some merchant_id) ''invoice.cancelled'' ''invoice'' invoice_id
              [(''previous_status'', JStr ''pending'')]
              (set_invoice_status e invoice_id ICancelled d1)))"

text \<open>\<open>update_status\<close>: the only way a service changes a status by the transition table.\<close>

definition apply_status :: "env \<Rightarrow> invoice_status \<Rightarrow> invoice \<Rightarrow> invoice" where
  "apply_status e new_status r = r\<lparr>inv_status := new_status,
     inv_paid_at := (if new_status \<in> set paid_statuses then Some (env_now e) else inv_paid_at r),
     inv_updated_at := env_now e\<rparr>"

definition update_status :: "env \<Rightarrow> uuid \<Rightarrow> invoice_status \<Rightarrow> (string \<times> json) list \<Rightarrow> unit op" where
  "update_status e i new_status details d =
     (case find_invoice i d of
        None \<Rightarrow> (Inl InvalidRequestError, d)
      | Some r \<Rightarrow>
          if inv_status r = new_status then (Inr (), d)
          else if \<not> can_transition (inv_status r) new_status then (Inl InvoiceStateError, d)
          else (Inr (),
            audit e (Some (inv_merchant r)) ''invoice.status_changed'' ''invoice'' i
              (dict_update [(''from'', JStr (invoice_status_value (inv_status r))),
                            (''to'', JStr (invoice_status_value new_status))] details)
              (modify_invoice i (apply_status e new_status) d)))"

section \<open>Transactions\<close>

text \<open>
  The session of a request (\<open>get_db\<close>): committed when the handler returns, rolled back when it
  raises. A rollback restores the tables; identifiers drawn and subaddresses asked for are gone.
\<close>

definition rollback :: "db \<Rightarrow> db \<Rightarrow> db" where
  "rollback d d' = d\<lparr>db_next_id := db_next_id d', db_rpc_calls := db_rpc_calls d'\<rparr>"

definition in_transaction :: "'a op \<Rightarrow> 'a op" where
  "in_transaction f d = (case f d of (Inl x, d') \<Rightarrow> (Inl x, rollback d d') | (Inr y, d') \<Rightarrow> (Inr y, d'))"

text \<open>\<open>POST /v1/invoices\<close> and \<open>POST /v1/invoices/{id}/cancel\<close>, after authentication.\<close>

fun invoice_http_error :: "exc \<Rightarrow> exc" where
  "invoice_http_error InvoiceValidationError = HTTPException 400"
| "invoice_http_error InvoiceStateError = HTTPException 400"
| "invoice_http_error InvoiceNotFoundError = HTTPException 404"
| "invoice_http_error (WalletUnavailableError m) = HTTPException 503"
| "invoice_http_error x = x"

definition map_error :: "(exc \<Rightarrow> exc) \<Rightarrow> 'a op \<Rightarrow> 'a op" where
  "map_error g f d = (case f d of (Inl x, d') \<Rightarrow> (Inl (g x), d') | (Inr y, d') \<Rightarrow> (Inr y, d'))"

definition route_create_invoice ::
    "env \<Rightarrow> merchant \<Rightarrow> pydec option \<Rightarrow> string option \<Rightarrow> int option \<Rightarrow> json option \<Rightarrow> rat option \<Rightarrow> uuid op" where
  "route_create_invoice e m amount_xmr description expires_in metadata fiat_rate =
     in_transaction (map_error invoice_http_error
       (create_invoice e m amount_xmr description expires_in metadata fiat_rate ''USD''))"

definition route_cancel_invoice :: "env \<Rightarrow> merchant \<Rightarrow> uuid \<Rightarrow> uuid op" where
  "route_cancel_invoice e m i =
     in_transaction (map_error invoice_http_error (cancel_invoice e (mer_id m) i))"

section \<open>Facts\<close>

text \<open>Creation either leaves no invoice behind or appends exactly one pending invoice.\<close>

lemma del_row_snoc:
  "key r = i \<Longrightarrow> i \<notin> key ` set rs \<Longrightarrow> del_row key i (rs @ [r]) = rs"
  by (auto simp: del_row_def image_iff filter_id_conv)

lemma create_invoice_cases:
  obtains (failed) x where "create_invoice e m raw desc ex meta fr fc d = (Inl x, d)"
    | (insert_failed) "create_invoice e m raw desc ex meta fr fc d = (Inl DataError, tick_id d)"
    | (no_wallet) x r where "create_invoice e m raw desc ex meta fr fc d =
        (Inl (wallet_unavailable x), delete_invoice (db_next_id d) (tick_rpc (add_invoice (stored_invoice r) (tick_id d))))"
        and "inv_id r = db_next_id d"
    | (clash) r where "create_invoice e m raw desc ex meta fr fc d =
        (Inl IntegrityError, tick_id (tick_rpc (add_invoice (stored_invoice r) (tick_id d))))"
        and "inv_id r = db_next_id d" and "inv_status r = IPending" and "0 < inv_amount_atomic r"
    | (created) a s idx r details where "raw = Some (Fin a)" and "0 < a" and "0 < xmr_to_atomic a"
        and "validate_expires_in ex = Inr s"
        and "r = new_invoice e (db_next_id d) m a desc s meta fr fc"
        and "invoice_fits r"
        and "create_invoice e m raw desc ex meta fr fc d = (Inr (db_next_id d),
          audit e (Some (mer_id m)) ''invoice.created'' ''invoice'' (db_next_id d) details
           (add_address (new_address e (Suc (db_next_id d)) (db_next_id d) (fst idx) (snd idx))
             (tick_id (tick_rpc (add_invoice (stored_invoice r) (tick_id d))))))"
        and "address_free (new_address e (Suc (db_next_id d)) (db_next_id d) (fst idx) (snd idx)) d"
        and "create_address (env_wallet e (db_rpc_calls d)) = Inr idx"
proof (cases "parse_amount_xmr raw")
  case (Inl x)
  then show ?thesis using failed by (simp add: create_invoice_def)
next
  case (Inr a)
  then have a: "raw = Some (Fin a)" "0 < a" by (simp_all add: parse_amount_xmr_Inr)
  show ?thesis
  proof (cases "validate_expires_in ex")
    case (Inl x)
    with Inr show ?thesis using failed by (simp add: create_invoice_def)
  next
    case s: (Inr s)
    define r where "r = new_invoice e (db_next_id d) m a desc s meta fr fc"
    have r: "inv_id r = db_next_id d" "inv_status r = IPending" "inv_amount_atomic r = xmr_to_atomic a"
      by (simp_all add: r_def new_invoice_def)
    have nx: "db_next_id (tick_rpc (add_invoice (stored_invoice r) (tick_id d))) = Suc (db_next_id d)"
      by (simp add: tick_rpc_def add_invoice_def tick_id_def)
    have fr: "address_free x (tick_rpc (add_invoice (stored_invoice r) (tick_id d))) = address_free x d" for x
      by (simp add: address_free_def tick_rpc_def add_invoice_def tick_id_def)
    show ?thesis
    proof (cases "0 < xmr_to_atomic a \<and> invoice_fits r")
      case False
      then show ?thesis using Inr s failed insert_failed
        by (cases "0 < xmr_to_atomic a") (auto simp: create_invoice_def Let_def r_def not_less)
    next
      case ok: True
      then have eq: "create_invoice e m raw desc ex meta fr fc d =
        (case create_address (env_wallet e (db_rpc_calls d)) of
           Inl x \<Rightarrow> (Inl (wallet_unavailable x),
             delete_invoice (db_next_id d) (tick_rpc (add_invoice (stored_invoice r) (tick_id d))))
         | Inr (sa, ai) \<Rightarrow>
             if \<not> address_free (new_address e (Suc (db_next_id d)) (db_next_id d) sa ai) d
             then (Inl IntegrityError, tick_id (tick_rpc (add_invoice (stored_invoice r) (tick_id d))))
             else (Inr (db_next_id d), audit e (Some (mer_id m)) ''invoice.created'' ''invoice'' (db_next_id d)
                 [(''amount_atomic'', JInt (xmr_to_atomic a)), (''expires_in'', JInt s), (''address_index'', JInt ai)]
                 (add_address (new_address e (Suc (db_next_id d)) (db_next_id d) sa ai)
                   (tick_id (tick_rpc (add_invoice (stored_invoice r) (tick_id d)))))))"
        by (auto simp: create_invoice_def Inr s Let_def r_def[symmetric] nx fr split: sum.split)
      show ?thesis
      proof (cases "create_address (env_wallet e (db_rpc_calls d))")
        case (Inl x)
        then show ?thesis using no_wallet r eq by simp
      next
        case adr: (Inr idx)
        obtain sa ai where idx: "idx = (sa, ai)" by (cases idx)
        show ?thesis
        proof (cases "address_free (new_address e (Suc (db_next_id d)) (db_next_id d) sa ai) d")
          case False
          then show ?thesis using clash[of r] r ok eq adr idx by simp
        next
          case True
          show ?thesis
            by (rule created[OF a _ s r_def])
               (use ok eq adr idx True in \<open>simp_all\<close>)
        qed
      qed
    qed
  qed
qed

end
