(* ===== verification/Subscription_Core.thy ===== *)
theory Subscription_Core
  imports Invoice_Service
begin

text \<open>
  \<open>services/subscription_exceptions.py\<close> (the status machine of subscriptions) and
  \<open>services/subscription_update.py\<close> (pending changes), with the constraints the
  \<open>subscriptions\<close> table puts on every row.
\<close>

section \<open>The status machine\<close>

fun sub_transitions :: "subscription_status \<Rightarrow> subscription_status list" where
  "sub_transitions SActive = [SPaused, SPastDue, SCancelled]"
| "sub_transitions SPaused = [SActive, SCancelled]"
| "sub_transitions SPastDue = [SActive, SExpired, SCancelled]"
| "sub_transitions STrialing = [SActive, SCancelled]"
| "sub_transitions SCancelled = []"
| "sub_transitions SExpired = []"

definition sub_terminal :: "subscription_status set" where
  "sub_terminal = {SCancelled, SExpired}"

interpretation sub_machine: transition_table sub_transitions sub_terminal
proof
  show "sub_transitions s = [] \<longleftrightarrow> s \<in> sub_terminal" for s
    by (cases s) (simp_all add: sub_terminal_def)
  show "s \<notin> set (sub_transitions s)" for s
    by (cases s) simp_all
qed

definition touch_sub :: "env \<Rightarrow> uuid \<Rightarrow> (subscription \<Rightarrow> subscription) \<Rightarrow> db \<Rightarrow> db" where
  "touch_sub e i f = modify_sub i (\<lambda>s. (f s)\<lparr>sub_updated_at := env_now e\<rparr>)"

definition transition_subscription_status :: "env \<Rightarrow> uuid \<Rightarrow> subscription_status \<Rightarrow> unit op" where
  "transition_subscription_status e i new_status d =
     (case find_sub i d of
        None \<Rightarrow> (Inl InvalidRequestError, d)
      | Some s \<Rightarrow>
          if sub_status s = new_status then (Inr (), d)
          else if new_status \<notin> set (sub_transitions (sub_status s)) then (Inl SubscriptionStateError, d)
          else (Inr (), touch_sub e i (\<lambda>s. s\<lparr>sub_status := new_status\<rparr>) d))"

lemma touch_sub_fields [simp]:
  "db_merchants (touch_sub e i f d) = db_merchants d"
  "db_invoices (touch_sub e i f d) = db_invoices d"
  "db_addresses (touch_sub e i f d) = db_addresses d"
  "db_payments (touch_sub e i f d) = db_payments d"
  "db_customers (touch_sub e i f d) = db_customers d"
  "db_sub_payments (touch_sub e i f d) = db_sub_payments d"
  "db_events (touch_sub e i f d) = db_events d"
  "db_api_keys (touch_sub e i f d) = db_api_keys d"
  "db_deliveries (touch_sub e i f d) = db_deliveries d"
  "db_dead_letters (touch_sub e i f d) = db_dead_letters d"
  "db_licenses (touch_sub e i f d) = db_licenses d"
  "db_audit (touch_sub e i f d) = db_audit d"
  "db_next_id (touch_sub e i f d) = db_next_id d"
  "db_rpc_calls (touch_sub e i f d) = db_rpc_calls d"
  by (simp_all add: touch_sub_def)

lemma find_sub_touch:
  assumes "\<And>s. sub_id (f s) = sub_id s"
  shows "find_sub j (touch_sub e i f d) =
    (if i = j then map_option (\<lambda>s. (f s)\<lparr>sub_updated_at := env_now e\<rparr>) (find_sub j d) else find_sub j d)"
  unfolding touch_sub_def by (rule subs.look_modify) (simp add: assms)

lemma transition_subscription_status_guarded:
  assumes "transition_subscription_status e i t d = (r, d')" and "find_sub i d = Some s"
  shows "\<exists>s'. find_sub i d' = Some s' \<and> guarded sub_transitions (sub_status s) (sub_status s') \<and>
    (r = Inr () \<longrightarrow> sub_status s' = t) \<and> (r \<noteq> Inr () \<longrightarrow> d' = d)"
  using assms
  by (auto simp: transition_subscription_status_def find_sub_touch guarded_def split: if_splits)

section \<open>Constraints of the table\<close>

definition sub_row_ok :: "subscription \<Rightarrow> bool" where
  "sub_row_ok s \<longleftrightarrow>
     0 < sub_amount_atomic s \<and> 0 < sub_interval_days s \<and> 0 \<le> sub_grace_soft s \<and>
     0 \<le> sub_grace_hard s \<and> sub_grace_soft s \<le> sub_grace_hard s \<and>
     (\<forall>t \<in> set_option (sub_trial_days s). 0 < t)"

definition sub_row_fits :: "subscription \<Rightarrow> bool" where
  "sub_row_fits s \<longleftrightarrow>
     bigint_fits (sub_amount_atomic s) \<and> numeric_fits 18 12 (sub_amount_xmr s) \<and>
     integer_fits (sub_interval_days s) \<and> integer_fits (sub_grace_soft s) \<and>
     integer_fits (sub_grace_hard s) \<and>
     (\<forall>x \<in> set_option (sub_pending_amount_atomic s). bigint_fits x) \<and>
     (\<forall>x \<in> set_option (sub_pending_amount_xmr s). numeric_fits 18 12 x) \<and>
     (\<forall>x \<in> set_option (sub_pending_interval_days s) \<union> set_option (sub_pending_grace_soft s) \<union>
        set_option (sub_pending_grace_hard s). integer_fits x)"

text \<open>\<open>flush()\<close> of a subscription row: a check constraint or a column size may refuse it.\<close>

definition flush_error :: "subscription \<Rightarrow> exc option" where
  "flush_error s = (if \<not> sub_row_fits s then Some DataError
     else if \<not> sub_row_ok s then Some IntegrityError else None)"

definition flush_sub :: "uuid \<Rightarrow> unit op" where
  "flush_sub i d = (case find_sub i d of
      None \<Rightarrow> (Inr (), d)
    | Some s \<Rightarrow> (case flush_error s of None \<Rightarrow> (Inr (), d) | Some x \<Rightarrow> (Inl x, d)))"

section \<open>Updating: changes that wait for the next renewal\<close>

text \<open>
  The arguments of a PATCH: \<open>None\<close> is \<open>_UNSET\<close>, \<open>Some None\<close> an explicit null. An amount is
  the result of \<open>Decimal(str(..))\<close>, \<open>None\<close> where that raises.
\<close>

record sub_patch =
  pt_amount_xmr :: "pydec option option option"
  pt_interval_days :: "int option option"
  pt_grace_soft :: "int option option"
  pt_grace_hard :: "int option option"
  pt_metadata :: "json option option"

type_synonym row_step = "subscription \<Rightarrow> exc option \<times> subscription"

fun amount_value :: "pydec option \<Rightarrow> exc + rat" where
  "amount_value None = Inl SubscriptionValidationError"
| "amount_value (Some NaN) = Inl InvalidOperation"
| "amount_value (Some NegInf) = Inl SubscriptionValidationError"
| "amount_value (Some PosInf) = Inl OverflowError"
| "amount_value (Some (Fin val)) = (if val \<le> 0 then Inl SubscriptionValidationError else Inr val)"

definition patch_amount :: "pydec option option option \<Rightarrow> row_step" where
  "patch_amount p s = (case p of
      None \<Rightarrow> (None, s)
    | Some None \<Rightarrow> (None, s\<lparr>sub_pending_amount_atomic := None, sub_pending_amount_xmr := None\<rparr>)
    | Some (Some raw) \<Rightarrow> (case amount_value raw of
          Inl x \<Rightarrow> (Some x, s)
        | Inr val \<Rightarrow> (None, s\<lparr>sub_pending_amount_atomic := Some (xmr_to_atomic val),
                                sub_pending_amount_xmr := Some val\<rparr>)))"

definition patch_interval :: "int option option \<Rightarrow> row_step" where
  "patch_interval p s = (case p of
      None \<Rightarrow> (None, s)
    | Some None \<Rightarrow> (None, s\<lparr>sub_pending_interval_days := None\<rparr>)
    | Some (Some n) \<Rightarrow> if n < 1 then (Some SubscriptionValidationError, s)
        else (None, s\<lparr>sub_pending_interval_days := Some n\<rparr>))"

definition patch_soft :: "int option option \<Rightarrow> row_step" where
  "patch_soft p s = (case p of
      None \<Rightarrow> (None, s)
    | Some None \<Rightarrow> (None, s\<lparr>sub_pending_grace_soft := None\<rparr>)
    | Some (Some n) \<Rightarrow> if n < 0 then (Some SubscriptionValidationError, s)
        else (None, s\<lparr>sub_pending_grace_soft := Some n\<rparr>))"

definition patch_hard :: "int option option \<Rightarrow> row_step" where
  "patch_hard p s = (case p of
      None \<Rightarrow> (None, s)
    | Some None \<Rightarrow> (None, s\<lparr>sub_pending_grace_hard := None\<rparr>)
    | Some (Some n) \<Rightarrow> if n < 0 then (Some SubscriptionValidationError, s)
        else (None, s\<lparr>sub_pending_grace_hard := Some n\<rparr>))"

definition eff_soft :: "subscription \<Rightarrow> int" where
  "eff_soft s = (case sub_pending_grace_soft s of Some n \<Rightarrow> n | None \<Rightarrow> sub_grace_soft s)"

definition eff_hard :: "subscription \<Rightarrow> int" where
  "eff_hard s = (case sub_pending_grace_hard s of Some n \<Rightarrow> n | None \<Rightarrow> sub_grace_hard s)"

definition check_grace_order :: row_step where
  "check_grace_order s = (if eff_hard s < eff_soft s then (Some SubscriptionValidationError, s) else (None, s))"

definition patch_metadata :: "json option option \<Rightarrow> row_step" where
  "patch_metadata p s = (case p of None \<Rightarrow> (None, s) | Some j \<Rightarrow> (None, s\<lparr>sub_metadata := j\<rparr>))"

fun run_steps :: "row_step list \<Rightarrow> row_step" where
  "run_steps [] s = (None, s)"
| "run_steps (f # fs) s = (case f s of (Some x, s1) \<Rightarrow> (Some x, s1) | (None, s1) \<Rightarrow> run_steps fs s1)"

definition patch_steps :: "sub_patch \<Rightarrow> row_step list" where
  "patch_steps p = [patch_amount (pt_amount_xmr p), patch_interval (pt_interval_days p),
     patch_soft (pt_grace_soft p), patch_hard (pt_grace_hard p), check_grace_order,
     patch_metadata (pt_metadata p)]"

text \<open>The state keeps the assignments made before an error, as the ORM object does.\<close>

definition update_subscription :: "env \<Rightarrow> uuid \<Rightarrow> sub_patch \<Rightarrow> unit op" where
  "update_subscription e i p d =
     (case find_sub i d of
        None \<Rightarrow> (Inl InvalidRequestError, d)
      | Some s \<Rightarrow>
          if sub_status s \<in> sub_terminal then (Inl SubscriptionStateError, d)
          else case run_steps (patch_steps p) s of
              (Some x, s') \<Rightarrow> (Inl x, touch_sub e i (\<lambda>_. s') d)
            | (None, s') \<Rightarrow> flush_sub i (touch_sub e i (\<lambda>_. s') d))"

text \<open>
  The row a subscription would have after its pending changes are applied. An accepted update
  keeps the invariant that this row satisfies the table's constraints on grace days and interval.
\<close>

definition pending_ok :: "subscription \<Rightarrow> bool" where
  "pending_ok s \<longleftrightarrow>
     (\<forall>n \<in> set_option (sub_pending_interval_days s). 1 \<le> n) \<and>
     (\<forall>n \<in> set_option (sub_pending_grace_soft s). 0 \<le> n) \<and>
     (\<forall>n \<in> set_option (sub_pending_grace_hard s). 0 \<le> n) \<and>
     eff_soft s \<le> eff_hard s \<and>
     (sub_pending_amount_atomic s = None \<longleftrightarrow> sub_pending_amount_xmr s = None) \<and>
     (\<forall>x \<in> set_option (sub_pending_amount_xmr s). 0 < x \<and> sub_pending_amount_atomic s = Some (xmr_to_atomic x))"

lemmas patch_defs = patch_amount_def patch_interval_def patch_soft_def patch_hard_def
  check_grace_order_def patch_metadata_def

lemma amount_value_Inr: "amount_value r = Inr v \<Longrightarrow> 0 < v"
  by (cases r rule: amount_value.cases) (auto split: if_splits)

text \<open>Each step keeps the sign conditions; the order of the grace periods is checked at the end.\<close>

definition signs_ok :: "subscription \<Rightarrow> bool" where
  "signs_ok s \<longleftrightarrow>
     (\<forall>n \<in> set_option (sub_pending_interval_days s). 1 \<le> n) \<and>
     (\<forall>n \<in> set_option (sub_pending_grace_soft s). 0 \<le> n) \<and>
     (\<forall>n \<in> set_option (sub_pending_grace_hard s). 0 \<le> n) \<and>
     (sub_pending_amount_atomic s = None \<longleftrightarrow> sub_pending_amount_xmr s = None) \<and>
     (\<forall>x \<in> set_option (sub_pending_amount_xmr s). 0 < x \<and> sub_pending_amount_atomic s = Some (xmr_to_atomic x))"

lemma pending_ok_signs: "pending_ok s \<longleftrightarrow> signs_ok s \<and> eff_soft s \<le> eff_hard s"
  by (auto simp: pending_ok_def signs_ok_def)

lemma patch_amount_signs: "patch_amount p s = (None, s') \<Longrightarrow> signs_ok s \<Longrightarrow> signs_ok s'"
  by (auto simp: patch_amount_def signs_ok_def dest: amount_value_Inr split: option.splits sum.splits)

lemma patch_interval_signs: "patch_interval p s = (None, s') \<Longrightarrow> signs_ok s \<Longrightarrow> signs_ok s'"
  by (cases p; cases "the p") (auto simp: patch_interval_def signs_ok_def split: if_splits)

lemma patch_soft_signs: "patch_soft p s = (None, s') \<Longrightarrow> signs_ok s \<Longrightarrow> signs_ok s'"
  by (cases p; cases "the p") (auto simp: patch_soft_def signs_ok_def split: if_splits)

lemma patch_hard_signs: "patch_hard p s = (None, s') \<Longrightarrow> signs_ok s \<Longrightarrow> signs_ok s'"
  by (cases p; cases "the p") (auto simp: patch_hard_def signs_ok_def split: if_splits)

lemma patch_metadata_signs: "patch_metadata p s = (None, s') \<Longrightarrow> signs_ok s \<Longrightarrow> signs_ok s'"
  by (cases p) (auto simp: patch_metadata_def signs_ok_def)

lemmas signs_ok_steps = patch_amount_signs patch_interval_signs patch_soft_signs patch_hard_signs
  patch_metadata_signs

lemma check_grace_order_None:
  "check_grace_order s = (None, s') \<longleftrightarrow> s' = s \<and> eff_soft s \<le> eff_hard s"
  by (auto simp: check_grace_order_def)

lemma patch_metadata_eff:
  "patch_metadata p s = (r, s') \<Longrightarrow> r = None \<and> eff_soft s' = eff_soft s \<and> eff_hard s' = eff_hard s"
  by (auto simp: patch_metadata_def eff_soft_def eff_hard_def split: option.splits)

lemma run_steps_None_Cons:
  "run_steps (f # fs) s = (None, s') \<longleftrightarrow> (\<exists>s1. f s = (None, s1) \<and> run_steps fs s1 = (None, s'))"
  by (auto split: prod.splits option.splits)

lemma patch_steps_pending_ok:
  assumes "run_steps (patch_steps p) s = (None, s')" and "signs_ok s"
  shows "pending_ok s'"
proof -
  obtain s1 s2 s3 s4 where
    1: "patch_amount (pt_amount_xmr p) s = (None, s1)" and
    2: "patch_interval (pt_interval_days p) s1 = (None, s2)" and
    3: "patch_soft (pt_grace_soft p) s2 = (None, s3)" and
    4: "patch_hard (pt_grace_hard p) s3 = (None, s4)" and
    5: "eff_soft s4 \<le> eff_hard s4" and
    6: "patch_metadata (pt_metadata p) s4 = (None, s')"
    using assms(1) unfolding patch_steps_def
    by (auto simp: run_steps_None_Cons check_grace_order_None simp del: run_steps.simps(2))
  have "signs_ok s4"
    using assms(2) by (intro patch_hard_signs[OF 4] patch_soft_signs[OF 3] patch_interval_signs[OF 2] patch_amount_signs[OF 1])
  then have "signs_ok s'" by (rule patch_metadata_signs[OF 6])
  with 5 patch_metadata_eff[OF 6] show ?thesis by (simp add: pending_ok_signs)
qed

text \<open>A patch writes pending fields and metadata only.\<close>

definition same_terms :: "subscription \<Rightarrow> subscription \<Rightarrow> bool" where
  "same_terms s s' \<longleftrightarrow>
     sub_id s' = sub_id s \<and> sub_merchant s' = sub_merchant s \<and> sub_customer s' = sub_customer s \<and>
     sub_amount_atomic s' = sub_amount_atomic s \<and> sub_amount_xmr s' = sub_amount_xmr s \<and>
     sub_interval_days s' = sub_interval_days s \<and> sub_status s' = sub_status s \<and>
     sub_grace_soft s' = sub_grace_soft s \<and> sub_grace_hard s' = sub_grace_hard s \<and>
     sub_next_due_at s' = sub_next_due_at s \<and> sub_billing_anchor_at s' = sub_billing_anchor_at s \<and>
     sub_prepaid_until s' = sub_prepaid_until s \<and> sub_prepay_invoice s' = sub_prepay_invoice s"

lemma same_terms_refl [simp]: "same_terms s s"
  by (simp add: same_terms_def)

lemma same_terms_trans: "same_terms a b \<Longrightarrow> same_terms b c \<Longrightarrow> same_terms a c"
  by (simp add: same_terms_def)

lemma step_same_terms: "f \<in> set (patch_steps p) \<Longrightarrow> f s = (r, s') \<Longrightarrow> same_terms s s'"
  by (auto simp: patch_steps_def patch_defs same_terms_def split: option.splits sum.splits if_splits)

lemma run_steps_same_terms:
  "set fs \<subseteq> set (patch_steps p) \<Longrightarrow> run_steps fs s = (r, s') \<Longrightarrow> same_terms s s'"
proof (induction fs arbitrary: s)
  case Nil
  then show ?case by simp
next
  case (Cons f fs)
  obtain x s1 where f: "f s = (x, s1)" by (cases "f s")
  then have 1: "same_terms s s1" using Cons.prems(1) step_same_terms[of f p s x s1] by simp
  show ?case
  proof (cases x)
    case None
    with f Cons have "same_terms s1 s'" by simp
    with 1 show ?thesis by (rule same_terms_trans)
  next
    case (Some y)
    with f Cons.prems 1 show ?thesis by simp
  qed
qed

end
