(* ===== verification/Subscription_Renewal.thy ===== *)
theory Subscription_Renewal
  imports Subscription_Core
begin

text \<open>
  \<open>services/subscription_renewal.py\<close>: the renewal event log, the billing anchor, pending changes
  and the invoice of one period.

  The code divides seconds as floats before rounding up. For instants in microseconds and
  elapsed times below thirty years the rounded quotient lies on the same side of every integer
  as the exact one, so the model divides exactly.
\<close>

section \<open>Event log\<close>

definition log_renewal_event ::
    "env \<Rightarrow> uuid \<Rightarrow> string \<Rightarrow> uuid option \<Rightarrow> string option \<Rightarrow> (string \<times> json) list \<Rightarrow> db \<Rightarrow> db" where
  "log_renewal_event e sid result invoice_id error_message details d =
     add_event \<lparr>ev_id = db_next_id d, ev_subscription = sid, ev_result = result,
       ev_invoice = invoice_id, ev_error = error_message, ev_details = JObj details,
       ev_created_at = env_now e\<rparr> (tick_id d)"

lemma log_renewal_event_fields [simp]:
  "db_merchants (log_renewal_event e i r v m x d) = db_merchants d"
  "db_invoices (log_renewal_event e i r v m x d) = db_invoices d"
  "db_addresses (log_renewal_event e i r v m x d) = db_addresses d"
  "db_payments (log_renewal_event e i r v m x d) = db_payments d"
  "db_customers (log_renewal_event e i r v m x d) = db_customers d"
  "db_subs (log_renewal_event e i r v m x d) = db_subs d"
  "db_sub_payments (log_renewal_event e i r v m x d) = db_sub_payments d"
  "db_api_keys (log_renewal_event e i r v m x d) = db_api_keys d"
  "db_deliveries (log_renewal_event e i r v m x d) = db_deliveries d"
  "db_dead_letters (log_renewal_event e i r v m x d) = db_dead_letters d"
  "db_licenses (log_renewal_event e i r v m x d) = db_licenses d"
  "db_audit (log_renewal_event e i r v m x d) = db_audit d"
  "db_rpc_calls (log_renewal_event e i r v m x d) = db_rpc_calls d"
  by (simp_all add: log_renewal_event_def)

lemma log_renewal_event_next [simp]:
  "db_next_id (log_renewal_event e i r v m x d) = Suc (db_next_id d)"
  by (simp add: log_renewal_event_def)

section \<open>Billing anchor\<close>

definition ceil_div :: "int \<Rightarrow> int \<Rightarrow> int" where
  "ceil_div a b = - ((- a) div b)"

definition calculate_next_due :: "time \<Rightarrow> int \<Rightarrow> time \<Rightarrow> time" where
  "calculate_next_due anchor interval_days now =
     (let interval = days interval_days
      in if interval = 0 then now
         else let elapsed = now - anchor; periods = max 1 (ceil_div elapsed interval)
              in anchor + periods * interval)"

definition calculate_skipped_periods :: "time \<Rightarrow> time \<Rightarrow> int \<Rightarrow> int" where
  "calculate_skipped_periods period_start next_due interval_days =
     (let interval = days interval_days
      in if interval \<le> 0 then 0
         else max 0 ((next_due - period_start) div interval - 1))"

lemma ceil_div_bounds:
  assumes "0 < b"
  shows "a \<le> ceil_div a b * b" and "ceil_div a b * b < a + b"
proof -
  have 1: "- a = b * ((- a) div b) + (- a) mod b" by simp
  have 2: "0 \<le> (- a) mod b" "(- a) mod b < b" using assms by simp_all
  have 3: "ceil_div a b * b = - (b * ((- a) div b))" by (simp add: ceil_div_def mult.commute)
  show "a \<le> ceil_div a b * b" using 1 2 3 by linarith
  show "ceil_div a b * b < a + b" using 1 2 3 by linarith
qed

lemma calculate_next_due_grid:
  assumes "0 < n"
  obtains k where "1 \<le> k" and "calculate_next_due anchor n now = anchor + k * days n"
    and "now \<le> calculate_next_due anchor n now"
    and "k = 1 \<or> calculate_next_due anchor n now < now + days n"
proof -
  let ?i = "days n"
  let ?k = "max 1 (ceil_div (now - anchor) ?i)"
  have i: "0 < ?i" using assms by simp
  then have "?i \<noteq> 0" by linarith
  then have eq: "calculate_next_due anchor n now = anchor + ?k * ?i"
    by (simp add: calculate_next_due_def Let_def)
  have "ceil_div (now - anchor) ?i * ?i \<le> ?k * ?i"
    using i by (simp add: mult_right_mono)
  with ceil_div_bounds(1)[OF i, of "now - anchor"] have le: "now \<le> anchor + ?k * ?i" by linarith
  have lt: "?k = 1 \<or> anchor + ?k * ?i < now + ?i"
    using ceil_div_bounds(2)[OF i, of "now - anchor"] by (cases "1 \<le> ceil_div (now - anchor) ?i") auto
  show ?thesis by (rule that[of ?k]) (use eq le lt in auto)
qed

section \<open>Pending changes\<close>

text \<open>
  \<open>apply_pending_changes\<close>: the new row and the dictionary of changes (the code returns \<open>None\<close>
  for an empty one). The two pending amount columns are only ever written together.
\<close>

definition apply_amount :: "subscription \<Rightarrow> subscription \<times> (string \<times> json) list" where
  "apply_amount s = (case sub_pending_amount_atomic s of
      None \<Rightarrow> (s, [])
    | Some a \<Rightarrow>
        (s\<lparr>sub_amount_atomic := a,
           sub_amount_xmr := (case sub_pending_amount_xmr s of Some x \<Rightarrow> x | None \<Rightarrow> sub_amount_xmr s),
           sub_pending_amount_atomic := None, sub_pending_amount_xmr := None\<rparr>,
         [(''old_amount_atomic'', JInt (sub_amount_atomic s)), (''new_amount_atomic'', JInt a)]))"

definition apply_interval :: "subscription \<Rightarrow> subscription \<times> (string \<times> json) list" where
  "apply_interval s = (case sub_pending_interval_days s of
      None \<Rightarrow> (s, [])
    | Some n \<Rightarrow> (s\<lparr>sub_interval_days := n, sub_pending_interval_days := None\<rparr>,
        [(''old_interval_days'', JInt (sub_interval_days s)), (''new_interval_days'', JInt n)]))"

definition apply_soft :: "subscription \<Rightarrow> subscription \<times> (string \<times> json) list" where
  "apply_soft s = (case sub_pending_grace_soft s of
      None \<Rightarrow> (s, [])
    | Some n \<Rightarrow> (s\<lparr>sub_grace_soft := n, sub_pending_grace_soft := None\<rparr>,
        [(''old_grace_soft'', JInt (sub_grace_soft s)), (''new_grace_soft'', JInt n)]))"

definition apply_hard :: "subscription \<Rightarrow> subscription \<times> (string \<times> json) list" where
  "apply_hard s = (case sub_pending_grace_hard s of
      None \<Rightarrow> (s, [])
    | Some n \<Rightarrow> (s\<lparr>sub_grace_hard := n, sub_pending_grace_hard := None\<rparr>,
        [(''old_grace_hard'', JInt (sub_grace_hard s)), (''new_grace_hard'', JInt n)]))"

definition apply_pending_changes :: "subscription \<Rightarrow> subscription \<times> (string \<times> json) list" where
  "apply_pending_changes s =
     (let (s1, c1) = apply_amount s; (s2, c2) = apply_interval s1;
          (s3, c3) = apply_soft s2; (s4, c4) = apply_hard s3
      in (s4, c1 @ c2 @ c3 @ c4))"

definition has_pending :: "subscription \<Rightarrow> bool" where
  "has_pending s \<longleftrightarrow> sub_pending_amount_atomic s \<noteq> None \<or> sub_pending_interval_days s \<noteq> None \<or>
     sub_pending_grace_soft s \<noteq> None \<or> sub_pending_grace_hard s \<noteq> None"

lemmas apply_defs = apply_amount_def apply_interval_def apply_soft_def apply_hard_def

lemma apply_pending_fields:
  "sub_id (fst (apply_pending_changes s)) = sub_id s"
  "sub_merchant (fst (apply_pending_changes s)) = sub_merchant s"
  "sub_status (fst (apply_pending_changes s)) = sub_status s"
  "sub_next_due_at (fst (apply_pending_changes s)) = sub_next_due_at s"
  "sub_billing_anchor_at (fst (apply_pending_changes s)) = sub_billing_anchor_at s"
  "sub_prepaid_until (fst (apply_pending_changes s)) = sub_prepaid_until s"
  "sub_prepay_invoice (fst (apply_pending_changes s)) = sub_prepay_invoice s"
  "sub_grace_soft (fst (apply_pending_changes s)) = eff_soft s"
  "sub_grace_hard (fst (apply_pending_changes s)) = eff_hard s"
  "sub_interval_days (fst (apply_pending_changes s)) =
     (case sub_pending_interval_days s of Some n \<Rightarrow> n | None \<Rightarrow> sub_interval_days s)"
  "sub_amount_atomic (fst (apply_pending_changes s)) =
     (case sub_pending_amount_atomic s of Some n \<Rightarrow> n | None \<Rightarrow> sub_amount_atomic s)"
  "sub_amount_xmr (fst (apply_pending_changes s)) =
     (case (sub_pending_amount_atomic s, sub_pending_amount_xmr s) of
        (Some _, Some x) \<Rightarrow> x | _ \<Rightarrow> sub_amount_xmr s)"
  by (simp_all add: apply_pending_changes_def apply_defs eff_soft_def eff_hard_def split: option.split)

lemma apply_pending_clears: "\<not> has_pending (fst (apply_pending_changes s))"
  by (simp add: apply_pending_changes_def apply_defs has_pending_def split: option.split)

lemma apply_pending_none: "\<not> has_pending s \<Longrightarrow> apply_pending_changes s = (s, [])"
  by (simp add: apply_pending_changes_def apply_defs has_pending_def)

lemma apply_pending_changes_empty: "snd (apply_pending_changes s) = [] \<longleftrightarrow> \<not> has_pending s"
  by (simp add: apply_pending_changes_def apply_defs has_pending_def split: option.split)

section \<open>The invoice of one period\<close>

definition unpaid_status :: "invoice_status \<Rightarrow> bool" where
  "unpaid_status s \<longleftrightarrow> s = IPending \<or> s = IPartially"

text \<open>A \<open>JOIN\<close> of subscription payments with their invoices, filtered by the invoice.\<close>

definition sps_with :: "uuid \<Rightarrow> (subscription_payment \<Rightarrow> invoice \<Rightarrow> bool) \<Rightarrow> db \<Rightarrow> subscription_payment list" where
  "sps_with sid P d = filter (\<lambda>sp. sp_subscription sp = sid \<and>
     (case find_invoice (sp_invoice sp) d of None \<Rightarrow> False | Some i \<Rightarrow> P sp i)) (db_sub_payments d)"

definition unpaid_sps :: "uuid \<Rightarrow> db \<Rightarrow> subscription_payment list" where
  "unpaid_sps sid d = sps_with sid (\<lambda>sp i. unpaid_status (inv_status i)) d"

definition period_sps :: "uuid \<Rightarrow> time \<Rightarrow> db \<Rightarrow> subscription_payment list" where
  "period_sps sid start d =
     filter (\<lambda>sp. sp_subscription sp = sid \<and> sp_period_start sp = start) (db_sub_payments d)"

definition new_sp :: "env \<Rightarrow> uuid \<Rightarrow> uuid \<Rightarrow> uuid \<Rightarrow> time \<Rightarrow> time \<Rightarrow> subscription_payment" where
  "new_sp e i sid iid start stop = \<lparr>sp_id = i, sp_subscription = sid, sp_invoice = iid,
     sp_period_start = start, sp_period_end = stop, sp_created_at = env_now e\<rparr>"

text \<open>Steps 3 of the code: apply pending changes, log them, and flush.\<close>

definition renewal_pending :: "env \<Rightarrow> uuid \<Rightarrow> subscription \<Rightarrow> unit op" where
  "renewal_pending e sid s d =
     (case apply_pending_changes s of (s', changes) \<Rightarrow>
        if changes = [] then (Inr (), d)
        else (case flush_error s' of
                Some x \<Rightarrow> (Inl x, touch_sub e sid (\<lambda>_. s') d)
              | None \<Rightarrow> (Inr (), log_renewal_event e sid ''pending_applied'' None None changes
                          (touch_sub e sid (\<lambda>_. s') d))))"

definition renewal_expires_in :: "subscription \<Rightarrow> int" where
  "renewal_expires_in s = max ((sub_grace_soft s + sub_grace_hard s) * 86400) 600"

definition period_metadata :: "uuid \<Rightarrow> time \<Rightarrow> time \<Rightarrow> (string \<times> json) list" where
  "period_metadata sid start stop =
     [(''subscription_id'', juuid sid), (''period_start'', jtime start), (''period_end'', jtime stop)]"

text \<open>Steps 5 to 8: link the invoice, advance the due date, audit, log.\<close>

definition renewal_commit ::
    "env \<Rightarrow> uuid \<Rightarrow> subscription \<Rightarrow> bool \<Rightarrow> time \<Rightarrow> time \<Rightarrow> uuid \<Rightarrow> db \<Rightarrow> uuid \<times> db" where
  "renewal_commit e sid s pending_applied start stop iid d =
     (let spid = db_next_id d;
          d1 = add_sub_payment (new_sp e spid sid iid start stop) (tick_id d);
          next_due = calculate_next_due (sub_billing_anchor_at s) (sub_interval_days s) (env_now e);
          skipped = calculate_skipped_periods start next_due (sub_interval_days s);
          d2 = touch_sub e sid (\<lambda>r. r\<lparr>sub_next_due_at := Some next_due\<rparr>) d1;
          d3 = audit e (Some (sub_merchant s)) ''subscription.renewed'' ''subscription'' sid
                 [(''invoice_id'', juuid iid), (''period_start'', jtime start),
                  (''period_end'', jtime stop), (''pending_applied'', JBool pending_applied),
                  (''skipped_periods'', JInt skipped)] d2
      in (spid, log_renewal_event e sid ''success'' (Some iid) None
                 [(''period_start'', jtime start), (''period_end'', jtime stop),
                  (''amount_atomic'', JInt (sub_amount_atomic s)),
                  (''skipped_periods'', JInt skipped)] d3))"

definition create_renewal_invoice_for :: "env \<Rightarrow> uuid \<Rightarrow> merchant \<Rightarrow> (uuid \<times> uuid) op" where
  "create_renewal_invoice_for e sid m d =
     (case find_sub sid d of
        None \<Rightarrow> (Inl InvalidRequestError, d)
      | Some s \<Rightarrow>
     (case sub_next_due_at s of
        None \<Rightarrow> (Inl TypeError, d)
      | Some period_start \<Rightarrow>
     (case scalar_one_or_none (period_sps sid period_start d) of
        Inl x \<Rightarrow> (Inl x, d)
      | Inr (Some sp) \<Rightarrow>
          (Inl (SkipRenewalError (''Already renewed for period '' @ datetime_str period_start)
                  ''skipped_idempotent''), d)
      | Inr None \<Rightarrow>
      if 0 < length (unpaid_sps sid d) then
        (Inl (SkipRenewalError ''Unpaid invoice exists, skipping renewal'' ''skipped_unpaid''), d)
      else
     (case renewal_pending e sid s d of
        (Inl x, d1) \<Rightarrow> (Inl x, d1)
      | (Inr _, d1) \<Rightarrow>
          let s' = fst (apply_pending_changes s);
              period_end = period_start + days (sub_interval_days s')
          in (case create_invoice e m (Some (Fin (sub_amount_xmr s')))
                     (Some (''Subscription '' @ uuid_str sid)) (Some (renewal_expires_in s'))
                     (Some (JObj (period_metadata sid period_start period_end))) None ''USD'' d1 of
                (Inl x, d2) \<Rightarrow> (Inl x, d2)
              | (Inr iid, d2) \<Rightarrow>
                  (case renewal_commit e sid s' (has_pending s) period_start period_end iid d2 of
                     (spid, d3) \<Rightarrow> (Inr (iid, spid), d3)))))))"

text \<open>The public wrapper loads the merchant and returns \<open>None\<close> when there is none.\<close>

definition create_renewal_invoice :: "env \<Rightarrow> uuid \<Rightarrow> (uuid \<times> uuid) option op" where
  "create_renewal_invoice e sid d =
     (case find_sub sid d of
        None \<Rightarrow> (Inl InvalidRequestError, d)
      | Some s \<Rightarrow>
          (case find_merchant (sub_merchant s) d of
             None \<Rightarrow> (Inr None, d)
           | Some m \<Rightarrow>
               (case create_renewal_invoice_for e sid m d of
                  (Inl x, d1) \<Rightarrow> (Inl x, d1)
                | (Inr r, d1) \<Rightarrow> (Inr (Some r), d1))))"

end
