(* ===== verification/Subscription_Prepay.thy ===== *)
theory Subscription_Prepay
  imports Subscription_Renewal
begin

text \<open>
  \<open>services/subscription_prepay.py\<close>: an invoice for several periods at a discount, its
  fulfilment when paid, and the clean-up when it lapses.
\<close>

section \<open>Plans\<close>

text \<open>\<open>plan.get("periods") == periods\<close>: Python compares numbers across types, and \<open>True\<close> is 1.\<close>

fun json_eq_int :: "json \<Rightarrow> int \<Rightarrow> bool" where
  "json_eq_int (JInt m) n = (m = n)"
| "json_eq_int (JFloat x) n = (x = of_int n)"
| "json_eq_int (JBool b) n = ((if b then 1 else 0) = n)"
| "json_eq_int _ n = False"

definition plan_matches :: "int \<Rightarrow> json \<Rightarrow> bool" where
  "plan_matches periods plan = (case jget ''periods'' plan of None \<Rightarrow> False | Some j \<Rightarrow> json_eq_int j periods)"

definition find_plan :: "merchant \<Rightarrow> int \<Rightarrow> json option" where
  "find_plan m periods = (case mer_prepay_plans m of
      Some (JList plans) \<Rightarrow> find (plan_matches periods) plans
    | _ \<Rightarrow> None)"

text \<open>
  \<open>discount_pct\<close>: missing is 0; anything but a number from 0 to 99 is refused; a float is cut
  by \<open>int(..)\<close> after the check.
\<close>

definition plan_discount :: "json \<Rightarrow> exc + int" where
  "plan_discount plan = (case jget ''discount_pct'' plan of
      None \<Rightarrow> Inr 0
    | Some (JInt n) \<Rightarrow> if n < 0 \<or> 99 < n then Inl SubscriptionValidationError else Inr n
    | Some (JBool b) \<Rightarrow> Inr (if b then 1 else 0)
    | Some (JFloat x) \<Rightarrow> if x < 0 \<or> 99 < x then Inl SubscriptionValidationError else Inr (py_trunc x)
    | Some _ \<Rightarrow> Inl SubscriptionValidationError)"

lemma plan_discount_range: "plan_discount plan = Inr n \<Longrightarrow> 0 \<le> n \<and> n \<le> 99"
proof -
  have tr: "0 \<le> py_trunc x \<and> py_trunc x \<le> 99" if "0 \<le> x" and "x \<le> 99" for x :: rat
    using that py_trunc_nonneg[of x] py_trunc_mono[of x "of_int 99"] by (simp only: py_trunc_of_int)
  assume "plan_discount plan = Inr n"
  then show ?thesis
    using tr by (auto simp: plan_discount_def not_less split: option.splits json.splits if_splits)
qed

section \<open>Amount\<close>

definition calculate_prepay_amount :: "rat \<Rightarrow> int \<Rightarrow> int \<Rightarrow> rat \<times> int" where
  "calculate_prepay_amount per_period_xmr periods discount_pct =
     (let total_xmr = per_period_xmr * of_int periods;
          total_xmr = (if 0 < discount_pct
            then quantize_down12 (total_xmr * (of_int (100 - discount_pct) / 100)) else total_xmr)
      in (total_xmr, xmr_to_atomic total_xmr))"

section \<open>Creating a prepay invoice\<close>

definition prepay_expires_in :: "int \<Rightarrow> int \<Rightarrow> int" where
  "prepay_expires_in periods interval_days = min (max (periods * interval_days * 86400) 86400) (30 * 86400)"

definition prepay_metadata :: "subscription \<Rightarrow> int \<Rightarrow> int \<Rightarrow> json" where
  "prepay_metadata s periods discount_pct = JObj
     [(''prepay'', JBool True), (''subscription_id'', juuid (sub_id s)), (''periods'', JInt periods),
      (''discount_pct'', JInt discount_pct),
      (''per_period_amount_atomic'', JInt (sub_amount_atomic s)),
      (''per_period_amount_xmr'', JDec (sub_amount_xmr s))]"

definition create_prepay_invoice :: "env \<Rightarrow> merchant \<Rightarrow> uuid \<Rightarrow> int \<Rightarrow> uuid op" where
  "create_prepay_invoice e m sid periods d =
     (case find_sub sid d of
        None \<Rightarrow> (Inl SubscriptionNotFoundError, d)
      | Some s \<Rightarrow>
      if sub_merchant s \<noteq> mer_id m then (Inl SubscriptionNotFoundError, d)
      else if sub_status s \<noteq> SActive \<and> sub_status s \<noteq> SPastDue then (Inl SubscriptionStateError, d)
      else if sub_prepay_invoice s \<noteq> None then (Inl SubscriptionStateError, d)
      else if periods < 1 then (Inl SubscriptionValidationError, d)
      else
     (case find_plan m periods of
        None \<Rightarrow> (Inl SubscriptionValidationError, d)
      | Some plan \<Rightarrow>
     (case plan_discount plan of
        Inl x \<Rightarrow> (Inl x, d)
      | Inr discount_pct \<Rightarrow>
     (case calculate_prepay_amount (sub_amount_xmr s) periods discount_pct of
        (total_xmr, total_atomic) \<Rightarrow>
     (case create_invoice e m (Some (Fin total_xmr))
             (Some (''Prepay '' @ int_str periods @ ''x for subscription '' @ uuid_str sid))
             (Some (prepay_expires_in periods (sub_interval_days s)))
             (Some (prepay_metadata s periods discount_pct)) None ''USD'' d of
        (Inl x, d1) \<Rightarrow> (Inl x, d1)
      | (Inr iid, d1) \<Rightarrow>
     (case sub_next_due_at s of
        None \<Rightarrow> (Inl TypeError, d1)
      | Some due \<Rightarrow>
          let prepaid_end = due + days (periods * sub_interval_days s);
              d2 = touch_sub e sid (\<lambda>r. r\<lparr>sub_prepay_invoice := Some iid, sub_prepaid_until := Some prepaid_end\<rparr>) d1;
              d3 = audit e (Some (mer_id m)) ''subscription.prepay_created'' ''subscription'' sid
                     [(''invoice_id'', juuid iid), (''periods'', JInt periods),
                      (''discount_pct'', JInt discount_pct), (''total_xmr'', JDec total_xmr),
                      (''total_atomic'', JInt total_atomic)] d2
          in (Inr iid, log_renewal_event e sid ''prepay_created'' (Some iid) None
                 [(''periods'', JInt periods), (''discount_pct'', JInt discount_pct)] d3)))))))"

section \<open>Fulfilment\<close>

text \<open>\<open>range(periods)\<close> of the metadata value: a bool is an int, anything else not an int raises.\<close>

definition meta_dict :: "invoice \<Rightarrow> json" where
  "meta_dict ivc = (case inv_metadata ivc of None \<Rightarrow> JObj [] | Some j \<Rightarrow> if truthy j then j else JObj [])"

definition meta_periods :: "json \<Rightarrow> exc + int" where
  "meta_periods meta = (case jget ''periods'' meta of
      None \<Rightarrow> Inr 1
    | Some (JInt n) \<Rightarrow> Inr n
    | Some (JBool b) \<Rightarrow> Inr (if b then 1 else 0)
    | Some _ \<Rightarrow> Inl TypeError)"

fun prepay_rows :: "env \<Rightarrow> uuid \<Rightarrow> uuid \<Rightarrow> time \<Rightarrow> int \<Rightarrow> nat \<Rightarrow> nat \<Rightarrow> nat \<Rightarrow> subscription_payment list" where
  "prepay_rows e sid iid start iv next i 0 = []"
| "prepay_rows e sid iid start iv next i (Suc n) =
     new_sp e (next + i) sid iid (start + days (int i * iv)) (start + days ((int i + 1) * iv)) #
     prepay_rows e sid iid start iv next (Suc i) n"

definition add_rows :: "subscription_payment list \<Rightarrow> db \<Rightarrow> db" where
  "add_rows rows d = d\<lparr>db_sub_payments := db_sub_payments d @ rows, db_next_id := db_next_id d + length rows\<rparr>"

lemma add_rows_fields [simp]:
  "db_merchants (add_rows rows d) = db_merchants d"
  "db_invoices (add_rows rows d) = db_invoices d"
  "db_addresses (add_rows rows d) = db_addresses d"
  "db_payments (add_rows rows d) = db_payments d"
  "db_customers (add_rows rows d) = db_customers d"
  "db_subs (add_rows rows d) = db_subs d"
  "db_events (add_rows rows d) = db_events d"
  "db_api_keys (add_rows rows d) = db_api_keys d"
  "db_deliveries (add_rows rows d) = db_deliveries d"
  "db_dead_letters (add_rows rows d) = db_dead_letters d"
  "db_licenses (add_rows rows d) = db_licenses d"
  "db_audit (add_rows rows d) = db_audit d"
  "db_rpc_calls (add_rows rows d) = db_rpc_calls d"
  by (simp_all add: add_rows_def)

text \<open>The unique constraint on subscription and period start, and the check on the period's order.\<close>

definition rows_refused :: "subscription_payment list \<Rightarrow> db \<Rightarrow> bool" where
  "rows_refused rows d \<longleftrightarrow>
     list_ex (\<lambda>sp. sp_period_end sp \<le> sp_period_start sp \<or>
       list_ex (\<lambda>q. sp_subscription q = sp_subscription sp \<and> sp_period_start q = sp_period_start sp)
         (db_sub_payments d)) rows \<or>
     \<not> distinct (map (\<lambda>sp. (sp_subscription sp, sp_period_start sp)) rows)"

definition clear_prepay_guard :: "env \<Rightarrow> uuid \<Rightarrow> uuid \<Rightarrow> db \<Rightarrow> db" where
  "clear_prepay_guard e sid iid d =
     (case find_sub sid d of
        None \<Rightarrow> d
      | Some s \<Rightarrow> if sub_prepay_invoice s = Some iid
          then touch_sub e sid (\<lambda>r. r\<lparr>sub_prepay_invoice := None\<rparr>) d else d)"

definition invoice_sps :: "uuid \<Rightarrow> db \<Rightarrow> subscription_payment list" where
  "invoice_sps iid d = filter (\<lambda>sp. sp_invoice sp = iid) (db_sub_payments d)"

definition prepay_fulfil :: "env \<Rightarrow> invoice \<Rightarrow> subscription \<Rightarrow> time \<Rightarrow> int \<Rightarrow> unit op" where
  "prepay_fulfil e ivc s current_start periods d =
     (let meta = meta_dict ivc;
          rows = prepay_rows e (sub_id s) (inv_id ivc) current_start (sub_interval_days s) (db_next_id d) 0 (nat periods);
          new_next_due = current_start + days (periods * sub_interval_days s);
          d1 = add_rows rows d;
          d2 = touch_sub e (sub_id s) (\<lambda>r. r\<lparr>sub_next_due_at := Some new_next_due,
                 sub_prepaid_until := Some new_next_due, sub_prepay_invoice := None,
                 sub_status := (if sub_status r = SPastDue then SActive else sub_status r)\<rparr>) d1;
          d3 = audit e (Some (sub_merchant s)) ''subscription.prepay_fulfilled'' ''subscription'' (sub_id s)
                 [(''invoice_id'', juuid (inv_id ivc)),
                  (''periods'', case jget ''periods'' meta of None \<Rightarrow> JInt 1 | Some j \<Rightarrow> j),
                  (''discount_pct'', case jget ''discount_pct'' meta of None \<Rightarrow> JInt 0 | Some j \<Rightarrow> j),
                  (''new_next_due'', jtime new_next_due)] d2;
          d4 = log_renewal_event e (sub_id s) ''prepay_fulfilled'' (Some (inv_id ivc)) None
                 [(''periods'', case jget ''periods'' meta of None \<Rightarrow> JInt 1 | Some j \<Rightarrow> j),
                  (''new_next_due'', jtime new_next_due)] d3
      in if rows_refused rows d then (Inl IntegrityError, d4) else (Inr (), d4))"

definition handle_prepay_payment :: "env \<Rightarrow> invoice \<Rightarrow> uuid \<Rightarrow> unit op" where
  "handle_prepay_payment e ivc sid d =
     (case find_sub sid d of
        None \<Rightarrow> (Inl InvalidRequestError, d)
      | Some s \<Rightarrow>
      if 0 < length (invoice_sps (inv_id ivc) d) then (Inr (), clear_prepay_guard e sid (inv_id ivc) d)
      else
     (case meta_periods (meta_dict ivc) of
        Inl x \<Rightarrow> (Inl x, d)
      | Inr periods \<Rightarrow>
     (case sub_next_due_at s of
        None \<Rightarrow> (Inl TypeError, d)
      | Some current_start \<Rightarrow> prepay_fulfil e ivc s current_start periods d)))"

definition clear_expired_prepay :: "env \<Rightarrow> uuid \<Rightarrow> db \<Rightarrow> db" where
  "clear_expired_prepay e sid = touch_sub e sid (\<lambda>r. r\<lparr>sub_prepay_invoice := None, sub_prepaid_until := None\<rparr>)"

section \<open>Facts\<close>

lemma length_prepay_rows [simp]: "length (prepay_rows e sid iid start iv next i n) = n"
  by (induction n arbitrary: i) auto

lemma prepay_rows_nth:
  "k < n \<Longrightarrow> prepay_rows e sid iid start iv next i n ! k =
     new_sp e (next + i + k) sid iid (start + days (int (i + k) * iv)) (start + days ((int (i + k) + 1) * iv))"
proof (induction n arbitrary: i k)
  case (Suc n)
  then show ?case by (cases k) (auto simp: add.assoc add.left_commute)
qed simp

lemma prepay_rows_set:
  "sp \<in> set (prepay_rows e sid iid start iv next 0 n) \<longleftrightarrow>
     (\<exists>k < n. sp = new_sp e (next + k) sid iid (start + days (int k * iv)) (start + days ((int k + 1) * iv)))"
  by (auto simp: in_set_conv_nth prepay_rows_nth)

text \<open>The discounted total: never above the undiscounted one, and less than a piconero off.\<close>

lemma calculate_prepay_amount_bounds:
  assumes "0 \<le> p" and "0 \<le> d" and "d \<le> 99" and "0 \<le> n"
    and "calculate_prepay_amount p n d = (x, a)"
  shows "0 \<le> x" and "x \<le> p * of_int n" and "a = xmr_to_atomic x"
    and "atomic_to_xmr a \<le> p * of_int n * of_int (100 - d) / 100"
    and "p * of_int n * of_int (100 - d) / 100 < atomic_to_xmr (a + 1)"
proof -
  let ?t = "p * of_int n"
  let ?y = "?t * (of_int (100 - d) / 100)"
  have t: "0 \<le> ?t" using assms by simp
  have "0 \<le> (of_int (100 - d) / 100 :: rat)" using assms(3) by simp
  with t have y: "0 \<le> ?y" by (rule mult_nonneg_nonneg)
  have le: "?y \<le> ?t" using mult_left_mono[OF _ t, of "of_int (100 - d) / 100" 1] assms(2) by simp
  have x: "x = (if 0 < d then quantize_down12 ?y else ?t)" and a: "a = xmr_to_atomic x"
    using assms(5) by (auto simp: calculate_prepay_amount_def Let_def)
  have q: "quantize_down12 ?y = atomic_to_xmr (xmr_to_atomic ?y)" by (rule quantize_down12_eq)
  have y0: "0 \<le> xmr_to_atomic ?y"
    unfolding xmr_to_atomic_def by (intro py_trunc_nonneg mult_nonneg_nonneg[OF y]) simp
  have q0: "0 \<le> quantize_down12 ?y" using y0 unfolding q atomic_to_xmr_def by simp
  have d0: "d = 0 \<Longrightarrow> ?y = ?t" by simp
  have ay: "a = xmr_to_atomic ?y"
  proof (cases "0 < d")
    case True
    then have "x = quantize_down12 ?y" using x by simp
    then show ?thesis using a by (simp only: q xmr_to_atomic_atomic_to_xmr)
  next
    case False
    then show ?thesis using x a d0 assms(2) by simp
  qed
  show "0 \<le> x" using x q0 t by simp
  show "x \<le> ?t" using x q xmr_to_atomic_bounds[OF y] le by auto
  show "a = xmr_to_atomic x" by (rule a)
  show "atomic_to_xmr a \<le> ?t * of_int (100 - d) / 100" using xmr_to_atomic_bounds[OF y] ay by simp
  show "?t * of_int (100 - d) / 100 < atomic_to_xmr (a + 1)" using xmr_to_atomic_bounds[OF y] ay by simp
qed

end
