(* ===== verification/Subscription_Grace.thy ===== *)
theory Subscription_Grace
  imports Subscription_Prepay
begin

text \<open>
  \<open>services/subscription_grace.py\<close>: what happens to a subscription when one of its invoices is
  paid, and the three passes of the grace period check.
\<close>

section \<open>The payment hook\<close>

text \<open>\<open>uuid.UUID(sub_id_str)\<close> of a JSON value.\<close>

fun meta_uuid :: "json \<Rightarrow> exc + uuid" where
  "meta_uuid (JStr s) = (case uuid_parse s of None \<Rightarrow> Inl ValueError | Some u \<Rightarrow> Inr u)"
| "meta_uuid (JDec x) = Inl ValueError"
| "meta_uuid _ = Inl AttributeError"

definition is_prepay :: "json \<Rightarrow> bool" where
  "is_prepay meta \<longleftrightarrow> jget ''prepay'' meta = Some (JBool True)"

text \<open>\<open>handle_prepay_payment\<close> within its \<open>try\<close>, the guard's release, and the webhook.\<close>

definition prepay_hook :: "env \<Rightarrow> invoice \<Rightarrow> uuid \<Rightarrow> unit op" where
  "prepay_hook e ivc sid d =
     (case handle_prepay_payment e ivc sid d of
        (Inl x, d1) \<Rightarrow>
          if poisons x then (Inl x, d1) else (Inl x, clear_prepay_guard e sid (inv_id ivc) d1)
      | (Inr _, d1) \<Rightarrow>
          let d2 = (if inv_status ivc \<in> set paid_statuses then clear_prepay_guard e sid (inv_id ivc) d1 else d1)
          in (case find_sub sid d2 of
                None \<Rightarrow> (Inr (), d2)
              | Some s \<Rightarrow> (Inr (), snd (dispatch_subscription_event e ''subscription.prepaid'' s
                  (Some (inv_id ivc)) None None None d2))))"

definition handle_subscription_payment :: "env \<Rightarrow> uuid \<Rightarrow> unit op" where
  "handle_subscription_payment e iid d =
     (case find_invoice iid d of
        None \<Rightarrow> (Inr (), d)
      | Some ivc \<Rightarrow>
          let meta = meta_dict ivc in
          if is_prepay meta then
            (case jget ''subscription_id'' meta of
               None \<Rightarrow> (Inr (), d)
             | Some j \<Rightarrow>
                 if \<not> truthy j then (Inr (), d)
                 else (case meta_uuid j of
                     Inl x \<Rightarrow> (Inl x, d)
                   | Inr sid \<Rightarrow> (case find_sub sid d of
                         None \<Rightarrow> (Inr (), d)
                       | Some s \<Rightarrow> prepay_hook e ivc sid d)))
          else
            (case scalar_one_or_none (invoice_sps iid d) of
               Inl x \<Rightarrow> (Inl x, d)
             | Inr None \<Rightarrow> (Inr (), d)
             | Inr (Some sp) \<Rightarrow>
                 (case find_sub (sp_subscription sp) d of
                    None \<Rightarrow> (Inr (), d)
                  | Some s \<Rightarrow>
                      if sub_status s = SPastDue
                      then transition_subscription_status e (sp_subscription sp) SActive d
                      else (Inr (), d))))"

section \<open>Grace periods\<close>

definition soft_due :: "time \<Rightarrow> db \<Rightarrow> subscription \<Rightarrow> bool" where
  "soft_due now d s \<longleftrightarrow> sub_status s = SActive \<and>
     sps_with (sub_id s) (\<lambda>sp i. unpaid_status (inv_status i) \<and>
       sp_period_start sp + days (sub_grace_soft s) < now) d \<noteq> []"

definition hard_due :: "time \<Rightarrow> db \<Rightarrow> subscription \<Rightarrow> bool" where
  "hard_due now d s \<longleftrightarrow> sub_status s = SPastDue \<and>
     sps_with (sub_id s) (\<lambda>sp i. unpaid_status (inv_status i) \<and>
       sp_period_start sp + days (sub_grace_hard s) < now \<and> inv_expires_at i \<le> now) d \<noteq> []"

definition recoverable :: "db \<Rightarrow> subscription \<Rightarrow> bool" where
  "recoverable d s \<longleftrightarrow> sub_status s = SPastDue \<and>
     sps_with (sub_id s) (\<lambda>sp i. inv_status i \<in> set paid_statuses) d \<noteq> []"

definition selected :: "(db \<Rightarrow> subscription \<Rightarrow> bool) \<Rightarrow> db \<Rightarrow> uuid list" where
  "selected P d = map sub_id (filter (P d) (db_subs d))"

definition grace_step :: "env \<Rightarrow> subscription_status \<Rightarrow> string \<Rightarrow> uuid \<Rightarrow> unit op" where
  "grace_step e target result sid d =
     (case transition_subscription_status e sid target d of
        (Inl x, d1) \<Rightarrow> (Inl x, d1)
      | (Inr _, d1) \<Rightarrow> (Inr (), log_renewal_event e sid result None None [] d1))"

definition hard_step :: "env \<Rightarrow> uuid \<Rightarrow> unit op" where
  "hard_step e sid d =
     (case grace_step e SExpired ''grace_hard'' sid d of
        (Inl x, d1) \<Rightarrow> (Inl x, d1)
      | (Inr _, d1) \<Rightarrow>
          (case find_sub sid d1 of
             None \<Rightarrow> (Inr (), d1)
           | Some s \<Rightarrow> (Inr (), snd (dispatch_subscription_event e ''subscription.expired'' s
               None None None (Some ''hard_grace_exceeded'') d1))))"

record grace_counts =
  gc_soft :: nat
  gc_hard :: nat
  gc_recovered :: nat

definition check_grace_periods :: "env \<Rightarrow> grace_counts op" where
  "check_grace_periods e d =
     (let soft = selected (soft_due (env_now e)) d in
      case for_each (grace_step e SPastDue ''grace_soft'') soft d of
        (Inl x, d1) \<Rightarrow> (Inl x, d1)
      | (Inr _, d1) \<Rightarrow>
     (let hard = selected (hard_due (env_now e)) d1 in
      case for_each (hard_step e) hard d1 of
        (Inl x, d2) \<Rightarrow> (Inl x, d2)
      | (Inr _, d2) \<Rightarrow>
     (let rec = selected recoverable d2 in
      case for_each (grace_step e SActive ''grace_recovered'') rec d2 of
        (Inl x, d3) \<Rightarrow> (Inl x, d3)
      | (Inr _, d3) \<Rightarrow>
          (Inr \<lparr>gc_soft = length soft, gc_hard = length hard, gc_recovered = length rec\<rparr>, d3))))"

section \<open>The ledger is left alone\<close>

lemma touch_sub_ledger: "ledger_unchanged d d' \<Longrightarrow> ledger_unchanged d (touch_sub e i f d')"
  by (simp add: ledger_unchanged_def)

lemma log_event_ledger: "ledger_unchanged d d' \<Longrightarrow> ledger_unchanged d (log_renewal_event e i r v m x d')"
  by (simp add: ledger_unchanged_def)

lemma audit_ledger: "ledger_unchanged d d' \<Longrightarrow> ledger_unchanged d (audit e m a t i x d')"
  by (simp add: ledger_unchanged_def)

lemma add_rows_ledger: "ledger_unchanged d d' \<Longrightarrow> ledger_unchanged d (add_rows rs d')"
  by (simp add: ledger_unchanged_def add_rows_def)

lemma sub_event_ledger:
  "ledger_unchanged d d' \<Longrightarrow> ledger_unchanged d (snd (dispatch_subscription_event e ev s i ps pe r d'))"
  by (erule ledger_unchanged_trans) (rule billing_ledger[OF dispatch_subscription_event_frame])

lemma clear_prepay_guard_ledger:
  "ledger_unchanged d d' \<Longrightarrow> ledger_unchanged d (clear_prepay_guard e sid iid d')"
  by (simp add: clear_prepay_guard_def touch_sub_ledger split: option.split)

lemma transition_ledger:
  "ledger_unchanged d d' \<Longrightarrow> ledger_unchanged d (snd (transition_subscription_status e i t d'))"
  by (simp add: transition_subscription_status_def touch_sub_ledger split: option.split)

lemmas ledger_intros = touch_sub_ledger log_event_ledger audit_ledger add_rows_ledger sub_event_ledger
  clear_prepay_guard_ledger transition_ledger

lemma prepay_fulfil_ledger: "ledger_unchanged d (snd (prepay_fulfil e ivc s c n d))"
  by (simp add: prepay_fulfil_def Let_def ledger_intros)

lemma handle_prepay_payment_ledger: "ledger_unchanged d (snd (handle_prepay_payment e ivc sid d))"
  by (simp add: handle_prepay_payment_def prepay_fulfil_ledger ledger_intros split: option.split sum.split)

lemma prepay_hook_ledger: "ledger_unchanged d (snd (prepay_hook e ivc sid d))"
proof -
  obtain r d1 where h: "handle_prepay_payment e ivc sid d = (r, d1)"
    by (cases "handle_prepay_payment e ivc sid d")
  then have "ledger_unchanged d d1" using handle_prepay_payment_ledger[of d e ivc sid] by simp
  then show ?thesis by (simp add: prepay_hook_def h Let_def ledger_intros split: sum.split option.split)
qed

lemma handle_subscription_payment_ledger: "ledger_unchanged d (snd (handle_subscription_payment e iid d))"
  by (simp add: handle_subscription_payment_def Let_def prepay_hook_ledger ledger_intros
      split: option.split sum.split)

lemma grace_step_ledger: "ledger_unchanged d d' \<Longrightarrow> ledger_unchanged d (snd (grace_step e t r sid d'))"
  using transition_ledger[of d d' e sid t]
  by (cases "transition_subscription_status e sid t d'")
     (simp add: grace_step_def ledger_intros split: sum.split)

lemma hard_step_ledger: "ledger_unchanged d d' \<Longrightarrow> ledger_unchanged d (snd (hard_step e sid d'))"
  using grace_step_ledger[of d d' e SExpired "''grace_hard''" sid]
  by (cases "grace_step e SExpired ''grace_hard'' sid d'")
     (simp add: hard_step_def ledger_intros split: sum.split option.split)

lemma check_grace_periods_ledger: "ledger_unchanged d (snd (check_grace_periods e d))"
proof -
  note step = for_each_invariant[where P = "ledger_unchanged d"]
  obtain r1 d1 where 1: "for_each (grace_step e SPastDue ''grace_soft'') (selected (soft_due (env_now e)) d) d = (r1, d1)"
    by fastforce
  have L1: "ledger_unchanged d d1"
    using step[of "selected (soft_due (env_now e)) d" "grace_step e SPastDue ''grace_soft''" d] 1
    by (simp add: grace_step_ledger)
  obtain r2 d2 where 2: "for_each (hard_step e) (selected (hard_due (env_now e)) d1) d1 = (r2, d2)"
    by fastforce
  have L2: "ledger_unchanged d d2"
    using step[of "selected (hard_due (env_now e)) d1" "hard_step e" d1] 2 L1
    by (simp add: hard_step_ledger)
  obtain r3 d3 where 3: "for_each (grace_step e SActive ''grace_recovered'') (selected recoverable d2) d2 = (r3, d3)"
    by fastforce
  have L3: "ledger_unchanged d d3"
    using step[of "selected recoverable d2" "grace_step e SActive ''grace_recovered''" d2] 3 L2
    by (simp add: grace_step_ledger)
  show ?thesis using L1 L2 L3 by (simp add: check_grace_periods_def Let_def 1 2 3 split: sum.split)
qed

end
