(* ===== verification/Payment_Service.thy ===== *)
theory Payment_Service
  imports Subscription_Grace
begin

text \<open>
  \<open>services/payment_service.py\<close>: matching a transfer to an invoice, recording it, confirmations,
  reorgs, and the recalculation of an invoice's status from its confirmed payments.
\<close>

definition confirmation_threshold :: int where
  "confirmation_threshold = 10"

section \<open>Queries\<close>

definition find_invoice_by_subaddress_index :: "int \<Rightarrow> int \<Rightarrow> db \<Rightarrow> exc + invoice option" where
  "find_invoice_by_subaddress_index account_index address_index d =
     (case scalar_one_or_none (filter (\<lambda>a. adr_account a = account_index \<and> adr_index a = address_index)
             (db_addresses d)) of
        Inl x \<Rightarrow> Inl x
      | Inr None \<Rightarrow> Inr None
      | Inr (Some a) \<Rightarrow> Inr (find_invoice (adr_invoice a) d))"

definition find_payment_by_tx_hash :: "string \<Rightarrow> db \<Rightarrow> exc + payment option" where
  "find_payment_by_tx_hash tx_hash d =
     scalar_one_or_none (filter (\<lambda>p. pay_tx_hash p = tx_hash) (db_payments d))"

definition payment_of_merchant :: "uuid \<Rightarrow> db \<Rightarrow> payment \<Rightarrow> bool" where
  "payment_of_merchant merchant_id d p =
     (case find_invoice (pay_invoice p) d of None \<Rightarrow> False | Some r \<Rightarrow> inv_merchant r = merchant_id)"

definition get_payment :: "uuid \<Rightarrow> uuid \<Rightarrow> db \<Rightarrow> payment option" where
  "get_payment merchant_id payment_id d =
     (case find_payment payment_id d of
        None \<Rightarrow> None
      | Some p \<Rightarrow> if payment_of_merchant merchant_id d p then Some p else None)"

definition list_payments ::
    "uuid \<Rightarrow> uuid option \<Rightarrow> payment_status option \<Rightarrow> int \<Rightarrow> int \<Rightarrow> db \<Rightarrow> payment list \<times> nat" where
  "list_payments merchant_id invoice_id status limit offset d =
     (let rows = filter (\<lambda>p. payment_of_merchant merchant_id d p \<and>
                    (case invoice_id of None \<Rightarrow> True | Some i \<Rightarrow> pay_invoice p = i) \<and>
                    (case status of None \<Rightarrow> True | Some s \<Rightarrow> pay_status p = s)) (db_payments d)
      in case clamp_page limit offset of (l, off) \<Rightarrow>
        (page off l (order_desc pay_detected_at rows), length rows))"

definition sum_status :: "payment_status \<Rightarrow> uuid \<Rightarrow> db \<Rightarrow> int" where
  "sum_status st invoice_id d =
     sum_list (map pay_amount_atomic (filter (\<lambda>p. pay_invoice p = invoice_id \<and> pay_status p = st) (db_payments d)))"

definition sum_invoice_payments :: "uuid \<Rightarrow> db \<Rightarrow> int" where
  "sum_invoice_payments invoice_id d = sum_status PConfirmed invoice_id d"

definition sum_detected_payments :: "uuid \<Rightarrow> db \<Rightarrow> int" where
  "sum_detected_payments invoice_id d = sum_status PDetected invoice_id d"

definition get_unconfirmed_payments :: "db \<Rightarrow> payment list" where
  "get_unconfirmed_payments d = order_asc pay_detected_at (filter (\<lambda>p. pay_status p = PDetected) (db_payments d))"

section \<open>Recalculating an invoice\<close>

definition target_status :: "invoice_status \<Rightarrow> int \<Rightarrow> int \<Rightarrow> invoice_status" where
  "target_status status cumulative required =
     (if status = IExpired \<or> status = ILate then (if required \<le> cumulative then ILate else IExpired)
      else if required < cumulative then IOverpaid
      else if required \<le> cumulative then IPaid
      else if 0 < cumulative then IPartially
      else IPending)"

definition settle :: "env \<Rightarrow> uuid \<Rightarrow> invoice \<Rightarrow> int \<Rightarrow> unit op" where
  "settle e i r cumulative d =
     (let new_status = target_status (inv_status r) cumulative (inv_amount_atomic r);
          details = [(''cumulative_atomic'', JInt cumulative), (''required_atomic'', JInt (inv_amount_atomic r))]
      in if inv_status r = new_status then (Inr (), d)
         else if can_transition (inv_status r) new_status then update_status e i new_status details d
         else if inv_status r = IPending \<and> new_status = IOverpaid then
           (case update_status e i IPaid details d of
              (Inl x, d1) \<Rightarrow> (Inl x, d1)
            | (Inr _, d1) \<Rightarrow> update_status e i IOverpaid details d1)
         else (Inr (), d))"

text \<open>
  The hook runs when the invoice has just become paid. Its exceptions are caught and audited,
  except those of a refused statement: the handler then reads expired attributes of the invoice
  through a dead session and raises itself.
\<close>

definition subscription_hook :: "env \<Rightarrow> uuid \<Rightarrow> invoice_status \<Rightarrow> unit op" where
  "subscription_hook e i old_status d =
     (case find_invoice i d of
        None \<Rightarrow> (Inr (), d)
      | Some r \<Rightarrow>
          if inv_status r \<in> set paid_statuses \<and> old_status \<notin> set paid_statuses then
            (case handle_subscription_payment e i d of
               (Inr _, d1) \<Rightarrow> (Inr (), d1)
             | (Inl x, d1) \<Rightarrow>
                 if poisons x then (Inl x, d1)
                 else (Inr (), audit e (Some (inv_merchant r)) ''subscription_hook_failed'' ''invoice'' i
                        [(''error'', JStr (env_exc_text e x)),
                         (''invoice_status'', JStr (invoice_status_value (inv_status r)))] d1))
          else (Inr (), d))"

definition recalculate_invoice_status :: "env \<Rightarrow> uuid \<Rightarrow> unit op" where
  "recalculate_invoice_status e i d =
     (case find_invoice i d of
        None \<Rightarrow> (Inl InvalidRequestError, d)
      | Some r \<Rightarrow>
          if inv_status r = ICancelled then (Inr (), d)
          else case settle e i r (sum_invoice_payments i d) d of
              (Inl x, d1) \<Rightarrow> (Inl x, d1)
            | (Inr _, d1) \<Rightarrow> subscription_hook e i (inv_status r) d1)"

section \<open>Recording and confirming\<close>

definition payment_fits :: "payment \<Rightarrow> bool" where
  "payment_fits p \<longleftrightarrow> length (pay_tx_hash p) \<le> 64 \<and> bigint_fits (pay_amount_atomic p) \<and>
     numeric_fits 18 12 (pay_amount_xmr p) \<and> integer_fits (pay_confirmations p) \<and>
     (\<forall>h \<in> set_option (pay_block_height p). bigint_fits h)"

text \<open>The unique constraint on invoice and transaction, and the two check constraints.\<close>

definition payment_refused :: "payment \<Rightarrow> db \<Rightarrow> bool" where
  "payment_refused p d \<longleftrightarrow> pay_amount_atomic p < 0 \<or> pay_confirmations p < 0 \<or>
     list_ex (\<lambda>q. pay_invoice q = pay_invoice p \<and> pay_tx_hash q = pay_tx_hash p) (db_payments d)"

definition new_payment ::
    "env \<Rightarrow> uuid \<Rightarrow> uuid \<Rightarrow> string \<Rightarrow> int \<Rightarrow> int \<Rightarrow> int option \<Rightarrow> payment" where
  "new_payment e pid iid txid amount_atomic confirmations block_height =
     \<lparr>pay_id = pid, pay_invoice = iid, pay_tx_hash = txid, pay_amount_atomic = amount_atomic,
      pay_amount_xmr = atomic_to_xmr amount_atomic,
      pay_status = (if confirmation_threshold \<le> confirmations then PConfirmed else PDetected),
      pay_confirmations = confirmations, pay_block_height = block_height,
      pay_detected_at = env_now e,
      pay_confirmed_at = (if confirmation_threshold \<le> confirmations then Some (env_now e) else None),
      pay_created_at = env_now e\<rparr>"

text \<open>
  \<open>entity_id=payment.id\<close> is read before the flush that gives the payment its id, so the audit
  row has none.
\<close>

definition detected_audit :: "env \<Rightarrow> invoice \<Rightarrow> payment \<Rightarrow> bool \<Rightarrow> audit_log" where
  "detected_audit e r p is_mempool =
     \<lparr>aud_merchant = Some (inv_merchant r), aud_action = ''payment.detected'',
      aud_entity_type = Some ''payment'', aud_entity_id = None,
      aud_details = JObj
        ([(''invoice_id'', juuid (inv_id r)), (''tx_hash'', JStr (pay_tx_hash p)),
          (''amount_atomic'', JInt (pay_amount_atomic p)),
          (''confirmations'', JInt (pay_confirmations p)), (''is_mempool'', JBool is_mempool)] @
         (if inv_status r = ICancelled
          then [(''metadata'', JObj [(''exception'', JStr ''cancelled_invoice_payment'')])] else [])),
      aud_created_at = env_now e\<rparr>"

definition create_payment ::
    "env \<Rightarrow> invoice \<Rightarrow> string \<Rightarrow> int \<Rightarrow> int \<Rightarrow> int option \<Rightarrow> bool \<Rightarrow> uuid op" where
  "create_payment e r txid amount_atomic confirmations block_height is_mempool d =
     (let p = new_payment e (db_next_id d) (inv_id r) txid amount_atomic confirmations block_height
      in if \<not> payment_fits p then (Inl DataError, tick_id d)
         else if payment_refused p d then (Inl IntegrityError, tick_id d)
         else (Inr (pay_id p), add_audit (detected_audit e r p is_mempool) (add_payment p (tick_id d))))"

definition invoice_merchant :: "uuid \<Rightarrow> db \<Rightarrow> uuid option" where
  "invoice_merchant i d = map_option inv_merchant (find_invoice i d)"

definition bump_payment :: "env \<Rightarrow> int \<Rightarrow> int option \<Rightarrow> payment \<Rightarrow> payment" where
  "bump_payment e confirmations block_height p =
     (let confirming = (pay_status p = PDetected \<and> confirmation_threshold \<le> confirmations)
      in p\<lparr>pay_confirmations := max confirmations (pay_confirmations p),
           pay_block_height := (case pay_block_height p of None \<Rightarrow> block_height | Some h \<Rightarrow> Some h),
           pay_status := (if confirming then PConfirmed else pay_status p),
           pay_confirmed_at := (if confirming then Some (env_now e) else pay_confirmed_at p)\<rparr>)"

definition bump_changes :: "int \<Rightarrow> int option \<Rightarrow> payment \<Rightarrow> bool" where
  "bump_changes confirmations block_height p \<longleftrightarrow>
     pay_confirmations p < confirmations \<or> (block_height \<noteq> None \<and> pay_block_height p = None) \<or>
     (pay_status p = PDetected \<and> confirmation_threshold \<le> confirmations)"

definition update_confirmations :: "env \<Rightarrow> uuid \<Rightarrow> int \<Rightarrow> int option \<Rightarrow> bool op" where
  "update_confirmations e pid confirmations block_height d =
     (case find_payment pid d of
        None \<Rightarrow> (Inl InvalidRequestError, d)
      | Some p \<Rightarrow>
          if pay_status p = POrphaned then (Inr False, d)
          else if \<not> bump_changes confirmations block_height p then (Inr False, d)
          else
            let p' = bump_payment e confirmations block_height p;
                d1 = modify_payment pid (bump_payment e confirmations block_height) d;
                d2 = (if pay_status p = PDetected \<and> confirmation_threshold \<le> confirmations then
                        audit e (invoice_merchant (pay_invoice p) d) ''payment.confirmed'' ''payment'' pid
                          [(''tx_hash'', JStr (pay_tx_hash p)), (''confirmations'', JInt confirmations),
                           (''invoice_id'', juuid (pay_invoice p))] d1
                      else d1)
            in if \<not> payment_fits p' then (Inl DataError, d)
               else (Inr (pay_status p' = PConfirmed), d2))"

section \<open>One transfer\<close>

definition tx_conf :: "transfer \<Rightarrow> int" where
  "tx_conf tx = (case tx_confirmations tx of None \<Rightarrow> 0 | Some c \<Rightarrow> c)"

definition tx_block_height :: "transfer \<Rightarrow> int option" where
  "tx_block_height tx = (case tx_height tx of None \<Rightarrow> None | Some h \<Rightarrow> if 0 < h then Some h else None)"

definition cancelled_at :: "uuid \<Rightarrow> db \<Rightarrow> bool" where
  "cancelled_at i d = (case find_invoice i d of None \<Rightarrow> False | Some r \<Rightarrow> inv_status r = ICancelled)"

definition process_existing :: "env \<Rightarrow> transfer \<Rightarrow> invoice \<Rightarrow> payment \<Rightarrow> uuid option op" where
  "process_existing e tx r p d =
     (case update_confirmations e (pay_id p) (tx_conf tx) (tx_block_height tx) d of
        (Inl x, d1) \<Rightarrow> (Inl x, d1)
      | (Inr transitioned, d1) \<Rightarrow>
          if inv_status r \<noteq> ICancelled \<and>
             (transitioned \<or> map_option pay_status (find_payment (pay_id p) d1) = Some PConfirmed) then
            (case recalculate_invoice_status e (inv_id r) d1 of
               (Inl x, d2) \<Rightarrow> (Inl x, d2)
             | (Inr _, d2) \<Rightarrow> (Inr (Some (pay_id p)), d2))
          else (Inr (Some (pay_id p)), d1))"

definition process_new :: "env \<Rightarrow> transfer \<Rightarrow> bool \<Rightarrow> invoice \<Rightarrow> uuid option op" where
  "process_new e tx is_mempool r d =
     (case create_payment e r (tx_txid tx) (tx_amount tx) (tx_conf tx) (tx_block_height tx) is_mempool d of
        (Inl x, d1) \<Rightarrow> (Inl x, d1)
      | (Inr pid, d1) \<Rightarrow>
          if inv_status r \<noteq> ICancelled then
            (case recalculate_invoice_status e (inv_id r) d1 of
               (Inl x, d2) \<Rightarrow> (Inl x, d2)
             | (Inr _, d2) \<Rightarrow> (Inr (Some pid), d2))
          else (Inr (Some pid), d1))"

definition process_transfer :: "env \<Rightarrow> transfer \<Rightarrow> bool \<Rightarrow> uuid option op" where
  "process_transfer e tx is_mempool d =
     (case tx_minor tx of
        None \<Rightarrow> (Inl KeyError, d)
      | Some address_index \<Rightarrow>
      if tx_amount tx < dust_threshold_atomic then (Inr None, d)
      else
     (case find_invoice_by_subaddress_index (tx_major tx) address_index d of
        Inl x \<Rightarrow> (Inl x, d)
      | Inr None \<Rightarrow> (Inr None, d)
      | Inr (Some r) \<Rightarrow>
     (case find_payment_by_tx_hash (tx_txid tx) d of
        Inl x \<Rightarrow> (Inl x, d)
      | Inr (Some p) \<Rightarrow> process_existing e tx r p d
      | Inr None \<Rightarrow> process_new e tx is_mempool r d)))"

section \<open>Reorgs\<close>

definition handle_reorg :: "env \<Rightarrow> uuid \<Rightarrow> unit op" where
  "handle_reorg e pid d =
     (case find_payment pid d of
        None \<Rightarrow> (Inl InvalidRequestError, d)
      | Some p \<Rightarrow>
          if pay_status p = POrphaned then (Inr (), d)
          else
            let d1 = modify_payment pid (\<lambda>q. q\<lparr>pay_status := POrphaned\<rparr>) d;
                d2 = audit e (invoice_merchant (pay_invoice p) d) ''payment.orphaned'' ''payment'' pid
                       [(''tx_hash'', JStr (pay_tx_hash p)),
                        (''previous_status'', JStr (payment_status_value (pay_status p))),
                        (''invoice_id'', juuid (pay_invoice p))] d1
            in (case find_invoice (pay_invoice p) d of
                  None \<Rightarrow> (Inr (), d2)
                | Some r \<Rightarrow> recalculate_invoice_status e (pay_invoice p) d2))"

section \<open>Events\<close>

definition reverted_targets :: "invoice_status list" where
  "reverted_targets = [IPending, IPartially, IExpired]"

fun status_event :: "invoice_status \<Rightarrow> string list" where
  "status_event IPaid = [''invoice.paid'']"
| "status_event IPartially = [''invoice.partially_paid'']"
| "status_event IOverpaid = [''invoice.overpaid'']"
| "status_event ILate = [''invoice.late_paid'']"
| "status_event IExpired = [''invoice.expired'']"
| "status_event _ = []"

definition determine_webhook_events ::
    "payment \<Rightarrow> invoice \<Rightarrow> invoice_status \<Rightarrow> payment_status option \<Rightarrow> string list" where
  "determine_webhook_events p r old_invoice_status old_payment_status =
     (if old_payment_status = None then [''payment.detected'']
      else if old_payment_status = Some PDetected \<and> pay_status p = PConfirmed then [''payment.confirmed'']
      else if pay_status p = POrphaned then [''payment.orphaned''] else []) @
     (if old_payment_status = None \<and> old_invoice_status = ICancelled then [''invoice.exception_payment''] else []) @
     (if old_invoice_status \<in> set paid_statuses \<and> inv_status r \<in> set reverted_targets then [''invoice.reverted'']
      else if inv_status r \<noteq> old_invoice_status then status_event (inv_status r) else [])"

end
