(* ===== verification/Settlement.thy ===== *)
theory Settlement
  imports Payment_Service
begin

text \<open>
  The contract of the ledger, stated independently of how the services compute it: what an
  invoice's status says about the confirmed payments of that invoice, and which rows the ledger
  may hold. The recalculation establishes the contract for the invoice it is called on and keeps
  it for every other.
\<close>

section \<open>The abstract specification\<close>

fun settled :: "invoice_status \<Rightarrow> int \<Rightarrow> int \<Rightarrow> bool" where
  "settled IPending confirmed required = (confirmed = 0)"
| "settled IPartially confirmed required = (0 < confirmed \<and> confirmed < required)"
| "settled IPaid confirmed required = (confirmed = required)"
| "settled IOverpaid confirmed required = (required < confirmed)"
| "settled IExpired confirmed required = (confirmed < required)"
| "settled ILate confirmed required = (required \<le> confirmed)"
| "settled ICancelled confirmed required = True"

definition settled_row :: "db \<Rightarrow> invoice \<Rightarrow> bool" where
  "settled_row d r \<longleftrightarrow> settled (inv_status r) (sum_invoice_payments (inv_id r) d) (inv_amount_atomic r)"

text \<open>Every invoice but those of \<open>X\<close> agrees with its payments.\<close>

definition settled_but :: "uuid set \<Rightarrow> db \<Rightarrow> bool" where
  "settled_but X d \<longleftrightarrow> (\<forall>r \<in> set (db_invoices d). inv_id r \<in> X \<or> settled_row d r)"

definition ledger_wf :: "db \<Rightarrow> bool" where
  "ledger_wf d \<longleftrightarrow>
     distinct (map inv_id (db_invoices d)) \<and> distinct (map pay_id (db_payments d)) \<and>
     (\<forall>r \<in> set (db_invoices d). 0 < inv_amount_atomic r \<and> inv_id r < db_next_id d) \<and>
     (\<forall>p \<in> set (db_payments d). 0 \<le> pay_amount_atomic p \<and> pay_id p < db_next_id d \<and>
        pay_invoice p \<in> inv_id ` set (db_invoices d))"

definition ledger_ok :: "db \<Rightarrow> bool" where
  "ledger_ok d \<longleftrightarrow> ledger_wf d \<and> settled_but {} d"

section \<open>The target status meets the specification\<close>

lemma target_settled:
  "0 \<le> c \<Longrightarrow> s \<noteq> ICancelled \<Longrightarrow> settled (target_status s c n) c n"
  by (auto simp: target_status_def)

lemma target_fixpoint:
  "0 \<le> c \<Longrightarrow> 0 < n \<Longrightarrow> s \<noteq> ICancelled \<Longrightarrow> target_status s c n = s \<longleftrightarrow> settled s c n"
  by (cases s) (auto simp: target_status_def)

lemma target_not_cancelled: "target_status s c n \<noteq> ICancelled"
  by (simp add: target_status_def)

lemma target_allowed:
  assumes "s \<noteq> ICancelled" and "target_status s c n \<noteq> s"
  shows "can_transition s (target_status s c n) \<or> s = IPending \<and> target_status s c n = IOverpaid"
  using assms by (cases s) (auto simp: target_status_def can_transition_def split: if_splits)

section \<open>Sums of payments\<close>

lemma sum_status_cong: "db_payments d' = db_payments d \<Longrightarrow> sum_status st i d' = sum_status st i d"
  by (simp add: sum_status_def)

lemma sum_invoice_payments_cong:
  "db_payments d' = db_payments d \<Longrightarrow> sum_invoice_payments i d' = sum_invoice_payments i d"
  by (simp add: sum_invoice_payments_def sum_status_def)

lemma sum_status_nonneg:
  assumes "ledger_wf d"
  shows "0 \<le> sum_status st i d"
  unfolding sum_status_def
  by (rule sum_list_nonneg) (use assms in \<open>auto simp: ledger_wf_def\<close>)

lemma sum_status_add_payment:
  "sum_status st i (add_payment p d) =
     sum_status st i d + (if pay_invoice p = i \<and> pay_status p = st then pay_amount_atomic p else 0)"
  by (simp add: sum_status_def add_payment_def)

text \<open>A payment of one invoice does not count for another.\<close>

lemma filter_upd_row_other:
  assumes "\<And>q. q \<in> set rs \<Longrightarrow> key q = k \<Longrightarrow> \<not> P q \<and> \<not> P (f q)"
  shows "filter P (upd_row key k f rs) = filter P rs"
  using assms by (induction rs) (auto simp: upd_row_def)

lemma sum_status_modify_other:
  assumes wf: "ledger_wf d" and p: "find_payment pid d = Some p" and i: "pay_invoice p \<noteq> i"
    and keep: "\<And>q. pay_invoice (f q) = pay_invoice q"
  shows "sum_status st i (modify_payment pid f d) = sum_status st i d"
proof -
  have "q = p" if "q \<in> set (db_payments d)" and "pay_id q = pid" for q
    using get_row_distinct[of pay_id "db_payments d" q] that wf p
    by (simp add: ledger_wf_def find_payment_def)
  then have "filter (\<lambda>p. pay_invoice p = i \<and> pay_status p = st) (upd_row pay_id pid f (db_payments d)) =
      filter (\<lambda>p. pay_invoice p = i \<and> pay_status p = st) (db_payments d)"
    using i keep by (intro filter_upd_row_other) auto
  then show ?thesis by (simp add: sum_status_def modify_payment_def)
qed

section \<open>Changing a status\<close>

text \<open>An operation that only rewrites the row of invoice \<open>i\<close>, keeping what is owed.\<close>

definition same_debt :: "invoice \<Rightarrow> invoice \<Rightarrow> bool" where
  "same_debt r q \<longleftrightarrow> inv_id q = inv_id r \<and> inv_amount_atomic q = inv_amount_atomic r \<and>
     inv_merchant q = inv_merchant r \<and> inv_expires_at q = inv_expires_at r \<and>
     inv_metadata q = inv_metadata r"

definition restatus :: "uuid \<Rightarrow> db \<Rightarrow> db \<Rightarrow> bool" where
  "restatus i d d' \<longleftrightarrow>
     (\<exists>f. (\<forall>r. same_debt r (f r)) \<and> db_invoices d' = upd_row inv_id i f (db_invoices d)) \<and>
     db_payments d' = db_payments d \<and> db_addresses d' = db_addresses d \<and>
     db_merchants d' = db_merchants d \<and> db_subs d' = db_subs d \<and>
     db_sub_payments d' = db_sub_payments d \<and> db_next_id d' = db_next_id d"

lemma same_debt_refl [simp]: "same_debt r r"
  by (simp add: same_debt_def)

lemma upd_row_id: "upd_row key i (\<lambda>r. r) rs = rs"
  by (induction rs) (auto simp: upd_row_def)

lemma upd_row_twice:
  assumes "\<And>r. key (f r) = key r"
  shows "upd_row key i g (upd_row key i f rs) = upd_row key i (\<lambda>r. g (f r)) rs"
  using assms by (simp add: upd_row_def)

lemma restatus_refl [simp]: "restatus i d d"
  unfolding restatus_def by (auto intro!: exI[of _ "\<lambda>r. r"] simp: upd_row_id)

lemma restatus_trans: "restatus i a b \<Longrightarrow> restatus i b c \<Longrightarrow> restatus i a c"
proof -
  assume ab: "restatus i a b" and bc: "restatus i b c"
  obtain f where f: "\<And>r. same_debt r (f r)" "db_invoices b = upd_row inv_id i f (db_invoices a)"
    using ab unfolding restatus_def by blast
  obtain g where g: "\<And>r. same_debt r (g r)" "db_invoices c = upd_row inv_id i g (db_invoices b)"
    using bc unfolding restatus_def by blast
  have "same_debt r (g (f r))" for r
    using f(1)[of r] g(1)[of "f r"] by (simp add: same_debt_def)
  moreover have "db_invoices c = upd_row inv_id i (\<lambda>r. g (f r)) (db_invoices a)"
    unfolding g(2) f(2) by (rule upd_row_twice) (use f(1) in \<open>simp add: same_debt_def\<close>)
  ultimately have "\<exists>h. (\<forall>r. same_debt r (h r)) \<and> db_invoices c = upd_row inv_id i h (db_invoices a)"
    by (intro exI[of _ "\<lambda>r. g (f r)"] conjI allI)
  then show ?thesis using ab bc unfolding restatus_def by simp
qed

lemma restatus_audit: "restatus i d d' \<Longrightarrow> restatus i d (audit e m a t x y d')"
  by (simp add: restatus_def)

lemma restatus_modify:
  assumes "\<And>r. same_debt r (f r)"
  shows "restatus i d (modify_invoice i f d)"
  using assms unfolding restatus_def by (auto simp: modify_invoice_def)

lemma same_debt_apply_status: "same_debt r (apply_status e s r)"
  by (simp add: same_debt_def apply_status_def)

lemma find_invoice_audit [simp]: "find_invoice j (audit e m a t x y d) = find_invoice j d"
  by (simp add: find_invoice_def)

lemma find_modify_status:
  "find_invoice j (modify_invoice i (apply_status e s) d) =
     (if i = j then map_option (apply_status e s) (find_invoice j d) else find_invoice j d)"
  by (rule invoices.look_modify) (simp add: apply_status_def)

lemma update_status_moves:
  assumes "find_invoice i d = Some r" and "can_transition (inv_status r) s"
  shows "\<exists>d'. update_status e i s det d = (Inr (), d') \<and> restatus i d d' \<and>
     find_invoice i d' = Some (apply_status e s r)"
proof -
  have "inv_status r \<noteq> s"
    using assms(2) invoice_machine.irrefl[of "inv_status r"] by (auto simp: can_transition_def)
  then show ?thesis
    using assms by (simp add: update_status_def find_modify_status restatus_audit restatus_modify same_debt_apply_status)
qed

lemma update_status_restatus: "restatus i d (snd (update_status e i s det d))"
  by (simp add: update_status_def restatus_audit restatus_modify same_debt_apply_status split: option.split)

text \<open>\<open>settle\<close> always reaches its target.\<close>

lemma settle_reaches:
  assumes r: "find_invoice i d = Some r" and live: "inv_status r \<noteq> ICancelled"
  shows "\<exists>d' r'. settle e i r c d = (Inr (), d') \<and> restatus i d d' \<and> find_invoice i d' = Some r' \<and>
     inv_status r' = target_status (inv_status r) c (inv_amount_atomic r)"
proof -
  let ?t = "target_status (inv_status r) c (inv_amount_atomic r)"
  consider (same) "?t = inv_status r" | (one) "?t \<noteq> inv_status r" "can_transition (inv_status r) ?t"
    | (two) "?t \<noteq> inv_status r" "\<not> can_transition (inv_status r) ?t" "inv_status r = IPending" "?t = IOverpaid"
    using target_allowed[OF live, of c "inv_amount_atomic r"] by blast
  then show ?thesis
  proof cases
    case same
    then show ?thesis using r by (simp add: settle_def)
  next
    case one
    have ne: "inv_status r \<noteq> ?t" using one(1) by simp
    from update_status_moves[OF r one(2), of e] obtain d' where
      "update_status e i ?t [(''cumulative_atomic'', JInt c), (''required_atomic'', JInt (inv_amount_atomic r))] d = (Inr (), d')"
      and "restatus i d d'" and "find_invoice i d' = Some (apply_status e ?t r)" by blast
    then show ?thesis using one(2) ne by (simp add: settle_def Let_def apply_status_def)
  next
    case two
    let ?det = "[(''cumulative_atomic'', JInt c), (''required_atomic'', JInt (inv_amount_atomic r))]"
    have "can_transition (inv_status r) IPaid" using two(3) by (simp add: can_transition_def)
    from update_status_moves[OF r this, of e ?det] obtain d1 where
      1: "update_status e i IPaid ?det d = (Inr (), d1)" "restatus i d d1"
         "find_invoice i d1 = Some (apply_status e IPaid r)" by blast
    have "can_transition (inv_status (apply_status e IPaid r)) IOverpaid"
      by (simp add: can_transition_def apply_status_def)
    from update_status_moves[OF 1(3) this, of e ?det] obtain d2 where
      2: "update_status e i IOverpaid ?det d1 = (Inr (), d2)" "restatus i d1 d2"
         "find_invoice i d2 = Some (apply_status e IOverpaid (apply_status e IPaid r))" by blast
    have "\<not> can_transition IPending IOverpaid" by (simp add: can_transition_def)
    then have "settle e i r c d = (Inr (), d2)"
      using two(3,4) 1(1) 2(1) by (simp add: settle_def Let_def)
    then show ?thesis using restatus_trans[OF 1(2) 2(2)] 2(3) two(4) by (simp add: apply_status_def)
  qed
qed

section \<open>Preserving the contract\<close>

lemma restatus_wf: "restatus i d d' \<Longrightarrow> ledger_wf d \<Longrightarrow> ledger_wf d'"
proof -
  assume rs: "restatus i d d'" and wf: "ledger_wf d"
  obtain f where f: "\<And>r. same_debt r (f r)" "db_invoices d' = upd_row inv_id i f (db_invoices d)"
    using rs unfolding restatus_def by blast
  have ids: "map inv_id (db_invoices d') = map inv_id (db_invoices d)"
    unfolding f(2) by (rule upd_row_keys) (use f(1) in \<open>simp add: same_debt_def\<close>)
  have amts: "\<forall>r \<in> set (db_invoices d'). 0 < inv_amount_atomic r \<and> inv_id r < db_next_id d"
  proof
    fix r assume "r \<in> set (db_invoices d')"
    then obtain q where "q \<in> set (db_invoices d)" and "r = (if inv_id q = i then f q else q)"
      unfolding f(2) in_upd_row by blast
    then show "0 < inv_amount_atomic r \<and> inv_id r < db_next_id d"
      using wf f(1)[of q] by (auto simp: ledger_wf_def same_debt_def)
  qed
  have "inv_id ` set (db_invoices d') = inv_id ` set (db_invoices d)"
    using ids by (metis set_map)
  then show ?thesis using wf rs ids amts by (simp add: ledger_wf_def restatus_def)
qed

lemma restatus_settled_but: "restatus i d d' \<Longrightarrow> settled_but X d \<Longrightarrow> settled_but (insert i X) d'"
proof -
  assume rs: "restatus i d d'" and st: "settled_but X d"
  obtain f where f: "\<And>r. same_debt r (f r)" "db_invoices d' = upd_row inv_id i f (db_invoices d)"
    using rs unfolding restatus_def by blast
  have pays: "db_payments d' = db_payments d" using rs by (simp add: restatus_def)
  show ?thesis unfolding settled_but_def
  proof
    fix r assume "r \<in> set (db_invoices d')"
    then obtain q where q: "q \<in> set (db_invoices d)" "r = (if inv_id q = i then f q else q)"
      unfolding f(2) in_upd_row by blast
    show "inv_id r \<in> insert i X \<or> settled_row d' r"
    proof (cases "inv_id q = i")
      case True
      then show ?thesis using q f(1)[of q] by (simp add: same_debt_def)
    next
      case False
      then show ?thesis using q st sum_invoice_payments_cong[OF pays]
        by (auto simp: settled_but_def settled_row_def)
    qed
  qed
qed

lemma settled_but_found:
  assumes "settled_but (insert i X) d" and "ledger_wf d" and "find_invoice i d = Some r" and "settled_row d r"
  shows "settled_but X d"
  unfolding settled_but_def
proof
  fix q assume q: "q \<in> set (db_invoices d)"
  show "inv_id q \<in> X \<or> settled_row d q"
  proof (cases "inv_id q = i")
    case True
    have "q = r" using get_row_distinct[of inv_id "db_invoices d" q] q True assms(2,3)
      by (simp add: ledger_wf_def find_invoice_def)
    then show ?thesis using assms(4) by simp
  next
    case False
    then show ?thesis using assms(1) q by (auto simp: settled_but_def)
  qed
qed

lemma ledger_unchanged_wf: "ledger_unchanged d d' \<Longrightarrow> ledger_wf d \<Longrightarrow> ledger_wf d'"
  by (auto simp: ledger_unchanged_def ledger_wf_def intro: less_le_trans)

lemma ledger_unchanged_settled: "ledger_unchanged d d' \<Longrightarrow> settled_but X d \<Longrightarrow> settled_but X d'"
  using sum_invoice_payments_cong[of d' d]
  by (simp add: ledger_unchanged_def settled_but_def settled_row_def)

lemma ledger_unchanged_ok: "ledger_unchanged d d' \<Longrightarrow> ledger_ok d \<Longrightarrow> ledger_ok d'"
  using ledger_unchanged_wf ledger_unchanged_settled by (auto simp: ledger_ok_def)

lemma subscription_hook_ledger: "ledger_unchanged d (snd (subscription_hook e i s d))"
proof (cases "find_invoice i d")
  case None
  then show ?thesis by (simp add: subscription_hook_def)
next
  case (Some r)
  obtain x d1 where h: "handle_subscription_payment e i d = (x, d1)"
    by (cases "handle_subscription_payment e i d")
  then have "ledger_unchanged d d1" using handle_subscription_payment_ledger[of d e i] by simp
  then show ?thesis using Some h by (simp add: subscription_hook_def audit_ledger split: sum.split)
qed

text \<open>
  The recalculation, in one statement: it succeeds or stops in the hook, and either way the
  invoice has the status its confirmed payments call for, everything else being as before.
\<close>

lemma recalculate_effect:
  assumes "find_invoice i d = Some r" and "inv_status r \<noteq> ICancelled"
  obtains d1 r1 where "restatus i d d1" and "find_invoice i d1 = Some r1"
    and "inv_status r1 = target_status (inv_status r) (sum_invoice_payments i d) (inv_amount_atomic r)"
    and "recalculate_invoice_status e i d = subscription_hook e i (inv_status r) d1"
    and "ledger_unchanged d1 (snd (recalculate_invoice_status e i d))"
proof -
  obtain d1 r1 where s: "settle e i r (sum_invoice_payments i d) d = (Inr (), d1)"
    and r1: "restatus i d d1" "find_invoice i d1 = Some r1"
      "inv_status r1 = target_status (inv_status r) (sum_invoice_payments i d) (inv_amount_atomic r)"
    using settle_reaches[OF assms] by blast
  have eq: "recalculate_invoice_status e i d = subscription_hook e i (inv_status r) d1"
    using assms s by (simp add: recalculate_invoice_status_def)
  show ?thesis by (rule that[OF r1 eq]) (simp add: eq subscription_hook_ledger)
qed

lemma restatus_find:
  assumes "restatus i d d'" and "find_invoice j d = Some r"
  shows "\<exists>r'. find_invoice j d' = Some r' \<and> same_debt r r' \<and> (j \<noteq> i \<longrightarrow> r' = r)"
proof -
  obtain f where f: "\<And>r. same_debt r (f r)" "db_invoices d' = upd_row inv_id i f (db_invoices d)"
    using assms(1) unfolding restatus_def by blast
  have "find_invoice j d' = (if i = j then map_option f (find_invoice j d) else find_invoice j d)"
    unfolding find_invoice_def f(2) by (rule get_row_upd) (use f(1) in \<open>simp add: same_debt_def\<close>)
  then show ?thesis using assms(2) f(1)[of r] by auto
qed

theorem recalculate_restores:
  assumes wf: "ledger_wf d" and st: "settled_but {i} d" and r: "find_invoice i d = Some r"
  shows "ledger_ok (snd (recalculate_invoice_status e i d))"
proof (cases "inv_status r = ICancelled")
  case True
  then have "settled_row d r" by (simp add: settled_row_def)
  then have "settled_but {} d" using settled_but_found[OF st wf r] by simp
  then show ?thesis using wf r True by (simp add: recalculate_invoice_status_def ledger_ok_def)
next
  case False
  obtain d1 r1 where e: "restatus i d d1" "find_invoice i d1 = Some r1"
      "inv_status r1 = target_status (inv_status r) (sum_invoice_payments i d) (inv_amount_atomic r)"
      "ledger_unchanged d1 (snd (recalculate_invoice_status e i d))"
    using recalculate_effect[OF r False] by metis
  have wf1: "ledger_wf d1" using restatus_wf[OF e(1) wf] .
  have st1: "settled_but {i} d1" using restatus_settled_but[OF e(1) st] by simp
  have sm: "sum_invoice_payments i d1 = sum_invoice_payments i d"
    using e(1) by (intro sum_invoice_payments_cong) (simp add: restatus_def)
  have amt: "inv_amount_atomic r1 = inv_amount_atomic r" and id1: "inv_id r1 = i"
    using restatus_find[OF e(1) r] e(2) invoices.look_key[OF e(2)] by (auto simp: same_debt_def)
  have "settled (inv_status r1) (sum_invoice_payments i d) (inv_amount_atomic r)"
    unfolding e(3) using sum_status_nonneg[OF wf] False
    by (intro target_settled) (simp_all add: sum_invoice_payments_def)
  then have "settled_row d1 r1" by (simp add: settled_row_def sm amt id1)
  then have "settled_but {} d1" using settled_but_found[OF st1 wf1 e(2)] by simp
  with wf1 have "ledger_ok d1" by (simp add: ledger_ok_def)
  then show ?thesis by (rule ledger_unchanged_ok[OF e(4)])
qed

section \<open>Changing a payment\<close>

text \<open>A mutation of one payment that keeps its invoice, transaction and amount.\<close>

definition same_transfer :: "payment \<Rightarrow> payment \<Rightarrow> bool" where
  "same_transfer p q \<longleftrightarrow> pay_id q = pay_id p \<and> pay_invoice q = pay_invoice p \<and>
     pay_tx_hash q = pay_tx_hash p \<and> pay_amount_atomic q = pay_amount_atomic p"

definition repay :: "uuid \<Rightarrow> (payment \<Rightarrow> payment) \<Rightarrow> db \<Rightarrow> db \<Rightarrow> bool" where
  "repay pid f d d' \<longleftrightarrow>
     (\<forall>p. same_transfer p (f p)) \<and> db_payments d' = upd_row pay_id pid f (db_payments d) \<and>
     db_invoices d' = db_invoices d \<and> db_addresses d' = db_addresses d \<and>
     db_merchants d' = db_merchants d \<and> db_next_id d' = db_next_id d"

lemma repay_find:
  assumes "repay pid f d d'"
  shows "find_payment j d' = (if pid = j then map_option f (find_payment j d) else find_payment j d)"
proof -
  have "find_payment j d' = get_row pay_id j (upd_row pay_id pid f (db_payments d))"
    using assms by (simp add: repay_def find_payment_def)
  also have "\<dots> = (if pid = j then map_option f (get_row pay_id j (db_payments d)) else get_row pay_id j (db_payments d))"
    by (rule get_row_upd) (use assms in \<open>simp add: repay_def same_transfer_def\<close>)
  finally show ?thesis by (simp add: find_payment_def)
qed

lemma repay_wf:
  assumes rp: "repay pid f d d'" and wf: "ledger_wf d"
  shows "ledger_wf d'"
proof -
  have f: "same_transfer p (f p)" for p using rp by (simp add: repay_def)
  have pays: "db_payments d' = upd_row pay_id pid f (db_payments d)" using rp by (simp add: repay_def)
  have ids: "map pay_id (db_payments d') = map pay_id (db_payments d)"
    unfolding pays by (rule upd_row_keys) (use f in \<open>simp add: same_transfer_def\<close>)
  have "\<forall>p \<in> set (db_payments d'). 0 \<le> pay_amount_atomic p \<and> pay_id p < db_next_id d \<and>
        pay_invoice p \<in> inv_id ` set (db_invoices d)"
  proof
    fix p assume "p \<in> set (db_payments d')"
    then obtain q where q: "q \<in> set (db_payments d)" "p = (if pay_id q = pid then f q else q)"
      unfolding pays in_upd_row by blast
    have "0 \<le> pay_amount_atomic q \<and> pay_id q < db_next_id d \<and> pay_invoice q \<in> inv_id ` set (db_invoices d)"
      using wf q(1) by (simp add: ledger_wf_def)
    then show "0 \<le> pay_amount_atomic p \<and> pay_id p < db_next_id d \<and> pay_invoice p \<in> inv_id ` set (db_invoices d)"
      using q(2) f[of q] by (cases "pay_id q = pid") (simp_all add: same_transfer_def)
  qed
  then show ?thesis using wf rp ids by (simp add: ledger_wf_def repay_def)
qed

text \<open>The sum is untouched when the payment counts neither before nor after.\<close>

lemma repay_sum:
  assumes rp: "repay pid f d d'" and wf: "ledger_wf d" and p: "find_payment pid d = Some p"
    and out: "pay_invoice p \<noteq> i \<or> pay_status p \<noteq> st \<and> pay_status (f p) \<noteq> st"
  shows "sum_status st i d' = sum_status st i d"
proof -
  have "q = p" if "q \<in> set (db_payments d)" and "pay_id q = pid" for q
    using get_row_distinct[of pay_id "db_payments d" q] that wf p
    by (simp add: ledger_wf_def find_payment_def)
  then have "filter (\<lambda>p. pay_invoice p = i \<and> pay_status p = st) (upd_row pay_id pid f (db_payments d)) =
      filter (\<lambda>p. pay_invoice p = i \<and> pay_status p = st) (db_payments d)"
    using out rp by (intro filter_upd_row_other) (auto simp: repay_def same_transfer_def)
  then show ?thesis using rp by (simp add: sum_status_def repay_def)
qed

lemma repay_settled_but:
  assumes rp: "repay pid f d d'" and wf: "ledger_wf d" and p: "find_payment pid d = Some p"
    and st: "settled_but X d"
  shows "settled_but (insert (pay_invoice p) X) d'"
  unfolding settled_but_def
proof
  fix r assume r: "r \<in> set (db_invoices d')"
  show "inv_id r \<in> insert (pay_invoice p) X \<or> settled_row d' r"
  proof (cases "inv_id r = pay_invoice p")
    case False
    then have "sum_invoice_payments (inv_id r) d' = sum_invoice_payments (inv_id r) d"
      unfolding sum_invoice_payments_def by (intro repay_sum[OF rp wf p]) auto
    then show ?thesis using st r rp by (auto simp: settled_but_def settled_row_def repay_def)
  qed simp
qed

lemma repay_settled_same:
  assumes rp: "repay pid f d d'" and wf: "ledger_wf d" and p: "find_payment pid d = Some p"
    and st: "settled_but X d" and out: "pay_status p \<noteq> PConfirmed" "pay_status (f p) \<noteq> PConfirmed"
  shows "settled_but X d'"
proof -
  have "sum_invoice_payments i d' = sum_invoice_payments i d" for i
    unfolding sum_invoice_payments_def using out by (intro repay_sum[OF rp wf p]) auto
  then show ?thesis using st rp by (simp add: settled_but_def settled_row_def repay_def)
qed

lemma same_transfer_bump: "same_transfer p (bump_payment e c h p)"
  by (simp add: same_transfer_def bump_payment_def Let_def)

lemma update_confirmations_cases:
  obtains (failed) x where "update_confirmations e pid c h d = (Inl x, d)"
    | (same) "update_confirmations e pid c h d = (Inr False, d)"
        and "\<And>p. find_payment pid d = Some p \<Longrightarrow> pay_status p = POrphaned \<or> \<not> bump_changes c h p"
    | (changed) p d2 where "find_payment pid d = Some p" and "pay_status p \<noteq> POrphaned"
        and "bump_changes c h p"
        and "update_confirmations e pid c h d = (Inr (pay_status (bump_payment e c h p) = PConfirmed), d2)"
        and "repay pid (bump_payment e c h) d d2"
proof (cases "find_payment pid d")
  case None
  then show ?thesis using failed by (simp add: update_confirmations_def)
next
  case (Some p)
  consider "pay_status p = POrphaned \<or> \<not> bump_changes c h p"
    | "pay_status p \<noteq> POrphaned" "bump_changes c h p" "\<not> payment_fits (bump_payment e c h p)"
    | "pay_status p \<noteq> POrphaned" "bump_changes c h p" "payment_fits (bump_payment e c h p)" by blast
  then show ?thesis
  proof cases
    case 1
    then show ?thesis using Some same by (auto simp: update_confirmations_def)
  next
    case 2
    then show ?thesis using Some failed by (simp add: update_confirmations_def Let_def)
  next
    case 3
    define d2 where "d2 = (if pay_status p = PDetected \<and> confirmation_threshold \<le> c then
        audit e (invoice_merchant (pay_invoice p) d) ''payment.confirmed'' ''payment'' pid
          [(''tx_hash'', JStr (pay_tx_hash p)), (''confirmations'', JInt c), (''invoice_id'', juuid (pay_invoice p))]
          (modify_payment pid (bump_payment e c h) d)
      else modify_payment pid (bump_payment e c h) d)"
    have eq: "update_confirmations e pid c h d = (Inr (pay_status (bump_payment e c h p) = PConfirmed), d2)"
      using Some 3 by (simp add: update_confirmations_def Let_def d2_def)
    have "repay pid (bump_payment e c h) d d2"
      unfolding repay_def d2_def by (simp add: same_transfer_bump) (simp add: modify_payment_def)
    then show ?thesis using changed[OF Some 3(1,2) eq] by simp
  qed
qed

text \<open>Confirmation followed by the recalculation of the payment's invoice keeps the contract.\<close>

lemma bump_not_confirmed:
  "pay_status (bump_payment e c h p) \<noteq> PConfirmed \<Longrightarrow> pay_status p \<noteq> PConfirmed"
  by (auto simp: bump_payment_def Let_def)

lemma update_confirmations_ledger:
  assumes ok: "ledger_ok d" and u: "update_confirmations e pid c h d = (x, d1)"
  shows "ledger_wf d1" and "x \<noteq> Inr True \<Longrightarrow> ledger_ok d1"
    and "find_payment pid d = Some p \<Longrightarrow> settled_but {pay_invoice p} d1"
    and "db_invoices d1 = db_invoices d" and "db_addresses d1 = db_addresses d"
proof -
  have wf: "ledger_wf d" and st: "settled_but {} d" using ok by (simp_all add: ledger_ok_def)
  have weak: "settled_but {i} d" for i using st by (simp add: settled_but_def)
  have all: "ledger_wf d1 \<and> (x \<noteq> Inr True \<longrightarrow> ledger_ok d1) \<and>
    (find_payment pid d = Some p \<longrightarrow> settled_but {pay_invoice p} d1) \<and>
    db_invoices d1 = db_invoices d \<and> db_addresses d1 = db_addresses d"
  proof (cases rule: update_confirmations_cases[of e pid c h d])
    case (failed y)
    then show ?thesis using u ok wf weak by simp
  next
    case same
    then show ?thesis using u ok wf weak by simp
  next
    case (changed q d2)
    then have d1: "d1 = d2" "x = Inr (pay_status (bump_payment e c h q) = PConfirmed)" using u by simp_all
    have wf2: "ledger_wf d2" using repay_wf[OF changed(5) wf] .
    have "ledger_ok d2" if "pay_status (bump_payment e c h q) \<noteq> PConfirmed"
      using repay_settled_same[OF changed(5) wf changed(1) st bump_not_confirmed[OF that] that] wf2
      by (simp add: ledger_ok_def)
    moreover have "settled_but {pay_invoice q} d2" using repay_settled_but[OF changed(5) wf changed(1) st] by simp
    ultimately show ?thesis using d1 wf2 changed(1,5) by (auto simp: repay_def)
  qed
  then show "ledger_wf d1" and "x \<noteq> Inr True \<Longrightarrow> ledger_ok d1"
    and "find_payment pid d = Some p \<Longrightarrow> settled_but {pay_invoice p} d1"
    and "db_invoices d1 = db_invoices d" and "db_addresses d1 = db_addresses d" by auto
qed

section \<open>The operations\<close>

lemma create_payment_cases:
  obtains (failed) x where "create_payment e r txid a c h mp d = (Inl x, tick_id d)"
    | (created) d1 p where "create_payment e r txid a c h mp d = (Inr (db_next_id d), d1)"
        and "p = new_payment e (db_next_id d) (inv_id r) txid a c h" and "0 \<le> a"
        and "db_payments d1 = db_payments d @ [p]" and "db_invoices d1 = db_invoices d"
        and "db_addresses d1 = db_addresses d" and "db_next_id d1 = Suc (db_next_id d)"
proof -
  define p where "p = new_payment e (db_next_id d) (inv_id r) txid a c h"
  show ?thesis
  proof (cases "payment_fits p \<and> \<not> payment_refused p d")
    case False
    then show ?thesis using failed
      by (cases "payment_fits p") (simp_all add: create_payment_def p_def Let_def)
  next
    case True
    have "0 \<le> a" using True by (simp add: payment_refused_def p_def new_payment_def not_less)
    then show ?thesis
      using created[of "add_audit (detected_audit e r p mp) (add_payment p (tick_id d))" p] True
      by (simp add: create_payment_def p_def Let_def) (simp add: add_audit_def add_payment_def tick_id_def new_payment_def)
  qed
qed

lemma create_payment_ledger:
  assumes ok: "ledger_ok d" and r: "find_invoice (inv_id r) d = Some r"
    and c: "create_payment e r txid a c h mp d = (x, d1)"
  shows "ledger_wf d1" and "settled_but {inv_id r} d1" and "db_invoices d1 = db_invoices d"
    and "\<not> (\<exists>pid. x = Inr pid) \<Longrightarrow> ledger_ok d1"
proof -
  have wf: "ledger_wf d" and st: "settled_but {} d" using ok by (simp_all add: ledger_ok_def)
  have tick: "ledger_wf (tick_id d)" "settled_but {} (tick_id d)"
    using wf st sum_invoice_payments_cong[of "tick_id d" d]
    by (auto simp: ledger_wf_def settled_but_def settled_row_def less_Suc_eq)
  have "ledger_wf d1 \<and> settled_but {inv_id r} d1 \<and> db_invoices d1 = db_invoices d \<and>
    ((\<exists>pid. x = Inr pid) \<or> ledger_ok d1)"
  proof (cases rule: create_payment_cases[of e r txid a c h mp d])
    case (failed y)
    then show ?thesis using assms(3) tick by (simp add: ledger_ok_def) (simp add: settled_but_def)
  next
    case (created d2 p)
    have in_r: "inv_id r \<in> inv_id ` set (db_invoices d)"
      using get_row_in[of inv_id "inv_id r" "db_invoices d" r] r by (simp add: find_invoice_def)
    have p: "pay_id p = db_next_id d" "pay_invoice p = inv_id r" "pay_amount_atomic p = a"
      using created(2) by (simp_all add: new_payment_def)
    have fresh: "db_next_id d \<notin> pay_id ` set (db_payments d)" using wf by (auto simp: ledger_wf_def)
    have wf2: "ledger_wf d2"
      using wf created(3-7) p in_r fresh by (auto simp: ledger_wf_def less_Suc_eq)
    have "sum_invoice_payments i d2 = sum_invoice_payments i d" if "i \<noteq> inv_id r" for i
      using that p created(4) by (simp add: sum_invoice_payments_def sum_status_def)
    then have "settled_row d2 q" if "settled_row d q" and "inv_id q \<noteq> inv_id r" for q
      using that by (simp add: settled_row_def)
    then have "settled_but {inv_id r} d2"
      using st created(5) by (auto simp: settled_but_def)
    then show ?thesis using wf2 created(1,5) assms(3) by auto
  qed
  then show "ledger_wf d1" and "settled_but {inv_id r} d1" and "db_invoices d1 = db_invoices d"
    and "\<not> (\<exists>pid. x = Inr pid) \<Longrightarrow> ledger_ok d1" by auto
qed

lemma cancelled_settled:
  assumes "settled_but {inv_id r} d" and "ledger_wf d" and "find_invoice (inv_id r) d = Some r"
    and "inv_status r = ICancelled"
  shows "ledger_ok d"
  using settled_but_found[of "inv_id r" "{}" d r] assms by (simp add: ledger_ok_def settled_row_def)

lemma find_by_subaddress_found:
  assumes "find_invoice_by_subaddress_index a b d = Inr (Some r)"
  shows "find_invoice (inv_id r) d = Some r"
proof -
  have "\<exists>j. find_invoice j d = Some r"
    using assms by (auto simp: find_invoice_by_subaddress_index_def split: sum.splits option.splits)
  then show ?thesis using invoices.look_key by auto
qed

lemma process_new_ok:
  assumes ok: "ledger_ok d" and r: "find_invoice (inv_id r) d = Some r"
  shows "ledger_ok (snd (process_new e tx mp r d))"
proof -
  obtain x d1 where c: "create_payment e r (tx_txid tx) (tx_amount tx) (tx_conf tx) (tx_block_height tx) mp d = (x, d1)"
    by fastforce
  note L = create_payment_ledger[OF ok r c]
  have r1: "find_invoice (inv_id r) d1 = Some r" using r L(3) by (simp add: find_invoice_def)
  show ?thesis
  proof (cases x)
    case (Inl y)
    then show ?thesis using L(4) c by (simp add: process_new_def)
  next
    case (Inr pid)
    show ?thesis
    proof (cases "inv_status r = ICancelled")
      case True
      then show ?thesis using cancelled_settled[OF L(2,1) r1] c Inr by (simp add: process_new_def)
    next
      case False
      then show ?thesis using recalculate_restores[OF L(1,2) r1, of e] c Inr
        by (cases "recalculate_invoice_status e (inv_id r) d1") (simp add: process_new_def split: sum.split)
    qed
  qed
qed

lemma find_payment_tx:
  assumes "find_payment_by_tx_hash t d = Inr (Some p)" and "ledger_wf d"
  shows "find_payment (pay_id p) d = Some p" and "pay_tx_hash p = t"
proof -
  have "filter (\<lambda>p. pay_tx_hash p = t) (db_payments d) = [p]"
    using assms(1) by (simp add: find_payment_by_tx_hash_def scalar_one_or_none_Some)
  then have "p \<in> set (filter (\<lambda>p. pay_tx_hash p = t) (db_payments d))" by simp
  then have p: "p \<in> set (db_payments d) \<and> pay_tx_hash p = t" by simp
  then show "pay_tx_hash p = t" by simp
  show "find_payment (pay_id p) d = Some p"
    unfolding find_payment_def by (rule get_row_distinct) (use p assms(2) in \<open>simp_all add: ledger_wf_def\<close>)
qed

lemma process_existing_ok:
  assumes ok: "ledger_ok d" and r: "find_invoice (inv_id r) d = Some r"
    and p: "find_payment (pay_id p) d = Some p" and own: "pay_invoice p = inv_id r"
  shows "ledger_ok (snd (process_existing e tx r p d))"
proof -
  obtain x d1 where u: "update_confirmations e (pay_id p) (tx_conf tx) (tx_block_height tx) d = (x, d1)"
    by fastforce
  note L = update_confirmations_ledger[OF ok u]
  have r1: "find_invoice (inv_id r) d1 = Some r" using r L(4) by (simp add: find_invoice_def)
  have st1: "settled_but {inv_id r} d1" using L(3)[OF p] own by simp
  show ?thesis
  proof (cases x)
    case (Inl y)
    then show ?thesis using L(2) u by (simp add: process_existing_def)
  next
    case (Inr t)
    consider "inv_status r = ICancelled"
      | "inv_status r \<noteq> ICancelled" "t \<or> map_option pay_status (find_payment (pay_id p) d1) = Some PConfirmed"
      | "inv_status r \<noteq> ICancelled" "\<not> t" "map_option pay_status (find_payment (pay_id p) d1) \<noteq> Some PConfirmed"
      by blast
    then show ?thesis
    proof cases
      case 1
      then show ?thesis using cancelled_settled[OF st1 L(1) r1] u Inr by (simp add: process_existing_def)
    next
      case 2
      then show ?thesis using recalculate_restores[OF L(1) st1 r1, of e] u Inr
        by (cases "recalculate_invoice_status e (inv_id r) d1") (simp add: process_existing_def split: sum.split)
    next
      case 3
      then show ?thesis using L(2) u Inr by (auto simp: process_existing_def)
    qed
  qed
qed

text \<open>
  The lookup of an earlier payment goes by transaction alone. The contract is kept as long as the
  payment it finds, if any, belongs to the invoice the transfer pays.
\<close>

definition tx_single :: "db \<Rightarrow> transfer \<Rightarrow> bool" where
  "tx_single d tx \<longleftrightarrow> (case (tx_minor tx, find_payment_by_tx_hash (tx_txid tx) d) of
      (Some m, Inr (Some p)) \<Rightarrow>
        (case find_invoice_by_subaddress_index (tx_major tx) m d of
           Inr (Some r) \<Rightarrow> pay_invoice p = inv_id r
         | _ \<Rightarrow> True)
    | _ \<Rightarrow> True)"

lemma process_transfer_ok:
  assumes ok: "ledger_ok d" and single: "tx_single d tx"
  shows "ledger_ok (snd (process_transfer e tx mp d))"
proof (cases "tx_minor tx")
  case None
  then show ?thesis using ok by (simp add: process_transfer_def)
next
  case m: (Some m)
  show ?thesis
  proof (cases "\<not> tx_amount tx < dust_threshold_atomic \<and> (\<exists>r. find_invoice_by_subaddress_index (tx_major tx) m d = Inr (Some r))")
    case False
    then show ?thesis using ok m
      by (auto simp: process_transfer_def split: sum.split option.split)
  next
    case True
    then obtain r where r: "find_invoice_by_subaddress_index (tx_major tx) m d = Inr (Some r)" by blast
    note fr = find_by_subaddress_found[OF r]
    show ?thesis
    proof (cases "find_payment_by_tx_hash (tx_txid tx) d")
      case (Inl x)
      then show ?thesis using ok m True r by (simp add: process_transfer_def)
    next
      case (Inr q)
      show ?thesis
      proof (cases q)
        case None
        then show ?thesis using process_new_ok[OF ok fr] m True r Inr by (simp add: process_transfer_def)
      next
        case (Some p)
        have own: "pay_invoice p = inv_id r" using single m Inr Some r by (simp add: tx_single_def)
        have "find_payment (pay_id p) d = Some p"
          using find_payment_tx(1)[of "tx_txid tx" d p] Inr Some ok by (simp add: ledger_ok_def)
        then show ?thesis using process_existing_ok[OF ok fr _ own] m True r Inr Some
          by (simp add: process_transfer_def)
      qed
    qed
  qed
qed

lemma handle_reorg_ok:
  assumes ok: "ledger_ok d"
  shows "ledger_ok (snd (handle_reorg e pid d))"
proof (cases "find_payment pid d")
  case None
  then show ?thesis using ok by (simp add: handle_reorg_def)
next
  case (Some p)
  show ?thesis
  proof (cases "pay_status p = POrphaned")
    case True
    then show ?thesis using ok Some by (simp add: handle_reorg_def)
  next
    case False
    define d2 where "d2 = audit e (invoice_merchant (pay_invoice p) d) ''payment.orphaned'' ''payment'' pid
        [(''tx_hash'', JStr (pay_tx_hash p)), (''previous_status'', JStr (payment_status_value (pay_status p))),
         (''invoice_id'', juuid (pay_invoice p))] (modify_payment pid (\<lambda>q. q\<lparr>pay_status := POrphaned\<rparr>) d)"
    have rp: "repay pid (\<lambda>q. q\<lparr>pay_status := POrphaned\<rparr>) d d2"
      by (simp add: repay_def d2_def same_transfer_def) (simp add: modify_payment_def)
    have wf: "ledger_wf d" and st: "settled_but {} d" using ok by (simp_all add: ledger_ok_def)
    have wf2: "ledger_wf d2" using repay_wf[OF rp wf] .
    have st2: "settled_but {pay_invoice p} d2" using repay_settled_but[OF rp wf Some st] by simp
    have inv2: "db_invoices d2 = db_invoices d" using rp by (simp add: repay_def)
    have "p \<in> set (db_payments d)" using Some get_row_in by (auto simp: find_payment_def)
    then have "pay_invoice p \<in> inv_id ` set (db_invoices d)" using wf by (simp add: ledger_wf_def)
    then obtain r where r: "find_invoice (pay_invoice p) d = Some r"
      using get_row_None[of inv_id "pay_invoice p" "db_invoices d"]
      by (cases "find_invoice (pay_invoice p) d") (auto simp: find_invoice_def)
    then have "find_invoice (pay_invoice p) d2 = Some r" by (simp add: find_invoice_def inv2)
    from recalculate_restores[OF wf2 st2 this, of e] show ?thesis
      using Some False r by (simp add: handle_reorg_def Let_def d2_def)
  qed
qed

end
