(* ===== verification/Replay.thy ===== *)
theory Replay
  imports Settlement
begin

text \<open>
  Seeing a transfer again. The engine scans overlapping block ranges, so every transfer reaches
  \<open>process_transfer\<close> many times; these lemmas show that a repetition changes nothing.
\<close>

section \<open>A recalculation that has nothing to do\<close>

lemma recalculate_noop:
  assumes ok: "ledger_ok d" and r: "find_invoice i d = Some r" and live: "inv_status r \<noteq> ICancelled"
  shows "recalculate_invoice_status e i d = (Inr (), d)"
proof -
  have "r \<in> set (db_invoices d)" using r get_row_in by (auto simp: find_invoice_def)
  then have "settled_row d r" and pos: "0 < inv_amount_atomic r"
    using ok by (auto simp: ledger_ok_def settled_but_def ledger_wf_def)
  moreover have "inv_id r = i" using invoices.look_key[OF r] .
  ultimately have "settled (inv_status r) (sum_invoice_payments i d) (inv_amount_atomic r)"
    by (simp add: settled_row_def)
  moreover have "0 \<le> sum_invoice_payments i d"
    using sum_status_nonneg ok by (simp add: ledger_ok_def sum_invoice_payments_def)
  ultimately have "target_status (inv_status r) (sum_invoice_payments i d) (inv_amount_atomic r) = inv_status r"
    using target_fixpoint pos live by blast
  then have "settle e i r (sum_invoice_payments i d) d = (Inr (), d)" by (simp add: settle_def Let_def)
  then show ?thesis using r live by (simp add: recalculate_invoice_status_def subscription_hook_def)
qed

lemma recalculate_frames:
  "db_payments (snd (recalculate_invoice_status e i d)) = db_payments d \<and>
   db_addresses (snd (recalculate_invoice_status e i d)) = db_addresses d \<and>
   (\<forall>j r. find_invoice j d = Some r \<longrightarrow> (\<exists>r'. find_invoice j (snd (recalculate_invoice_status e i d)) = Some r'))"
proof (cases "\<exists>r. find_invoice i d = Some r \<and> inv_status r \<noteq> ICancelled")
  case False
  then have "snd (recalculate_invoice_status e i d) = d"
    by (auto simp: recalculate_invoice_status_def split: option.split)
  then show ?thesis by simp
next
  case True
  then obtain r where r: "find_invoice i d = Some r" "inv_status r \<noteq> ICancelled" by blast
  obtain d1 where d1: "restatus i d d1" "ledger_unchanged d1 (snd (recalculate_invoice_status e i d))"
    using recalculate_effect[OF r, of e] by metis
  then have "find_invoice j (snd (recalculate_invoice_status e i d)) = find_invoice j d1" for j
    by (simp add: ledger_unchanged_find)
  then show ?thesis using d1 restatus_find[OF d1(1)] by (fastforce simp: restatus_def ledger_unchanged_def)
qed

section \<open>A transfer that is known already\<close>

definition nothing_new :: "transfer \<Rightarrow> payment \<Rightarrow> bool" where
  "nothing_new tx p \<longleftrightarrow> pay_status p = POrphaned \<or> \<not> bump_changes (tx_conf tx) (tx_block_height tx) p"

lemma process_existing_noop:
  assumes "ledger_ok d" and "find_invoice (inv_id r) d = Some r"
    and "find_payment (pay_id p) d = Some p" and "nothing_new tx p"
  shows "process_existing e tx r p d = (Inr (Some (pay_id p)), d)"
proof -
  have "update_confirmations e (pay_id p) (tx_conf tx) (tx_block_height tx) d = (Inr False, d)"
    using assms(3,4) by (auto simp: update_confirmations_def nothing_new_def)
  then show ?thesis using recalculate_noop[OF assms(1,2), of e] by (simp add: process_existing_def)
qed

definition known_transfer :: "transfer \<Rightarrow> uuid \<Rightarrow> db \<Rightarrow> bool" where
  "known_transfer tx pid d \<longleftrightarrow> (\<exists>m r p. tx_minor tx = Some m \<and> dust_threshold_atomic \<le> tx_amount tx \<and>
     find_invoice_by_subaddress_index (tx_major tx) m d = Inr (Some r) \<and>
     find_payment_by_tx_hash (tx_txid tx) d = Inr (Some p) \<and> pay_id p = pid \<and> nothing_new tx p)"

lemma process_known:
  assumes ok: "ledger_ok d" and k: "known_transfer tx pid d"
  shows "process_transfer e tx mp d = (Inr (Some pid), d)"
proof -
  obtain m r p where m: "tx_minor tx = Some m" "dust_threshold_atomic \<le> tx_amount tx"
    "find_invoice_by_subaddress_index (tx_major tx) m d = Inr (Some r)"
    and p: "find_payment_by_tx_hash (tx_txid tx) d = Inr (Some p)" "pay_id p = pid" "nothing_new tx p"
    using k unfolding known_transfer_def by blast
  have wf: "ledger_wf d" using ok by (simp add: ledger_ok_def)
  have "process_existing e tx r p d = (Inr (Some pid), d)"
    using process_existing_noop[OF ok find_by_subaddress_found[OF m(3)] find_payment_tx(1)[OF p(1) wf] p(3)] p(2)
    by simp
  then show ?thesis using m p(1) by (simp add: process_transfer_def)
qed

lemma subaddress_kept:
  assumes "find_invoice_by_subaddress_index a m d = Inr (Some r)" and "db_addresses d' = db_addresses d"
    and "\<And>j r. find_invoice j d = Some r \<Longrightarrow> \<exists>r'. find_invoice j d' = Some r'"
  shows "\<exists>r'. find_invoice_by_subaddress_index a m d' = Inr (Some r')"
  using assms by (auto simp: find_invoice_by_subaddress_index_def split: sum.splits option.splits)

lemma known_recalculate:
  assumes "known_transfer tx pid d"
  shows "known_transfer tx pid (snd (recalculate_invoice_status e i d))"
proof -
  let ?d = "snd (recalculate_invoice_status e i d)"
  obtain m r p where m: "tx_minor tx = Some m" "dust_threshold_atomic \<le> tx_amount tx"
    "find_invoice_by_subaddress_index (tx_major tx) m d = Inr (Some r)"
    and p: "find_payment_by_tx_hash (tx_txid tx) d = Inr (Some p)" "pay_id p = pid" "nothing_new tx p"
    using assms unfolding known_transfer_def by blast
  have "\<exists>r'. find_invoice_by_subaddress_index (tx_major tx) m ?d = Inr (Some r')"
    using subaddress_kept[OF m(3), of ?d] recalculate_frames[of e i d] by blast
  moreover have "find_payment_by_tx_hash (tx_txid tx) ?d = Inr (Some p)"
    using p(1) recalculate_frames[of e i d] by (simp add: find_payment_by_tx_hash_def)
  ultimately show ?thesis using m p unfolding known_transfer_def by blast
qed

text \<open>Having processed a transfer, the engine knows it.\<close>

lemma bump_nothing_new: "pay_status p \<noteq> POrphaned \<Longrightarrow> nothing_new tx (bump_payment e (tx_conf tx) (tx_block_height tx) p)"
  by (auto simp: nothing_new_def bump_changes_def bump_payment_def Let_def split: option.split)

lemma new_payment_nothing_new:
  "nothing_new tx (new_payment e pid i t a (tx_conf tx) (tx_block_height tx))"
  by (auto simp: nothing_new_def bump_changes_def new_payment_def)

lemma process_new_knows:
  assumes m: "tx_minor tx = Some m" "dust_threshold_atomic \<le> tx_amount tx"
      "find_invoice_by_subaddress_index (tx_major tx) m d = Inr (Some r)"
    and none: "find_payment_by_tx_hash (tx_txid tx) d = Inr None"
    and run: "process_new e tx mp r d = (Inr (Some pid), d1)"
  shows "known_transfer tx pid d1"
proof (cases rule: create_payment_cases[of e r "tx_txid tx" "tx_amount tx" "tx_conf tx" "tx_block_height tx" mp d])
  case (failed x)
  then show ?thesis using run by (simp add: process_new_def)
next
  case (created d2 p)
  have tx: "pay_tx_hash p = tx_txid tx" and id: "pay_id p = db_next_id d" and nn: "nothing_new tx p"
    using created(2) new_payment_nothing_new by (simp_all add: new_payment_def)
  have "filter (\<lambda>p. pay_tx_hash p = tx_txid tx) (db_payments d) = []"
    using none unfolding find_payment_by_tx_hash_def scalar_one_or_none_None .
  then have "find_payment_by_tx_hash (tx_txid tx) d2 = Inr (Some p)"
    using created(4) tx by (simp add: find_payment_by_tx_hash_def)
  moreover have "\<exists>r'. find_invoice_by_subaddress_index (tx_major tx) m d2 = Inr (Some r')"
    using subaddress_kept[OF m(3) created(6)] created(5) by (simp add: find_invoice_def)
  ultimately have k: "known_transfer tx (db_next_id d) d2"
    using m id nn unfolding known_transfer_def by blast
  show ?thesis
  proof (cases "inv_status r = ICancelled")
    case True
    then show ?thesis using run created(1) k by (simp add: process_new_def)
  next
    case False
    then have "pid = db_next_id d \<and> d1 = snd (recalculate_invoice_status e (inv_id r) d2)"
      using run created(1) by (cases "recalculate_invoice_status e (inv_id r) d2") (auto simp: process_new_def split: sum.splits)
    then show ?thesis using known_recalculate[OF k] by simp
  qed
qed

lemma filter_upd_row:
  assumes "\<And>q. P (f q) = P q"
  shows "filter P (upd_row key k f rs) = upd_row key k f (filter P rs)"
  using assms by (induction rs) (auto simp: upd_row_def)

lemma process_existing_knows:
  assumes m: "tx_minor tx = Some m" "dust_threshold_atomic \<le> tx_amount tx"
      "find_invoice_by_subaddress_index (tx_major tx) m d = Inr (Some r)"
    and p: "find_payment_by_tx_hash (tx_txid tx) d = Inr (Some p)"
    and run: "process_existing e tx r p d = (Inr (Some pid), d1)"
    and wf: "ledger_wf d"
  shows "known_transfer tx pid d1"
proof -
  obtain x d2 where u: "update_confirmations e (pay_id p) (tx_conf tx) (tx_block_height tx) d = (x, d2)"
    by fastforce
  have fp: "find_payment (pay_id p) d = Some p" using find_payment_tx(1)[OF p wf] .
  have x: "x \<noteq> Inl y" for y using run u by (auto simp: process_existing_def)
  have k: "known_transfer tx (pay_id p) d2"
  proof (cases rule: update_confirmations_cases[of e "pay_id p" "tx_conf tx" "tx_block_height tx" d])
    case (failed y)
    then show ?thesis using u x by simp
  next
    case same
    then have "d2 = d" and "x = Inr False" using u by simp_all
    moreover have "nothing_new tx p" using same(2)[OF fp] by (simp add: nothing_new_def)
    ultimately show ?thesis using m p unfolding known_transfer_def by blast
  next
    case (changed q d3)
    then have q: "q = p" and d2: "d2 = d3" using fp u by simp_all
    let ?f = "bump_payment e (tx_conf tx) (tx_block_height tx)"
    have rp: "db_payments d3 = upd_row pay_id (pay_id p) ?f (db_payments d)" "db_addresses d3 = db_addresses d"
      "db_invoices d3 = db_invoices d" using changed(5) by (simp_all add: repay_def)
    have same: "pay_tx_hash (?f q) = pay_tx_hash q" "pay_id (?f q) = pay_id q" for q
      using same_transfer_bump[of q e "tx_conf tx" "tx_block_height tx"] by (simp_all add: same_transfer_def)
    have "filter (\<lambda>p. pay_tx_hash p = tx_txid tx) (db_payments d) = [p]"
      using p by (simp add: find_payment_by_tx_hash_def scalar_one_or_none_Some)
    then have "filter (\<lambda>p. pay_tx_hash p = tx_txid tx) (db_payments d3) = [?f p]"
      unfolding rp(1) by (subst filter_upd_row) (simp_all add: same upd_row_def)
    then have "find_payment_by_tx_hash (tx_txid tx) d3 = Inr (Some (?f p))"
      by (simp add: find_payment_by_tx_hash_def)
    moreover have "\<exists>r'. find_invoice_by_subaddress_index (tx_major tx) m d3 = Inr (Some r')"
      using subaddress_kept[OF m(3) rp(2)] rp(3) by (simp add: find_invoice_def)
    moreover have "nothing_new tx (?f p)" using bump_nothing_new changed(2) q by simp
    ultimately show ?thesis using m(1,2) same(2) d2 unfolding known_transfer_def by blast
  qed
  show ?thesis
  proof (cases "d1 = d2 \<and> pid = pay_id p")
    case True
    then show ?thesis using k by simp
  next
    case False
    then have "pid = pay_id p \<and> d1 = snd (recalculate_invoice_status e (inv_id r) d2)"
      using run u by (cases "recalculate_invoice_status e (inv_id r) d2")
        (auto simp: process_existing_def split: sum.splits if_splits)
    then show ?thesis using known_recalculate[OF k] by simp
  qed
qed

lemma process_transfer_knows:
  assumes wf: "ledger_wf d" and run: "process_transfer e tx mp d = (Inr (Some pid), d1)"
  shows "known_transfer tx pid d1"
proof -
  obtain m where m: "tx_minor tx = Some m" using run by (cases "tx_minor tx") (simp_all add: process_transfer_def)
  have a: "dust_threshold_atomic \<le> tx_amount tx" using run m by (auto simp: process_transfer_def split: if_splits)
  obtain r where r: "find_invoice_by_subaddress_index (tx_major tx) m d = Inr (Some r)"
    using run m a by (auto simp: process_transfer_def split: sum.splits option.splits)
  show ?thesis
  proof (cases "find_payment_by_tx_hash (tx_txid tx) d")
    case (Inl x)
    then show ?thesis using run m a r by (simp add: process_transfer_def)
  next
    case (Inr q)
    show ?thesis
    proof (cases q)
      case None
      then show ?thesis using process_new_knows[OF m a r] run m a r Inr by (simp add: process_transfer_def)
    next
      case (Some p)
      then show ?thesis using process_existing_knows[OF m a r _ _ wf] run m a r Inr by (simp add: process_transfer_def)
    qed
  qed
qed

section \<open>A transfer seen for the first time\<close>

lemma new_transfer_run:
  assumes m: "tx_minor tx = Some m" "dust_threshold_atomic \<le> tx_amount tx"
    and r: "find_invoice_by_subaddress_index (tx_major tx) m d = Inr (Some r)"
    and none: "find_payment_by_tx_hash (tx_txid tx) d = Inr None"
  shows "process_transfer e tx mp d = process_new e tx mp r d"
  using assms by (simp add: process_transfer_def)

lemma process_new_effect:
  assumes run: "process_new e tx mp r d = (Inr (Some pid), d1)"
  obtains d0 p x where "p = new_payment e (db_next_id d) (inv_id r) (tx_txid tx) (tx_amount tx) (tx_conf tx) (tx_block_height tx)"
    and "pid = db_next_id d" and "db_payments d0 = db_payments d @ [p]" and "db_invoices d0 = db_invoices d"
    and "db_payments d1 = db_payments d0"
    and "create_payment e r (tx_txid tx) (tx_amount tx) (tx_conf tx) (tx_block_height tx) mp d = (Inr pid, d0)"
    and "inv_status r = ICancelled \<Longrightarrow> d1 = d0"
    and "inv_status r \<noteq> ICancelled \<Longrightarrow> d1 = snd (recalculate_invoice_status e (inv_id r) d0)"
proof (cases rule: create_payment_cases[of e r "tx_txid tx" "tx_amount tx" "tx_conf tx" "tx_block_height tx" mp d])
  case (failed x)
  then show ?thesis using run by (simp add: process_new_def)
next
  case (created d0 p)
  obtain x d2 where rec: "recalculate_invoice_status e (inv_id r) d0 = (x, d2)" by fastforce
  have pay: "db_payments d2 = db_payments d0" using recalculate_frames[of e "inv_id r" d0] rec by simp
  have pid: "pid = db_next_id d" and d1: "d1 = (if inv_status r = ICancelled then d0 else d2)"
    using run created(1) rec by (auto simp: process_new_def split: if_splits sum.splits)
  show ?thesis
    by (rule that[of p d0]) (use created pid d1 rec pay in simp_all)
qed

text \<open>The first report of a confirmed transfer settles its invoice by the new total.\<close>

lemma new_transfer_settles:
  assumes ok: "ledger_ok d" and m: "tx_minor tx = Some m" "dust_threshold_atomic \<le> tx_amount tx"
    and r: "find_invoice_by_subaddress_index (tx_major tx) m d = Inr (Some r)"
    and none: "find_payment_by_tx_hash (tx_txid tx) d = Inr None"
    and live: "inv_status r \<noteq> ICancelled"
    and run: "process_transfer e tx mp d = (Inr (Some pid), d1)" and conf: "10 \<le> tx_conf tx"
  shows "sum_invoice_payments (inv_id r) d1 = sum_invoice_payments (inv_id r) d + tx_amount tx \<and>
    (\<exists>r1. find_invoice (inv_id r) d1 = Some r1 \<and>
      inv_status r1 = target_status (inv_status r) (sum_invoice_payments (inv_id r) d + tx_amount tx) (inv_amount_atomic r))"
proof -
  have run': "process_new e tx mp r d = (Inr (Some pid), d1)" using run new_transfer_run[OF m r none] by simp
  have f: "find_invoice (inv_id r) d = Some r" by (rule find_by_subaddress_found[OF r])
  show ?thesis
  proof (rule process_new_effect[OF run'])
    fix d0 p
    assume p: "p = new_payment e (db_next_id d) (inv_id r) (tx_txid tx) (tx_amount tx) (tx_conf tx) (tx_block_height tx)"
      and pays: "db_payments d0 = db_payments d @ [p]" "db_invoices d0 = db_invoices d" "db_payments d1 = db_payments d0"
      and y: "inv_status r \<noteq> ICancelled \<Longrightarrow> d1 = snd (recalculate_invoice_status e (inv_id r) d0)"
    have "sum_invoice_payments (inv_id r) d0 = sum_status PConfirmed (inv_id r) (add_payment p d)"
      using pays by (simp add: sum_invoice_payments_def sum_status_def add_payment_def)
    then have sum: "sum_invoice_payments (inv_id r) d0 = sum_invoice_payments (inv_id r) d + tx_amount tx"
      using conf by (simp add: sum_status_add_payment sum_invoice_payments_def p new_payment_def confirmation_threshold_def)
    have f0: "find_invoice (inv_id r) d0 = Some r" using f pays(2) by (simp add: find_invoice_def)
    obtain d2 r2 where d2: "find_invoice (inv_id r) d2 = Some r2"
        "inv_status r2 = target_status (inv_status r) (sum_invoice_payments (inv_id r) d0) (inv_amount_atomic r)"
        "ledger_unchanged d2 (snd (recalculate_invoice_status e (inv_id r) d0))"
      using recalculate_effect[OF f0 live, of e] by metis
    then show ?thesis
      using y[OF live] sum ledger_unchanged_find(1)[OF d2(3)] sum_invoice_payments_cong[OF pays(3)] by simp
  qed
qed

end
