(* ===== verification/Detection.thy ===== *)
theory Detection
  imports Replay
begin

text \<open>
  The detection engine: \<open>tasks/detection_engine.py\<close> (scanning), \<open>tasks/detection_confirmations.py\<close>
  (polling unconfirmed payments) and the Redis side of \<open>tasks/detection_helpers.py\<close> (leases, the
  last scanned height, health metrics). What wallet-rpc replies is an argument of each cycle.
\<close>

definition scan_interval :: int where "scan_interval = 30"
definition deep_scan_interval :: int where "deep_scan_interval = 3600"
definition deep_scan_blocks :: int where "deep_scan_blocks = 100"
definition reorg_buffer :: int where "reorg_buffer = 10"
definition tx_miss_orphan_threshold :: nat where "tx_miss_orphan_threshold = 3"

section \<open>Webhooks of a change\<close>

definition load_merchant :: "uuid \<Rightarrow> db \<Rightarrow> merchant option" where
  "load_merchant i d = find_merchant i d"

text \<open>The events of a payment, dispatched when the invoice and its merchant are there.\<close>

definition dispatch_changes ::
    "env \<Rightarrow> uuid \<Rightarrow> uuid \<Rightarrow> invoice_status \<Rightarrow> payment_status option \<Rightarrow> unit op" where
  "dispatch_changes e iid pid old_invoice_status old_payment_status d =
     (case (find_invoice iid d, find_payment pid d) of
        (Some r, Some p) \<Rightarrow>
          let events = determine_webhook_events p r old_invoice_status old_payment_status in
          if events = [] then (Inr (), d)
          else (case load_merchant (inv_merchant r) d of
              None \<Rightarrow> (Inr (), d)
            | Some m \<Rightarrow> (case dispatch_events e events m r (Some p) d of
                  (Inl x, d1) \<Rightarrow> (Inl x, d1) | (Inr _, d1) \<Rightarrow> (Inr (), d1)))
      | _ \<Rightarrow> (Inr (), d))"

section \<open>Scanning\<close>

text \<open>One transfer: whether it counts as processed, and an exception if one was raised.\<close>

definition is_mempool :: "transfer \<Rightarrow> bool" where
  "is_mempool tx \<longleftrightarrow> tx_type tx = ''pool'' \<or> (case tx_height tx of None \<Rightarrow> True | Some h \<Rightarrow> h = 0)"

definition scan_transfer :: "env \<Rightarrow> transfer \<Rightarrow> db \<Rightarrow> (bool \<times> exc option) \<times> db" where
  "scan_transfer e tx d =
     (case tx_minor tx of
        None \<Rightarrow> ((False, None), d)
      | Some minor_index \<Rightarrow>
     (case find_invoice_by_subaddress_index (tx_major tx) minor_index d of
        Inl x \<Rightarrow> ((False, Some x), d)
      | Inr found \<Rightarrow>
     (case find_payment_by_tx_hash (tx_txid tx) d of
        Inl x \<Rightarrow> ((False, Some x), d)
      | Inr existing \<Rightarrow>
     (case process_transfer e tx (is_mempool tx) d of
        (Inl x, d1) \<Rightarrow> ((False, Some x), d1)
      | (Inr None, d1) \<Rightarrow> ((False, None), d1)
      | (Inr (Some pid), d1) \<Rightarrow>
          (case found of
             None \<Rightarrow> ((True, None), d1)
           | Some r \<Rightarrow>
               (case dispatch_changes e (inv_id r) pid (inv_status r) (map_option pay_status existing) d1 of
                  (Inl x, d2) \<Rightarrow> ((True, Some x), d2)
                | (Inr _, d2) \<Rightarrow> ((True, None), d2)))))))"

text \<open>
  The loop swallows exceptions. After a refused statement the session is dead: the remaining
  iterations can only raise, and so does the next statement of the cycle; the model stops there.
\<close>

fun scan_loop :: "env \<Rightarrow> transfer list \<Rightarrow> nat op" where
  "scan_loop e [] d = (Inr 0, d)"
| "scan_loop e (tx # txs) d =
     (case scan_transfer e tx d of ((counted, x), d1) \<Rightarrow>
        if (case x of None \<Rightarrow> False | Some y \<Rightarrow> poisons y) then (Inl (the x), d1)
        else (case scan_loop e txs d1 of
            (Inl y, d2) \<Rightarrow> (Inl y, d2)
          | (Inr n, d2) \<Rightarrow> (Inr (if counted then Suc n else n), d2)))"

type_synonym transfers_wallet = "transfers_request \<Rightarrow> nat \<Rightarrow> transfers_reply rpc_reply"

text \<open>\<open>_scan_transfers\<close>: an RPC failure ends the scan with nothing processed, and no error.\<close>

fun is_rpc_error :: "exc \<Rightarrow> bool" where
  "is_rpc_error (MoneroRPCError c m) = True"
| "is_rpc_error (MoneroRPCConnectionError m) = True"
| "is_rpc_error _ = False"

definition scan_transfers :: "env \<Rightarrow> transfers_wallet \<Rightarrow> int \<Rightarrow> int \<Rightarrow> nat op" where
  "scan_transfers e wallet min_height max_height d =
     (case get_transfers wallet 0 min_height max_height True True True of
        Inl x \<Rightarrow> if is_rpc_error x then (Inr 0, d) else (Inl x, d)
      | Inr transfers \<Rightarrow> scan_loop e transfers d)"

section \<open>Unconfirmed payments\<close>

text \<open>\<open>_tx_miss_counts\<close>: the dictionary of the process, 0 for a missing key.\<close>

type_synonym misses = "string \<Rightarrow> nat"

definition confirm_missing :: "env \<Rightarrow> payment \<Rightarrow> misses \<Rightarrow> db \<Rightarrow> exc option \<times> misses \<times> db" where
  "confirm_missing e p misses d =
     (let miss_count = Suc (misses (pay_tx_hash p)); misses1 = misses(pay_tx_hash p := miss_count) in
      if miss_count < tx_miss_orphan_threshold then (None, misses1, d)
      else
        let before = find_invoice (pay_invoice p) d in
        case handle_reorg e (pay_id p) d of
          (Inl x, d1) \<Rightarrow> (Some x, misses1, d1)
        | (Inr _, d1) \<Rightarrow>
            (let misses2 = misses1(pay_tx_hash p := 0) in
             case before of
               None \<Rightarrow> (None, misses2, d1)
             | Some r \<Rightarrow>
                 (case dispatch_changes e (pay_invoice p) (pay_id p) (inv_status r) (Some (pay_status p)) d1 of
                    (Inl x, d2) \<Rightarrow> (Some x, misses2, d2)
                  | (Inr _, d2) \<Rightarrow> (None, misses2, d2))))"

text \<open>The transfer is there: confirmations, and when the payment is confirmed its invoice.\<close>

definition confirm_found :: "env \<Rightarrow> payment \<Rightarrow> transfer \<Rightarrow> db \<Rightarrow> (bool \<times> exc option) \<times> db" where
  "confirm_found e p tx d =
     (case update_confirmations e (pay_id p) (tx_conf tx) (tx_block_height tx) d of
        (Inl x, d1) \<Rightarrow> ((False, Some x), d1)
      | (Inr transitioned, d1) \<Rightarrow>
          if \<not> transitioned then ((False, None), d1)
          else (case find_invoice (pay_invoice p) d1 of
              None \<Rightarrow> ((True, None), d1)
            | Some r \<Rightarrow>
                (case recalculate_invoice_status e (pay_invoice p) d1 of
                   (Inl x, d2) \<Rightarrow> ((True, Some x), d2)
                 | (Inr _, d2) \<Rightarrow>
                     (case dispatch_changes e (pay_invoice p) (pay_id p) (inv_status r) (Some (pay_status p)) d2 of
                        (Inl x, d3) \<Rightarrow> ((True, Some x), d3)
                      | (Inr _, d3) \<Rightarrow> ((True, None), d3)))))"

type_synonym txid_wallet = "string \<Rightarrow> nat \<Rightarrow> transfer option rpc_reply"

definition confirm_one ::
    "env \<Rightarrow> txid_wallet \<Rightarrow> payment \<Rightarrow> misses \<Rightarrow> db \<Rightarrow> (bool \<times> exc option) \<times> misses \<times> db" where
  "confirm_one e wallet p misses d =
     (case get_transfer_by_txid (wallet (pay_tx_hash p)) of
        Inl x \<Rightarrow> ((False, Some x), misses, d)
      | Inr None \<Rightarrow> (case confirm_missing e p misses d of (x, m, d1) \<Rightarrow> ((False, x), m, d1))
      | Inr (Some tx) \<Rightarrow>
          (case confirm_found e p tx d of (r, d1) \<Rightarrow> (r, misses(pay_tx_hash p := 0), d1)))"

fun confirm_loop ::
    "env \<Rightarrow> txid_wallet \<Rightarrow> payment list \<Rightarrow> misses \<Rightarrow> db \<Rightarrow> (exc + nat) \<times> misses \<times> db" where
  "confirm_loop e wallet [] misses d = (Inr 0, misses, d)"
| "confirm_loop e wallet (p # ps) misses d =
     (case confirm_one e wallet p misses d of ((counted, x), m1, d1) \<Rightarrow>
        if (case x of None \<Rightarrow> False | Some y \<Rightarrow> poisons y) then (Inl (the x), m1, d1)
        else (case confirm_loop e wallet ps m1 d1 of
            (Inl y, m2, d2) \<Rightarrow> (Inl y, m2, d2)
          | (Inr n, m2, d2) \<Rightarrow> (Inr (if counted then Suc n else n), m2, d2)))"

definition update_unconfirmed ::
    "env \<Rightarrow> txid_wallet \<Rightarrow> misses \<Rightarrow> db \<Rightarrow> (exc + nat) \<times> misses \<times> db" where
  "update_unconfirmed e wallet misses d = confirm_loop e wallet (get_unconfirmed_payments d) misses d"

section \<open>Leases\<close>

text \<open>\<open>SET key 1 EX ttl NX\<close>; a lease is never released, it only runs out.\<close>

type_synonym leases = "string \<Rightarrow> time option"

definition acquire_task_lease :: "bool \<Rightarrow> time \<Rightarrow> string \<Rightarrow> int \<Rightarrow> leases \<Rightarrow> bool \<times> leases" where
  "acquire_task_lease redis_up now task ttl_seconds store =
     (if \<not> redis_up then (False, store)
      else if (case store task of None \<Rightarrow> False | Some expires \<Rightarrow> now < expires) then (False, store)
      else (True, store(task := Some (now + secs ttl_seconds))))"

section \<open>The engine's cycle\<close>

record engine =
  eng_last_scanned :: "int option"  \<comment> \<open>in Redis\<close>
  eng_last_deep_scan :: time
  eng_misses :: misses
  eng_health :: "(time \<times> int) option"  \<comment> \<open>last sweep, blocks behind\<close>

definition get_last_scanned_height :: "engine \<Rightarrow> int" where
  "get_last_scanned_height g = (case eng_last_scanned g of None \<Rightarrow> 0 | Some h \<Rightarrow> h)"

record wallet_view =
  wv_height :: "nat \<Rightarrow> int rpc_reply"
  wv_transfers :: transfers_wallet
  wv_txid :: txid_wallet

definition regular_scan :: "env \<Rightarrow> wallet_view \<Rightarrow> int \<Rightarrow> int \<Rightarrow> nat op" where
  "regular_scan e w last_scanned current_height d =
     (if last_scanned < current_height
      then scan_transfers e (wv_transfers w) (max (last_scanned - reorg_buffer) 0) current_height d
      else (Inr 0, d))"

definition deep_scan_due :: "env \<Rightarrow> engine \<Rightarrow> bool" where
  "deep_scan_due e g \<longleftrightarrow> secs deep_scan_interval \<le> env_now e - eng_last_deep_scan g"

definition deep_scan :: "env \<Rightarrow> wallet_view \<Rightarrow> engine \<Rightarrow> int \<Rightarrow> nat op" where
  "deep_scan e w g current_height d =
     (if deep_scan_due e g
      then scan_transfers e (wv_transfers w) (max (current_height - deep_scan_blocks) 0) current_height d
      else (Inr 0, d))"

text \<open>
  The body of \<open>detection_engine_loop\<close> once it holds the lease. The database part is one
  transaction; \<open>last_deep_scan\<close> and the miss counts are the process's own and survive a rollback.
  The checkpoint is the current height whenever a regular scan was attempted.
\<close>

definition detection_cycle :: "env \<Rightarrow> wallet_view \<Rightarrow> engine \<Rightarrow> db \<Rightarrow> engine \<times> db" where
  "detection_cycle e w g d =
     (case get_height (wv_height w) of
        Inl x \<Rightarrow> (g, d)
      | Inr current_height \<Rightarrow>
     (let last_scanned = get_last_scanned_height g in
      case regular_scan e w last_scanned current_height d of
        (Inl x, d1) \<Rightarrow> (g, rollback d d1)
      | (Inr _, d1) \<Rightarrow>
     (case deep_scan e w g current_height d1 of
        (Inl x, d2) \<Rightarrow> (g, rollback d d2)
      | (Inr _, d2) \<Rightarrow>
     (let g2 = (if deep_scan_due e g then g\<lparr>eng_last_deep_scan := env_now e\<rparr> else g) in
      case update_unconfirmed e (wv_txid w) (eng_misses g) d2 of
        (Inl x, misses, d3) \<Rightarrow> (g2\<lparr>eng_misses := misses\<rparr>, rollback d d3)
      | (Inr _, misses, d3) \<Rightarrow>
          let checkpoint = (if last_scanned < current_height then current_height else last_scanned);
              saved = (if last_scanned < current_height then Some current_height else eng_last_scanned g)
          in (g2\<lparr>eng_misses := misses, eng_last_scanned := saved,
                 eng_health := Some (env_now e, max 0 (current_height - checkpoint))\<rparr>, d3)))))"

text \<open>One iteration of the loop: the lease first.\<close>

definition detection_iteration ::
    "env \<Rightarrow> bool \<Rightarrow> wallet_view \<Rightarrow> leases \<Rightarrow> engine \<Rightarrow> db \<Rightarrow> leases \<times> engine \<times> db" where
  "detection_iteration e redis_up w store g d =
     (case acquire_task_lease redis_up (env_now e) ''detection_engine'' (scan_interval * 2) store of
        (False, store1) \<Rightarrow> (store1, g, d)
      | (True, store1) \<Rightarrow> (store1, detection_cycle e w g d))"

end
