(* ===== verification/Expiration.thy ===== *)
theory Expiration
  imports Settlement
begin

text \<open>
  \<open>services/expiration_service.py\<close> with the transaction of \<open>tasks/invoice_expirer.py\<close>, and
  \<open>tasks/data_retention.py\<close>: the two tasks that retire invoices.
\<close>

section \<open>Expiry\<close>

definition expirable :: "time \<Rightarrow> db \<Rightarrow> invoice \<Rightarrow> bool" where
  "expirable now d r \<longleftrightarrow> inv_status r = IPending \<and> inv_expires_at r < now \<and>
     \<not> list_ex (active_payment (inv_id r)) (db_payments d)"

definition expire_rows :: "time \<Rightarrow> db \<Rightarrow> db" where
  "expire_rows now d = d\<lparr>db_invoices := map (\<lambda>r. if expirable now d r
     then r\<lparr>inv_status := IExpired, inv_updated_at := now\<rparr> else r) (db_invoices d)\<rparr>"

definition expiry_audit :: "env \<Rightarrow> invoice \<Rightarrow> db \<Rightarrow> db" where
  "expiry_audit e r = audit e (Some (inv_merchant r)) ''invoice.expired'' ''invoice'' (inv_id r)
     [(''expired_at'', jtime (env_now e))]"

definition expiry_event :: "env \<Rightarrow> uuid \<Rightarrow> unit op" where
  "expiry_event e i d =
     (case find_invoice i d of
        None \<Rightarrow> (Inr (), d)
      | Some r \<Rightarrow> (case find_merchant (inv_merchant r) d of
            None \<Rightarrow> (Inr (), d)
          | Some m \<Rightarrow> (case dispatch_events e [''invoice.expired''] m r None d of
                (Inl x, d1) \<Rightarrow> (Inl x, d1) | (Inr _, d1) \<Rightarrow> (Inr (), d1))))"

definition expire_pending_invoices :: "env \<Rightarrow> string list op" where
  "expire_pending_invoices e d =
     (let rows = filter (expirable (env_now e) d) (db_invoices d) in
      if rows = [] then (Inr [], d)
      else
        let d1 = fold (expiry_audit e) rows (expire_rows (env_now e) d)
        in case for_each (expiry_event e) (map inv_id rows) d1 of
             (Inl x, d2) \<Rightarrow> (Inl x, d2)
           | (Inr _, d2) \<Rightarrow> (Inr (map (\<lambda>r. uuid_str (inv_id r)) rows), d2))"

text \<open>One cycle of the task: \<open>async with db.begin()\<close>.\<close>

definition expirer_cycle :: "env \<Rightarrow> string list op" where
  "expirer_cycle e = in_transaction (expire_pending_invoices e)"

subsection \<open>Facts\<close>

lemma expiry_event_ledger: "ledger_unchanged d d' \<Longrightarrow> ledger_unchanged d (snd (expiry_event e i d'))"
proof -
  assume l: "ledger_unchanged d d'"
  have "ledger_unchanged d' (snd (expiry_event e i d'))"
  proof (cases "find_invoice i d'")
    case (Some r)
    show ?thesis
    proof (cases "find_merchant (inv_merchant r) d'")
      case None
      then show ?thesis using Some by (simp add: expiry_event_def)
    next
      case m: (Some m)
      obtain x d1 where q: "dispatch_events e [''invoice.expired''] m r None d' = (x, d1)" by fastforce
      then have "ledger_unchanged d' d1"
        using billing_ledger[OF dispatch_events_frame[of d' e "[''invoice.expired'']" m r None]] by simp
      then show ?thesis using Some m q by (simp add: expiry_event_def split: sum.split)
    qed
  qed (simp add: expiry_event_def)
  with l show ?thesis by (rule ledger_unchanged_trans)
qed

lemma fold_expiry_audit_ledger: "ledger_unchanged d d' \<Longrightarrow> ledger_unchanged d (fold (expiry_audit e) rows d')"
proof (induction rows arbitrary: d')
  case (Cons r rows)
  have "ledger_unchanged d (expiry_audit e r d')"
    using Cons.prems unfolding expiry_audit_def by (rule audit_ledger)
  then show ?case using Cons.IH by simp
qed simp

lemma expire_pending_invoices_ledger:
  "ledger_unchanged (expire_rows (env_now e) d) (snd (expire_pending_invoices e d))"
proof (cases "filter (expirable (env_now e) d) (db_invoices d) = []")
  case True
  then have "map (\<lambda>r. if expirable (env_now e) d r then r\<lparr>inv_status := IExpired, inv_updated_at := env_now e\<rparr> else r)
      (db_invoices d) = db_invoices d"
    by (simp add: filter_empty_conv map_idI)
  then have "expire_rows (env_now e) d = d" unfolding expire_rows_def by simp
  then show ?thesis using True by (simp add: expire_pending_invoices_def)
next
  case False
  let ?rows = "filter (expirable (env_now e) d) (db_invoices d)"
  let ?d1 = "fold (expiry_audit e) ?rows (expire_rows (env_now e) d)"
  have 1: "ledger_unchanged (expire_rows (env_now e) d) ?d1" by (simp add: fold_expiry_audit_ledger)
  have 2: "ledger_unchanged (expire_rows (env_now e) d) (snd (for_each (expiry_event e) (map inv_id ?rows) ?d1))"
    by (rule for_each_invariant[where P = "ledger_unchanged (expire_rows (env_now e) d)", OF expiry_event_ledger 1])
  then show ?thesis using False
    by (cases "for_each (expiry_event e) (map inv_id ?rows) ?d1")
       (simp add: expire_pending_invoices_def Let_def split: sum.split)
qed

lemma no_active_no_sum:
  assumes "\<not> list_ex (active_payment i) (db_payments d)"
  shows "sum_invoice_payments i d = 0"
proof -
  have "filter (\<lambda>p. pay_invoice p = i \<and> pay_status p = PConfirmed) (db_payments d) = []"
    using assms by (auto simp: filter_empty_conv list_ex_iff active_payment_def)
  then show ?thesis by (simp add: sum_invoice_payments_def sum_status_def)
qed

lemma expire_rows_ok:
  assumes "ledger_ok d"
  shows "ledger_ok (expire_rows now d)"
proof -
  let ?g = "\<lambda>r. if expirable now d r then r\<lparr>inv_status := IExpired, inv_updated_at := now\<rparr> else r"
  have inv: "db_invoices (expire_rows now d) = map ?g (db_invoices d)" by (simp add: expire_rows_def)
  have rest: "db_payments (expire_rows now d) = db_payments d" "db_next_id (expire_rows now d) = db_next_id d"
    by (simp_all add: expire_rows_def)
  have g: "inv_id (?g r) = inv_id r" "inv_amount_atomic (?g r) = inv_amount_atomic r" for r by simp_all
  have ids: "map inv_id (map ?g (db_invoices d)) = map inv_id (db_invoices d)" by simp
  then have idset: "inv_id ` set (map ?g (db_invoices d)) = inv_id ` set (db_invoices d)"
    by (metis set_map)
  have wf: "ledger_wf (expire_rows now d)"
    unfolding ledger_wf_def inv rest ids idset using assms by (auto simp: ledger_ok_def ledger_wf_def)
  have "settled_row (expire_rows now d) (?g r)" if r: "r \<in> set (db_invoices d)" for r
  proof (cases "expirable now d r")
    case True
    have "0 < inv_amount_atomic r" using r assms by (auto simp: ledger_ok_def ledger_wf_def)
    then show ?thesis using True no_active_no_sum[of "inv_id r" d]
        sum_invoice_payments_cong[OF rest(1), of "inv_id r"]
      by (simp add: settled_row_def expirable_def)
  next
    case False
    then show ?thesis using r assms sum_invoice_payments_cong[OF rest(1), of "inv_id r"]
      by (auto simp: settled_row_def ledger_ok_def settled_but_def)
  qed
  then have "settled_but {} (expire_rows now d)" unfolding settled_but_def inv set_map by blast
  with wf show ?thesis by (simp add: ledger_ok_def)
qed

lemma expire_pending_invoices_ok: "ledger_ok d \<Longrightarrow> ledger_ok (snd (expire_pending_invoices e d))"
  by (rule ledger_unchanged_ok[OF expire_pending_invoices_ledger expire_rows_ok])

section \<open>Retention\<close>

definition invoice_retention :: time where "invoice_retention = secs (48 * 3600)"
definition webhook_retention :: time where "webhook_retention = days 30"
definition audit_retention :: time where "audit_retention = days 90"
definition retention_batch :: nat where "retention_batch = 500"

text \<open>The \<open>LEFT JOIN\<close>s keep an invoice when nothing refers to it from the four tables they name.\<close>

definition retention_target :: "time \<Rightarrow> db \<Rightarrow> invoice \<Rightarrow> bool" where
  "retention_target now d r \<longleftrightarrow>
     (inv_status r = IExpired \<or> inv_status r = ICancelled) \<and>
     inv_updated_at r < now - invoice_retention \<and>
     \<not> list_ex (\<lambda>p. pay_invoice p = inv_id r) (db_payments d) \<and>
     \<not> list_ex (\<lambda>sp. sp_invoice sp = inv_id r) (db_sub_payments d) \<and>
     \<not> list_ex (\<lambda>ev. ev_invoice ev = Some (inv_id r)) (db_events d) \<and>
     \<not> list_ex (\<lambda>s. sub_prepay_invoice s = Some (inv_id r)) (db_subs d)"

definition retention_ids :: "time \<Rightarrow> db \<Rightarrow> uuid list" where
  "retention_ids now d = take retention_batch (map inv_id (filter (retention_target now d) (db_invoices d)))"

text \<open>
  \<open>webhook_deliveries.invoice_id\<close> also refers to invoices, with \<open>ON DELETE RESTRICT\<close>, and is not
  among the joins: deleting such an invoice is refused.
\<close>

definition cleanup_expired_invoices :: "env \<Rightarrow> nat op" where
  "cleanup_expired_invoices e d =
     (let ids = retention_ids (env_now e) d;
          gone = (\<lambda>i. i \<in> set ids);
          d1 = d\<lparr>db_addresses := filter (\<lambda>a. \<not> gone (adr_invoice a)) (db_addresses d)\<rparr>
      in if list_ex (\<lambda>del. case del_invoice del of None \<Rightarrow> False | Some i \<Rightarrow> gone i) (db_deliveries d)
         then (Inl IntegrityError, d1)
         else (Inr (length (filter (\<lambda>a. gone (adr_invoice a)) (db_addresses d)) + length ids),
               d1\<lparr>db_invoices := filter (\<lambda>r. \<not> gone (inv_id r)) (db_invoices d)\<rparr>))"

text \<open>Deleting a delivery sets the retry reference of a dead letter to NULL.\<close>

definition cleanup_webhook_logs :: "env \<Rightarrow> nat op" where
  "cleanup_webhook_logs e d =
     (let ids = take retention_batch (map del_id
              (filter (\<lambda>del. del_created_at del < env_now e - webhook_retention) (db_deliveries d)));
          gone = (\<lambda>i. i \<in> set ids);
          kept = filter (\<lambda>q. \<not> gone (dlq_delivery q)) (db_dead_letters d)
      in (Inr (length (filter (\<lambda>q. gone (dlq_delivery q)) (db_dead_letters d)) + length ids),
          d\<lparr>db_dead_letters := map (\<lambda>q. case dlq_retry_delivery q of
                None \<Rightarrow> q | Some i \<Rightarrow> if gone i then q\<lparr>dlq_retry_delivery := None\<rparr> else q) kept,
            db_deliveries := filter (\<lambda>del. \<not> gone (del_id del)) (db_deliveries d)\<rparr>))"

fun delete_first :: "nat \<Rightarrow> ('r \<Rightarrow> bool) \<Rightarrow> 'r list \<Rightarrow> 'r list" where
  "delete_first n P [] = []"
| "delete_first 0 P rs = rs"
| "delete_first (Suc n) P (r # rs) = (if P r then delete_first n P rs else r # delete_first (Suc n) P rs)"

definition cleanup_audit_logs :: "env \<Rightarrow> nat op" where
  "cleanup_audit_logs e d =
     (let old = (\<lambda>a. aud_created_at a < env_now e - audit_retention)
      in (Inr (min retention_batch (length (filter old (db_audit d)))),
          d\<lparr>db_audit := delete_first retention_batch old (db_audit d)\<rparr>))"

definition retention_steps :: "env \<Rightarrow> nat op" where
  "retention_steps e d =
     (case cleanup_expired_invoices e d of
        (Inl x, d1) \<Rightarrow> (Inl x, d1)
      | (Inr a, d1) \<Rightarrow>
     (case cleanup_webhook_logs e d1 of
        (Inl x, d2) \<Rightarrow> (Inl x, d2)
      | (Inr b, d2) \<Rightarrow>
     (case cleanup_audit_logs e d2 of
        (Inl x, d3) \<Rightarrow> (Inl x, d3)
      | (Inr c, d3) \<Rightarrow> (Inr (a + b + c), d3))))"

definition run_retention_cleanup :: "env \<Rightarrow> nat op" where
  "run_retention_cleanup e = in_transaction (retention_steps e)"

subsection \<open>Facts\<close>

lemma rollback_fields [simp]:
  "db_merchants (rollback d d') = db_merchants d" "db_invoices (rollback d d') = db_invoices d"
  "db_addresses (rollback d d') = db_addresses d" "db_payments (rollback d d') = db_payments d"
  "db_subs (rollback d d') = db_subs d" "db_sub_payments (rollback d d') = db_sub_payments d"
  "db_customers (rollback d d') = db_customers d" "db_deliveries (rollback d d') = db_deliveries d"
  "db_next_id (rollback d d') = db_next_id d'"
  by (simp_all add: rollback_def)

lemma rollback_ok: "ledger_ok d \<Longrightarrow> db_next_id d \<le> db_next_id d' \<Longrightarrow> ledger_ok (rollback d d')"
  using sum_invoice_payments_cong[of "rollback d d'" d]
  by (auto simp: ledger_ok_def ledger_wf_def settled_but_def settled_row_def intro: less_le_trans)

lemma set_delete_first: "set (delete_first n P rs) \<subseteq> set rs"
  by (induction n P rs rule: delete_first.induct) auto

lemma delete_first_keeps: "r \<in> set rs \<Longrightarrow> \<not> P r \<Longrightarrow> r \<in> set (delete_first n P rs)"
  by (induction n P rs rule: delete_first.induct) auto

lemma retention_ids_target:
  "i \<in> set (retention_ids now d) \<Longrightarrow> \<exists>r \<in> set (db_invoices d). inv_id r = i \<and> retention_target now d r"
  by (auto simp: retention_ids_def dest!: in_set_takeD)

lemma filter_same:
  assumes "distinct (map key rs)"
  shows "distinct (map key (filter P rs))"
  using assms by (induction rs) auto

text \<open>What a cleanup leaves: the payments, and every invoice that is not a target.\<close>

lemma cleanup_expired_invoices_ok:
  assumes "ledger_ok d"
  shows "ledger_ok (snd (cleanup_expired_invoices e d)) \<and>
    db_payments (snd (cleanup_expired_invoices e d)) = db_payments d \<and>
    (\<forall>r \<in> set (db_invoices d). \<not> retention_target (env_now e) d r \<longrightarrow>
       r \<in> set (db_invoices (snd (cleanup_expired_invoices e d))))"
proof -
  let ?ids = "retention_ids (env_now e) d"
  define d' where "d' = snd (cleanup_expired_invoices e d)"
  have wf: "ledger_wf d" using assms by (simp add: ledger_ok_def)
  have "db_invoices d' = db_invoices d \<or> db_invoices d' = filter (\<lambda>r. inv_id r \<notin> set ?ids) (db_invoices d)"
    by (simp add: d'_def cleanup_expired_invoices_def Let_def)
  moreover have "db_invoices d = filter (\<lambda>r. True) (db_invoices d)" by simp
  ultimately have sub: "\<exists>P. db_invoices d' = filter P (db_invoices d) \<and> (\<forall>r. \<not> P r \<longrightarrow> inv_id r \<in> set ?ids)"
    by (metis (no_types, lifting))
  then obtain P where P: "db_invoices d' = filter P (db_invoices d)" "\<And>r. \<not> P r \<Longrightarrow> inv_id r \<in> set ?ids"
    by blast
  have rest: "db_payments d' = db_payments d" "db_next_id d' = db_next_id d"
    by (simp_all add: d'_def cleanup_expired_invoices_def Let_def)
  have target: "retention_target (env_now e) d r" if r: "r \<in> set (db_invoices d)" "\<not> P r" for r
  proof -
    obtain q where q: "q \<in> set (db_invoices d)" "inv_id q = inv_id r" "retention_target (env_now e) d q"
      using retention_ids_target P(2)[OF r(2)] by blast
    have "q = r" using q(1,2) r(1) wf unfolding ledger_wf_def distinct_map inj_on_def by blast
    then show ?thesis using q(3) by simp
  qed
  have keep: "r \<in> set (db_invoices d')" if "r \<in> set (db_invoices d)" "\<not> retention_target (env_now e) d r" for r
    using that target P(1) by auto
  have refs: "pay_invoice p \<in> inv_id ` set (db_invoices d')" if p: "p \<in> set (db_payments d)" for p
  proof -
    obtain r where r: "r \<in> set (db_invoices d)" "inv_id r = pay_invoice p"
      using wf p unfolding ledger_wf_def by (auto simp: image_iff)
    then have "\<not> retention_target (env_now e) d r"
      using p by (auto simp: retention_target_def list_ex_iff)
    then show ?thesis using keep r by (metis image_eqI)
  qed
  have "ledger_wf d'"
    unfolding ledger_wf_def rest using wf refs filter_same[of inv_id "db_invoices d" P] P(1)
    by (auto simp: ledger_wf_def)
  moreover have "settled_but {} d'"
    using assms P(1) sum_invoice_payments_cong[OF rest(1)]
    by (auto simp: ledger_ok_def settled_but_def settled_row_def)
  ultimately show ?thesis using keep rest(1) unfolding d'_def ledger_ok_def by blast
qed

end
