(* ===== verification/Subscription_Service.thy ===== *)
theory Subscription_Service
  imports Subscription_Grace
begin

text \<open>
  \<open>services/subscription_service.py\<close> and the transactions of \<open>api/routes/subscriptions.py\<close>:
  creation with or without a trial, lookup and listing, pause, resume, cancel, the prepay route.
\<close>

section \<open>Lifecycle events\<close>

text \<open>\<open>payload.setdefault("metadata", {}).update(metadata)\<close> on the queued delivery.\<close>

definition merge_metadata :: "(string \<times> json) list \<Rightarrow> json \<Rightarrow> json" where
  "merge_metadata extra payload =
     (case jget ''metadata'' payload of
        Some (JObj kvs) \<Rightarrow> jset ''metadata'' (JObj (dict_update kvs extra)) payload
      | _ \<Rightarrow> jset ''metadata'' (JObj (dict_update [] extra)) payload)"

definition fire_lifecycle_event ::
    "env \<Rightarrow> string \<Rightarrow> uuid \<Rightarrow> string option \<Rightarrow> (string \<times> json) list \<Rightarrow> db \<Rightarrow> db" where
  "fire_lifecycle_event e event_type sid reason extra d =
     (case find_sub sid d of
        None \<Rightarrow> d
      | Some s \<Rightarrow>
          (case dispatch_subscription_event e event_type s None None None reason d of
             (Inr (Some del), d1) \<Rightarrow>
               if extra = [] then d1
               else modify_delivery del (\<lambda>r. r\<lparr>del_payload := merge_metadata extra (del_payload r)\<rparr>) d1
           | (_, d1) \<Rightarrow> d1))"

section \<open>Creation\<close>

definition find_customer_of :: "uuid \<Rightarrow> uuid \<Rightarrow> db \<Rightarrow> customer option" where
  "find_customer_of merchant_id customer_id d =
     (case find_customer customer_id d of
        None \<Rightarrow> None
      | Some c \<Rightarrow> if cus_merchant c = merchant_id then Some c else None)"

fun creation_amount_error :: "pydec option \<Rightarrow> exc option" where
  "creation_amount_error None = Some SubscriptionValidationError"
| "creation_amount_error (Some NaN) = Some InvalidOperation"
| "creation_amount_error (Some NegInf) = Some SubscriptionValidationError"
| "creation_amount_error (Some PosInf) = None"
| "creation_amount_error (Some (Fin val)) = (if val \<le> 0 then Some SubscriptionValidationError else None)"

definition creation_error :: "pydec option \<Rightarrow> int \<Rightarrow> int \<Rightarrow> int \<Rightarrow> exc option" where
  "creation_error amount interval_days soft hard =
     (case creation_amount_error amount of
        Some x \<Rightarrow> Some x
      | None \<Rightarrow>
          if interval_days < 1 then Some SubscriptionValidationError
          else if soft < 0 \<or> hard < 0 then Some SubscriptionValidationError
          else if hard < soft then Some SubscriptionValidationError
          else case amount of Some (Fin val) \<Rightarrow> None | _ \<Rightarrow> Some OverflowError)"

definition is_trial :: "int option \<Rightarrow> bool" where
  "is_trial trial_days = (case trial_days of None \<Rightarrow> False | Some n \<Rightarrow> 0 < n)"

definition new_subscription ::
    "env \<Rightarrow> uuid \<Rightarrow> merchant \<Rightarrow> uuid \<Rightarrow> rat \<Rightarrow> int \<Rightarrow> int \<Rightarrow> int \<Rightarrow> time option \<Rightarrow> int option \<Rightarrow> json option
      \<Rightarrow> subscription" where
  "new_subscription e i m customer_id amount_xmr interval_days soft hard start_at trial_days metadata =
     (let now = env_now e;
          next_due = (case start_at of None \<Rightarrow> now | Some t \<Rightarrow> t);
          trial_end = (if is_trial trial_days then Some (now + days (the trial_days)) else None)
      in \<lparr>sub_id = i, sub_merchant = mer_id m, sub_customer = customer_id,
          sub_amount_atomic = xmr_to_atomic amount_xmr, sub_amount_xmr = amount_xmr,
          sub_interval_days = interval_days,
          sub_status = (if is_trial trial_days then STrialing else SActive),
          sub_grace_soft = soft, sub_grace_hard = hard,
          sub_next_due_at = (if is_trial trial_days then trial_end else Some next_due),
          sub_cancelled_at = None,
          sub_trial_days = (if is_trial trial_days then trial_days else None),
          sub_trial_end_at = trial_end, sub_metadata = metadata, sub_billing_anchor_at = next_due,
          sub_pending_amount_atomic = None, sub_pending_amount_xmr = None,
          sub_pending_interval_days = None, sub_pending_grace_soft = None,
          sub_pending_grace_hard = None, sub_prepaid_until = None, sub_prepay_invoice = None,
          sub_created_at = now, sub_updated_at = now\<rparr>)"

text \<open>
  The session keeps the amount as given until the row is read again; the column rounds it to
  twelve decimals. \<open>round_amount\<close> is that reading.
\<close>

definition round_amount :: "uuid \<Rightarrow> db \<Rightarrow> db" where
  "round_amount i = modify_sub i (\<lambda>s. s\<lparr>sub_amount_xmr := pg_numeric 12 (sub_amount_xmr s)\<rparr>)"

fun first_invoice_error :: "exc \<Rightarrow> bool" where
  "first_invoice_error (WalletUnavailableError m) = True"
| "first_invoice_error (SkipRenewalError m r) = True"
| "first_invoice_error _ = False"

definition start_subscription :: "env \<Rightarrow> merchant \<Rightarrow> subscription \<Rightarrow> uuid op" where
  "start_subscription e m s d =
     (let i = sub_id s in
      if sub_status s = STrialing then
        (Inr i, round_amount i (fire_lifecycle_event e ''subscription.trial_started'' i None [] d))
      else if the (sub_next_due_at s) \<le> env_now e then
        (case create_renewal_invoice_for e i m d of
           (Inl x, d1) \<Rightarrow> if first_invoice_error x then (Inr i, round_amount i d1) else (Inl x, d1)
         | (Inr _, d1) \<Rightarrow> (Inr i, round_amount i d1))
      else (Inr i, round_amount i d))"

definition create_subscription ::
    "env \<Rightarrow> merchant \<Rightarrow> uuid \<Rightarrow> pydec option \<Rightarrow> int \<Rightarrow> int \<Rightarrow> int \<Rightarrow> time option \<Rightarrow> int option \<Rightarrow> json option
      \<Rightarrow> uuid op" where
  "create_subscription e m customer_id amount interval_days soft hard start_at trial_days metadata d =
     (case find_customer_of (mer_id m) customer_id d of
        None \<Rightarrow> (Inl SubscriptionNotFoundError, d)
      | Some c \<Rightarrow>
     (case creation_error amount interval_days soft hard of
        Some x \<Rightarrow> (Inl x, d)
      | None \<Rightarrow>
     (case amount of
        Some (Fin val) \<Rightarrow>
          let s = new_subscription e (db_next_id d) m customer_id val interval_days soft hard start_at trial_days metadata
          in (case flush_error s of
                Some x \<Rightarrow> (Inl x, tick_id d)
              | None \<Rightarrow> start_subscription e m s (add_sub s (tick_id d)))
      | _ \<Rightarrow> (Inl OverflowError, d))))"

section \<open>Lookup and listing\<close>

definition get_sub_of :: "uuid \<Rightarrow> uuid \<Rightarrow> db \<Rightarrow> exc + subscription" where
  "get_sub_of merchant_id subscription_id d =
     (case find_sub subscription_id d of
        None \<Rightarrow> Inl SubscriptionNotFoundError
      | Some s \<Rightarrow> if sub_merchant s = merchant_id then Inr s else Inl SubscriptionNotFoundError)"

record sub_detail =
  sd_subscription :: subscription
  sd_customer :: "customer option"
  sd_payments :: "(subscription_payment \<times> invoice_status \<times> time option) list"

definition get_subscription :: "uuid \<Rightarrow> uuid \<Rightarrow> db \<Rightarrow> exc + sub_detail" where
  "get_subscription merchant_id subscription_id d =
     (case get_sub_of merchant_id subscription_id d of
        Inl x \<Rightarrow> Inl x
      | Inr s \<Rightarrow> Inr
          \<lparr>sd_subscription = s, sd_customer = find_customer (sub_customer s) d,
           sd_payments = List.map_filter
             (\<lambda>sp. case find_invoice (sp_invoice sp) d of None \<Rightarrow> None
                    | Some r \<Rightarrow> Some (sp, inv_status r, inv_paid_at r))
             (order_desc sp_period_start
               (filter (\<lambda>sp. sp_subscription sp = subscription_id) (db_sub_payments d)))\<rparr>)"

definition list_subscriptions ::
    "uuid \<Rightarrow> subscription_status option \<Rightarrow> uuid option \<Rightarrow> int \<Rightarrow> int \<Rightarrow> db \<Rightarrow> subscription list \<times> nat" where
  "list_subscriptions merchant_id status customer_id limit offset d =
     (let rows = filter (\<lambda>s. sub_merchant s = merchant_id \<and>
                    (case status of None \<Rightarrow> True | Some st \<Rightarrow> sub_status s = st) \<and>
                    (case customer_id of None \<Rightarrow> True | Some c \<Rightarrow> sub_customer s = c)) (db_subs d)
      in case clamp_page limit offset of (l, off) \<Rightarrow>
        (page off l (order_desc sub_created_at rows), length rows))"

section \<open>Pause, resume, cancel\<close>

definition pause_subscription :: "env \<Rightarrow> uuid \<Rightarrow> uuid \<Rightarrow> uuid op" where
  "pause_subscription e merchant_id sid d =
     (case get_sub_of merchant_id sid d of
        Inl x \<Rightarrow> (Inl x, d)
      | Inr s \<Rightarrow>
          if sub_status s \<noteq> SActive then (Inl SubscriptionStateError, d)
          else (case transition_subscription_status e sid SPaused d of
              (Inl x, d1) \<Rightarrow> (Inl x, d1)
            | (Inr _, d1) \<Rightarrow>
                (Inr sid, fire_lifecycle_event e ''subscription.paused'' sid (Some ''merchant_action'') [] d1)))"

definition catch_up :: "time \<Rightarrow> subscription \<Rightarrow> subscription" where
  "catch_up now s = (case sub_next_due_at s of
      None \<Rightarrow> s
    | Some t \<Rightarrow> if t < now then s\<lparr>sub_next_due_at := Some now\<rparr> else s)"

definition resume_subscription :: "env \<Rightarrow> uuid \<Rightarrow> uuid \<Rightarrow> uuid op" where
  "resume_subscription e merchant_id sid d =
     (case get_sub_of merchant_id sid d of
        Inl x \<Rightarrow> (Inl x, d)
      | Inr s \<Rightarrow>
          if sub_status s \<noteq> SPaused then (Inl SubscriptionStateError, d)
          else (case transition_subscription_status e sid SActive (touch_sub e sid (catch_up (env_now e)) d) of
              (Inl x, d1) \<Rightarrow> (Inl x, d1)
            | (Inr _, d1) \<Rightarrow>
                (Inr sid, fire_lifecycle_event e ''subscription.resumed'' sid (Some ''merchant_action'') [] d1)))"

text \<open>The loop over the pending invoices: the id of the last one that could not be cancelled.\<close>

fun cancel_pending :: "env \<Rightarrow> uuid \<Rightarrow> subscription_payment list \<Rightarrow> uuid option \<Rightarrow> db \<Rightarrow> uuid option \<times> db" where
  "cancel_pending e merchant_id [] failed d = (failed, d)"
| "cancel_pending e merchant_id (sp # sps) failed d =
     (case cancel_invoice e merchant_id (sp_invoice sp) d of
        (Inl x, d1) \<Rightarrow> cancel_pending e merchant_id sps (Some (sp_invoice sp)) d1
      | (Inr _, d1) \<Rightarrow> cancel_pending e merchant_id sps failed d1)"

definition cancel_details :: "uuid option \<Rightarrow> (string \<times> json) list" where
  "cancel_details failed =
     [(''invoice_cancellation_failed'', JBool (failed \<noteq> None)), (''invoice_id'', jopt juuid failed)]"

definition cancel_subscription :: "env \<Rightarrow> uuid \<Rightarrow> uuid \<Rightarrow> uuid op" where
  "cancel_subscription e merchant_id sid d =
     (case get_sub_of merchant_id sid d of
        Inl x \<Rightarrow> (Inl x, d)
      | Inr s \<Rightarrow>
          if sub_status s \<in> sub_terminal then (Inl SubscriptionStateError, d)
          else (case transition_subscription_status e sid SCancelled d of
              (Inl x, d1) \<Rightarrow> (Inl x, d1)
            | (Inr _, d1) \<Rightarrow>
                let d2 = touch_sub e sid (\<lambda>r. r\<lparr>sub_cancelled_at := Some (env_now e)\<rparr>) d1
                in (case cancel_pending e merchant_id (sps_with sid (\<lambda>sp i. inv_status i = IPending) d2) None d2 of
                      (failed, d3) \<Rightarrow>
                        let d4 = audit e (Some merchant_id) ''subscription.cancelled'' ''subscription'' sid
                                   (cancel_details failed) d3
                        in (Inr sid, fire_lifecycle_event e ''subscription.cancelled'' sid (Some ''merchant_action'')
                              (if failed \<noteq> None
                               then cancel_details failed @ [(''warning'', JStr ''invoice_cancellation_failed'')]
                               else []) d4))))"

section \<open>Routes\<close>

fun subscription_http_error :: "exc \<Rightarrow> exc" where
  "subscription_http_error SubscriptionNotFoundError = HTTPException 404"
| "subscription_http_error SubscriptionStateError = HTTPException 409"
| "subscription_http_error SubscriptionValidationError = HTTPException 400"
| "subscription_http_error (WalletUnavailableError m) = HTTPException 503"
| "subscription_http_error x = x"

definition financial_patch :: "sub_patch \<Rightarrow> bool" where
  "financial_patch p \<longleftrightarrow> pt_amount_xmr p \<noteq> None \<or> pt_interval_days p \<noteq> None \<or>
     pt_grace_soft p \<noteq> None \<or> pt_grace_hard p \<noteq> None"

definition round_pending :: "uuid \<Rightarrow> db \<Rightarrow> db" where
  "round_pending i = modify_sub i
     (\<lambda>s. s\<lparr>sub_pending_amount_xmr := map_option (pg_numeric 12) (sub_pending_amount_xmr s)\<rparr>)"

definition patch_subscription :: "env \<Rightarrow> merchant \<Rightarrow> uuid \<Rightarrow> sub_patch \<Rightarrow> uuid op" where
  "patch_subscription e m sid p d =
     (case get_sub_of (mer_id m) sid d of
        Inl x \<Rightarrow> (Inl x, d)
      | Inr s \<Rightarrow>
     (case update_subscription e sid p d of
        (Inl x, d1) \<Rightarrow> (Inl x, d1)
      | (Inr _, d1) \<Rightarrow>
          if \<not> financial_patch p then (Inr sid, round_pending sid d1)
          else (case find_sub sid d1 of
              None \<Rightarrow> (Inr sid, d1)
            | Some s' \<Rightarrow>
                (case queue_webhook e m ''subscription.updated''
                        (jset ''timestamp'' (jtime (env_now e)) (jset ''event'' (JStr ''subscription.updated'')
                          (build_subscription_updated_payload s'))) None d1 of
                   (Inl x, d2) \<Rightarrow> (Inl x, d2)
                 | (Inr _, d2) \<Rightarrow> (Inr sid, round_pending sid d2)))))"

definition prepay_subscription :: "env \<Rightarrow> merchant \<Rightarrow> uuid \<Rightarrow> int \<Rightarrow> uuid op" where
  "prepay_subscription e m sid periods d =
     (case create_prepay_invoice e m sid periods d of
        (Inl x, d1) \<Rightarrow> (Inl x, d1)
      | (Inr iid, d1) \<Rightarrow>
          (case find_sub sid d1 of
             None \<Rightarrow> (Inl InvalidRequestError, d1)
           | Some s \<Rightarrow>
               (case dispatch_subscription_event e ''subscription.prepaid'' s (Some iid) None None None d1 of
                  (Inl x, d2) \<Rightarrow> (Inl x, d2)
                | (Inr _, d2) \<Rightarrow> (Inr iid, d2))))"

definition subscription_route :: "'a op \<Rightarrow> 'a op" where
  "subscription_route f = in_transaction (map_error subscription_http_error f)"

end
