(* ===== verification/Renewer.thy ===== *)
theory Renewer
  imports Subscription_Service
begin

text \<open>
  \<open>tasks/subscription_renewer.py\<close>: the trial sweep, the prepay guard, the renewal loop and the
  whole sweep. Each \<open>db.commit()\<close> is a point the next rollback returns to. The renewal loop is
  \<open>while True\<close> in the code; here it has fuel, the number of batches it may still fetch, and
  \<open>None\<close> is a loop that has not ended within its fuel. Batch \<open>k\<close> of the loop runs in the
  environment \<open>es k\<close>, so the clock may advance between batches.
\<close>

definition renewer_batch :: nat where "renewer_batch = 50"
definition sweep_interval :: int where "sweep_interval = 3600"

section \<open>Trials\<close>

definition trial_over :: "time \<Rightarrow> subscription \<Rightarrow> bool" where
  "trial_over now s \<longleftrightarrow> sub_status s = STrialing \<and>
     (case sub_trial_end_at s of None \<Rightarrow> False | Some t \<Rightarrow> t \<le> now)"

text \<open>One trial: whether it counts as activated, and the exception that ended it if one did.\<close>

definition end_trial :: "env \<Rightarrow> uuid \<Rightarrow> db \<Rightarrow> (bool \<times> exc option) \<times> db" where
  "end_trial e sid d =
     (case transition_subscription_status e sid SActive d of
        (Inl x, d1) \<Rightarrow> ((False, Some x), d1)
      | (Inr _, d1) \<Rightarrow>
     (let d2 = touch_sub e sid (\<lambda>s. s\<lparr>sub_next_due_at := Some (env_now e)\<rparr>) d1 in
      case find_sub sid d2 of
        None \<Rightarrow> ((False, Some InvalidRequestError), d2)
      | Some s \<Rightarrow>
     (case dispatch_subscription_event e ''subscription.trial_ended'' s None None None (Some ''trial_expired'') d2 of
        (Inl x, d3) \<Rightarrow> ((False, Some x), d3)
      | (Inr _, d3) \<Rightarrow>
     (case create_renewal_invoice e sid d3 of
        (Inl x, d4) \<Rightarrow> if first_invoice_error x then ((True, None), d4) else ((False, Some x), d4)
      | (Inr _, d4) \<Rightarrow> ((True, None), d4)))))"

fun end_trials :: "env \<Rightarrow> uuid list \<Rightarrow> nat op" where
  "end_trials e [] d = (Inr 0, d)"
| "end_trials e (i # is) d =
     (case end_trial e i d of ((counted, x), d1) \<Rightarrow>
        if (case x of None \<Rightarrow> False | Some y \<Rightarrow> poisons y) then (Inl (the x), d1)
        else (case end_trials e is d1 of
            (Inl y, d2) \<Rightarrow> (Inl y, d2)
          | (Inr n, d2) \<Rightarrow> (Inr (if counted then Suc n else n), d2)))"

definition trial_sweep :: "env \<Rightarrow> nat op" where
  "trial_sweep e = in_transaction (\<lambda>d.
     end_trials e (take renewer_batch (map sub_id (filter (trial_over (env_now e)) (db_subs d)))) d)"

section \<open>The prepay guard\<close>

text \<open>\<open>True\<close>: the renewal is skipped.\<close>

definition check_prepay_guard :: "env \<Rightarrow> uuid \<Rightarrow> db \<Rightarrow> bool \<times> db" where
  "check_prepay_guard e sid d =
     (case find_sub sid d of
        None \<Rightarrow> (False, d)
      | Some s \<Rightarrow>
     (case sub_prepay_invoice s of
        None \<Rightarrow> (False, d)
      | Some iid \<Rightarrow>
     (case find_invoice iid d of
        None \<Rightarrow> (False, clear_expired_prepay e sid d)
      | Some r \<Rightarrow>
          if inv_status r = IPending then (True, d)
          else if inv_status r \<in> set paid_statuses then (True, d)
          else (False, log_renewal_event e sid ''prepay_expired'' None None
                  [(''invoice_id'', juuid iid), (''invoice_status'', JStr (invoice_status_value (inv_status r)))]
                  (clear_expired_prepay e sid d)))))"

section \<open>Renewals\<close>

record sweep_counts =
  sw_renewed :: nat
  sw_skipped :: nat
  sw_failed :: nat
  sw_prepay_skipped :: nat

definition no_counts :: sweep_counts where
  "no_counts = \<lparr>sw_renewed = 0, sw_skipped = 0, sw_failed = 0, sw_prepay_skipped = 0\<rparr>"

text \<open>The handlers of the \<open>try\<close> around \<open>create_renewal_invoice\<close>, and \<open>str(exc)\<close> of the first two.\<close>

definition renewal_failed :: "env \<Rightarrow> uuid \<Rightarrow> exc \<Rightarrow> sweep_counts \<Rightarrow> db \<Rightarrow> sweep_counts \<times> db" where
  "renewal_failed e sid x c d =
     (case x of
        SkipRenewalError msg result \<Rightarrow>
          (c\<lparr>sw_skipped := Suc (sw_skipped c)\<rparr>, log_renewal_event e sid result None (Some msg) [] d)
      | WalletUnavailableError msg \<Rightarrow>
          (c\<lparr>sw_failed := Suc (sw_failed c)\<rparr>, log_renewal_event e sid ''failed_wallet'' None (Some msg) [] d)
      | _ \<Rightarrow>
          (c\<lparr>sw_failed := Suc (sw_failed c)\<rparr>,
           log_renewal_event e sid ''failed_db'' None (Some (env_exc_text e x)) [] d))"

definition renew_one :: "env \<Rightarrow> uuid \<Rightarrow> sweep_counts \<Rightarrow> db \<Rightarrow> exc option \<times> sweep_counts \<times> db" where
  "renew_one e sid c d =
     (case check_prepay_guard e sid d of
        (True, d1) \<Rightarrow> (None, c\<lparr>sw_prepay_skipped := Suc (sw_prepay_skipped c)\<rparr>, d1)
      | (False, d1) \<Rightarrow>
          (case create_renewal_invoice e sid d1 of
             (Inr _, d2) \<Rightarrow> (None, c\<lparr>sw_renewed := Suc (sw_renewed c)\<rparr>, d2)
           | (Inl x, d2) \<Rightarrow>
               (case renewal_failed e sid x c d2 of (c', d3) \<Rightarrow> (if poisons x then Some x else None, c', d3))))"

fun renew_subs :: "env \<Rightarrow> uuid list \<Rightarrow> sweep_counts \<Rightarrow> db \<Rightarrow> exc option \<times> sweep_counts \<times> db" where
  "renew_subs e [] c d = (None, c, d)"
| "renew_subs e (i # is) c d =
     (case renew_one e i c d of
        (Some x, c1, d1) \<Rightarrow> (Some x, c1, d1)
      | (None, c1, d1) \<Rightarrow> renew_subs e is c1 d1)"

definition renewal_due :: "time \<Rightarrow> subscription \<Rightarrow> bool" where
  "renewal_due now s \<longleftrightarrow> sub_status s = SActive \<and>
     (case sub_next_due_at s of None \<Rightarrow> False | Some t \<Rightarrow> t \<le> now)"

definition due_batch :: "env \<Rightarrow> db \<Rightarrow> uuid list" where
  "due_batch e d = take renewer_batch (map sub_id (filter (renewal_due (env_now e)) (db_subs d)))"

fun renewal_loop :: "nat \<Rightarrow> (nat \<Rightarrow> env) \<Rightarrow> nat \<Rightarrow> sweep_counts \<Rightarrow> db \<Rightarrow> ((exc + sweep_counts) \<times> db) option" where
  "renewal_loop 0 es k c d = None"
| "renewal_loop (Suc fuel) es k c d =
     (let ids = due_batch (es k) d in
      if ids = [] then Some (Inr c, d)
      else (case renew_subs (es k) ids c d of
          (Some x, c1, d1) \<Rightarrow> Some (Inl x, rollback d d1)
        | (None, c1, d1) \<Rightarrow> renewal_loop fuel es (Suc k) c1 d1))"

text \<open>The sweep: trials, renewals, grace periods, each committed before the next begins.\<close>

definition run_sweep ::
    "nat \<Rightarrow> env \<Rightarrow> (nat \<Rightarrow> env) \<Rightarrow> env \<Rightarrow> db \<Rightarrow> ((exc + nat \<times> sweep_counts \<times> grace_counts) \<times> db) option" where
  "run_sweep fuel e0 es e1 d =
     (case trial_sweep e0 d of
        (Inl x, d1) \<Rightarrow> Some (Inl x, d1)
      | (Inr trials, d1) \<Rightarrow>
     (case renewal_loop fuel es 0 no_counts d1 of
        None \<Rightarrow> None
      | Some (Inl x, d2) \<Rightarrow> Some (Inl x, d2)
      | Some (Inr c, d2) \<Rightarrow>
     (case in_transaction (check_grace_periods e1) d2 of
        (Inl x, d3) \<Rightarrow> Some (Inl x, d3)
      | (Inr g, d3) \<Rightarrow> Some (Inr (trials, c, g), d3))))"

section \<open>When the loop cannot end\<close>

text \<open>
  A due subscription whose prepay invoice is still pending is skipped and stays due; the same
  batch is fetched again, with no delay, for as long as the invoice is pending.
\<close>

definition prepay_blocked :: "uuid \<Rightarrow> db \<Rightarrow> bool" where
  "prepay_blocked sid d \<longleftrightarrow> (\<exists>s iid r. find_sub sid d = Some s \<and> sub_prepay_invoice s = Some iid \<and>
     find_invoice iid d = Some r \<and> inv_status r = IPending)"

lemma renew_one_blocked:
  "prepay_blocked sid d \<Longrightarrow> renew_one e sid c d = (None, c\<lparr>sw_prepay_skipped := Suc (sw_prepay_skipped c)\<rparr>, d)"
  by (auto simp: prepay_blocked_def renew_one_def check_prepay_guard_def)

lemma renewal_loop_blocked:
  assumes "\<And>k. due_batch (es k) d = [sid]" and "prepay_blocked sid d"
  shows "renewal_loop fuel es k c d = None"
  using assms by (induction fuel arbitrary: k c) (simp_all add: renew_one_blocked)

end
