(* ===== verification/System_Ledger.thy ===== *)
theory System_Ledger
  imports Detection Expiration Renewer
begin

text \<open>
  What one operation may do to the ledger, as a relation between the database before and after
  that composes: amounts are never rewritten, statuses only move along the transition tables,
  payments are never lost, and an identifier that is gone never returns. Together with the
  settlement contract and the uniqueness of subaddresses this is what every operation keeps.
\<close>

section \<open>History\<close>

definition invoice_moves :: "invoice_status rel" where
  "invoice_moves = {(a, b). can_transition a b}"

fun payment_moves :: "payment_status \<Rightarrow> payment_status \<Rightarrow> bool" where
  "payment_moves PDetected b = True"
| "payment_moves PConfirmed b = (b \<noteq> PDetected)"
| "payment_moves POrphaned b = (b = POrphaned)"

lemma payment_moves_refl [simp]: "payment_moves a a"
  by (cases a) simp_all

lemma payment_moves_trans: "payment_moves a b \<Longrightarrow> payment_moves b c \<Longrightarrow> payment_moves a c"
  by (cases a; cases b; cases c) simp_all

definition evolves :: "db \<Rightarrow> db \<Rightarrow> bool" where
  "evolves d d' \<longleftrightarrow>
     db_next_id d \<le> db_next_id d' \<and>
     (\<forall>i. i < db_next_id d \<longrightarrow> find_invoice i d = None \<longrightarrow> find_invoice i d' = None) \<and>
     (\<forall>i r r'. find_invoice i d = Some r \<longrightarrow> find_invoice i d' = Some r' \<longrightarrow>
        same_debt r r' \<and> (inv_status r, inv_status r') \<in> invoice_moves\<^sup>*) \<and>
     (\<forall>i p. find_payment i d = Some p \<longrightarrow> (\<exists>p'. find_payment i d' = Some p' \<and>
        same_transfer p p' \<and> payment_moves (pay_status p) (pay_status p')))"

lemma same_debt_trans: "same_debt a b \<Longrightarrow> same_debt b c \<Longrightarrow> same_debt a c"
  by (simp add: same_debt_def)

lemma same_transfer_refl [simp]: "same_transfer p p"
  by (simp add: same_transfer_def)

lemma same_transfer_trans: "same_transfer a b \<Longrightarrow> same_transfer b c \<Longrightarrow> same_transfer a c"
  by (simp add: same_transfer_def)

lemma evolves_refl [simp]: "evolves d d"
  by (simp add: evolves_def)

lemma evolvesD:
  assumes "evolves d d'"
  shows "db_next_id d \<le> db_next_id d'"
    and "i < db_next_id d \<Longrightarrow> find_invoice i d = None \<Longrightarrow> find_invoice i d' = None"
    and "find_invoice i d = Some r \<Longrightarrow> find_invoice i d' = Some r' \<Longrightarrow> same_debt r r'"
    and "find_invoice i d = Some r \<Longrightarrow> find_invoice i d' = Some r' \<Longrightarrow>
      (inv_status r, inv_status r') \<in> invoice_moves\<^sup>*"
    and "find_payment i d = Some p \<Longrightarrow> \<exists>p'. find_payment i d' = Some p' \<and>
        same_transfer p p' \<and> payment_moves (pay_status p) (pay_status p')"
  using assms by (simp_all add: evolves_def)

lemma ledger_wf_ids: "ledger_wf d \<Longrightarrow> find_invoice i d = Some r \<Longrightarrow> i < db_next_id d"
  using get_row_in[of inv_id i "db_invoices d" r] get_row_key[of inv_id i "db_invoices d" r]
  by (auto simp: ledger_wf_def find_invoice_def)

lemma evolves_trans:
  assumes wf: "ledger_wf a" and ab: "evolves a b" and bc: "evolves b c"
  shows "evolves a c"
proof -
  have 1: "db_next_id a \<le> db_next_id c" using evolvesD(1)[OF ab] evolvesD(1)[OF bc] by simp
  have 2: "find_invoice i c = None" if "i < db_next_id a" and "find_invoice i a = None" for i
    using evolvesD(2)[OF bc, of i] evolvesD(2)[OF ab that] that(1) evolvesD(1)[OF ab] by simp
  have 3: "same_debt r r' \<and> (inv_status r, inv_status r') \<in> invoice_moves\<^sup>*"
    if r: "find_invoice i a = Some r" "find_invoice i c = Some r'" for i r r'
  proof -
    have "find_invoice i b \<noteq> None"
    proof
      assume "find_invoice i b = None"
      moreover have "i < db_next_id b" using ledger_wf_ids[OF wf r(1)] evolvesD(1)[OF ab] by simp
      ultimately show False using evolvesD(2)[OF bc, of i] r(2) by simp
    qed
    then obtain q where q: "find_invoice i b = Some q" by blast
    show ?thesis
      using evolvesD(3,4)[OF ab r(1) q] evolvesD(3,4)[OF bc q r(2)] same_debt_trans
      by (meson rtrancl_trans)
  qed
  have 4: "\<exists>p'. find_payment i c = Some p' \<and> same_transfer p p' \<and> payment_moves (pay_status p) (pay_status p')"
    if p: "find_payment i a = Some p" for i p
  proof -
    obtain q where q: "find_payment i b = Some q" "same_transfer p q" "payment_moves (pay_status p) (pay_status q)"
      using evolvesD(5)[OF ab p] by blast
    obtain p' where "find_payment i c = Some p'" "same_transfer q p'" "payment_moves (pay_status q) (pay_status p')"
      using evolvesD(5)[OF bc q(1)] by blast
    then show ?thesis using q same_transfer_trans payment_moves_trans by blast
  qed
  show ?thesis using 1 2 3 4 by (simp add: evolves_def)
qed

lemma evolves_ledger_unchanged: "ledger_unchanged d d' \<Longrightarrow> evolves d d'"
  by (auto simp: evolves_def ledger_unchanged_def find_invoice_def find_payment_def)

lemma evolves_then_unchanged:
  assumes ev: "evolves a b" and un: "ledger_unchanged b c"
  shows "evolves a c"
proof -
  have "find_invoice i c = find_invoice i b" "find_payment i c = find_payment i b" for i
    using ledger_unchanged_find[OF un] by simp_all
  moreover have "db_next_id b \<le> db_next_id c" using un by (simp add: ledger_unchanged_def)
  ultimately show ?thesis using ev unfolding evolves_def by simp
qed

lemma evolves_restatus:
  assumes rs: "restatus i d d'" and r: "find_invoice i d = Some r" "find_invoice i d' = Some r'"
    and mv: "(inv_status r, inv_status r') \<in> invoice_moves\<^sup>*"
  shows "evolves d d'"
proof -
  have pays: "find_payment j d' = find_payment j d" for j
    using rs by (simp add: restatus_def find_payment_def)
  obtain f where f: "\<And>r. same_debt r (f r)" "db_invoices d' = upd_row inv_id i f (db_invoices d)"
    using rs unfolding restatus_def by blast
  have fi: "find_invoice j d' = (if i = j then map_option f (find_invoice j d) else find_invoice j d)" for j
    unfolding find_invoice_def f(2) by (rule get_row_upd) (use f(1) in \<open>simp add: same_debt_def\<close>)
  show ?thesis unfolding evolves_def
    using rs mv r f(1) by (auto simp: fi pays restatus_def split: if_splits)
qed

lemma evolves_repay:
  assumes rp: "repay pid f d d'" and mv: "\<And>p. find_payment pid d = Some p \<Longrightarrow> payment_moves (pay_status p) (pay_status (f p))"
  shows "evolves d d'"
proof -
  have "find_invoice j d' = find_invoice j d" for j using rp by (simp add: repay_def find_invoice_def)
  then show ?thesis unfolding evolves_def using rp mv repay_find[OF rp] by (auto simp: repay_def)
qed

section \<open>Subaddresses\<close>

text \<open>
  \<open>home\<close> says which subaddress a transaction pays; the premise of the theorems below is that the
  wallet reports one subaddress per transaction. Payments then sit on the invoice of that
  subaddress, and subaddresses are not shared.
\<close>

definition adr_key :: "invoice_address \<Rightarrow> int \<times> int" where
  "adr_key a = (adr_account a, adr_index a)"

definition home_ok :: "(string \<Rightarrow> int \<times> int) \<Rightarrow> db \<Rightarrow> bool" where
  "home_ok home d \<longleftrightarrow> distinct (map adr_key (db_addresses d)) \<and>
     (\<forall>p \<in> set (db_payments d). \<exists>a \<in> set (db_addresses d).
        adr_invoice a = pay_invoice p \<and> adr_key a = home (pay_tx_hash p))"

definition at_home :: "(string \<Rightarrow> int \<times> int) \<Rightarrow> transfer \<Rightarrow> bool" where
  "at_home home tx \<longleftrightarrow> (\<forall>m. tx_minor tx = Some m \<longrightarrow> home (tx_txid tx) = (tx_major tx, m))"

lemma subaddress_unique:
  assumes "find_invoice_by_subaddress_index mj mn d = Inr (Some r)"
  shows "\<exists>a \<in> set (db_addresses d). adr_key a = (mj, mn) \<and> adr_invoice a = inv_id r"
proof -
  let ?l = "filter (\<lambda>a. adr_account a = mj \<and> adr_index a = mn) (db_addresses d)"
  obtain a where a: "?l = [a]" "find_invoice (adr_invoice a) d = Some r"
    using assms by (auto simp: find_invoice_by_subaddress_index_def scalar_one_or_none_Some split: sum.splits option.splits)
  then have "a \<in> set ?l" by simp
  then have "a \<in> set (db_addresses d)" "adr_key a = (mj, mn)" by (simp_all add: adr_key_def)
  moreover have "inv_id r = adr_invoice a" using invoices.look_key[OF a(2)] .
  ultimately show ?thesis by auto
qed

lemma home_single:
  assumes h: "home_ok home d" and tx: "at_home home tx" and wf: "ledger_wf d"
  shows "tx_single d tx"
proof (cases "\<exists>m p r. tx_minor tx = Some m \<and> find_payment_by_tx_hash (tx_txid tx) d = Inr (Some p) \<and>
    find_invoice_by_subaddress_index (tx_major tx) m d = Inr (Some r)")
  case False
  then show ?thesis by (auto simp: tx_single_def split: option.split sum.split)
next
  case True
  then obtain m p r where m: "tx_minor tx = Some m" and p: "find_payment_by_tx_hash (tx_txid tx) d = Inr (Some p)"
    and r: "find_invoice_by_subaddress_index (tx_major tx) m d = Inr (Some r)" by blast
  have pp: "p \<in> set (db_payments d)" "pay_tx_hash p = tx_txid tx"
    using find_payment_tx[OF p wf] get_row_in by (auto simp: find_payment_def)
  obtain a where a: "a \<in> set (db_addresses d)" "adr_invoice a = pay_invoice p" "adr_key a = home (tx_txid tx)"
    using h pp unfolding home_ok_def by metis
  obtain b where b: "b \<in> set (db_addresses d)" "adr_key b = (tx_major tx, m)" "adr_invoice b = inv_id r"
    using subaddress_unique[OF r] by blast
  have "adr_key a = adr_key b" using a(3) b(2) tx m by (simp add: at_home_def)
  then have "a = b" using a(1) b(1) h unfolding home_ok_def distinct_map inj_on_def by blast
  then show ?thesis using a(2) b(3) m p r by (simp add: tx_single_def)
qed

section \<open>The invariant and its preservation\<close>

definition sys_ok :: "(string \<Rightarrow> int \<times> int) \<Rightarrow> db \<Rightarrow> bool" where
  "sys_ok home d \<longleftrightarrow> ledger_ok d \<and> home_ok home d"

definition keeps :: "(string \<Rightarrow> int \<times> int) \<Rightarrow> db \<Rightarrow> db \<Rightarrow> bool" where
  "keeps home d d' \<longleftrightarrow> (sys_ok home d \<longrightarrow> sys_ok home d' \<and> evolves d d')"

lemma keeps_refl [simp]: "keeps home d d"
  by (simp add: keeps_def)

lemma keeps_trans: "keeps home a b \<Longrightarrow> keeps home b c \<Longrightarrow> keeps home a c"
  using evolves_trans unfolding keeps_def sys_ok_def ledger_ok_def by blast

lemma keepsI:
  assumes "sys_ok home d \<Longrightarrow> ledger_ok d'" and "sys_ok home d \<Longrightarrow> home_ok home d'"
    and "sys_ok home d \<Longrightarrow> evolves d d'"
  shows "keeps home d d'"
  using assms by (simp add: keeps_def sys_ok_def)

lemma home_ok_cong:
  "db_addresses d' = db_addresses d \<Longrightarrow> db_payments d' = db_payments d \<Longrightarrow> home_ok home d \<Longrightarrow> home_ok home d'"
  by (simp add: home_ok_def)

lemma keeps_ledger_unchanged: "ledger_unchanged d d' \<Longrightarrow> keeps home d d'"
  by (rule keepsI) (auto simp: sys_ok_def ledger_unchanged_def intro: ledger_unchanged_ok home_ok_cong evolves_ledger_unchanged)

lemma ledger_keeps: "ledger_unchanged d' d'' \<Longrightarrow> keeps home d d' \<Longrightarrow> keeps home d d''"
  using keeps_trans keeps_ledger_unchanged by blast

lemma keeps_next: "keeps home d d' \<Longrightarrow> sys_ok home d \<Longrightarrow> db_next_id d \<le> db_next_id d'"
  by (simp add: keeps_def evolves_def)

lemma find_rollback [simp]:
  "find_invoice i (rollback d d') = find_invoice i d" "find_payment i (rollback d d') = find_payment i d"
  by (simp_all add: find_invoice_def find_payment_def)

lemma keeps_rollback:
  assumes "keeps home d d'"
  shows "keeps home d (rollback d d')"
proof (rule keepsI)
  assume ok: "sys_ok home d"
  note nx = keeps_next[OF assms ok]
  show "ledger_ok (rollback d d')" using rollback_ok[OF _ nx] ok by (simp add: sys_ok_def)
  show "home_ok home (rollback d d')"
    by (rule home_ok_cong[of _ d]) (use ok in \<open>simp_all add: sys_ok_def\<close>)
  show "evolves d (rollback d d')" using nx by (simp add: evolves_def)
qed

lemma keeps_in_transaction:
  assumes "keeps home d (snd (f d))"
  shows "keeps home d (snd (in_transaction f d))"
  using assms keeps_rollback by (cases "f d") (auto simp: in_transaction_def split: sum.split)

lemma keeps_map_error: "keeps home d (snd (f d)) \<Longrightarrow> keeps home d (snd (map_error g f d))"
  by (cases "f d") (auto simp: map_error_def split: sum.split)

lemma keeps_for_each:
  assumes "\<And>x d. x \<in> set xs \<Longrightarrow> keeps home d (snd (f x d))"
  shows "keeps home d (snd (for_each f xs d))"
  by (rule for_each_invariant[where P = "keeps home d"]) (use assms keeps_trans in blast, simp)

end
