(* ===== verification/System_Steps.thy ===== *)
theory System_Steps
  imports System_Ledger
begin

text \<open>Every operation keeps the invariant and the history of the ledger.\<close>

section \<open>Payments\<close>

lemma target_moves: "s \<noteq> ICancelled \<Longrightarrow> (s, target_status s c n) \<in> invoice_moves\<^sup>*"
proof -
  assume live: "s \<noteq> ICancelled"
  consider "target_status s c n = s" | "can_transition s (target_status s c n)"
    | "s = IPending" "target_status s c n = IOverpaid"
    using target_allowed[OF live, of c n] by blast
  then show ?thesis
  proof cases
    case 1
    then show ?thesis by simp
  next
    case 2
    then show ?thesis by (simp add: invoice_moves_def r_into_rtrancl)
  next
    case 3
    have "(IPending, IPaid) \<in> invoice_moves" "(IPaid, IOverpaid) \<in> invoice_moves"
      by (simp_all add: invoice_moves_def can_transition_def)
    then show ?thesis using 3 by (metis r_into_rtrancl rtrancl.rtrancl_into_rtrancl)
  qed
qed

lemma recalculate_evolves: "evolves d (snd (recalculate_invoice_status e i d))"
proof (cases "\<exists>r. find_invoice i d = Some r \<and> inv_status r \<noteq> ICancelled")
  case False
  then have "snd (recalculate_invoice_status e i d) = d"
    by (auto simp: recalculate_invoice_status_def split: option.split)
  then show ?thesis by simp
next
  case True
  then obtain r where r: "find_invoice i d = Some r" "inv_status r \<noteq> ICancelled" by blast
  obtain d1 r1 where d1: "restatus i d d1" "find_invoice i d1 = Some r1"
      "inv_status r1 = target_status (inv_status r) (sum_invoice_payments i d) (inv_amount_atomic r)"
      "ledger_unchanged d1 (snd (recalculate_invoice_status e i d))"
    using recalculate_effect[OF r, of e] by metis
  have "evolves d d1"
    using evolves_restatus[OF d1(1) r(1) d1(2)] target_moves[OF r(2)] d1(3) by simp
  then show ?thesis by (rule evolves_then_unchanged[OF _ d1(4)])
qed

text \<open>An operation that writes a payment and then recalculates its invoice.\<close>

lemma recalculate_after:
  assumes wf: "ledger_wf d" and ev: "evolves d d1" and wf1: "ledger_wf d1"
    and st: "settled_but {i} d1" and r: "find_invoice i d1 = Some r" and h: "home_ok home d1"
  shows "sys_ok home (snd (recalculate_invoice_status e i d1)) \<and>
    evolves d (snd (recalculate_invoice_status e i d1))"
proof -
  have "ledger_ok (snd (recalculate_invoice_status e i d1))" by (rule recalculate_restores[OF wf1 st r])
  moreover have "home_ok home (snd (recalculate_invoice_status e i d1))"
    using recalculate_frames[of e i d1] h home_ok_cong by blast
  moreover have "evolves d (snd (recalculate_invoice_status e i d1))"
    by (rule evolves_trans[OF wf ev recalculate_evolves])
  ultimately show ?thesis by (simp add: sys_ok_def)
qed

lemma repay_home: "repay pid f d d' \<Longrightarrow> home_ok home d \<Longrightarrow> home_ok home d'"
proof -
  assume rp: "repay pid f d d'" and h: "home_ok home d"
  have "\<exists>a \<in> set (db_addresses d). adr_invoice a = pay_invoice p \<and> adr_key a = home (pay_tx_hash p)"
    if p: "p \<in> set (db_payments d')" for p
  proof -
    obtain q where q: "q \<in> set (db_payments d)" "p = (if pay_id q = pid then f q else q)"
      using p rp in_upd_row unfolding repay_def by metis
    have "same_transfer q (f q)" using rp by (simp add: repay_def)
    then have "pay_invoice p = pay_invoice q" "pay_tx_hash p = pay_tx_hash q"
      using q(2) by (auto simp: same_transfer_def)
    then show ?thesis using h q(1) unfolding home_ok_def by metis
  qed
  then show ?thesis using h rp by (simp add: home_ok_def repay_def)
qed

lemma bump_moves: "payment_moves (pay_status p) (pay_status (bump_payment e c h p))"
  by (cases "pay_status p") (simp_all add: bump_payment_def Let_def)

lemma update_confirmations_evolves:
  assumes "update_confirmations e pid c h d = (x, d1)"
  shows "evolves d d1" and "home_ok home d \<Longrightarrow> home_ok home d1"
proof -
  have "evolves d d1 \<and> (home_ok home d \<longrightarrow> home_ok home d1)"
  proof (cases rule: update_confirmations_cases[of e pid c h d])
    case (changed p d2)
    then show ?thesis using assms evolves_repay[OF changed(5) bump_moves] repay_home[OF changed(5)] by simp
  qed (use assms in auto)
  then show "evolves d d1" and "home_ok home d \<Longrightarrow> home_ok home d1" by auto
qed

text \<open>Confirmation, then recalculation of the payment's own invoice if asked.\<close>

lemma confirm_then_recalculate:
  assumes ok: "sys_ok home d" and u: "update_confirmations e pid c h d = (x, d1)"
    and p: "find_payment pid d = Some p"
  shows "x \<noteq> Inr True \<Longrightarrow> sys_ok home d1 \<and> evolves d d1"
    and "find_invoice (pay_invoice p) d1 = Some r \<Longrightarrow>
      sys_ok home (snd (recalculate_invoice_status e (pay_invoice p) d1)) \<and>
      evolves d (snd (recalculate_invoice_status e (pay_invoice p) d1))"
proof -
  have lok: "ledger_ok d" and hok: "home_ok home d" and wf: "ledger_wf d"
    using ok by (simp_all add: sys_ok_def ledger_ok_def)
  note L = update_confirmations_ledger[OF lok u]
  note E = update_confirmations_evolves[OF u]
  show "x \<noteq> Inr True \<Longrightarrow> sys_ok home d1 \<and> evolves d d1"
    using L(2) E(1) E(2)[OF hok] by (simp add: sys_ok_def)
  show "sys_ok home (snd (recalculate_invoice_status e (pay_invoice p) d1)) \<and>
      evolves d (snd (recalculate_invoice_status e (pay_invoice p) d1))"
    if r: "find_invoice (pay_invoice p) d1 = Some r"
    by (rule recalculate_after[OF wf E(1) L(1) L(3)[OF p] r E(2)[OF hok]])
qed

lemma process_existing_keeps:
  assumes r: "find_invoice (inv_id r) d = Some r" and p: "find_payment (pay_id p) d = Some p"
    and own: "pay_invoice p = inv_id r"
  shows "keeps home d (snd (process_existing e tx r p d))"
proof -
  obtain x d1 where u: "update_confirmations e (pay_id p) (tx_conf tx) (tx_block_height tx) d = (x, d1)"
    by fastforce
  show ?thesis unfolding keeps_def
  proof
    assume ok: "sys_ok home d"
    have lok: "ledger_ok d" using ok by (simp add: sys_ok_def)
    note L = update_confirmations_ledger[OF lok u]
    have r1: "find_invoice (pay_invoice p) d1 = Some r" using r own L(4) by (simp add: find_invoice_def)
    note C = confirm_then_recalculate[OF ok u p]
    have ok1: "ledger_ok (snd (process_existing e tx r p d))" by (rule process_existing_ok[OF lok r p own])
    have fin: "snd (process_existing e tx r p d) = d1 \<or>
        snd (process_existing e tx r p d) = snd (recalculate_invoice_status e (pay_invoice p) d1)"
      using own u by (cases "recalculate_invoice_status e (inv_id r) d1")
        (simp add: process_existing_def split: sum.split)
    show "sys_ok home (snd (process_existing e tx r p d)) \<and> evolves d (snd (process_existing e tx r p d))"
    proof (cases "snd (process_existing e tx r p d) = d1")
      case True
      then show ?thesis using ok1 update_confirmations_evolves(1)[OF u] update_confirmations_evolves(2)[OF u, of home] ok by (simp add: sys_ok_def)
    next
      case False
      then show ?thesis using fin C(2)[OF r1] by simp
    qed
  qed
qed

lemma tick_id_keeps: "keeps home d d' \<Longrightarrow> keeps home d (tick_id d')"
  by (erule ledger_keeps[rotated]) (simp add: ledger_unchanged_def)

lemma process_new_keeps:
  assumes m: "find_invoice_by_subaddress_index (tx_major tx) m d = Inr (Some r)" and tm: "tx_minor tx = Some m"
    and tx: "at_home home tx"
  shows "keeps home d (snd (process_new e tx mp r d))"
  unfolding keeps_def
proof
  assume ok: "sys_ok home d"
  have lok: "ledger_ok d" and hok: "home_ok home d" and wf: "ledger_wf d"
    using ok by (simp_all add: sys_ok_def ledger_ok_def)
  have r: "find_invoice (inv_id r) d = Some r" by (rule find_by_subaddress_found[OF m])
  show "sys_ok home (snd (process_new e tx mp r d)) \<and> evolves d (snd (process_new e tx mp r d))"
  proof (cases rule: create_payment_cases[of e r "tx_txid tx" "tx_amount tx" "tx_conf tx" "tx_block_height tx" mp d])
    case (failed x)
    then have "snd (process_new e tx mp r d) = tick_id d" by (simp add: process_new_def)
    then show ?thesis using tick_id_keeps[OF keeps_refl, of home d] ok by (simp add: keeps_def)
  next
    case (created d1 p)
    note L = create_payment_ledger[OF lok r created(1)]
    have r1: "find_invoice (inv_id r) d1 = Some r" using r L(3) by (simp add: find_invoice_def)
    obtain a where a: "a \<in> set (db_addresses d)" "adr_key a = (tx_major tx, m)" "adr_invoice a = inv_id r"
      using subaddress_unique[OF m] by blast
    have p: "pay_invoice p = inv_id r" "pay_tx_hash p = tx_txid tx" "pay_id p = db_next_id d"
      using created(2) by (simp_all add: new_payment_def)
    have "home (tx_txid tx) = (tx_major tx, m)" using tx tm by (simp add: at_home_def)
    then have h1: "home_ok home d1"
      using hok a p created(4,6) unfolding home_ok_def by (auto intro!: bexI[of _ a])
    have ev: "evolves d d1" unfolding evolves_def find_invoice_def find_payment_def created(4,5)
      using created(7) by (auto simp: get_row_append)
    show ?thesis
    proof (cases "inv_status r = ICancelled")
      case True
      then show ?thesis using cancelled_settled[OF L(2,1) r1] h1 ev created(1)
        by (simp add: process_new_def sys_ok_def)
    next
      case False
      then have "snd (process_new e tx mp r d) = snd (recalculate_invoice_status e (inv_id r) d1)"
        using created(1) by (cases "recalculate_invoice_status e (inv_id r) d1") (simp add: process_new_def split: sum.split)
      then show ?thesis using recalculate_after[OF wf ev L(1,2) r1 h1, of e] by simp
    qed
  qed
qed

lemma process_transfer_keeps:
  assumes tx: "at_home home tx"
  shows "keeps home d (snd (process_transfer e tx mp d))"
proof (cases "sys_ok home d")
  case False
  then show ?thesis by (simp add: keeps_def)
next
  case ok: True
  then have wf: "ledger_wf d" and hok: "home_ok home d" by (simp_all add: sys_ok_def ledger_ok_def)
  have single: "tx_single d tx" by (rule home_single[OF hok tx wf])
  show ?thesis
  proof (cases "\<exists>m r. tx_minor tx = Some m \<and> \<not> tx_amount tx < dust_threshold_atomic \<and>
      find_invoice_by_subaddress_index (tx_major tx) m d = Inr (Some r)")
    case False
    then have "snd (process_transfer e tx mp d) = d"
      by (auto simp: process_transfer_def split: option.split sum.split)
    then show ?thesis by simp
  next
    case True
    then obtain m r where m: "tx_minor tx = Some m" "\<not> tx_amount tx < dust_threshold_atomic"
      and r: "find_invoice_by_subaddress_index (tx_major tx) m d = Inr (Some r)" by blast
    show ?thesis
    proof (cases "find_payment_by_tx_hash (tx_txid tx) d")
      case (Inl x)
      then show ?thesis using m r by (simp add: process_transfer_def)
    next
      case (Inr q)
      show ?thesis
      proof (cases q)
        case None
        then show ?thesis using process_new_keeps[OF r m(1) tx, of e mp] m r Inr by (simp add: process_transfer_def)
      next
        case (Some p)
        have "pay_invoice p = inv_id r" using single m r Inr Some by (simp add: tx_single_def)
        moreover have "find_payment (pay_id p) d = Some p"
          using find_payment_tx(1)[of "tx_txid tx" d p] Inr Some wf by simp
        ultimately show ?thesis
          using process_existing_keeps[OF find_by_subaddress_found[OF r], of p home e tx] m r Inr Some
          by (simp add: process_transfer_def)
      qed
    qed
  qed
qed

lemma handle_reorg_keeps: "keeps home d (snd (handle_reorg e pid d))"
proof (rule keepsI)
  assume ok: "sys_ok home d"
  show "ledger_ok (snd (handle_reorg e pid d))" using ok by (simp add: sys_ok_def handle_reorg_ok)
  have wf: "ledger_wf d" using ok by (simp add: sys_ok_def ledger_ok_def)
  define f :: "payment \<Rightarrow> payment" where "f = (\<lambda>q. q\<lparr>pay_status := POrphaned\<rparr>)"
  have "home_ok home (snd (handle_reorg e pid d)) \<and> evolves d (snd (handle_reorg e pid d))"
  proof (cases "\<exists>p. find_payment pid d = Some p \<and> pay_status p \<noteq> POrphaned")
    case False
    then have "snd (handle_reorg e pid d) = d" by (auto simp: handle_reorg_def split: option.split)
    then show ?thesis using ok by (simp add: sys_ok_def)
  next
    case True
    then obtain p where p: "find_payment pid d = Some p" "pay_status p \<noteq> POrphaned" by blast
    define d2 where "d2 = audit e (invoice_merchant (pay_invoice p) d) ''payment.orphaned'' ''payment'' pid
        [(''tx_hash'', JStr (pay_tx_hash p)), (''previous_status'', JStr (payment_status_value (pay_status p))),
         (''invoice_id'', juuid (pay_invoice p))] (modify_payment pid f d)"
    have rp: "repay pid f d d2"
      by (simp add: repay_def d2_def same_transfer_def f_def) (simp add: modify_payment_def)
    have mv: "payment_moves (pay_status q) (pay_status (f q))" for q by (cases "pay_status q") (simp_all add: f_def)
    have ev: "evolves d d2" by (rule evolves_repay[OF rp mv])
    have h2: "home_ok home d2" using repay_home[OF rp] ok by (simp add: sys_ok_def)
    have "snd (handle_reorg e pid d) = d2 \<or> snd (handle_reorg e pid d) = snd (recalculate_invoice_status e (pay_invoice p) d2)"
      using p by (simp add: handle_reorg_def Let_def d2_def f_def split: option.split)
    moreover have "home_ok home (snd (recalculate_invoice_status e (pay_invoice p) d2))"
      using recalculate_frames[of e "pay_invoice p" d2] h2 home_ok_cong by blast
    moreover have "evolves d (snd (recalculate_invoice_status e (pay_invoice p) d2))"
      by (rule evolves_trans[OF wf ev recalculate_evolves])
    ultimately show ?thesis using ev h2 by metis
  qed
  then show "home_ok home (snd (handle_reorg e pid d))" and "evolves d (snd (handle_reorg e pid d))" by auto
qed

section \<open>The detection engine\<close>

lemma dispatch_changes_ledger: "ledger_unchanged d (snd (dispatch_changes e iid pid os ops d))"
proof (cases "\<exists>r p m. find_invoice iid d = Some r \<and> find_payment pid d = Some p \<and> find_merchant (inv_merchant r) d = Some m")
  case False
  then show ?thesis by (auto simp: dispatch_changes_def load_merchant_def Let_def split: option.split)
next
  case True
  then obtain r p m where f: "find_invoice iid d = Some r" "find_payment pid d = Some p"
    "find_merchant (inv_merchant r) d = Some m" by blast
  obtain x d1 where q: "dispatch_events e (determine_webhook_events p r os ops) m r (Some p) d = (x, d1)" by fastforce
  then have "ledger_unchanged d d1"
    using billing_ledger[OF dispatch_events_frame[of d e "determine_webhook_events p r os ops" m r "Some p"]] by simp
  then show ?thesis using f q by (simp add: dispatch_changes_def load_merchant_def Let_def split: sum.split)
qed

lemma dispatch_changes_keeps: "keeps home d d1 \<Longrightarrow> keeps home d (snd (dispatch_changes e i p s t d1))"
  by (rule ledger_keeps[OF dispatch_changes_ledger])

lemma scan_transfer_keeps:
  assumes "at_home home tx"
  shows "keeps home d (snd (scan_transfer e tx d))"
proof -
  obtain x d1 where p: "process_transfer e tx (is_mempool tx) d = (x, d1)" by fastforce
  then have k: "keeps home d d1" using process_transfer_keeps[OF assms, of d e "is_mempool tx"] by simp
  have D: "keeps home d d2" if "dispatch_changes e i q s t d1 = (y, d2)" for i q s t y d2
    using dispatch_changes_keeps[OF k, of e i q s t] that by simp
  show ?thesis using k D by (auto simp: scan_transfer_def p split: option.split sum.split prod.split)
qed

lemma scan_loop_keeps:
  assumes "\<And>tx. tx \<in> set txs \<Longrightarrow> at_home home tx"
  shows "keeps home d (snd (scan_loop e txs d))"
  using assms
proof (induction txs arbitrary: d)
  case Nil
  then show ?case by simp
next
  case (Cons tx txs)
  obtain c x d1 where s: "scan_transfer e tx d = ((c, x), d1)" by (metis prod.exhaust)
  then have 1: "keeps home d d1" using scan_transfer_keeps[of home tx d e] Cons.prems by simp
  obtain y d2 where l: "scan_loop e txs d1 = (y, d2)" by fastforce
  then have "keeps home d1 d2" using Cons.IH[of d1] Cons.prems by simp
  with 1 have "keeps home d d2" by (rule keeps_trans)
  with 1 show ?case by (simp add: s l split: sum.split option.split)
qed

definition wallet_at_home :: "(string \<Rightarrow> int \<times> int) \<Rightarrow> wallet_view \<Rightarrow> bool" where
  "wallet_at_home home w \<longleftrightarrow> (\<forall>lo hi txs. get_transfers (wv_transfers w) 0 lo hi True True True = Inr txs \<longrightarrow>
     (\<forall>tx \<in> set txs. at_home home tx))"

lemma scan_transfers_keeps:
  assumes "wallet_at_home home w"
  shows "keeps home d (snd (scan_transfers e (wv_transfers w) lo hi d))"
  using assms scan_loop_keeps[of _ home d e]
  by (cases "get_transfers (wv_transfers w) 0 lo hi True True True") (auto simp: scan_transfers_def wallet_at_home_def)

lemma confirm_missing_keeps: "keeps home d (snd (snd (confirm_missing e p misses d)))"
proof -
  obtain x d1 where h: "handle_reorg e (pay_id p) d = (x, d1)" by fastforce
  then have k: "keeps home d d1" using handle_reorg_keeps[of home d e "pay_id p"] by simp
  have D: "keeps home d d2" if "dispatch_changes e i q s t d1 = (y, d2)" for i q s t y d2
    using dispatch_changes_keeps[OF k, of e i q s t] that by simp
  show ?thesis using k D
    by (auto simp: confirm_missing_def h Let_def split: option.split sum.split prod.split)
qed

lemma confirm_found_keeps:
  assumes p: "find_payment (pay_id p) d = Some q" and own: "pay_invoice q = pay_invoice p"
  shows "keeps home d (snd (confirm_found e p tx d))"
proof (cases "sys_ok home d")
  case False
  then show ?thesis by (simp add: keeps_def)
next
  case ok: True
  obtain x d1 where u: "update_confirmations e (pay_id p) (tx_conf tx) (tx_block_height tx) d = (x, d1)" by fastforce
  note C = confirm_then_recalculate[OF ok u p]
  have lok: "ledger_ok d" using ok by (simp add: sys_ok_def)
  note L = update_confirmations_ledger[OF lok u]
  show ?thesis
  proof (cases "x = Inr True")
    case False
    then have "snd (confirm_found e p tx d) = d1" using u by (cases x) (auto simp: confirm_found_def)
    then show ?thesis using C(1)[OF False] by (simp add: keeps_def)
  next
    case True
    have "q \<in> set (db_payments d)" using p get_row_in by (auto simp: find_payment_def)
    then have "pay_invoice q \<in> inv_id ` set (db_invoices d)" using lok by (simp add: ledger_ok_def ledger_wf_def)
    then have "pay_invoice p \<in> inv_id ` set (db_invoices d)" using own by simp
    then obtain r where "find_invoice (pay_invoice p) d = Some r"
      using get_row_None[of inv_id "pay_invoice p" "db_invoices d"]
      by (cases "find_invoice (pay_invoice p) d") (auto simp: find_invoice_def)
    then have r1: "find_invoice (pay_invoice p) d1 = Some r" using L(4) by (simp add: find_invoice_def)
    obtain y d2 where rc: "recalculate_invoice_status e (pay_invoice p) d1 = (y, d2)" by fastforce
    have k: "keeps home d d2" using C(2) r1 own rc by (simp add: keeps_def)
    have D: "keeps home d d3" if "dispatch_changes e i q s t d2 = (z, d3)" for i q s t z d3
      using dispatch_changes_keeps[OF k, of e i q s t] that by simp
    show ?thesis using k D by (auto simp: confirm_found_def u True r1 rc split: sum.split prod.split)
  qed
qed

definition tracked :: "db \<Rightarrow> payment \<Rightarrow> bool" where
  "tracked d p \<longleftrightarrow> (\<exists>q. find_payment (pay_id p) d = Some q \<and> same_transfer p q)"

lemma tracked_evolves: "tracked d p \<Longrightarrow> evolves d d' \<Longrightarrow> tracked d' p"
  unfolding tracked_def using evolvesD(5) same_transfer_trans by metis

lemma confirm_one_keeps:
  assumes "tracked d p"
  shows "keeps home d (snd (snd (confirm_one e w p misses d)))"
proof -
  obtain q where q: "find_payment (pay_id p) d = Some q" "pay_invoice q = pay_invoice p"
    using assms by (auto simp: tracked_def same_transfer_def)
  have F: "keeps home d d1" if "confirm_found e p tx d = (y, d1)" for tx y d1
    using confirm_found_keeps[OF q, of home e tx] that by simp
  have M: "keeps home d d1" if "confirm_missing e p misses d = (y, m, d1)" for y m d1
    using confirm_missing_keeps[of home d e p misses] that by simp
  show ?thesis using F M by (auto simp: confirm_one_def split: option.split sum.split prod.split)
qed

lemma confirm_loop_keeps:
  assumes "sys_ok home d" and "\<And>p. p \<in> set ps \<Longrightarrow> tracked d p"
  shows "keeps home d (snd (snd (confirm_loop e w ps misses d)))"
  using assms
proof (induction ps arbitrary: misses d)
  case Nil
  then show ?case by simp
next
  case (Cons p ps)
  obtain c x m1 d1 where s: "confirm_one e w p misses d = ((c, x), m1, d1)" by (metis prod.exhaust)
  then have 1: "keeps home d d1" using confirm_one_keeps[of d p home e w misses] Cons.prems(2) by simp
  then have ok1: "sys_ok home d1" and ev1: "evolves d d1" using Cons.prems(1) by (simp_all add: keeps_def)
  obtain y m2 d2 where l: "confirm_loop e w ps m1 d1 = (y, m2, d2)" by (metis prod.exhaust)
  then have "keeps home d1 d2" using Cons.IH[OF ok1, of m1] Cons.prems(2) tracked_evolves[OF _ ev1] by simp
  with 1 have "keeps home d d2" by (rule keeps_trans)
  with 1 show ?case by (simp add: s l split: sum.split option.split)
qed

lemma update_unconfirmed_keeps: "keeps home d (snd (snd (update_unconfirmed e w misses d)))"
proof (cases "sys_ok home d")
  case False
  then show ?thesis by (simp add: keeps_def)
next
  case True
  then have "distinct (map pay_id (db_payments d))" by (simp add: sys_ok_def ledger_ok_def ledger_wf_def)
  then have "tracked d p" if "p \<in> set (get_unconfirmed_payments d)" for p
    using that get_row_distinct[of pay_id "db_payments d" p]
    by (auto simp: tracked_def get_unconfirmed_payments_def find_payment_def)
  then show ?thesis unfolding update_unconfirmed_def by (rule confirm_loop_keeps[OF True])
qed

lemma detection_cycle_keeps:
  assumes "wallet_at_home home w"
  shows "keeps home d (snd (detection_cycle e w g d))"
proof (cases "get_height (wv_height w)")
  case (Inl x)
  then show ?thesis by (simp add: detection_cycle_def)
next
  case (Inr ht)
  obtain x1 d1 where 1: "regular_scan e w (get_last_scanned_height g) ht d = (x1, d1)" by fastforce
  have k1: "keeps home d d1"
    using scan_transfers_keeps[OF assms, of d e "max (get_last_scanned_height g - reorg_buffer) 0" ht] 1
    by (auto simp: regular_scan_def split: if_splits)
  obtain x2 d2 where 2: "deep_scan e w g ht d1 = (x2, d2)" by fastforce
  have k2: "keeps home d d2"
    using scan_transfers_keeps[OF assms, of d1 e "max (ht - deep_scan_blocks) 0" ht] 2 k1 keeps_trans
    by (auto simp: deep_scan_def split: if_splits)
  obtain x3 m3 d3 where 3: "update_unconfirmed e (wv_txid w) (eng_misses g) d2 = (x3, m3, d3)" by (metis prod.exhaust)
  have k3: "keeps home d d3"
    using update_unconfirmed_keeps[of home d2 e "wv_txid w" "eng_misses g"] 3 k2 keeps_trans by auto
  show ?thesis using k1 k2 k3 keeps_rollback
    by (simp add: detection_cycle_def Inr Let_def 1 2 3 split: sum.split)
qed

end
