(* ===== verification/System_Ops.thy ===== *)
theory System_Ops
  imports System_Steps
begin

text \<open>
  The remaining operations: creating, cancelling and expiring invoices, retention, and the
  subscription services, whose only effect on the ledger is through those.
\<close>

section \<open>Invoices\<close>

lemma keeps_add_invoice:
  assumes inv: "db_invoices d' = db_invoices d @ [r]" and pays: "db_payments d' = db_payments d"
    and r: "inv_id r = db_next_id d" "inv_status r = IPending" "0 < inv_amount_atomic r"
    and nx: "db_next_id d < db_next_id d'"
    and adr: "db_addresses d' = db_addresses d \<or>
      (\<exists>a. db_addresses d' = db_addresses d @ [a] \<and> adr_key a \<notin> adr_key ` set (db_addresses d))"
  shows "keeps home d d'"
proof (rule keepsI)
  assume ok: "sys_ok home d"
  then have wf: "ledger_wf d" and st: "settled_but {} d" and h: "home_ok home d"
    by (simp_all add: sys_ok_def ledger_ok_def)
  have fresh: "db_next_id d \<notin> inv_id ` set (db_invoices d)" using wf by (auto simp: ledger_wf_def)
  have wf': "ledger_wf d'"
    using wf inv pays r nx fresh by (auto simp: ledger_wf_def intro: less_trans)
  have "pay_invoice p \<noteq> db_next_id d" if "p \<in> set (db_payments d)" for p
    using that wf fresh unfolding ledger_wf_def by metis
  then have "filter (\<lambda>p. pay_invoice p = db_next_id d \<and> pay_status p = PConfirmed) (db_payments d) = []"
    by (simp add: filter_empty_conv)
  then have "sum_invoice_payments (inv_id r) d' = 0"
    using pays r(1) by (simp add: sum_invoice_payments_def sum_status_def)
  then have "settled_row d' r" using r(2) by (simp add: settled_row_def)
  moreover have "settled_row d' q" if "q \<in> set (db_invoices d)" for q
    using st that sum_invoice_payments_cong[OF pays] by (simp add: settled_but_def settled_row_def)
  ultimately have "settled_but {} d'" using inv by (auto simp: settled_but_def)
  with wf' show "ledger_ok d'" by (simp add: ledger_ok_def)
  have "set (db_addresses d) \<subseteq> set (db_addresses d')" using adr by auto
  moreover have "distinct (map adr_key (db_addresses d'))"
    using adr h by (auto simp: home_ok_def)
  ultimately show "home_ok home d'" using h pays unfolding home_ok_def by (metis subsetD)
  show "evolves d d'" unfolding evolves_def find_invoice_def find_payment_def inv pays
    using nx r(1) by (auto simp: get_row_append)
qed

lemma create_invoice_keeps: "keeps home d (snd (create_invoice e m raw desc ex meta fr fc d))"
proof (cases rule: create_invoice_cases[of e m raw desc ex meta fr fc d])
  case (failed x)
  then show ?thesis by simp
next
  case insert_failed
  then show ?thesis using tick_id_keeps[OF keeps_refl] by simp
next
  case (no_wallet x r)
  let ?d = "delete_invoice (db_next_id d) (tick_rpc (add_invoice (stored_invoice r) (tick_id d)))"
  have "keeps home d ?d"
  proof (cases "sys_ok home d")
    case True
    then have "db_next_id d \<notin> inv_id ` set (db_invoices d)"
      by (auto simp: sys_ok_def ledger_ok_def ledger_wf_def)
    then have inv: "db_invoices ?d = db_invoices d"
      using del_row_snoc[of inv_id "stored_invoice r" "db_next_id d" "db_invoices d"] no_wallet(2)
      by (simp add: delete_invoice_def tick_rpc_def add_invoice_def tick_id_def stored_invoice_def)
    have rest: "db_payments ?d = db_payments d" "db_addresses ?d = db_addresses d" "db_next_id ?d = Suc (db_next_id d)"
      by (simp_all add: delete_invoice_def tick_rpc_def add_invoice_def tick_id_def)
    have l: "ledger_ok ?d"
      using True inv rest sum_invoice_payments_cong[OF rest(1)]
      by (auto simp: sys_ok_def ledger_ok_def ledger_wf_def settled_but_def settled_row_def less_Suc_eq)
    have ev: "evolves d ?d"
      unfolding evolves_def find_invoice_def find_payment_def inv rest by auto
    show ?thesis
    proof (rule keepsI)
      show "ledger_ok ?d" by (rule l)
      show "evolves d ?d" by (rule ev)
      show "home_ok home ?d" using True home_ok_cong[OF rest(2,1)] by (simp add: sys_ok_def)
    qed
  qed (simp add: keeps_def)
  then show ?thesis using no_wallet(1) by simp
next
  case (clash r)
  have "keeps home d (tick_id (tick_rpc (add_invoice (stored_invoice r) (tick_id d))))"
    by (rule keeps_add_invoice[of _ _ "stored_invoice r"])
       (use clash in \<open>simp_all add: tick_rpc_def add_invoice_def tick_id_def stored_invoice_def\<close>)
  then show ?thesis using clash(1) by simp
next
  case (created a s idx r details)
  have r: "inv_id r = db_next_id d" "inv_status r = IPending" "0 < inv_amount_atomic r"
    using created(3,5) by (simp_all add: new_invoice_def)
  let ?a = "new_address e (Suc (db_next_id d)) (db_next_id d) (fst idx) (snd idx)"
  have "adr_key ?a \<notin> adr_key ` set (db_addresses d)"
    using created(8) by (auto simp: address_free_def adr_key_def)
  then have "keeps home d (audit e (Some (mer_id m)) ''invoice.created'' ''invoice'' (db_next_id d) details
           (add_address ?a (tick_id (tick_rpc (add_invoice (stored_invoice r) (tick_id d))))))"
    by (intro keeps_add_invoice[of _ _ "stored_invoice r"])
       (use r in \<open>auto simp: tick_rpc_def add_invoice_def add_address_def tick_id_def stored_invoice_def\<close>)
  then show ?thesis using created(7) by simp
qed

text \<open>Rewriting the rows of some invoices, each along an allowed move that needs no payment.\<close>

lemma keeps_rewrite:
  assumes inv: "db_invoices d' = map g (db_invoices d)" and pays: "db_payments d' = db_payments d"
    and adr: "db_addresses d' = db_addresses d" and nx: "db_next_id d' = db_next_id d"
    and g: "\<And>r. same_debt r (g r)" "\<And>r. (inv_status r, inv_status (g r)) \<in> invoice_moves\<^sup>*"
    and st: "ledger_ok d \<Longrightarrow> ledger_ok d'"
  shows "keeps home d d'"
proof (rule keepsI)
  assume ok: "sys_ok home d"
  show "ledger_ok d'" using st ok by (simp add: sys_ok_def)
  show "home_ok home d'" using home_ok_cong[OF adr pays] ok by (simp add: sys_ok_def)
  have id: "inv_id (g r) = inv_id r" for r using g(1)[of r] by (simp add: same_debt_def)
  have fi: "find_invoice i d' = map_option g (find_invoice i d)" for i
    unfolding find_invoice_def inv by (rule get_row_map) (rule id)
  show "evolves d d'" unfolding evolves_def using g nx
    by (auto simp: fi find_payment_def pays)
qed

lemma cancel_invoice_keeps: "keeps home d (snd (cancel_invoice e mid i d))"
proof (cases "\<exists>r. find_invoice i d = Some r \<and> inv_merchant r = mid \<and> inv_status r = IPending \<and>
    filter (active_payment i) (db_payments d) = []")
  case False
  then have "snd (cancel_invoice e mid i d) = d"
    by (auto simp: cancel_invoice_def get_invoice_def split: option.split)
  then show ?thesis by simp
next
  case True
  then obtain r where r: "find_invoice i d = Some r" "inv_merchant r = mid" "inv_status r = IPending"
    "filter (active_payment i) (db_payments d) = []" by blast
  let ?f = "\<lambda>r. r\<lparr>inv_status := ICancelled, inv_updated_at := env_now e\<rparr>"
  let ?d = "set_invoice_status e i ICancelled d"
  have k: "keeps home d ?d"
  proof (cases "sys_ok home d")
    case False
    then show ?thesis by (simp add: keeps_def)
  next
    case ok: True
    then have wf: "ledger_wf d" and st: "settled_but {} d" by (simp_all add: sys_ok_def ledger_ok_def)
    have rs: "restatus i d ?d"
      unfolding set_invoice_status_def by (rule restatus_modify) (simp add: same_debt_def)
    have f: "find_invoice i ?d = Some (?f r)"
      unfolding set_invoice_status_def using invoices.look_modify_same[of ?f i d r] r(1) by simp
    have wf': "ledger_wf ?d" using restatus_wf[OF rs wf] .
    have "settled_but {i} ?d" using restatus_settled_but[OF rs st] .
    then have "settled_but {} ?d" using settled_but_found[OF _ wf' f] by (simp add: settled_row_def)
    then have l: "ledger_ok ?d" using wf' by (simp add: ledger_ok_def)
    have "(IPending, ICancelled) \<in> invoice_moves" by (simp add: invoice_moves_def can_transition_def)
    then have ev: "evolves d ?d" using evolves_restatus[OF rs r(1) f] r(3) by (simp add: r_into_rtrancl)
    have "home_ok home ?d" using ok home_ok_cong[of ?d d home] rs by (simp add: sys_ok_def restatus_def)
    with l ev show ?thesis by (simp add: keeps_def sys_ok_def)
  qed
  have "snd (cancel_invoice e mid i d) = audit e (Some mid) ''invoice.cancelled'' ''invoice'' i
      [(''previous_status'', JStr ''pending'')] ?d"
    using r by (simp add: cancel_invoice_def get_invoice_def)
  then show ?thesis using ledger_keeps[OF audit_ledger[OF ledger_unchanged_refl] k] by simp
qed

lemma expire_pending_invoices_keeps: "keeps home d (snd (expire_pending_invoices e d))"
proof -
  let ?g = "\<lambda>r. if expirable (env_now e) d r then r\<lparr>inv_status := IExpired, inv_updated_at := env_now e\<rparr> else r"
  have "(IPending, IExpired) \<in> invoice_moves" by (simp add: invoice_moves_def can_transition_def)
  then have "keeps home d (expire_rows (env_now e) d)"
    by (intro keeps_rewrite[where g = ?g] expire_rows_ok)
       (auto simp: expire_rows_def same_debt_def expirable_def)
  then show ?thesis by (rule ledger_keeps[OF expire_pending_invoices_ledger])
qed

lemma cleanup_expired_invoices_keeps: "keeps home d (snd (cleanup_expired_invoices e d))"
proof (rule keepsI)
  assume ok: "sys_ok home d"
  define d' where "d' = snd (cleanup_expired_invoices e d)"
  have lok: "ledger_ok d" using ok by (simp add: sys_ok_def)
  note C = cleanup_expired_invoices_ok[OF lok, of e, folded d'_def]
  show "ledger_ok (snd (cleanup_expired_invoices e d))" using C unfolding d'_def by blast
  let ?gone = "\<lambda>i. i \<in> set (retention_ids (env_now e) d)"
  have pays: "db_payments d' = db_payments d" using C by blast
  have nx: "db_next_id d' = db_next_id d" by (simp add: d'_def cleanup_expired_invoices_def Let_def)
  have adr: "db_addresses d' = filter (\<lambda>a. \<not> ?gone (adr_invoice a)) (db_addresses d)"
    by (simp add: d'_def cleanup_expired_invoices_def Let_def)
  have inv: "db_invoices d' = db_invoices d \<or> db_invoices d' = filter (\<lambda>r. \<not> ?gone (inv_id r)) (db_invoices d)"
    by (simp add: d'_def cleanup_expired_invoices_def Let_def)
  have kept: "\<not> ?gone (pay_invoice p)" if "p \<in> set (db_payments d)" for p
  proof
    assume "?gone (pay_invoice p)"
    then obtain r where "inv_id r = pay_invoice p" "retention_target (env_now e) d r"
      using retention_ids_target by blast
    then show False using that by (auto simp: retention_target_def list_ex_iff)
  qed
  have hok: "home_ok home d" using ok by (simp add: sys_ok_def)
  have "\<exists>a \<in> set (db_addresses d'). adr_invoice a = pay_invoice p \<and> adr_key a = home (pay_tx_hash p)"
    if p: "p \<in> set (db_payments d)" for p
  proof -
    obtain a where "a \<in> set (db_addresses d)" "adr_invoice a = pay_invoice p" "adr_key a = home (pay_tx_hash p)"
      using hok p unfolding home_ok_def by blast
    then show ?thesis using kept[OF p] adr by auto
  qed
  then have "home_ok home d'"
    using hok filter_same[of adr_key "db_addresses d"] by (simp add: home_ok_def adr pays)
  then show "home_ok home (snd (cleanup_expired_invoices e d))" by (simp add: d'_def)
  have fi: "find_invoice i d' = find_invoice i d \<or> find_invoice i d' = None" for i
  proof -
    have "get_row inv_id i (filter (\<lambda>r. \<not> ?gone (inv_id r)) (db_invoices d)) =
        (if \<not> ?gone i then get_row inv_id i (db_invoices d) else None)"
      by (rule get_row_filter_key)
    then show ?thesis using inv unfolding find_invoice_def by metis
  qed
  have "evolves d d'" unfolding evolves_def
  proof (intro conjI allI impI)
    show "db_next_id d \<le> db_next_id d'" by (simp add: nx)
    fix i
    show "find_invoice i d' = None" if "find_invoice i d = None" using fi[of i] that by auto
    show "same_debt r r'" "(inv_status r, inv_status r') \<in> invoice_moves\<^sup>*"
      if "find_invoice i d = Some r" "find_invoice i d' = Some r'" for r r'
      using fi[of i] that by auto
    show "\<exists>p'. find_payment i d' = Some p' \<and> same_transfer p p' \<and> payment_moves (pay_status p) (pay_status p')"
      if "find_payment i d = Some p" for p using that by (simp add: find_payment_def pays)
  qed
  then show "evolves d (snd (cleanup_expired_invoices e d))" by (simp add: d'_def)
qed

lemma run_retention_cleanup_keeps: "keeps home d (snd (run_retention_cleanup e d))"
proof -
  have w: "keeps home d d2" if "keeps home d d1" "cleanup_webhook_logs e d1 = (x, d2)" for d1 d2 x
    by (rule ledger_keeps[OF _ that(1)]) (use that(2) in \<open>auto simp: cleanup_webhook_logs_def Let_def ledger_unchanged_def\<close>)
  have a: "keeps home d d2" if "keeps home d d1" "cleanup_audit_logs e d1 = (x, d2)" for d1 d2 x
    by (rule ledger_keeps[OF _ that(1)]) (use that(2) in \<open>auto simp: cleanup_audit_logs_def Let_def ledger_unchanged_def\<close>)
  obtain x1 d1 where 1: "cleanup_expired_invoices e d = (x1, d1)" by fastforce
  have k1: "keeps home d d1" using cleanup_expired_invoices_keeps[of home d e] 1 by simp
  obtain x2 d2 where 2: "cleanup_webhook_logs e d1 = (x2, d2)" by fastforce
  have k2: "keeps home d d2" by (rule w[OF k1 2])
  obtain x3 d3 where 3: "cleanup_audit_logs e d2 = (x3, d3)" by fastforce
  have k3: "keeps home d d3" by (rule a[OF k2 3])
  have "keeps home d (snd (retention_steps e d))"
    using k1 k2 k3 by (simp add: retention_steps_def 1 2 3 split: sum.split)
  then show ?thesis unfolding run_retention_cleanup_def by (rule keeps_in_transaction)
qed

section \<open>Subscriptions\<close>

lemma renewal_pending_ledger: "ledger_unchanged d (snd (renewal_pending e sid s d))"
proof -
  obtain s' ch where ac: "apply_pending_changes s = (s', ch)" by fastforce
  show ?thesis by (simp add: renewal_pending_def ac ledger_intros split: option.split)
qed

lemma renewal_commit_ledger: "ledger_unchanged d (snd (renewal_commit e sid s b st sp iid d))"
  by (simp add: renewal_commit_def Let_def ledger_unchanged_def)

lemma create_renewal_invoice_for_keeps: "keeps home d (snd (create_renewal_invoice_for e sid m d))"
proof (cases "\<exists>s st. find_sub sid d = Some s \<and> sub_next_due_at s = Some st \<and>
    scalar_one_or_none (period_sps sid st d) = Inr None \<and> \<not> 0 < length (unpaid_sps sid d)")
  case False
  then have "snd (create_renewal_invoice_for e sid m d) = d"
    by (auto simp: create_renewal_invoice_for_def split: option.split sum.split)
  then show ?thesis by simp
next
  case True
  then obtain s st where s: "find_sub sid d = Some s" "sub_next_due_at s = Some st"
    "scalar_one_or_none (period_sps sid st d) = Inr None" "\<not> 0 < length (unpaid_sps sid d)" by blast
  obtain x d1 where p: "renewal_pending e sid s d = (x, d1)" by fastforce
  have k1: "keeps home d d1" using keeps_ledger_unchanged[OF renewal_pending_ledger[of d e sid s], of home] p by simp
  have K: "keeps home d d2" if "create_invoice e m raw desc ex meta fr fc d1 = (y, d2)" for raw desc ex meta fr fc y d2
    using keeps_trans[OF k1 create_invoice_keeps[of home d1 e m raw desc ex meta fr fc]] that by simp
  have R: "keeps home d d3" if "keeps home d d2" "renewal_commit e sid s' b st sp iid d2 = (spid, d3)"
    for s' b sp iid d2 spid d3
    using ledger_keeps[OF renewal_commit_ledger[of d2 e sid s' b st sp iid] that(1)] that(2) by simp
  show ?thesis using k1 s
    by (auto simp: create_renewal_invoice_for_def p Let_def dest: K R[OF K] split: sum.split prod.split)
qed

lemma create_renewal_invoice_keeps: "keeps home d (snd (create_renewal_invoice e sid d))"
proof -
  have "keeps home d d1" if "create_renewal_invoice_for e sid m d = (x, d1)" for m x d1
    using create_renewal_invoice_for_keeps[of home d e sid m] that by simp
  then show ?thesis by (auto simp: create_renewal_invoice_def split: option.split sum.split prod.split)
qed

lemma create_prepay_invoice_keeps: "keeps home d (snd (create_prepay_invoice e m sid periods d))"
proof -
  have K: "keeps home d d1" if "create_invoice e m raw desc ex meta fr fc d = (x, d1)" for raw desc ex meta fr fc x d1
    using create_invoice_keeps[of home d e m raw desc ex meta fr fc] that by simp
  have L: "keeps home d (log_renewal_event e sid ev i er x (audit e mm ac et ei det (touch_sub e sid f d1)))"
    if "keeps home d d1" for ev i er x mm ac et ei det f d1
    by (rule ledger_keeps[OF _ that]) (simp add: ledger_intros)
  show ?thesis
    by (auto simp: create_prepay_invoice_def Let_def intro!: L dest!: K split: option.split sum.split prod.split)
qed

lemma fire_lifecycle_event_ledger: "ledger_unchanged d (fire_lifecycle_event e ev sid r x d)"
proof -
  have "ledger_unchanged d d1" if "dispatch_subscription_event e ev s None None None r d = (y, d1)" for s y d1
    using sub_event_ledger[OF ledger_unchanged_refl, of d e ev s None None None r] that by simp
  then show ?thesis
    by (auto simp: fire_lifecycle_event_def modify_delivery_def ledger_unchanged_def
        split: option.split sum.split prod.split)
qed

lemma round_ledger: "ledger_unchanged d (round_amount i d)" "ledger_unchanged d (round_pending i d)"
  by (simp_all add: round_amount_def round_pending_def ledger_unchanged_def)

lemma start_subscription_keeps: "keeps home d (snd (start_subscription e m s d))"
proof -
  have R: "keeps home d (round_amount i d1)" if "keeps home d d1" for i d1
    by (rule ledger_keeps[OF round_ledger(1) that])
  have C: "keeps home d d1" if "create_renewal_invoice_for e i m d = (x, d1)" for i x d1
    using create_renewal_invoice_for_keeps[of home d e i m] that by simp
  have F: "keeps home d (fire_lifecycle_event e ev i r x d)" for ev i r x
    by (rule keeps_ledger_unchanged[OF fire_lifecycle_event_ledger])
  show ?thesis
    by (auto simp: start_subscription_def Let_def intro!: R F dest: C split: sum.split prod.split)
qed

lemma create_subscription_keeps:
  "keeps home d (snd (create_subscription e m cid amount iv soft hard start trial meta d))"
proof -
  have A: "keeps home d (add_sub s (tick_id d))" for s
    by (rule keeps_ledger_unchanged) (simp add: ledger_unchanged_def add_sub_def tick_id_def)
  have S: "keeps home d (snd (start_subscription e m s (add_sub s (tick_id d))))" for s
    by (rule keeps_trans[OF A start_subscription_keeps])
  show ?thesis
    by (auto simp: create_subscription_def Let_def intro!: S tick_id_keeps split: option.split pydec.split)
qed

lemma transition_keeps: "keeps home d d' \<Longrightarrow> keeps home d (snd (transition_subscription_status e sid t d'))"
  by (rule ledger_keeps[OF transition_ledger[OF ledger_unchanged_refl]])

lemma cancel_pending_keeps: "keeps home d (snd (cancel_pending e mid sps failed d))"
proof (induction sps arbitrary: failed d)
  case Nil
  then show ?case by simp
next
  case (Cons sp sps)
  obtain x d1 where c: "cancel_invoice e mid (sp_invoice sp) d = (x, d1)" by fastforce
  then have "keeps home d d1" using cancel_invoice_keeps[of home d e mid "sp_invoice sp"] by simp
  then show ?case using Cons keeps_trans by (auto simp: c split: sum.split)
qed

lemma lifecycle_keeps: "keeps home d d' \<Longrightarrow> keeps home d (fire_lifecycle_event e ev sid r x d')"
  by (rule ledger_keeps[OF fire_lifecycle_event_ledger])

lemma touch_keeps: "keeps home d d' \<Longrightarrow> keeps home d (touch_sub e i f d')"
  by (rule ledger_keeps[OF touch_sub_ledger[OF ledger_unchanged_refl]])

lemma audit_keeps: "keeps home d d' \<Longrightarrow> keeps home d (audit e m a t i x d')"
  by (rule ledger_keeps[OF audit_ledger[OF ledger_unchanged_refl]])

lemma log_keeps: "keeps home d d' \<Longrightarrow> keeps home d (log_renewal_event e i r v m x d')"
  by (rule ledger_keeps[OF log_event_ledger[OF ledger_unchanged_refl]])

lemmas keeps_intros = keeps_refl lifecycle_keeps touch_keeps audit_keeps log_keeps tick_id_keeps

lemma pause_subscription_keeps: "keeps home d (snd (pause_subscription e mid sid d))"
proof -
  have T: "keeps home d d1" if "transition_subscription_status e sid t d = (x, d1)" for t x d1
    using transition_keeps[OF keeps_refl, of home d e sid t] that by simp
  show ?thesis by (auto simp: pause_subscription_def intro!: keeps_intros dest: T split: sum.split prod.split)
qed

lemma resume_subscription_keeps: "keeps home d (snd (resume_subscription e mid sid d))"
proof -
  have T: "keeps home d d1" if "transition_subscription_status e sid t (touch_sub e sid f d) = (x, d1)" for t f x d1
    using transition_keeps[OF touch_keeps[OF keeps_refl], of home d e sid t e sid f] that by simp
  show ?thesis by (auto simp: resume_subscription_def intro!: keeps_intros dest: T split: sum.split prod.split)
qed

lemma cancel_subscription_keeps: "keeps home d (snd (cancel_subscription e mid sid d))"
proof (cases "\<exists>s d1. get_sub_of mid sid d = Inr s \<and> sub_status s \<notin> sub_terminal \<and>
    transition_subscription_status e sid SCancelled d = (Inr (), d1)")
  case False
  have "keeps home d d1" if "transition_subscription_status e sid SCancelled d = (x, d1)" for x d1
    using transition_keeps[OF keeps_refl, of home d e sid SCancelled] that by simp
  with False show ?thesis
    by (auto simp: cancel_subscription_def split: sum.split prod.split)
next
  case True
  then obtain s d1 where s: "get_sub_of mid sid d = Inr s" "sub_status s \<notin> sub_terminal"
    "transition_subscription_status e sid SCancelled d = (Inr (), d1)" by blast
  have k1: "keeps home d d1" using transition_keeps[OF keeps_refl, of home d e sid SCancelled] s(3) by simp
  let ?d2 = "touch_sub e sid (\<lambda>r. r\<lparr>sub_cancelled_at := Some (env_now e)\<rparr>) d1"
  obtain f d3 where c: "cancel_pending e mid (sps_with sid (\<lambda>sp i. inv_status i = IPending) ?d2) None ?d2 = (f, d3)"
    by fastforce
  have k2: "keeps home d ?d2" by (rule touch_keeps[OF k1])
  have k3: "keeps home d d3"
    using keeps_trans[OF k2 cancel_pending_keeps] c by (metis snd_conv)
  show ?thesis using s c by (simp add: cancel_subscription_def Let_def keeps_intros k3)
qed

lemma update_subscription_keeps: "keeps home d (snd (update_subscription e i p d))"
  by (auto simp: update_subscription_def flush_sub_def intro!: keeps_intros split: option.split prod.split)

lemma queue_keeps: "keeps home d d1 \<Longrightarrow> queue_webhook e m ev pl iv d1 = (x, d2) \<Longrightarrow> keeps home d d2"
  using ledger_keeps[OF billing_ledger[OF queue_webhook_frame[of d1 e m ev pl iv]]] by simp

lemma patch_subscription_keeps: "keeps home d (snd (patch_subscription e m sid p d))"
proof -
  have U: "keeps home d d1" if "update_subscription e sid p d = (x, d1)" for x d1
    using update_subscription_keeps[of home d e sid p] that by simp
  have R: "keeps home d (round_pending i d1)" if "keeps home d d1" for i d1
    by (rule ledger_keeps[OF round_ledger(2) that])
  show ?thesis
    by (auto simp: patch_subscription_def intro!: R dest: U queue_keeps[OF U] split: option.split sum.split prod.split)
qed

lemma prepay_subscription_keeps: "keeps home d (snd (prepay_subscription e m sid n d))"
proof -
  obtain x d1 where c: "create_prepay_invoice e m sid n d = (x, d1)" by fastforce
  have k: "keeps home d d1" using create_prepay_invoice_keeps[of home d e m sid n] c by simp
  have D: "keeps home d d2" if "dispatch_subscription_event e ev s i ps pe r d1 = (y, d2)" for ev s i ps pe r y d2
    using ledger_keeps[OF sub_event_ledger[OF ledger_unchanged_refl, of d1 e ev s i ps pe r] k] that by simp
  show ?thesis using k by (auto simp: prepay_subscription_def c dest: D split: option.split sum.split prod.split)
qed

end
