(* ===== verification/Validators.thy ===== *)
theory Validators
  imports Values Textual
begin

text \<open>
  Checks that the request schemas share: e-mail addresses, \<open>int(s, 16)\<close>, customer metadata
  (\<open>api/routes/customers.py\<close>) and prepay plans (\<open>api/routes/merchants.py\<close>). A regular
  expression of the code is the set of texts it matches, as a function; \<open>$\<close> of Python's \<open>re\<close>
  also matches before a final newline.
\<close>

section \<open>Texts\<close>

definition chomp :: "string \<Rightarrow> string" where
  "chomp s = (if s \<noteq> [] \<and> last s = CHR 0x0A then butlast s else s)"

text \<open>\<open>[^@\s]+@[^@\s]+\.[^@\s]+\<close>: one at sign, no white space, a dot inside the domain.\<close>

definition plain_part :: "string \<Rightarrow> bool" where
  "plain_part s \<longleftrightarrow> list_all (\<lambda>c. c \<noteq> CHR ''@'' \<and> \<not> is_space c) s"

definition email_body :: "string \<Rightarrow> bool" where
  "email_body s = (case split_max 1 (CHR ''@'') s of
      [l, dm] \<Rightarrow> l \<noteq> [] \<and> plain_part l \<and> plain_part dm \<and>
        list_ex (\<lambda>i. dm ! i = CHR ''.'') [1..<length dm - 1]
    | _ \<Rightarrow> False)"

definition email_ok :: "string \<Rightarrow> bool" where
  "email_ok s \<longleftrightarrow> email_body s \<or> email_body (chomp s)"

definition email_option_ok :: "string option \<Rightarrow> bool" where
  "email_option_ok v = (case v of None \<Rightarrow> True | Some s \<Rightarrow> email_ok s)"

text \<open>The digits of \<open>int(s, 16)\<close>, with single underscores between them.\<close>

fun hex_digits_ok :: "bool \<Rightarrow> string \<Rightarrow> bool" where
  "hex_digits_ok prev [] = prev"
| "hex_digits_ok prev (c # cs) =
     (if c = CHR ''_'' then prev \<and> hex_digits_ok False cs else hexval c \<noteq> None \<and> hex_digits_ok True cs)"

text \<open>\<open>int(s, 16)\<close> does not raise: surrounding white space, a sign and \<open>0x\<close> are accepted.\<close>

definition int16_ok :: "string \<Rightarrow> bool" where
  "int16_ok s =
     (let t = strip s;
          u = (if t \<noteq> [] \<and> (hd t = CHR ''+'' \<or> hd t = CHR ''-'') then tl t else t)
      in if startswith (lower u) ''0x'' then drop 2 u \<noteq> [] \<and> hex_digits_ok True (drop 2 u)
         else hex_digits_ok False u)"

lemma hex_digits_okI: "list_all (\<lambda>c. hexval c \<noteq> None) s \<Longrightarrow> CHR ''_'' \<notin> set s \<Longrightarrow> prev \<or> s \<noteq> [] \<Longrightarrow> hex_digits_ok prev s"
  by (induction s arbitrary: prev) auto

section \<open>Customer metadata\<close>

definition max_metadata_keys :: nat where "max_metadata_keys = 20"
definition max_metadata_key_length :: nat where "max_metadata_key_length = 64"
definition max_metadata_string_length :: nat where "max_metadata_string_length = 1024"
definition max_metadata_depth :: nat where "max_metadata_depth = 2"

text \<open>
  \<open>validate_metadata_value\<close>; False is its \<open>ValueError\<close>. \<open>json\<close> has string keys only. Lengths count
  code points of a text, here the bytes of an ASCII text.
\<close>

fun metadata_ok :: "nat \<Rightarrow> json \<Rightarrow> bool" where
  "metadata_ok depth (JObj kvs) \<longleftrightarrow> depth \<le> max_metadata_depth \<and> length kvs \<le> max_metadata_keys \<and>
     list_all (\<lambda>kv. length (fst kv) \<le> max_metadata_key_length \<and> metadata_ok (Suc depth) (snd kv)) kvs"
| "metadata_ok depth (JList xs) \<longleftrightarrow> depth \<le> max_metadata_depth \<and> list_all (\<lambda>x. metadata_ok (Suc depth) x) xs"
| "metadata_ok depth (JStr s) \<longleftrightarrow> depth \<le> max_metadata_depth \<and> length s \<le> max_metadata_string_length"
| "metadata_ok depth v \<longleftrightarrow> depth \<le> max_metadata_depth"

section \<open>Prepay plans\<close>

text \<open>\<open>isinstance(x, int)\<close>, where a bool is an int.\<close>

fun json_int :: "json \<Rightarrow> int option" where
  "json_int (JInt n) = Some n"
| "json_int (JBool b) = Some (if b then 1 else 0)"
| "json_int _ = None"

text \<open>\<open>int(x)\<close> of a \<open>discount_pct\<close> from 0 to 99; None where the code raises \<open>ValueError\<close>.\<close>

definition plan_pct :: "json option \<Rightarrow> int option" where
  "plan_pct v = (case v of
      None \<Rightarrow> Some 0
    | Some (JFloat x) \<Rightarrow> if x < 0 \<or> 99 < x then None else Some (py_trunc x)
    | Some j \<Rightarrow> (case json_int j of
        None \<Rightarrow> None | Some n \<Rightarrow> if n < 0 \<or> 99 < n then None else Some n))"

definition plan_periods :: "json option \<Rightarrow> int option" where
  "plan_periods v = (case v of
      None \<Rightarrow> None
    | Some j \<Rightarrow> (case json_int j of
        None \<Rightarrow> None | Some n \<Rightarrow> if n < 1 \<or> 36 < n then None else Some n))"

text \<open>The loop of \<open>_validate_prepay_plans\<close>: the plans as they are stored, or None for \<open>ValueError\<close>. The
  value of \<open>periods\<close> is stored as it came.\<close>

fun check_plans :: "int list \<Rightarrow> json list \<Rightarrow> json list option" where
  "check_plans seen [] = Some []"
| "check_plans seen (JObj kvs # rest) =
     (case (plan_periods (jget ''periods'' (JObj kvs)), plan_pct (jget ''discount_pct'' (JObj kvs))) of
        (Some n, Some pct) \<Rightarrow>
          if n \<in> set seen then None
          else (case check_plans (n # seen) rest of
              None \<Rightarrow> None
            | Some ps \<Rightarrow> Some (JObj [(''periods'', the (jget ''periods'' (JObj kvs))), (''discount_pct'', JInt pct)] # ps))
      | _ \<Rightarrow> None)"
| "check_plans seen (j # rest) = None"

definition validate_prepay_plans :: "json list \<Rightarrow> json list option" where
  "validate_prepay_plans plans = (if 10 < length plans then None else check_plans [] plans)"

subsection \<open>What a validated list of plans is\<close>

definition plan_of :: "json \<Rightarrow> int option" where
  "plan_of plan = plan_periods (jget ''periods'' plan)"

definition pct_of :: "json \<Rightarrow> int option" where
  "pct_of plan = (case jget ''discount_pct'' plan of Some (JInt n) \<Rightarrow> Some n | _ \<Rightarrow> None)"

definition plan_ok :: "json \<Rightarrow> bool" where
  "plan_ok plan \<longleftrightarrow> (\<exists>n pct. plan_of plan = Some n \<and> 1 \<le> n \<and> n \<le> 36 \<and> pct_of plan = Some pct \<and> 0 \<le> pct \<and> pct \<le> 99)"

lemma plan_pct_range: "plan_pct v = Some n \<Longrightarrow> 0 \<le> n \<and> n \<le> 99"
proof -
  have "0 \<le> py_trunc x \<and> py_trunc x \<le> 99" if "0 \<le> x" and "x \<le> 99" for x :: rat
    using that py_trunc_nonneg[of x] py_trunc_mono[of x "of_int 99"] by (simp only: py_trunc_of_int)
  moreover assume "plan_pct v = Some n"
  ultimately show ?thesis
    by (auto simp: plan_pct_def not_less split: option.splits json.splits if_splits)
qed

lemma plan_periods_range: "plan_periods v = Some n \<Longrightarrow> 1 \<le> n \<and> n \<le> 36"
  by (auto simp: plan_periods_def split: option.splits if_splits)

lemma check_plans_ok:
  "check_plans seen plans = Some ps \<Longrightarrow>
     list_all plan_ok ps \<and> distinct (map plan_of ps) \<and> length ps = length plans \<and>
     (\<forall>n \<in> set seen. Some n \<notin> set (map plan_of ps))"
proof (induction seen plans arbitrary: ps rule: check_plans.induct)
  case (2 seen kvs rest)
  obtain n pct qs where n: "plan_periods (jget ''periods'' (JObj kvs)) = Some n"
    and pct: "plan_pct (jget ''discount_pct'' (JObj kvs)) = Some pct" and new: "n \<notin> set seen"
    and qs: "check_plans (n # seen) rest = Some qs"
    and ps: "ps = JObj [(''periods'', the (jget ''periods'' (JObj kvs))), (''discount_pct'', JInt pct)] # qs"
    using 2(2) by (auto split: option.splits if_splits)
  let ?p = "JObj [(''periods'', the (jget ''periods'' (JObj kvs))), (''discount_pct'', JInt pct)]"
  obtain j where j: "jget ''periods'' (JObj kvs) = Some j" using n by (auto simp: plan_periods_def split: option.splits)
  have p: "plan_of ?p = Some n" using n unfolding plan_of_def j by simp
  moreover have "pct_of ?p = Some pct" by (simp add: pct_of_def)
  ultimately have "plan_ok ?p"
    using plan_periods_range[OF n] plan_pct_range[OF pct] by (simp add: plan_ok_def)
  with 2(1)[OF refl n pct new qs] p new show ?case by (auto simp: ps)
qed simp_all

lemma validated_plans:
  assumes "validate_prepay_plans plans = Some ps"
  shows "list_all plan_ok ps" and "distinct (map plan_of ps)" and "length ps \<le> 10"
  using assms check_plans_ok[of "[]" plans ps] by (simp_all add: validate_prepay_plans_def split: if_splits)

end
