(* ===== verification/Encryption.thy ===== *)
theory Encryption
  imports Textual
begin

text \<open>
  \<open>core/encryption.py\<close>: view keys encrypted with AES-256-GCM. The cipher is library code: a record
  of two functions with the laws the library documents. A byte string is a list of characters (a
  character has eight bits), a text is the bytes of its UTF-8 form, and \<open>base64\<close> and
  \<open>bytes.fromhex\<close> of the standard library are written out.
\<close>

type_synonym bytes = string

section \<open>Base64\<close>

definition b64char :: "nat \<Rightarrow> char" where
  "b64char n = char_of (if n < 26 then 65 + n else if n < 52 then 71 + n else if n < 62 then n - 4
     else if n = 62 then 43 else 47)"

definition b64val :: "char \<Rightarrow> nat option" where
  "b64val c = (let n = (of_char c :: nat) in
     if 65 \<le> n \<and> n \<le> 90 then Some (n - 65)
     else if 97 \<le> n \<and> n \<le> 122 then Some (n - 71)
     else if 48 \<le> n \<and> n \<le> 57 then Some (n + 4)
     else if n = 43 then Some 62
     else if n = 47 then Some 63
     else None)"

lemma b64val_b64char [simp]: "n < 64 \<Longrightarrow> b64val (b64char n) = Some n"
  by (auto simp: b64val_def b64char_def Let_def of_char_of)

lemma b64char_ascii: "n < 64 \<Longrightarrow> (of_char (b64char n) :: nat) < 128"
  by (auto simp: b64char_def of_char_of)

lemma b64char_not_pad: "n < 64 \<Longrightarrow> b64char n \<noteq> CHR ''=''"
  by (auto simp: b64char_def dest!: arg_cong[where f = "of_char :: char \<Rightarrow> nat"] simp: of_char_of)

abbreviation byte :: "char \<Rightarrow> nat" where "byte c \<equiv> of_char c"

fun b64encode :: "bytes \<Rightarrow> string" where
  "b64encode [] = []"
| "b64encode [a] = [b64char (byte a div 4), b64char (byte a mod 4 * 16), CHR ''='', CHR ''='']"
| "b64encode [a, b] =
     [b64char (byte a div 4), b64char (byte a mod 4 * 16 + byte b div 16), b64char (byte b mod 16 * 4), CHR ''='']"
| "b64encode (a # b # c # r) =
     b64char (byte a div 4) # b64char (byte a mod 4 * 16 + byte b div 16) #
     b64char (byte b mod 16 * 4 + byte c div 64) # b64char (byte c mod 64) # b64encode r"

text \<open>\<open>base64.b64decode(s, validate=True)\<close>; None is \<open>binascii.Error\<close>.\<close>

fun b64decode :: "string \<Rightarrow> bytes option" where
  "b64decode [] = Some []"
| "b64decode (w # x # y # z # r) =
     (case (b64val w, b64val x) of
        (Some p, Some q) \<Rightarrow>
          if y = CHR ''='' then (if z = CHR ''='' \<and> r = [] then Some [char_of (p * 4 + q div 16)] else None)
          else (case b64val y of
              None \<Rightarrow> None
            | Some s \<Rightarrow>
                if z = CHR ''='' then
                  (if r = [] then Some [char_of (p * 4 + q div 16), char_of (q mod 16 * 16 + s div 4)] else None)
                else (case (b64val z, b64decode r) of
                    (Some t, Some bs) \<Rightarrow>
                      Some (char_of (p * 4 + q div 16) # char_of (q mod 16 * 16 + s div 4) # char_of (s mod 4 * 64 + t) # bs)
                  | _ \<Rightarrow> None))
      | _ \<Rightarrow> None)"
| "b64decode s = None"

lemma byte_less [simp]: "byte c < 256"
  by (cases c) simp

lemma byte_parts [simp]:
  "byte b div 16 div 16 = 0" "byte b div 64 div 4 = 0"
  "byte b div 16 mod 16 = byte b div 16" "byte b div 64 mod 4 = byte b div 64"
  using byte_less[of b] by (simp_all add: less_mult_imp_div_less flip: div_mult2_eq)

lemma byte_bounds [simp]:
  "byte a div 4 < 64" "byte a mod 4 * 16 < 64" "byte a mod 4 * 16 + byte b div 16 < 64"
  "byte b mod 16 * 4 < 64" "byte b mod 16 * 4 + byte c div 64 < 64"
proof -
  show "byte a div 4 < 64" using byte_less[of a] by (simp add: less_mult_imp_div_less)
  have "byte a mod 4 < 4" "byte b div 16 < 16" "byte b mod 16 < 16" "byte c div 64 < 4"
    using byte_less[of b] byte_less[of c] by (simp_all add: less_mult_imp_div_less)
  then show "byte a mod 4 * 16 < 64" "byte a mod 4 * 16 + byte b div 16 < 64"
    "byte b mod 16 * 4 < 64" "byte b mod 16 * 4 + byte c div 64 < 64" by linarith+
qed

lemma b64_roundtrip: "b64decode (b64encode s) = Some s"
  by (induction s rule: b64encode.induct) (simp_all add: b64char_not_pad)

lemma b64encode_Nil [simp]: "b64encode s = [] \<longleftrightarrow> s = []"
  by (cases s rule: b64encode.cases) simp_all

lemma b64encode_ascii: "list_all (\<lambda>c. byte c < 128) (b64encode s)"
  by (induction s rule: b64encode.induct) (simp_all add: b64char_ascii)

section \<open>UTF-8 and hexadecimal bytes\<close>

definition cont :: "char \<Rightarrow> bool" where
  "cont c \<longleftrightarrow> 128 \<le> byte c \<and> byte c < 192"

text \<open>The byte strings that \<open>decode("utf-8")\<close> accepts: no overlong forms, no surrogates, at most U+10FFFF.\<close>

fun utf8_ok :: "bytes \<Rightarrow> bool" where
  "utf8_ok [] = True"
| "utf8_ok (a # r) =
     (if byte a < 128 then utf8_ok r
      else case r of
        b # r1 \<Rightarrow>
          if 194 \<le> byte a \<and> byte a < 224 then cont b \<and> utf8_ok r1
          else (case r1 of
              c # r2 \<Rightarrow>
                if 224 \<le> byte a \<and> byte a < 240 then
                  cont b \<and> cont c \<and> (byte a = 224 \<longrightarrow> 160 \<le> byte b) \<and> (byte a = 237 \<longrightarrow> byte b < 160) \<and> utf8_ok r2
                else (case r2 of
                    d # r3 \<Rightarrow> 240 \<le> byte a \<and> byte a < 245 \<and> cont b \<and> cont c \<and> cont d \<and>
                      (byte a = 240 \<longrightarrow> 144 \<le> byte b) \<and> (byte a = 244 \<longrightarrow> byte b < 144) \<and> utf8_ok r3
                  | [] \<Rightarrow> False)
            | [] \<Rightarrow> False)
      | [] \<Rightarrow> False)"

lemma utf8_ok_ascii: "list_all (\<lambda>c. byte c < 128) s \<Longrightarrow> utf8_ok s"
  by (induction s) simp_all

text \<open>\<open>bytes.fromhex\<close>: white space is allowed between bytes.\<close>

definition ascii_space :: "char \<Rightarrow> bool" where
  "ascii_space c \<longleftrightarrow> byte c = 32 \<or> (9 \<le> byte c \<and> byte c \<le> 13)"

fun fromhex :: "string \<Rightarrow> bytes option" where
  "fromhex [] = Some []"
| "fromhex (a # s) =
     (if ascii_space a then fromhex s
      else case s of
        b # r \<Rightarrow> (case (hexval a, hexval b, fromhex r) of
            (Some h, Some l, Some bs) \<Rightarrow> Some (char_of (16 * h + l) # bs) | _ \<Rightarrow> None)
      | [] \<Rightarrow> None)"

section \<open>The cipher\<close>

text \<open>\<open>AESGCM\<close>: key, nonce, data, associated data; a failed tag check gives None.\<close>

record aead =
  aead_encrypt :: "bytes \<Rightarrow> bytes \<Rightarrow> bytes \<Rightarrow> bytes option \<Rightarrow> bytes"
  aead_decrypt :: "bytes \<Rightarrow> bytes \<Rightarrow> bytes \<Rightarrow> bytes option \<Rightarrow> bytes option"

text \<open>
  What is documented of it: the tag of 16 bytes follows the ciphertext, decryption undoes
  encryption, and decryption recomputes the tag, so it accepts nothing but the encryption of
  what it returns.
\<close>

definition aead_laws :: "aead \<Rightarrow> bool" where
  "aead_laws A \<longleftrightarrow>
     (\<forall>k n p a. length (aead_encrypt A k n p a) = length p + 16) \<and>
     (\<forall>k n c a p. aead_decrypt A k n c a = Some p \<longleftrightarrow> c = aead_encrypt A k n p a)"

definition nonce_size :: nat where "nonce_size = 12"
definition version_1 :: bytes where "version_1 = [char_of (1 :: nat)]"

text \<open>\<open>ViewKeyEncryption.__init__\<close>.\<close>

definition master_key :: "string \<Rightarrow> exc + bytes" where
  "master_key hex =
     (if hex = [] then Inl EncryptionError
      else case fromhex hex of
        None \<Rightarrow> Inl EncryptionError
      | Some k \<Rightarrow> if length k \<noteq> 32 then Inl EncryptionError else Inr k)"

definition aad_of :: "string option \<Rightarrow> bytes option \<Rightarrow> bytes option" where
  "aad_of merchant_id aad =
     (if aad \<noteq> None then aad
      else case merchant_id of None \<Rightarrow> None | Some m \<Rightarrow> Some (''ghostbill:viewkey:'' @ m))"

text \<open>The nonce is the answer of \<open>os.urandom\<close>. A text with lone surrogates has no UTF-8 form.\<close>

definition encrypt :: "aead \<Rightarrow> bytes \<Rightarrow> bytes \<Rightarrow> string \<Rightarrow> string option \<Rightarrow> bytes option \<Rightarrow> exc + string" where
  "encrypt A key nonce plaintext merchant_id aad =
     (if plaintext = [] then Inl EncryptionError
      else if \<not> utf8_ok plaintext then Inl EncryptionError
      else Inr (b64encode (version_1 @ nonce @ aead_encrypt A key nonce plaintext (aad_of merchant_id aad))))"

text \<open>A text that is not ASCII is a \<open>ValueError\<close> of \<open>b64decode\<close>, which the code does not catch.\<close>

definition decrypt :: "aead \<Rightarrow> bytes \<Rightarrow> string \<Rightarrow> string option \<Rightarrow> bytes option \<Rightarrow> exc + string" where
  "decrypt A key encrypted_b64 merchant_id aad =
     (if encrypted_b64 = [] then Inl DecryptionError
      else if \<not> list_all (\<lambda>c. byte c < 128) encrypted_b64 then Inl ValueError
      else case b64decode encrypted_b64 of
        None \<Rightarrow> Inl DecryptionError
      | Some combined \<Rightarrow>
          let version = (if startswith combined version_1 then 1 else 0 :: nat);
              body = (if version = 1 then drop 1 combined else combined)
          in if length body < nonce_size + 16 then Inl DecryptionError
             else case aead_decrypt A key (take nonce_size body) (drop nonce_size body)
                         (if version = 1 then aad_of merchant_id aad else None) of
               None \<Rightarrow> Inl DecryptionError
             | Some p \<Rightarrow> if utf8_ok p then Inr p else Inl DecryptionError)"

definition decrypt_legacy_no_aad :: "aead \<Rightarrow> bytes \<Rightarrow> string \<Rightarrow> exc + string" where
  "decrypt_legacy_no_aad A key encrypted_b64 = decrypt A key encrypted_b64 None None"

definition re_encrypt :: "aead \<Rightarrow> bytes \<Rightarrow> bytes \<Rightarrow> string \<Rightarrow> string option \<Rightarrow> bytes option \<Rightarrow> exc + string" where
  "re_encrypt A key nonce encrypted_b64 merchant_id aad =
     (case decrypt A key encrypted_b64 merchant_id aad of
        Inl x \<Rightarrow> Inl x
      | Inr plaintext \<Rightarrow> encrypt A key nonce plaintext merchant_id aad)"

definition encrypt_view_key :: "aead \<Rightarrow> string \<Rightarrow> bytes \<Rightarrow> string \<Rightarrow> string option \<Rightarrow> exc + string" where
  "encrypt_view_key A master_hex nonce view_key merchant_id =
     (case master_key master_hex of Inl x \<Rightarrow> Inl x | Inr k \<Rightarrow> encrypt A k nonce view_key merchant_id None)"

definition decrypt_view_key :: "aead \<Rightarrow> string \<Rightarrow> string \<Rightarrow> string option \<Rightarrow> exc + string" where
  "decrypt_view_key A master_hex encrypted merchant_id =
     (case master_key master_hex of Inl x \<Rightarrow> Inl x | Inr k \<Rightarrow> decrypt A k encrypted merchant_id None)"

subsection \<open>What decryption accepts\<close>

lemma aead_lawsD:
  assumes "aead_laws A"
  shows "length (aead_encrypt A k n p a) = length p + 16"
    and "aead_decrypt A k n c a = Some p \<longleftrightarrow> c = aead_encrypt A k n p a"
  using assms unfolding aead_laws_def by blast+

text \<open>A current blob of a text is accepted for the same associated data and gives the text back.\<close>

lemma decrypt_current:
  assumes "aead_laws A" and "length n = nonce_size" and "utf8_ok p"
    and "s = b64encode (version_1 @ n @ aead_encrypt A k n p (aad_of m aad))"
  shows "decrypt A k s m aad = Inr p"
proof -
  have "list_all (\<lambda>c. byte c < 128) s" "s \<noteq> []"
    unfolding assms(4) by (simp_all add: b64encode_ascii version_1_def)
  moreover have "b64decode s = Some (version_1 @ n @ aead_encrypt A k n p (aad_of m aad))"
    unfolding assms(4) by (rule b64_roundtrip)
  moreover have "aead_decrypt A k n (aead_encrypt A k n p (aad_of m aad)) (aad_of m aad) = Some p"
    using aead_lawsD(2)[OF assms(1)] by blast
  ultimately show ?thesis
    using assms(2,3) by (simp add: decrypt_def version_1_def startswith_def aead_lawsD(1)[OF assms(1)])
qed

lemma encrypt_InrD:
  "encrypt A k n p m aad = Inr s \<Longrightarrow>
     utf8_ok p \<and> p \<noteq> [] \<and> s = b64encode (version_1 @ n @ aead_encrypt A k n p (aad_of m aad))"
  by (auto simp: encrypt_def split: if_splits)

lemma encrypt_decrypt:
  assumes "aead_laws A" and "length n = nonce_size" and "encrypt A k n p m aad = Inr s"
  shows "decrypt A k s m aad = Inr p"
  using decrypt_current[OF assms(1,2)] encrypt_InrD[OF assms(3)] by blast

lemma re_encrypt_decrypt:
  assumes "aead_laws A" and "length n = nonce_size" and "decrypt A k s m aad = Inr p" and "p \<noteq> []" and "utf8_ok p"
  shows "\<exists>s'. re_encrypt A k n s m aad = Inr s' \<and> decrypt A k s' m aad = Inr p"
  using encrypt_decrypt[OF assms(1,2)] assms(3-5) by (simp add: re_encrypt_def encrypt_def)

text \<open>Everything that is accepted: a current blob bound to the same data, or a legacy blob (no version
  byte, no associated data) whose nonce does not start with the version byte.\<close>

definition current_blob :: "aead \<Rightarrow> bytes \<Rightarrow> string option \<Rightarrow> bytes option \<Rightarrow> string \<Rightarrow> bytes \<Rightarrow> bool" where
  "current_blob A k m aad p blob \<longleftrightarrow>
     (\<exists>n. length n = nonce_size \<and> blob = version_1 @ n @ aead_encrypt A k n p (aad_of m aad))"

definition legacy_blob :: "aead \<Rightarrow> bytes \<Rightarrow> string \<Rightarrow> bytes \<Rightarrow> bool" where
  "legacy_blob A k p blob \<longleftrightarrow> (\<exists>n. length n = nonce_size \<and> blob = n @ aead_encrypt A k n p None)"

lemma blob_split:
  assumes "aead_laws A"
  shows "(\<exists>n. length n = nonce_size \<and> body = n @ aead_encrypt A k n p a) \<longleftrightarrow>
    nonce_size + 16 \<le> length body \<and> aead_decrypt A k (take nonce_size body) (drop nonce_size body) a = Some p"
proof
  assume "\<exists>n. length n = nonce_size \<and> body = n @ aead_encrypt A k n p a"
  then show "nonce_size + 16 \<le> length body \<and> aead_decrypt A k (take nonce_size body) (drop nonce_size body) a = Some p"
    using aead_lawsD[OF assms] by auto
next
  assume r: "nonce_size + 16 \<le> length body \<and> aead_decrypt A k (take nonce_size body) (drop nonce_size body) a = Some p"
  then have len: "length (take nonce_size body) = nonce_size" by simp
  have "drop nonce_size body = aead_encrypt A k (take nonce_size body) p a" using r aead_lawsD(2)[OF assms] by blast
  then have "body = take nonce_size body @ aead_encrypt A k (take nonce_size body) p a" by (metis append_take_drop_id)
  with len show "\<exists>n. length n = nonce_size \<and> body = n @ aead_encrypt A k n p a" by blast
qed

lemma decrypt_blob:
  assumes "aead_laws A" and "s \<noteq> []" and "list_all (\<lambda>c. byte c < 128) s" and "b64decode s = Some blob"
  shows "decrypt A k s m aad = Inr p \<longleftrightarrow> utf8_ok p \<and>
    (if startswith blob version_1 then current_blob A k m aad p blob else legacy_blob A k p blob)"
proof (cases "startswith blob version_1")
  case True
  then obtain body where b: "blob = version_1 @ body"
    unfolding startswith_def by (metis append_take_drop_id)
  have "current_blob A k m aad p blob \<longleftrightarrow>
    (\<exists>n. length n = nonce_size \<and> body = n @ aead_encrypt A k n p (aad_of m aad))"
    unfolding current_blob_def b by (simp add: version_1_def)
  then show ?thesis
    using assms(2-4) b unfolding blob_split[OF assms(1)]
    by (auto simp: decrypt_def Let_def version_1_def startswith_def split: option.splits if_splits)
next
  case False
  then show ?thesis
    using assms(2-4) unfolding legacy_blob_def blob_split[OF assms(1)]
    by (auto simp: decrypt_def Let_def split: option.splits if_splits)
qed

end
