(* ===== verification/Accounts.thy ===== *)
theory Accounts
  imports Invoice_Service Validators Encryption
begin

text \<open>
  Credentials and accounts: \<open>core/security.py\<close>, the merchant routes (\<open>api/routes/merchants.py\<close>), the
  API key routes (\<open>api/routes/api_keys.py\<close>) and authentication by API key (\<open>api/auth.py\<close>). bcrypt is
  library code: a record of its two functions with the laws it documents. Random numbers are
  arguments, drawn by whoever runs the operation.
\<close>

section \<open>The tables of merchants and API keys\<close>

definition modify_merchant :: "uuid \<Rightarrow> (merchant \<Rightarrow> merchant) \<Rightarrow> db \<Rightarrow> db" where
  "modify_merchant i f d = d\<lparr>db_merchants := upd_row mer_id i f (db_merchants d)\<rparr>"

definition add_merchant :: "merchant \<Rightarrow> db \<Rightarrow> db" where
  "add_merchant r d = d\<lparr>db_merchants := db_merchants d @ [r]\<rparr>"

definition find_api_key :: "uuid \<Rightarrow> db \<Rightarrow> api_key option" where
  "find_api_key i d = get_row key_id i (db_api_keys d)"

definition modify_api_key :: "uuid \<Rightarrow> (api_key \<Rightarrow> api_key) \<Rightarrow> db \<Rightarrow> db" where
  "modify_api_key i f d = d\<lparr>db_api_keys := upd_row key_id i f (db_api_keys d)\<rparr>"

definition add_api_key :: "api_key \<Rightarrow> db \<Rightarrow> db" where
  "add_api_key r d = d\<lparr>db_api_keys := db_api_keys d @ [r]\<rparr>"

lemmas account_tables = find_merchant_def modify_merchant_def add_merchant_def find_api_key_def
  modify_api_key_def add_api_key_def

interpretation merchants: entity_store find_merchant modify_merchant add_merchant mer_id
  by unfold_locales (auto simp: account_tables get_row_append get_row_upd dest: get_row_key split: option.splits)

interpretation api_keys: entity_store find_api_key modify_api_key add_api_key key_id
  by unfold_locales (auto simp: account_tables get_row_append get_row_upd dest: get_row_key split: option.splits)

section \<open>API keys\<close>

text \<open>\<open>secrets.token_hex(n)\<close> for a drawn number.\<close>

definition token_hex :: "nat \<Rightarrow> nat \<Rightarrow> string" where
  "token_hex n rnd = hexn (2 * n) rnd"

definition api_key_hex_length :: nat where "api_key_hex_length = 64"
definition webhook_secret_length :: nat where "webhook_secret_length = 64"

definition environment_prefix :: "string \<Rightarrow> string" where
  "environment_prefix environment = (if environment = ''live'' then ''gb_live_'' else ''gb_test_'')"

definition generate_api_key :: "string \<Rightarrow> nat \<Rightarrow> exc + string" where
  "generate_api_key environment rnd =
     (if environment \<noteq> ''live'' \<and> environment \<noteq> ''test'' then Inl ValueError
      else Inr (environment_prefix environment @ token_hex (api_key_hex_length div 2) rnd))"

definition generate_webhook_secret :: "nat \<Rightarrow> string" where
  "generate_webhook_secret rnd = token_hex (webhook_secret_length div 2) rnd"

text \<open>\<open>bcrypt.hashpw(key, salt)\<close> and \<open>bcrypt.checkpw(key, hash)\<close>, which may raise.\<close>

record bcrypt =
  bc_hashpw :: "bytes \<Rightarrow> bytes \<Rightarrow> bytes"
  bc_checkpw :: "bytes \<Rightarrow> bytes \<Rightarrow> exc + bool"

text \<open>Up to its limit of 72 bytes, a hash is accepted for the key it was made from and no other.\<close>

definition bcrypt_laws :: "bcrypt \<Rightarrow> bool" where
  "bcrypt_laws B \<longleftrightarrow> (\<forall>p q s. length p \<le> 72 \<longrightarrow> length q \<le> 72 \<longrightarrow>
     bc_checkpw B q (bc_hashpw B p s) = Inr (q = p))"

definition hash_api_key :: "bcrypt \<Rightarrow> bytes \<Rightarrow> string \<Rightarrow> exc + string" where
  "hash_api_key B salt plain_key =
     (if 72 < length plain_key then Inl ValueError else Inr (bc_hashpw B plain_key salt))"

text \<open>A \<open>ValueError\<close> or \<open>TypeError\<close> of bcrypt counts as no match; any other exception passes.\<close>

definition verify_api_key :: "bcrypt \<Rightarrow> string \<Rightarrow> string \<Rightarrow> exc + bool" where
  "verify_api_key B plain_key hashed_key =
     (case bc_checkpw B plain_key hashed_key of
        Inr b \<Rightarrow> Inr b
      | Inl x \<Rightarrow> if x = ValueError \<or> x = TypeError then Inr False else Inl x)"

definition hmac_sign ::
    "(string \<Rightarrow> string \<Rightarrow> string) \<Rightarrow> string \<Rightarrow> string \<Rightarrow> string option \<Rightarrow> string option \<Rightarrow> string" where
  "hmac_sign mac payload secret timestamp delivery_id =
     (case (timestamp, delivery_id) of
        (Some t, Some i) \<Rightarrow> mac secret (t @ ''.'' @ i @ ''.'' @ payload)
      | _ \<Rightarrow> mac secret payload)"

definition hmac_verify ::
    "(string \<Rightarrow> string \<Rightarrow> string) \<Rightarrow> string \<Rightarrow> string \<Rightarrow> string \<Rightarrow> string option \<Rightarrow> string option \<Rightarrow> bool" where
  "hmac_verify mac payload secret signature timestamp delivery_id =
     (let received = lower signature in
        if timestamp \<noteq> None \<and> delivery_id \<noteq> None \<and>
           lower (hmac_sign mac payload secret timestamp delivery_id) = received then True
        else lower (hmac_sign mac payload secret None None) = received)"

definition parse_bearer_token :: "string option \<Rightarrow> string option" where
  "parse_bearer_token authorization =
     (case authorization of
        None \<Rightarrow> None
      | Some s \<Rightarrow>
          if s = [] then None
          else case split_max 1 (CHR '' '') s of
            [scheme, rest] \<Rightarrow>
              if lower scheme \<noteq> ''bearer'' then None
              else if strip rest = [] then None else Some (strip rest)
          | _ \<Rightarrow> None)"

definition get_key_environment :: "string \<Rightarrow> string option" where
  "get_key_environment k =
     (if startswith k ''gb_live_'' then Some ''live''
      else if startswith k ''gb_test_'' then Some ''test'' else None)"

section \<open>API key routes\<close>

definition key_prefix_length :: nat where "key_prefix_length = 16"
definition max_active_keys :: nat where "max_active_keys = 10"

definition active_keys :: "uuid \<Rightarrow> db \<Rightarrow> api_key list" where
  "active_keys mid d = filter (\<lambda>k. key_merchant k = mid \<and> key_active k) (db_api_keys d)"

definition new_api_key :: "env \<Rightarrow> uuid \<Rightarrow> uuid \<Rightarrow> string \<Rightarrow> string \<Rightarrow> string option \<Rightarrow> string \<Rightarrow> api_key" where
  "new_api_key e i mid hash plaintext label environment =
     \<lparr>key_id = i, key_merchant = mid, key_hash = hash, key_prefix = take key_prefix_length plaintext,
      key_label = label, key_environment = environment, key_active = True, key_last_used_at = None,
      key_created_at = env_now e\<rparr>"

text \<open>\<open>entity_id\<close> is read before the flush that assigns it, so the audit row has none.\<close>

definition key_created_audit :: "env \<Rightarrow> uuid \<Rightarrow> string \<Rightarrow> string \<Rightarrow> string option \<Rightarrow> audit_log" where
  "key_created_audit e mid prefix environment label =
     \<lparr>aud_merchant = Some mid, aud_action = ''api_key.created'', aud_entity_type = Some ''api_key'',
      aud_entity_id = None, aud_details = JObj [(''key_prefix'', JStr prefix),
        (''environment'', JStr environment), (''label'', jopt JStr label)], aud_created_at = env_now e\<rparr>"

text \<open>The result is the id of the key and its text, which is shown once and not stored.\<close>

definition create_api_key ::
    "env \<Rightarrow> bcrypt \<Rightarrow> nat \<Rightarrow> bytes \<Rightarrow> merchant \<Rightarrow> string option \<Rightarrow> string \<Rightarrow> (uuid \<times> string) op" where
  "create_api_key e B rnd salt m label environment d =
     (if max_active_keys \<le> length (active_keys (mer_id m) d) then (Inl (HTTPException 400), d)
      else case generate_api_key environment rnd of
        Inl x \<Rightarrow> (Inl x, d)
      | Inr plaintext \<Rightarrow> (case hash_api_key B salt plaintext of
            Inl x \<Rightarrow> (Inl x, d)
          | Inr h \<Rightarrow>
              let i = db_next_id d; k = new_api_key e i (mer_id m) h plaintext label environment
              in (Inr (i, plaintext),
                  add_audit (key_created_audit e (mer_id m) (key_prefix k) environment label)
                    (add_api_key k (tick_id d)))))"

definition revoke_api_key :: "env \<Rightarrow> merchant \<Rightarrow> string \<Rightarrow> string op" where
  "revoke_api_key e m key_text d =
     (case uuid_parse key_text of
        None \<Rightarrow> (Inl (HTTPException 400), d)
      | Some kid \<Rightarrow>
     (case find_api_key kid d of
        None \<Rightarrow> (Inl (HTTPException 404), d)
      | Some k \<Rightarrow>
          if key_merchant k \<noteq> mer_id m then (Inl (HTTPException 404), d)
          else if \<not> key_active k then (Inl (HTTPException 400), d)
          else if filter (\<lambda>q. key_id q \<noteq> kid) (active_keys (mer_id m) d) = [] then (Inl (HTTPException 400), d)
          else (Inr (key_prefix k),
                audit e (Some (mer_id m)) ''api_key.revoked'' ''api_key'' kid
                  [(''key_prefix'', JStr (key_prefix k))]
                  (modify_api_key kid (\<lambda>q. q\<lparr>key_active := False\<rparr>) d))))"

section \<open>Authentication by API key\<close>

text \<open>The first key that verifies; an exception of bcrypt ends the search.\<close>

fun first_match :: "bcrypt \<Rightarrow> string \<Rightarrow> api_key list \<Rightarrow> exc + api_key option" where
  "first_match B token [] = Inr None"
| "first_match B token (k # ks) =
     (case verify_api_key B token (key_hash k) of
        Inl x \<Rightarrow> Inl x
      | Inr True \<Rightarrow> Inr (Some k)
      | Inr False \<Rightarrow> first_match B token ks)"

definition candidate_keys :: "string \<Rightarrow> db \<Rightarrow> api_key list" where
  "candidate_keys token d =
     filter (\<lambda>k. key_prefix k = take key_prefix_length token \<and> key_active k) (db_api_keys d)"

definition active_merchant :: "uuid \<Rightarrow> db \<Rightarrow> merchant option" where
  "active_merchant i d = (case find_merchant i d of
      None \<Rightarrow> None | Some m \<Rightarrow> if mer_active m then Some m else None)"

text \<open>Without a candidate the code verifies against a dummy hash, for the time it takes; its outcome is
  not used.\<close>

definition auth_via_api_key :: "env \<Rightarrow> bcrypt \<Rightarrow> string \<Rightarrow> merchant op" where
  "auth_via_api_key e B token d =
     (case first_match B token (candidate_keys token d) of
        Inl x \<Rightarrow> (Inl x, d)
      | Inr None \<Rightarrow> (Inl (HTTPException 401), d)
      | Inr (Some k) \<Rightarrow>
          (case active_merchant (key_merchant k) d of
             None \<Rightarrow> (Inl (HTTPException 401), d)
           | Some m \<Rightarrow> (Inr m, modify_api_key (key_id k) (\<lambda>q. q\<lparr>key_last_used_at := Some (env_now e)\<rparr>) d)))"

end
