(* ===== verification/Merchant_Routes.thy ===== *)
theory Merchant_Routes
  imports Accounts
begin

text \<open>
  \<open>api/routes/merchants.py\<close> (registration, profile, webhook secret) and the audit writer of
  \<open>core/audit.py\<close>, which these routes start after their commit and do not wait for.
\<close>

section \<open>Audit entries outside the request's transaction\<close>

definition truncate_fields :: "string list" where
  "truncate_fields = [''address'', ''tx_hash'', ''view_key'', ''key_prefix'']"

definition truncate_length :: nat where "truncate_length = 14"

fun sanitize_value :: "string \<Rightarrow> json \<Rightarrow> json" where
  "sanitize_value key (JStr s) =
     (if key \<in> set truncate_fields \<and> truncate_length < length s
      then JStr (take 8 s @ ''...'' @ drop (length s - 6) s) else JStr s)"
| "sanitize_value key v = v"

definition sanitize_metadata :: "(string \<times> json) list \<Rightarrow> (string \<times> json) list" where
  "sanitize_metadata metadata = map (\<lambda>(k, v). (k, sanitize_value k v)) metadata"

definition event_entity :: "string \<Rightarrow> string option" where
  "event_entity event =
     (let prefix = takeWhile (\<lambda>c. c \<noteq> CHR ''.'') event in
      if event \<in> set [''merchant.registered'', ''merchant.updated'', ''merchant.deleted'', ''invoice.created'',
           ''invoice.cancelled'', ''invoice.expired'', ''payment.detected'', ''payment.confirmed'',
           ''payment.orphaned'', ''webhook.delivered'', ''webhook.failed'', ''webhook.retried'',
           ''api_key.created'', ''api_key.revoked'']
      then Some prefix else None)"

text \<open>\<open>audit_log\<close>: the insert runs in a session of its own; a failure (\<open>stored = False\<close>) is logged and
  swallowed. Empty details are stored as NULL.\<close>

definition audit_log_write ::
    "env \<Rightarrow> bool \<Rightarrow> string \<Rightarrow> uuid option \<Rightarrow> (string \<times> json) list \<Rightarrow> uuid option \<Rightarrow> db \<Rightarrow> db" where
  "audit_log_write e stored event merchant_id metadata entity_id d =
     (if \<not> stored then d
      else add_audit \<lparr>aud_merchant = merchant_id, aud_action = event, aud_entity_type = event_entity event,
             aud_entity_id = entity_id,
             aud_details = (if metadata = [] then JNull else JObj (sanitize_metadata metadata)), aud_created_at = env_now e\<rparr> d)"

section \<open>Registration\<close>

record register_body =
  rb_address :: string
  rb_view_key :: string
  rb_name :: string
  rb_email :: "string option"
  rb_webhook_url :: "weburl option"

text \<open>The request schema: lengths and validators; the view key is lowered.\<close>

definition register_body_ok :: "register_body \<Rightarrow> bool" where
  "register_body_ok b \<longleftrightarrow>
     95 \<le> length (rb_address b) \<and> length (rb_address b) \<le> 106 \<and> startswith (rb_address b) ''4'' \<and>
     length (rb_view_key b) = 64 \<and> int16_ok (rb_view_key b) \<and> length (rb_name b) \<le> 255 \<and>
     (case rb_email b of None \<Rightarrow> True | Some s \<Rightarrow> length s \<le> 255 \<and> email_ok s) \<and>
     (case rb_webhook_url b of None \<Rightarrow> True | Some u \<Rightarrow> length (url_text u) \<le> 2048)"

text \<open>What \<open>os.urandom\<close>, \<open>secrets\<close> and \<open>gensalt\<close> answer during one registration.\<close>

record entropy =
  en_nonce :: bytes
  en_secret :: nat
  en_key :: "string \<Rightarrow> nat"
  en_salt :: "string \<Rightarrow> bytes"

definition new_merchant :: "env \<Rightarrow> uuid \<Rightarrow> register_body \<Rightarrow> string \<Rightarrow> string \<Rightarrow> merchant" where
  "new_merchant e i b encrypted_view_key secret =
     \<lparr>mer_id = i, mer_name = rb_name b, mer_email = rb_email b, mer_address = rb_address b,
      mer_view_key = Some encrypted_view_key, mer_webhook_url = rb_webhook_url b,
      mer_webhook_secret = Some secret, mer_environment = ''live'', mer_active = True, mer_metadata = None,
      mer_prepay_plans = None, mer_created_at = env_now e, mer_updated_at = env_now e\<rparr>"

text \<open>One pass of the loop over the two environments.\<close>

definition issue_key :: "env \<Rightarrow> bcrypt \<Rightarrow> entropy \<Rightarrow> uuid \<Rightarrow> string \<Rightarrow> string op" where
  "issue_key e B en mid environment d =
     (case generate_api_key environment (en_key en environment) of
        Inl x \<Rightarrow> (Inl x, d)
      | Inr plain \<Rightarrow> (case hash_api_key B (en_salt en environment) plain of
            Inl x \<Rightarrow> (Inl x, d)
          | Inr h \<Rightarrow> (Inr plain, add_api_key (new_api_key e (db_next_id d) mid h plain
              (Some (''Default '' @ environment @ '' key'')) environment) (tick_id d))))"

record registration =
  reg_merchant :: uuid
  reg_keys :: "(string \<times> string) list"
  reg_secret :: string

definition register_merchant ::
    "env \<Rightarrow> aead \<Rightarrow> string \<Rightarrow> bcrypt \<Rightarrow> entropy \<Rightarrow> register_body \<Rightarrow> registration op" where
  "register_merchant e A master_hex B en b d =
     (case scalar_one_or_none (filter (\<lambda>m. mer_address m = rb_address b) (db_merchants d)) of
        Inl x \<Rightarrow> (Inl x, d)
      | Inr (Some m) \<Rightarrow> (Inl (HTTPException 409), d)
      | Inr None \<Rightarrow>
     (case encrypt_view_key A master_hex (en_nonce en) (lower (rb_view_key b)) None of
        Inl x \<Rightarrow> (Inl x, d)
      | Inr encrypted \<Rightarrow>
          let secret = generate_webhook_secret (en_secret en); i = db_next_id d;
              d1 = add_merchant (new_merchant e i b encrypted secret) (tick_id d)
          in (case issue_key e B en i ''live'' d1 of
                (Inl x, d2) \<Rightarrow> (Inl x, d2)
              | (Inr live, d2) \<Rightarrow>
             (case issue_key e B en i ''test'' d2 of
                (Inl x, d3) \<Rightarrow> (Inl x, d3)
              | (Inr test, d3) \<Rightarrow>
                  (Inr \<lparr>reg_merchant = i, reg_keys = [(''live'', live), (''test'', test)], reg_secret = secret\<rparr>, d3)))))"

definition route_register_merchant ::
    "env \<Rightarrow> aead \<Rightarrow> string \<Rightarrow> bcrypt \<Rightarrow> entropy \<Rightarrow> register_body \<Rightarrow> registration op" where
  "route_register_merchant e A master_hex B en b d =
     (if \<not> register_body_ok b then (Inl (HTTPException 422), d)
      else in_transaction (register_merchant e A master_hex B en b) d)"

definition registered_audit :: "register_body \<Rightarrow> (string \<times> json) list" where
  "registered_audit b = [(''name'', JStr (rb_name b)), (''address'', JStr (rb_address b))]"

section \<open>Profile\<close>

text \<open>A field that is missing and a field that is null are both None.\<close>

record merchant_patch =
  mp_name :: "string option"
  mp_email :: "string option"
  mp_webhook_url :: "weburl option"
  mp_prepay_plans :: "json list option"

definition merchant_patch_ok :: "merchant_patch \<Rightarrow> bool" where
  "merchant_patch_ok p \<longleftrightarrow>
     (case mp_name p of None \<Rightarrow> True | Some s \<Rightarrow> length s \<le> 255) \<and>
     (case mp_email p of None \<Rightarrow> True | Some s \<Rightarrow> length s \<le> 255 \<and> email_ok s) \<and>
     (case mp_webhook_url p of None \<Rightarrow> True | Some u \<Rightarrow> length (url_text u) \<le> 2048)"

definition set_if :: "'a option \<Rightarrow> ('a \<Rightarrow> merchant \<Rightarrow> merchant) \<Rightarrow> merchant \<Rightarrow> merchant" where
  "set_if v f m = (case v of None \<Rightarrow> m | Some x \<Rightarrow> f x m)"

definition changed_fields :: "merchant_patch \<Rightarrow> string list" where
  "changed_fields p =
     (if mp_name p \<noteq> None then [''name''] else []) @ (if mp_email p \<noteq> None then [''email''] else []) @
     (if mp_webhook_url p \<noteq> None then [''webhook_url''] else []) @
     (if mp_prepay_plans p \<noteq> None then [''prepay_plans''] else [])"

definition patch_merchant :: "env \<Rightarrow> merchant_patch \<Rightarrow> json list option \<Rightarrow> merchant \<Rightarrow> merchant" where
  "patch_merchant e p plans m =
     (set_if plans (\<lambda>ps m. m\<lparr>mer_prepay_plans := Some (JList ps)\<rparr>)
       (set_if (mp_webhook_url p) (\<lambda>u m. m\<lparr>mer_webhook_url := Some u\<rparr>)
         (set_if (mp_email p) (\<lambda>s m. m\<lparr>mer_email := Some s\<rparr>)
           (set_if (mp_name p) (\<lambda>s m. m\<lparr>mer_name := s\<rparr>) m))))\<lparr>mer_updated_at := env_now e\<rparr>"

definition update_me :: "env \<Rightarrow> merchant \<Rightarrow> merchant_patch \<Rightarrow> string list op" where
  "update_me e m p d =
     (if \<not> merchant_patch_ok p then (Inl (HTTPException 422), d)
      else case (case mp_prepay_plans p of None \<Rightarrow> Some None | Some ps \<Rightarrow> map_option Some (validate_prepay_plans ps)) of
        None \<Rightarrow> (Inl (HTTPException 400), d)
      | Some plans \<Rightarrow>
          if changed_fields p = [] then (Inl (HTTPException 400), d)
          else (Inr (changed_fields p), modify_merchant (mer_id m) (patch_merchant e p plans) d))"

definition regenerate_webhook_secret :: "env \<Rightarrow> nat \<Rightarrow> merchant \<Rightarrow> string op" where
  "regenerate_webhook_secret e rnd m d =
     (let new_secret = generate_webhook_secret rnd
      in (Inr new_secret, modify_merchant (mer_id m)
           (\<lambda>m. m\<lparr>mer_webhook_secret := Some new_secret, mer_updated_at := env_now e\<rparr>) d))"

definition merchant_me_response :: "merchant \<Rightarrow> json" where
  "merchant_me_response m = JObj [(''id'', JStr (uuid_str (mer_id m))), (''name'', JStr (mer_name m)),
     (''email'', jopt JStr (mer_email m)), (''monero_address'', JStr (mer_address m)),
     (''webhook_url'', jopt (\<lambda>u. JStr (url_text u)) (mer_webhook_url m)),
     (''prepay_plans'', jopt id (mer_prepay_plans m)), (''environment'', JStr (mer_environment m)),
     (''is_active'', JBool (mer_active m)), (''created_at'', JStr (isoformat (mer_created_at m))),
     (''updated_at'', JStr (isoformat (mer_updated_at m)))]"

section \<open>What the routes do to the tables\<close>

lemma set_if_id [simp]: "(\<And>x m. mer_id (f x m) = mer_id m) \<Longrightarrow> mer_id (set_if v f m) = mer_id m"
  by (simp add: set_if_def split: option.split)

lemma patch_merchant_id [simp]: "mer_id (patch_merchant e p plans m) = mer_id m"
  by (simp add: patch_merchant_def)

text \<open>The row of a key holds the hash and the prefix of a generated text.\<close>

definition issued :: "bcrypt \<Rightarrow> api_key \<Rightarrow> bool" where
  "issued B k \<longleftrightarrow> (\<exists>env rnd plain salt. generate_api_key env rnd = Inr plain \<and>
     key_hash k = bc_hashpw B plain salt \<and> key_prefix k = take key_prefix_length plain)"

lemma issue_key_run:
  assumes "environment = ''live'' \<or> environment = ''test''"
  obtains plain k where "issue_key e B en mid environment d = (Inr plain, add_api_key k (tick_id d))"
    and "key_merchant k = mid" and "key_active k" and "key_id k = db_next_id d" and "issued B k"
proof -
  obtain plain where p: "generate_api_key environment (en_key en environment) = Inr plain"
    using assms by (auto simp: generate_api_key_def)
  have len: "length plain = 72"
    using p assms by (auto simp: generate_api_key_def token_hex_def api_key_hex_length_def environment_prefix_def)
  let ?k = "new_api_key e (db_next_id d) mid (bc_hashpw B plain (en_salt en environment)) plain
      (Some (''Default '' @ environment @ '' key'')) environment"
  have "key_hash ?k = bc_hashpw B plain (en_salt en environment)" "key_prefix ?k = take key_prefix_length plain"
    by (simp_all add: new_api_key_def)
  then have "issued B ?k" using p unfolding issued_def by blast
  then show ?thesis using that[of plain ?k] p len by (simp add: issue_key_def hash_api_key_def new_api_key_def)
qed

text \<open>A registration adds one merchant and two keys of it.\<close>

lemma register_merchant_run:
  assumes "register_merchant e A master_hex B en b d = (Inr reg, d')"
  obtains m k1 k2 where "db_merchants d' = db_merchants d @ [m]" and "db_api_keys d' = db_api_keys d @ [k1, k2]"
    and "mer_id m = reg_merchant reg" and "reg_merchant reg = db_next_id d" and "mer_active m" and "mer_address m = rb_address b"
    and "key_merchant k1 = mer_id m" and "key_merchant k2 = mer_id m" and "key_active k1" and "key_active k2"
    and "find_merchant (mer_id m) d = None \<Longrightarrow> find_merchant (mer_id m) d' = Some m"
    and "\<not> (\<exists>q \<in> set (db_merchants d). mer_address q = rb_address b)"
    and "\<exists>v. mer_view_key m = Some v \<and> encrypt_view_key A master_hex (en_nonce en) (lower (rb_view_key b)) None = Inr v"
    and "d' = d\<lparr>db_merchants := db_merchants d', db_api_keys := db_api_keys d', db_next_id := db_next_id d + 3\<rparr>"
    and "key_id k1 = db_next_id d + 1" and "key_id k2 = db_next_id d + 2" and "issued B k1" and "issued B k2"
proof -
  have none: "filter (\<lambda>m. mer_address m = rb_address b) (db_merchants d) = []"
    using assms by (auto simp: register_merchant_def scalar_one_or_none_None split: sum.splits option.splits)
  obtain enc where enc: "encrypt_view_key A master_hex (en_nonce en) (lower (rb_view_key b)) None = Inr enc"
    using assms none by (auto simp: register_merchant_def split: sum.splits)
  let ?m = "new_merchant e (db_next_id d) b enc (generate_webhook_secret (en_secret en))"
  let ?d1 = "add_merchant ?m (tick_id d)"
  obtain p1 k1 where 1: "issue_key e B en (db_next_id d) ''live'' ?d1 = (Inr p1, add_api_key k1 (tick_id ?d1))"
      "key_merchant k1 = db_next_id d" "key_active k1" "key_id k1 = db_next_id ?d1" "issued B k1"
    using issue_key_run[of "''live''" e B en "db_next_id d" ?d1] by blast
  let ?d2 = "add_api_key k1 (tick_id ?d1)"
  obtain p2 k2 where 2: "issue_key e B en (db_next_id d) ''test'' ?d2 = (Inr p2, add_api_key k2 (tick_id ?d2))"
      "key_merchant k2 = db_next_id d" "key_active k2" "key_id k2 = db_next_id ?d2" "issued B k2"
    using issue_key_run[of "''test''" e B en "db_next_id d" ?d2] by blast
  have run: "reg = \<lparr>reg_merchant = db_next_id d, reg_keys = [(''live'', p1), (''test'', p2)],
      reg_secret = generate_webhook_secret (en_secret en)\<rparr>" "d' = add_api_key k2 (tick_id ?d2)"
    using assms none enc 1(1) 2(1) by (simp_all add: register_merchant_def Let_def)
  show ?thesis
    by (rule that[of ?m k1 k2])
      (use run none enc 1 2 in \<open>auto simp: account_tables add_merchant_def tick_id_def new_merchant_def
         get_row_append filter_empty_conv\<close>)
qed

text \<open>The state after a registration, in full.\<close>

definition default_key :: "env \<Rightarrow> bcrypt \<Rightarrow> entropy \<Rightarrow> uuid \<Rightarrow> uuid \<Rightarrow> string \<Rightarrow> api_key" where
  "default_key e B en i mid environment =
     (let plain = environment_prefix environment @ token_hex 32 (en_key en environment) in
      new_api_key e i mid (bc_hashpw B plain (en_salt en environment)) plain
        (Some (''Default '' @ environment @ '' key'')) environment)"

lemma issue_key_succeeds:
  assumes "environment = ''live'' \<or> environment = ''test''"
  shows "issue_key e B en mid environment d =
    (Inr (environment_prefix environment @ token_hex 32 (en_key en environment)),
     add_api_key (default_key e B en (db_next_id d) mid environment) (tick_id d))"
proof -
  have "length (environment_prefix environment @ token_hex 32 (en_key en environment)) = 72"
    using assms by (auto simp: token_hex_def environment_prefix_def)
  then show ?thesis
    using assms by (auto simp: issue_key_def generate_api_key_def hash_api_key_def default_key_def api_key_hex_length_def Let_def)
qed

lemma register_merchant_succeeds:
  assumes "\<forall>m \<in> set (db_merchants d). mer_address m \<noteq> rb_address b"
    and "encrypt_view_key A master_hex (en_nonce en) (lower (rb_view_key b)) None = Inr enc"
  shows "\<exists>reg. register_merchant e A master_hex B en b d = (Inr reg,
    d\<lparr>db_merchants := db_merchants d @ [new_merchant e (db_next_id d) b enc (generate_webhook_secret (en_secret en))],
      db_api_keys := db_api_keys d @ [default_key e B en (db_next_id d + 1) (db_next_id d) ''live'',
        default_key e B en (db_next_id d + 2) (db_next_id d) ''test''],
      db_next_id := db_next_id d + 3\<rparr>)"
proof -
  have "filter (\<lambda>m. mer_address m = rb_address b) (db_merchants d) = []" using assms(1) by (simp add: filter_empty_conv)
  then show ?thesis
    using assms(2) by (simp add: register_merchant_def Let_def issue_key_succeeds add_api_key_def add_merchant_def tick_id_def)
qed

lemma update_me_run:
  assumes "update_me e m p d = (Inr fs, d')"
  obtains plans where "d' = modify_merchant (mer_id m) (patch_merchant e p plans) d"
    and "plans = None \<longleftrightarrow> mp_prepay_plans p = None"
    and "\<And>ps. plans = Some ps \<Longrightarrow> \<exists>raw. mp_prepay_plans p = Some raw \<and> validate_prepay_plans raw = Some ps"
proof -
  obtain plans where pl: "(case mp_prepay_plans p of None \<Rightarrow> Some None | Some ps \<Rightarrow> map_option Some (validate_prepay_plans ps)) = Some plans"
    using assms by (auto simp: update_me_def split: if_splits option.splits)
  show ?thesis
    by (rule that[of plans]) (use assms pl in \<open>auto simp: update_me_def split: if_splits option.splits\<close>)
qed

end
