(* ===== verification/Admin_Routes.thy ===== *)
theory Admin_Routes
  imports Merchant_Routes Webhook_Service Subscription_Renewal
begin

text \<open>
  The operator's side: \<open>api/routes/admin.py\<close> (guard, merchants, statistics, dead letter queue) and the
  internal endpoint of \<open>main.py\<close> that renews one subscription. The settings are arguments.
\<close>

section \<open>The guard\<close>

definition is_admin :: "string \<Rightarrow> merchant \<Rightarrow> bool" where
  "is_admin admin_merchant_id m \<longleftrightarrow> admin_merchant_id \<noteq> [] \<and> uuid_str (mer_id m) = admin_merchant_id"

definition require_admin :: "string \<Rightarrow> merchant \<Rightarrow> exc + merchant" where
  "require_admin admin_merchant_id m =
     (if admin_merchant_id = [] then Inl (HTTPException 403)
      else if uuid_str (mer_id m) \<noteq> admin_merchant_id then Inl (HTTPException 403)
      else Inr m)"

text \<open>A handler behind \<open>Depends(require_admin)\<close>.\<close>

definition as_admin :: "string \<Rightarrow> merchant \<Rightarrow> 'a op \<Rightarrow> 'a op" where
  "as_admin admin_merchant_id m f d =
     (case require_admin admin_merchant_id m of Inl x \<Rightarrow> (Inl x, d) | Inr _ \<Rightarrow> in_transaction f d)"

section \<open>Merchants\<close>

record merchant_info =
  mi_merchant :: merchant
  mi_invoice_count :: nat
  mi_subscription_count :: nat

definition list_all_merchants :: "db \<Rightarrow> merchant_info list" where
  "list_all_merchants d = map (\<lambda>m. \<lparr>mi_merchant = m,
       mi_invoice_count = length (filter (\<lambda>r. inv_merchant r = mer_id m) (db_invoices d)),
       mi_subscription_count = length (filter (\<lambda>s. sub_merchant s = mer_id m) (db_subs d))\<rparr>)
     (order_desc mer_created_at (db_merchants d))"

definition toggle_merchant_active :: "env \<Rightarrow> string \<Rightarrow> uuid \<Rightarrow> bool op" where
  "toggle_merchant_active e admin_merchant_id merchant_id d =
     (case find_merchant merchant_id d of
        None \<Rightarrow> (Inl (HTTPException 404), d)
      | Some target \<Rightarrow>
          if uuid_str merchant_id = admin_merchant_id then (Inl (HTTPException 400), d)
          else (Inr (\<not> mer_active target), modify_merchant merchant_id
                  (\<lambda>m. m\<lparr>mer_active := \<not> mer_active m, mer_updated_at := env_now e\<rparr>) d))"

section \<open>Statistics\<close>

record admin_stats =
  st_merchants_total :: nat
  st_merchants_active :: nat
  st_invoices_total :: nat
  st_invoices_paid :: nat
  st_invoices_pending :: nat
  st_invoices_expired :: nat
  st_payments_total :: nat
  st_payments_confirmed :: nat
  st_total_revenue_atomic :: int
  st_subscriptions_total :: nat
  st_subscriptions_active :: nat
  st_subscriptions_trialing :: nat
  st_webhook_deliveries_pending :: nat
  st_webhook_dlq_unresolved :: nat

definition count :: "('a \<Rightarrow> bool) \<Rightarrow> 'a list \<Rightarrow> nat" where
  "count P xs = length (filter P xs)"

definition global_stats :: "db \<Rightarrow> admin_stats" where
  "global_stats d = \<lparr>
     st_merchants_total = length (db_merchants d),
     st_merchants_active = count mer_active (db_merchants d),
     st_invoices_total = length (db_invoices d),
     st_invoices_paid = count (\<lambda>r. inv_status r = IPaid) (db_invoices d),
     st_invoices_pending = count (\<lambda>r. inv_status r = IPending) (db_invoices d),
     st_invoices_expired = count (\<lambda>r. inv_status r = IExpired) (db_invoices d),
     st_payments_total = length (db_payments d),
     st_payments_confirmed = count (\<lambda>p. pay_status p = PConfirmed) (db_payments d),
     st_total_revenue_atomic = sum_list (map pay_amount_atomic (filter (\<lambda>p. pay_status p = PConfirmed) (db_payments d))),
     st_subscriptions_total = length (db_subs d),
     st_subscriptions_active = count (\<lambda>s. sub_status s = SActive) (db_subs d),
     st_subscriptions_trialing = count (\<lambda>s. sub_status s = STrialing) (db_subs d),
     st_webhook_deliveries_pending = count (\<lambda>x. del_status x = WPending) (db_deliveries d),
     st_webhook_dlq_unresolved = count (\<lambda>x. \<not> dlq_resolved x) (db_dead_letters d)\<rparr>"

section \<open>Dead letter queue\<close>

text \<open>The rows with the name of their merchant (an inner join), newest first, at most 100.\<close>

definition list_dlq :: "bool \<Rightarrow> db \<Rightarrow> (dead_letter \<times> string) list" where
  "list_dlq resolved d =
     take 100 (List.map_filter (\<lambda>x. map_option (\<lambda>m. (x, mer_name m)) (find_merchant (dlq_merchant x) d))
       (order_desc dlq_dead_lettered_at (filter (\<lambda>x. resolved \<or> \<not> dlq_resolved x) (db_dead_letters d))))"

text \<open>The new row has no \<open>next_retry_at\<close>: the constructor does not set it and the column has no default.\<close>

definition readmitted_delivery :: "env \<Rightarrow> uuid \<Rightarrow> dead_letter \<Rightarrow> weburl \<Rightarrow> webhook_delivery" where
  "readmitted_delivery e i entry u =
     \<lparr>del_id = i, del_merchant = dlq_merchant entry, del_invoice = None, del_event_type = dlq_event_type entry,
      del_payload = dlq_payload entry, del_url = u, del_status = WPending, del_attempts = 0, del_max_attempts = 3,
      del_last_attempt_at = None, del_next_retry_at = None, del_response_code = None, del_response_body = None,
      del_created_at = env_now e\<rparr>"

definition retry_dlq_entry :: "env \<Rightarrow> uuid \<Rightarrow> uuid op" where
  "retry_dlq_entry e i d =
     (case find_dead_letter i d of
        None \<Rightarrow> (Inl (HTTPException 404), d)
      | Some entry \<Rightarrow>
          if dlq_resolved entry then (Inl (HTTPException 400), d)
          else (case find_merchant (dlq_merchant entry) d of
              None \<Rightarrow> (Inl (HTTPException 400), d)
            | Some target \<Rightarrow> (case mer_webhook_url target of
                  None \<Rightarrow> (Inl (HTTPException 400), d)
                | Some u \<Rightarrow>
                    if url_text u = [] then (Inl (HTTPException 400), d)
                    else (Inr (db_next_id d),
                      modify_dead_letter i (\<lambda>r. r\<lparr>dlq_resolved := True, dlq_resolved_at := Some (env_now e),
                          dlq_retry_count := Suc (dlq_retry_count r), dlq_last_retry_at := Some (env_now e)\<rparr>)
                        (add_delivery (readmitted_delivery e (db_next_id d) entry u) (tick_id d))))))"

section \<open>The internal endpoint\<close>

definition internal_ips :: "string list" where
  "internal_ips = [''127.0.0.1'', ''::1'', ''172.17.0.1'', ''172.23.0.1'']"

definition require_internal_authorization ::
    "string \<Rightarrow> string \<Rightarrow> string option \<Rightarrow> string option \<Rightarrow> exc option" where
  "require_internal_authorization app_env internal_secret client_host authorization =
     (if (case client_host of None \<Rightarrow> [] | Some h \<Rightarrow> h) \<notin> set internal_ips then Some (HTTPException 403)
      else if lower app_env = ''production'' \<and> internal_secret = [] then Some (HTTPException 503)
      else if internal_secret = [] \<or>
              (case authorization of None \<Rightarrow> [] | Some a \<Rightarrow> a) \<noteq> ''Bearer '' @ internal_secret then Some (HTTPException 401)
      else None)"

record renewal_counts =
  rc_renewed :: nat
  rc_skipped :: nat
  rc_failed :: nat

text \<open>Only a renewal that succeeds is committed.\<close>

definition trigger_renewal_for :: "env \<Rightarrow> string \<Rightarrow> renewal_counts op" where
  "trigger_renewal_for e subscription_id d =
     (case uuid_parse subscription_id of
        None \<Rightarrow> (Inl ValueError, d)
      | Some sid \<Rightarrow>
     (case find_sub sid d of
        None \<Rightarrow> (Inl (HTTPException 404), d)
      | Some s \<Rightarrow>
          if sub_status s \<noteq> SActive then (Inl (HTTPException 404), d)
          else (case find_merchant (sub_merchant s) d of
              None \<Rightarrow> (Inr \<lparr>rc_renewed = 0, rc_skipped = 1, rc_failed = 0\<rparr>, d)
            | Some m \<Rightarrow> (case create_renewal_invoice_for e sid m d of
                  (Inr _, d1) \<Rightarrow> (Inr \<lparr>rc_renewed = 1, rc_skipped = 0, rc_failed = 0\<rparr>, d1)
                | (Inl (SkipRenewalError msg kind), d1) \<Rightarrow>
                    (Inr \<lparr>rc_renewed = 0, rc_skipped = 1, rc_failed = 0\<rparr>, rollback d d1)
                | (Inl _, d1) \<Rightarrow> (Inr \<lparr>rc_renewed = 0, rc_skipped = 0, rc_failed = 1\<rparr>, rollback d d1)))))"

definition route_trigger_renewal ::
    "env \<Rightarrow> string \<Rightarrow> string \<Rightarrow> string option \<Rightarrow> string option \<Rightarrow> string \<Rightarrow> renewal_counts op" where
  "route_trigger_renewal e app_env internal_secret client_host authorization subscription_id d =
     (case require_internal_authorization app_env internal_secret client_host authorization of
        Some x \<Rightarrow> (Inl x, d) | None \<Rightarrow> trigger_renewal_for e subscription_id d)"

end
