(* ===== verification/System.thy ===== *)
theory System
  imports System_Ops Admin_Routes
begin

text \<open>
  The billing side of the program as a transition relation: requests and background tasks as steps
  on the database, each one transaction. A step is labelled by what it is; its arguments (the
  merchant's request, the environment, what the wallet and the endpoints answer) are arbitrary,
  except that the wallet reports one subaddress per transaction.
\<close>

section \<open>Tasks that touch no ledger row\<close>

lemma modify_delivery_ledger: "ledger_unchanged d (modify_delivery i f d)"
  by (simp add: modify_delivery_def ledger_unchanged_def)

lemma move_to_dlq_ledger: "ledger_unchanged d (move_to_dlq e i r d)"
  by (simp add: move_to_dlq_def ledger_unchanged_def add_dead_letter_def modify_delivery_def tick_id_def
      split: option.split)

lemma process_delivery_result_ledger: "ledger_unchanged d (process_delivery_result e i s d)"
proof -
  have "ledger_unchanged d d1 \<Longrightarrow> ledger_unchanged d (modify_delivery j f d1)" for d1 j f
    by (erule ledger_unchanged_trans) (rule modify_delivery_ledger)
  moreover have "ledger_unchanged d d1 \<Longrightarrow> ledger_unchanged d (move_to_dlq e j r d1)" for d1 j r
    by (erule ledger_unchanged_trans) (rule move_to_dlq_ledger)
  ultimately show ?thesis
    by (simp add: process_delivery_result_def Let_def modify_delivery_ledger split: option.split)
qed

lemma mark_dlq_resolved_ledger: "ledger_unchanged d (snd (mark_dlq_resolved_for_delivery e i d))"
  by (simp add: mark_dlq_resolved_for_delivery_def Let_def ledger_unchanged_def modify_dead_letter_def
      split: option.split sum.split)

lemma worker_deliver_ledger: "ledger_unchanged d (snd (worker_deliver e http i d))"
proof -
  have P: "ledger_unchanged d (process_delivery_result e i s (modify_delivery i f d))" for s f
    by (rule ledger_unchanged_trans[OF modify_delivery_ledger process_delivery_result_ledger])
  have M: "ledger_unchanged d d3" if "mark_dlq_resolved_for_delivery e i (process_delivery_result e i s (modify_delivery i f d)) = (x, d3)"
    for s f x d3
    using ledger_unchanged_trans[OF P mark_dlq_resolved_ledger] that by (metis snd_conv)
  show ?thesis
    by (auto simp: worker_deliver_def attempt_delivery_def Let_def P move_to_dlq_ledger dest: M
        split: option.split sum.split prod.split)
qed

lemma worker_loop_ledger: "ledger_unchanged d (snd (worker_loop e http is d))"
proof (induction "is" arbitrary: d)
  case Nil
  then show ?case by simp
next
  case (Cons i "is")
  obtain c d1 where w: "worker_deliver e http i d = (c, d1)" by fastforce
  obtain n d2 where l: "worker_loop e http is d1 = (n, d2)" by fastforce
  have "ledger_unchanged d d1" using worker_deliver_ledger[of d e http i] w by simp
  moreover have "ledger_unchanged d1 d2" using Cons[of d1] l by simp
  ultimately show ?case using ledger_unchanged_trans by (auto simp: w l)
qed

lemma fold_modify_delivery_ledger: "ledger_unchanged d (fold (\<lambda>i. modify_delivery i f) ids d)"
proof (induction ids arbitrary: d)
  case (Cons i ids)
  have "ledger_unchanged d (modify_delivery i f d)" by (rule modify_delivery_ledger)
  with Cons[of "modify_delivery i f d"] show ?case using ledger_unchanged_trans by auto
qed simp

lemma worker_cycle_ledger: "ledger_unchanged d (snd (worker_cycle e http d))"
  using ledger_unchanged_trans[OF fold_modify_delivery_ledger worker_loop_ledger]
  by (simp add: worker_cycle_def claim_pending_deliveries_def Let_def)

lemma retry_delivery_ledger: "ledger_unchanged d (snd (retry_delivery e mid i d))"
  by (simp add: retry_delivery_def modify_delivery_ledger split: option.split)

lemma retry_dead_letter_ledger: "ledger_unchanged d (snd (retry_dead_letter e m i d))"
proof -
  have "ledger_unchanged d d1 \<and> ledger_unchanged d (modify_dead_letter j f d1)"
    if "queue_webhook e m ev pl iv d = (x, d1)" for ev pl iv x d1 j f
    using billing_ledger[OF queue_webhook_frame[of d e m ev pl iv]] that
    by (simp add: ledger_unchanged_def modify_dead_letter_def)
  then show ?thesis
    by (auto simp: retry_dead_letter_def split: option.split sum.split prod.split)
qed

section \<open>The sweep\<close>

lemma end_trial_keeps: "keeps home d (snd (end_trial e sid d))"
proof -
  have T: "keeps home d d1" if "transition_subscription_status e sid SActive d = (x, d1)" for x d1
    using transition_keeps[OF keeps_refl, of home d e sid SActive] that by simp
  have S: "keeps home d d2" if "keeps home d d1" "dispatch_subscription_event e ev s i ps pe r d1 = (x, d2)"
    for d1 ev s i ps pe r x d2
    using ledger_keeps[OF sub_event_ledger[OF ledger_unchanged_refl, of d1 e ev s i ps pe r] that(1)] that(2) by simp
  have C: "keeps home d d2" if "keeps home d d1" "create_renewal_invoice e sid d1 = (x, d2)" for d1 x d2
    using keeps_trans[OF that(1) create_renewal_invoice_keeps] that(2) by (metis snd_conv)
  show ?thesis
    by (auto simp: end_trial_def Let_def intro!: keeps_intros dest: T S[OF touch_keeps[OF T]] C[OF S[OF touch_keeps[OF T]]]
        split: option.split sum.split prod.split)
qed

lemma end_trials_keeps: "keeps home d (snd (end_trials e is d))"
proof (induction "is" arbitrary: d)
  case Nil
  then show ?case by simp
next
  case (Cons i "is")
  obtain c x d1 where s: "end_trial e i d = ((c, x), d1)" by (metis prod.exhaust)
  then have 1: "keeps home d d1" using end_trial_keeps[of home d e i] by simp
  obtain y d2 where l: "end_trials e is d1 = (y, d2)" by fastforce
  have "keeps home d d2" using keeps_trans[OF 1] Cons[of d1] l by simp
  with 1 show ?case by (simp add: s l split: sum.split option.split)
qed

lemma trial_sweep_keeps: "keeps home d (snd (trial_sweep e d))"
  unfolding trial_sweep_def by (rule keeps_in_transaction) (rule end_trials_keeps)

lemma check_prepay_guard_keeps: "keeps home d (snd (check_prepay_guard e sid d))"
  by (auto simp: check_prepay_guard_def clear_expired_prepay_def intro!: keeps_intros split: option.split)

lemma renewal_failed_keeps: "keeps home d (snd (renewal_failed e sid x c d))"
  by (auto simp: renewal_failed_def intro!: keeps_intros split: exc.split)

lemma renew_one_keeps: "keeps home d (snd (snd (renew_one e sid c d)))"
proof -
  have G: "keeps home d d1" if "check_prepay_guard e sid d = (b, d1)" for b d1
    using check_prepay_guard_keeps[of home d e sid] that by simp
  have C: "keeps home d d2" if "keeps home d d1" "create_renewal_invoice e sid d1 = (x, d2)" for d1 x d2
    using keeps_trans[OF that(1) create_renewal_invoice_keeps] that(2) by (metis snd_conv)
  have F: "keeps home d d3" if "keeps home d d2" "renewal_failed e sid x c d2 = (c', d3)" for d2 x c' d3
    using keeps_trans[OF that(1) renewal_failed_keeps] that(2) by (metis snd_conv)
  show ?thesis
    by (auto simp: renew_one_def dest: G C[OF G] F[OF C[OF G]] split: sum.split prod.split bool.split)
qed

lemma renew_subs_keeps: "keeps home d (snd (snd (renew_subs e is c d)))"
proof (induction "is" arbitrary: c d)
  case Nil
  then show ?case by simp
next
  case (Cons i "is")
  obtain x c1 d1 where s: "renew_one e i c d = (x, c1, d1)" by (metis prod.exhaust)
  then have 1: "keeps home d d1" using renew_one_keeps[of home d e i c] by simp
  show ?case using 1 keeps_trans[OF 1] Cons[of d1 c1] by (simp add: s split: option.split)
qed

lemma renewal_loop_keeps: "renewal_loop fuel es k c d = Some (x, d') \<Longrightarrow> keeps home d d'"
proof (induction fuel arbitrary: k c d)
  case 0
  then show ?case by simp
next
  case (Suc fuel)
  let ?ids = "due_batch (es k) d"
  obtain y c1 d1 where s: "renew_subs (es k) ?ids c d = (y, c1, d1)" by (metis prod.exhaust)
  then have 1: "keeps home d d1" using renew_subs_keeps[of home d "es k" ?ids c] by simp
  show ?case
  proof (cases "?ids = []")
    case True
    then show ?thesis using Suc.prems by simp
  next
    case False
    show ?thesis
    proof (cases y)
      case None
      then have "renewal_loop fuel es (Suc k) c1 d1 = Some (x, d')" using Suc.prems False s by (simp add: Let_def)
      from keeps_trans[OF 1 Suc.IH[OF this]] show ?thesis .
    next
      case (Some z)
      then have "d' = rollback d d1" using Suc.prems False s by (simp add: Let_def)
      then show ?thesis using keeps_rollback[OF 1] by simp
    qed
  qed
qed

lemma run_sweep_keeps:
  assumes "run_sweep fuel e0 es e1 d = Some (x, d')"
  shows "keeps home d d'"
proof -
  obtain a d1 where 1: "trial_sweep e0 d = (a, d1)" by fastforce
  have k1: "keeps home d d1" using trial_sweep_keeps[of home d e0] 1 by simp
  show ?thesis
  proof (cases a)
    case (Inl y)
    then show ?thesis using assms 1 k1 by (simp add: run_sweep_def)
  next
    case (Inr n)
    then obtain b d2 where 2: "renewal_loop fuel es 0 no_counts d1 = Some (b, d2)"
      using assms 1 by (auto simp: run_sweep_def split: option.splits)
    have k2: "keeps home d d2" using keeps_trans[OF k1 renewal_loop_keeps[OF 2]] .
    obtain g d3 where 3: "in_transaction (check_grace_periods e1) d2 = (g, d3)" by fastforce
    have "keeps home d2 (snd (check_grace_periods e1 d2))"
      by (rule keeps_ledger_unchanged[OF check_grace_periods_ledger])
    then have "keeps home d2 d3" using keeps_in_transaction[of home d2 "check_grace_periods e1"] 3 by simp
    then have "keeps home d d3" using keeps_trans[OF k2] by blast
    then show ?thesis using assms 1 2 3 Inr k2
      by (auto simp: run_sweep_def split: sum.splits)
  qed
qed

section \<open>The operator's requests\<close>

lemma keeps_as_admin: "keeps home d (snd (f d)) \<Longrightarrow> keeps home d (snd (as_admin a m f d))"
  by (simp add: as_admin_def keeps_in_transaction split: sum.split)

lemma retry_dlq_entry_ledger: "ledger_unchanged d (snd (retry_dlq_entry e i d))"
  by (simp add: retry_dlq_entry_def ledger_unchanged_def modify_dead_letter_def add_delivery_def tick_id_def
      split: option.split)

lemma trigger_renewal_keeps: "keeps home d (snd (trigger_renewal_for e sid d))"
proof -
  have C: "keeps home d d1" if "create_renewal_invoice_for e i m d = (x, d1)" for i m x d1
    using create_renewal_invoice_for_keeps[of home d e i m] that by simp
  show ?thesis
    by (auto simp: trigger_renewal_for_def dest: C keeps_rollback[OF C] split: option.split sum.split prod.split exc.split)
qed

section \<open>The steps\<close>

inductive billing_step :: "(string \<Rightarrow> int \<times> int) \<Rightarrow> db \<Rightarrow> db \<Rightarrow> bool" for home where
  invoice_created: "billing_step home d (snd (route_create_invoice e m raw desc ex meta fr d))"
| invoice_cancelled: "billing_step home d (snd (route_cancel_invoice e m i d))"
| subscription_created:
    "billing_step home d (snd (subscription_route (create_subscription e m cid amount iv soft hard start trial meta) d))"
| subscription_patched: "billing_step home d (snd (subscription_route (patch_subscription e m sid p) d))"
| subscription_paused: "billing_step home d (snd (subscription_route (pause_subscription e mid sid) d))"
| subscription_resumed: "billing_step home d (snd (subscription_route (resume_subscription e mid sid) d))"
| subscription_cancelled: "billing_step home d (snd (subscription_route (cancel_subscription e mid sid) d))"
| subscription_prepaid: "billing_step home d (snd (subscription_route (prepay_subscription e m sid n) d))"
| delivery_retried: "billing_step home d (snd (in_transaction (retry_delivery e mid i) d))"
| dead_letter_retried: "billing_step home d (snd (in_transaction (retry_dead_letter e m i) d))"
| dead_letter_readmitted: "billing_step home d (snd (as_admin adm m (retry_dlq_entry e i) d))"
| renewal_triggered: "billing_step home d (snd (route_trigger_renewal e app_env secret host authorization sid d))"
| detection: "wallet_at_home home w \<Longrightarrow> billing_step home d (snd (detection_cycle e w g d))"
| expiry: "billing_step home d (snd (expirer_cycle e d))"
| retention: "billing_step home d (snd (run_retention_cleanup e d))"
| webhooks: "billing_step home d (snd (worker_cycle e http d))"
| sweep: "run_sweep fuel e0 es e1 d = Some (x, d') \<Longrightarrow> billing_step home d d'"

lemma billing_step_keeps: "billing_step home d d' \<Longrightarrow> keeps home d d'"
proof (induction rule: billing_step.induct)
  case (sweep fuel e0 es e1 d x d')
  then show ?case by (rule run_sweep_keeps)
next
  case (detection w d e g)
  then show ?case by (rule detection_cycle_keeps)
next
  case (webhooks d e http)
  then show ?case by (rule keeps_ledger_unchanged[OF worker_cycle_ledger])
next
  case (delivery_retried d e mid i)
  then show ?case by (intro keeps_in_transaction keeps_ledger_unchanged[OF retry_delivery_ledger])
next
  case (dead_letter_retried d e m i)
  then show ?case by (intro keeps_in_transaction keeps_ledger_unchanged[OF retry_dead_letter_ledger])
next
  case (dead_letter_readmitted d adm m e i)
  then show ?case by (intro keeps_as_admin keeps_ledger_unchanged[OF retry_dlq_entry_ledger])
next
  case (renewal_triggered d e app_env secret host authorization sid)
  then show ?case by (simp add: route_trigger_renewal_def trigger_renewal_keeps split: option.split)
qed (simp_all add: route_create_invoice_def route_cancel_invoice_def subscription_route_def expirer_cycle_def
    keeps_in_transaction keeps_map_error create_invoice_keeps cancel_invoice_keeps create_subscription_keeps
    patch_subscription_keeps pause_subscription_keeps resume_subscription_keeps cancel_subscription_keeps
    prepay_subscription_keeps expire_pending_invoices_keeps run_retention_cleanup_keeps)

end
