(* ===== verification/Account_Frame.thy ===== *)
theory Account_Frame
  imports Detection Expiration Renewer Webhook_Service
begin

text \<open>
  Billing never writes the account tables: no operation on invoices, payments, subscriptions or
  webhooks changes a merchant, an API key, a customer or a license.
\<close>

definition accounts_of :: "db \<Rightarrow> merchant list \<times> api_key list \<times> customer list \<times> license list" where
  "accounts_of d = (db_merchants d, db_api_keys d, db_customers d, db_licenses d)"

lemma accounts_ofD:
  assumes "accounts_of d' = accounts_of d"
  shows "db_merchants d' = db_merchants d" and "db_api_keys d' = db_api_keys d"
    and "db_customers d' = db_customers d" and "db_licenses d' = db_licenses d"
  using assms by (simp_all add: accounts_of_def)

text \<open>The operations for which this is known, as rewrite rules.\<close>

named_theorems accounts

section \<open>Writes of one table\<close>

lemma accounts_writes [accounts]:
  "accounts_of (modify_invoice i f d) = accounts_of d" "accounts_of (add_invoice r d) = accounts_of d"
  "accounts_of (modify_payment i g d) = accounts_of d" "accounts_of (add_payment p d) = accounts_of d"
  "accounts_of (modify_sub i h d) = accounts_of d" "accounts_of (add_sub s d) = accounts_of d"
  "accounts_of (modify_delivery i u d) = accounts_of d" "accounts_of (add_delivery w d) = accounts_of d"
  "accounts_of (modify_dead_letter i v d) = accounts_of d" "accounts_of (add_dead_letter q d) = accounts_of d"
  "accounts_of (add_audit a d) = accounts_of d" "accounts_of (add_event ev d) = accounts_of d"
  "accounts_of (add_sub_payment sp d) = accounts_of d" "accounts_of (add_address ad d) = accounts_of d"
  "accounts_of (tick_id d) = accounts_of d" "accounts_of (tick_rpc d) = accounts_of d"
  "accounts_of (audit e mid act et eid details d) = accounts_of d" "accounts_of (rollback d d') = accounts_of d"
  "accounts_of (delete_invoice i d) = accounts_of d" "accounts_of (add_rows rows d) = accounts_of d"
  by (simp_all add: accounts_of_def table_defs add_address_def tick_rpc_def rollback_def delete_invoice_def add_rows_def)

lemma accounts_field_writes [accounts]:
  "accounts_of (d\<lparr>db_invoices := xi\<rparr>) = accounts_of d" "accounts_of (d\<lparr>db_addresses := xa\<rparr>) = accounts_of d"
  "accounts_of (d\<lparr>db_payments := xp\<rparr>) = accounts_of d" "accounts_of (d\<lparr>db_subs := xs\<rparr>) = accounts_of d"
  "accounts_of (d\<lparr>db_sub_payments := xsp\<rparr>) = accounts_of d" "accounts_of (d\<lparr>db_events := xe\<rparr>) = accounts_of d"
  "accounts_of (d\<lparr>db_deliveries := xd\<rparr>) = accounts_of d" "accounts_of (d\<lparr>db_dead_letters := xq\<rparr>) = accounts_of d"
  "accounts_of (d\<lparr>db_audit := xl\<rparr>) = accounts_of d" "accounts_of (d\<lparr>db_next_id := n\<rparr>) = accounts_of d"
  "accounts_of (d\<lparr>db_rpc_calls := n\<rparr>) = accounts_of d"
  by (simp_all add: accounts_of_def)

lemma accounts_fold: "(\<And>x d. accounts_of (f x d) = accounts_of d) \<Longrightarrow> accounts_of (fold f xs d) = accounts_of d"
  by (induction xs arbitrary: d) simp_all

lemma accounts_in_transaction [accounts]:
  "accounts_of (snd (f d)) = accounts_of d \<Longrightarrow> accounts_of (snd (in_transaction f d)) = accounts_of d"
  by (simp add: in_transaction_def split_beta accounts split: sum.split)

lemma accounts_map_error [accounts]: "accounts_of (snd (map_error g f d)) = accounts_of (snd (f d))"
  by (simp add: map_error_def split_beta split: sum.split)

lemma accounts_for_each: "(\<And>x d. accounts_of (snd (f x d)) = accounts_of d) \<Longrightarrow> accounts_of (snd (for_each f xs d)) = accounts_of d"
  by (rule for_each_invariant[where P = "\<lambda>d'. accounts_of d' = accounts_of d"]) simp_all

section \<open>Webhooks\<close>

lemma queue_webhook_accounts [accounts]: "accounts_of (snd (queue_webhook e m ev p i d)) = accounts_of d"
  by (simp add: queue_webhook_def Let_def split_beta accounts split: sum.split option.split)

lemma dispatch_events_accounts [accounts]: "accounts_of (snd (dispatch_events e evs m i p d)) = accounts_of d"
  by (induction evs arbitrary: d) (simp_all add: Let_def split_beta accounts split: sum.split option.split)

lemma dispatch_subscription_event_accounts [accounts]: "accounts_of (snd (dispatch_subscription_event e ev s i ps pe r d)) = accounts_of d"
  by (simp add: dispatch_subscription_event_def Let_def split_beta accounts split: sum.split option.split)

lemma attempt_delivery_accounts [accounts]: "accounts_of (snd (attempt_delivery http i d)) = accounts_of d"
  by (simp add: attempt_delivery_def Let_def split_beta accounts split: sum.split option.split)

lemma claim_pending_deliveries_accounts [accounts]: "accounts_of (snd (claim_pending_deliveries e n d)) = accounts_of d"
  by (simp add: claim_pending_deliveries_def Let_def split_beta accounts accounts_fold split: sum.split option.split)

lemma move_to_dlq_accounts [accounts]: "accounts_of (move_to_dlq e i r d) = accounts_of d"
  by (simp add: move_to_dlq_def Let_def split_beta accounts split: sum.split option.split)

lemma process_delivery_result_accounts [accounts]: "accounts_of (process_delivery_result e i b d) = accounts_of d"
  by (simp add: process_delivery_result_def Let_def split_beta accounts split: sum.split option.split)

lemma retry_delivery_accounts [accounts]: "accounts_of (snd (retry_delivery e mid i d)) = accounts_of d"
  by (simp add: retry_delivery_def Let_def split_beta accounts split: sum.split option.split)

lemma retry_dead_letter_accounts [accounts]: "accounts_of (snd (retry_dead_letter e m i d)) = accounts_of d"
  by (simp add: retry_dead_letter_def Let_def split_beta accounts split: sum.split option.split)

lemma mark_dlq_resolved_for_delivery_accounts [accounts]: "accounts_of (snd (mark_dlq_resolved_for_delivery e i d)) = accounts_of d"
  by (simp add: mark_dlq_resolved_for_delivery_def Let_def split_beta accounts split: sum.split option.split)

lemma worker_deliver_accounts [accounts]: "accounts_of (snd (worker_deliver e http i d)) = accounts_of d"
  by (simp add: worker_deliver_def Let_def split_beta accounts split: sum.split option.split)

lemma worker_loop_accounts [accounts]: "accounts_of (snd (worker_loop e http xs d)) = accounts_of d"
  by (induction xs arbitrary: d) (simp_all add: Let_def split_beta accounts split: sum.split option.split)

lemma worker_cycle_accounts [accounts]: "accounts_of (snd (worker_cycle e http d)) = accounts_of d"
  by (simp add: worker_cycle_def Let_def split_beta accounts accounts_fold split: sum.split option.split)

section \<open>Subscriptions\<close>

lemma touch_sub_accounts [accounts]: "accounts_of (touch_sub e i f d) = accounts_of d"
  by (simp add: touch_sub_def Let_def split_beta accounts split: sum.split option.split)

lemma transition_subscription_status_accounts [accounts]: "accounts_of (snd (transition_subscription_status e i t d)) = accounts_of d"
  by (simp add: transition_subscription_status_def Let_def split_beta accounts split: sum.split option.split)

lemma flush_sub_accounts [accounts]: "accounts_of (snd (flush_sub i d)) = accounts_of d"
  by (simp add: flush_sub_def Let_def split_beta accounts split: sum.split option.split)

lemma update_subscription_accounts [accounts]: "accounts_of (snd (update_subscription e i p d)) = accounts_of d"
  by (simp add: update_subscription_def Let_def split_beta accounts split: sum.split option.split)

lemma log_renewal_event_accounts [accounts]: "accounts_of (log_renewal_event e i r v m x d) = accounts_of d"
  by (simp add: log_renewal_event_def Let_def split_beta accounts split: sum.split option.split)

section \<open>Invoices\<close>

lemma create_invoice_accounts [accounts]: "accounts_of (snd (create_invoice e m raw desc ex meta fr fc d)) = accounts_of d"
  by (simp add: create_invoice_def Let_def split_beta accounts split: sum.split option.split)

lemma set_invoice_status_accounts [accounts]: "accounts_of (set_invoice_status e i s d) = accounts_of d"
  by (simp add: set_invoice_status_def Let_def split_beta accounts split: sum.split option.split)

lemma get_invoice_accounts [accounts]: "accounts_of (snd (get_invoice mid i d)) = accounts_of d"
  by (simp add: get_invoice_def Let_def split_beta accounts split: sum.split option.split)

lemma cancel_invoice_accounts [accounts]: "accounts_of (snd (cancel_invoice e mid i d)) = accounts_of d"
  by (simp add: cancel_invoice_def Let_def split_beta accounts split: sum.split option.split)

lemma update_status_accounts [accounts]: "accounts_of (snd (update_status e i s x d)) = accounts_of d"
  by (simp add: update_status_def Let_def split_beta accounts split: sum.split option.split)

section \<open>Renewals and prepayment\<close>

lemma renewal_pending_accounts [accounts]: "accounts_of (snd (renewal_pending e i s d)) = accounts_of d"
  by (simp add: renewal_pending_def Let_def split_beta accounts split: sum.split option.split)

lemma renewal_commit_accounts [accounts]: "accounts_of (snd (renewal_commit e i s b t u iv d)) = accounts_of d"
  by (simp add: renewal_commit_def Let_def split_beta accounts split: sum.split option.split)

lemma create_renewal_invoice_for_accounts [accounts]: "accounts_of (snd (create_renewal_invoice_for e i m d)) = accounts_of d"
  by (simp add: create_renewal_invoice_for_def Let_def split_beta accounts split: sum.split option.split)

lemma create_renewal_invoice_accounts [accounts]: "accounts_of (snd (create_renewal_invoice e i d)) = accounts_of d"
  by (simp add: create_renewal_invoice_def Let_def split_beta accounts split: sum.split option.split)

lemma create_prepay_invoice_accounts [accounts]: "accounts_of (snd (create_prepay_invoice e m i n d)) = accounts_of d"
  by (simp add: create_prepay_invoice_def Let_def split_beta accounts split: sum.split option.split)

lemma clear_prepay_guard_accounts [accounts]: "accounts_of (clear_prepay_guard e i j d) = accounts_of d"
  by (simp add: clear_prepay_guard_def Let_def split_beta accounts split: sum.split option.split)

lemma prepay_fulfil_accounts [accounts]: "accounts_of (snd (prepay_fulfil e r s t n d)) = accounts_of d"
  by (simp add: prepay_fulfil_def Let_def split_beta accounts split: sum.split option.split)

lemma handle_prepay_payment_accounts [accounts]: "accounts_of (snd (handle_prepay_payment e r i d)) = accounts_of d"
  by (simp add: handle_prepay_payment_def Let_def split_beta accounts split: sum.split option.split)

lemma clear_expired_prepay_accounts [accounts]: "accounts_of (clear_expired_prepay e i d) = accounts_of d"
  by (simp add: clear_expired_prepay_def Let_def split_beta accounts split: sum.split option.split)

lemma prepay_hook_accounts [accounts]: "accounts_of (snd (prepay_hook e r i d)) = accounts_of d"
  by (simp add: prepay_hook_def Let_def split_beta accounts split: sum.split option.split)

lemma handle_subscription_payment_accounts [accounts]: "accounts_of (snd (handle_subscription_payment e i d)) = accounts_of d"
  by (simp add: handle_subscription_payment_def Let_def split_beta accounts split: sum.split option.split)

lemma grace_step_accounts [accounts]: "accounts_of (snd (grace_step e s t i d)) = accounts_of d"
  by (simp add: grace_step_def Let_def split_beta accounts split: sum.split option.split)

lemma hard_step_accounts [accounts]: "accounts_of (snd (hard_step e i d)) = accounts_of d"
  by (simp add: hard_step_def Let_def split_beta accounts split: sum.split option.split)

lemma check_grace_periods_accounts [accounts]: "accounts_of (snd (check_grace_periods e d)) = accounts_of d"
  by (simp add: check_grace_periods_def Let_def split_beta accounts accounts_for_each split: sum.split option.split)

section \<open>Subscription routes\<close>

lemma fire_lifecycle_event_accounts [accounts]: "accounts_of (fire_lifecycle_event e ev i r x d) = accounts_of d"
  by (simp add: fire_lifecycle_event_def Let_def split_beta accounts split: sum.split option.split)

lemma round_amount_accounts [accounts]: "accounts_of (round_amount i d) = accounts_of d"
  by (simp add: round_amount_def Let_def split_beta accounts split: sum.split option.split)

lemma start_subscription_accounts [accounts]: "accounts_of (snd (start_subscription e m s d)) = accounts_of d"
  by (simp add: start_subscription_def Let_def split_beta accounts split: sum.split option.split)

lemma create_subscription_accounts [accounts]: "accounts_of (snd (create_subscription e m cid amount iv soft hard start trial meta d)) = accounts_of d"
  by (simp add: create_subscription_def Let_def split_beta accounts split: sum.split option.split pydec.split)

lemma pause_subscription_accounts [accounts]: "accounts_of (snd (pause_subscription e mid sid d)) = accounts_of d"
  by (simp add: pause_subscription_def Let_def split_beta accounts split: sum.split option.split)

lemma resume_subscription_accounts [accounts]: "accounts_of (snd (resume_subscription e mid sid d)) = accounts_of d"
  by (simp add: resume_subscription_def Let_def split_beta accounts split: sum.split option.split)

lemma cancel_pending_accounts [accounts]: "accounts_of (snd (cancel_pending e mid sps failed d)) = accounts_of d"
  by (induction sps arbitrary: failed d) (simp_all add: Let_def split_beta accounts split: sum.split option.split)

lemma cancel_subscription_accounts [accounts]: "accounts_of (snd (cancel_subscription e mid sid d)) = accounts_of d"
  by (simp add: cancel_subscription_def Let_def split_beta accounts split: sum.split option.split)

lemma round_pending_accounts [accounts]: "accounts_of (round_pending i d) = accounts_of d"
  by (simp add: round_pending_def Let_def split_beta accounts split: sum.split option.split)

lemma patch_subscription_accounts [accounts]: "accounts_of (snd (patch_subscription e m sid p d)) = accounts_of d"
  by (simp add: patch_subscription_def Let_def split_beta accounts split: sum.split option.split)

lemma prepay_subscription_accounts [accounts]: "accounts_of (snd (prepay_subscription e m sid n d)) = accounts_of d"
  by (simp add: prepay_subscription_def Let_def split_beta accounts split: sum.split option.split)

section \<open>The sweep\<close>

lemma end_trial_accounts [accounts]: "accounts_of (snd (end_trial e i d)) = accounts_of d"
  by (simp add: end_trial_def Let_def split_beta accounts split: sum.split option.split)

lemma end_trials_accounts [accounts]: "accounts_of (snd (end_trials e xs d)) = accounts_of d"
  by (induction xs arbitrary: d) (simp_all add: Let_def split_beta accounts split: sum.split option.split)

lemma trial_sweep_accounts [accounts]: "accounts_of (snd (trial_sweep e d)) = accounts_of d"
  by (simp add: trial_sweep_def Let_def split_beta accounts split: sum.split option.split)

lemma check_prepay_guard_accounts [accounts]: "accounts_of (snd (check_prepay_guard e i d)) = accounts_of d"
  by (simp add: check_prepay_guard_def Let_def split_beta accounts split: sum.split option.split)

lemma renewal_failed_accounts [accounts]: "accounts_of (snd (renewal_failed e i x c d)) = accounts_of d"
  by (simp add: renewal_failed_def Let_def split_beta accounts split: sum.split option.split exc.split)

lemma renew_one_accounts [accounts]: "accounts_of (snd (snd (renew_one e i c d))) = accounts_of d"
  by (simp add: renew_one_def Let_def split_beta accounts split: sum.split option.split bool.split)

lemma renew_subs_accounts [accounts]: "accounts_of (snd (snd (renew_subs e xs c d))) = accounts_of d"
  by (induction xs arbitrary: c d) (simp_all add: Let_def split_beta accounts split: sum.split option.split)

section \<open>Payments\<close>

lemma subscription_hook_accounts [accounts]: "accounts_of (snd (subscription_hook e i s d)) = accounts_of d"
  by (simp add: subscription_hook_def Let_def split_beta accounts split: sum.split option.split)

lemma settle_accounts [accounts]: "accounts_of (snd (settle e i r n d)) = accounts_of d"
  by (simp add: settle_def Let_def split_beta accounts split: sum.split option.split)

lemma recalculate_invoice_status_accounts [accounts]: "accounts_of (snd (recalculate_invoice_status e i d)) = accounts_of d"
  by (simp add: recalculate_invoice_status_def Let_def split_beta accounts split: sum.split option.split)

lemma create_payment_accounts [accounts]: "accounts_of (snd (create_payment e r t a c h mp d)) = accounts_of d"
  by (simp add: create_payment_def Let_def split_beta accounts split: sum.split option.split)

lemma update_confirmations_accounts [accounts]: "accounts_of (snd (update_confirmations e i c h d)) = accounts_of d"
  by (simp add: update_confirmations_def Let_def split_beta accounts split: sum.split option.split)

lemma process_existing_accounts [accounts]: "accounts_of (snd (process_existing e tx r p d)) = accounts_of d"
  by (simp add: process_existing_def Let_def split_beta accounts split: sum.split option.split)

lemma process_new_accounts [accounts]: "accounts_of (snd (process_new e tx mp r d)) = accounts_of d"
  by (simp add: process_new_def Let_def split_beta accounts split: sum.split option.split)

lemma process_transfer_accounts [accounts]: "accounts_of (snd (process_transfer e tx mp d)) = accounts_of d"
  by (simp add: process_transfer_def Let_def split_beta accounts split: sum.split option.split)

lemma handle_reorg_accounts [accounts]: "accounts_of (snd (handle_reorg e i d)) = accounts_of d"
  by (simp add: handle_reorg_def Let_def split_beta accounts split: sum.split option.split)

section \<open>Detection\<close>

lemma dispatch_changes_accounts [accounts]: "accounts_of (snd (dispatch_changes e i j s ps d)) = accounts_of d"
  by (simp add: dispatch_changes_def Let_def split_beta accounts split: sum.split option.split)

lemma scan_transfer_accounts [accounts]: "accounts_of (snd (scan_transfer e tx d)) = accounts_of d"
  by (simp add: scan_transfer_def Let_def split_beta accounts split: sum.split option.split)

lemma scan_loop_accounts [accounts]: "accounts_of (snd (scan_loop e xs d)) = accounts_of d"
  by (induction xs arbitrary: d) (simp_all add: Let_def split_beta accounts split: sum.split option.split)

lemma scan_transfers_accounts [accounts]: "accounts_of (snd (scan_transfers e w a b d)) = accounts_of d"
  by (simp add: scan_transfers_def Let_def split_beta accounts split: sum.split option.split)

lemma confirm_missing_accounts [accounts]: "accounts_of (snd (snd (confirm_missing e p ms d))) = accounts_of d"
  by (simp add: confirm_missing_def Let_def split_beta accounts split: sum.split option.split)

lemma confirm_found_accounts [accounts]: "accounts_of (snd (confirm_found e p tx d)) = accounts_of d"
  by (simp add: confirm_found_def Let_def split_beta accounts split: sum.split option.split)

lemma confirm_one_accounts [accounts]: "accounts_of (snd (snd (confirm_one e w p ms d))) = accounts_of d"
  by (simp add: confirm_one_def Let_def split_beta accounts split: sum.split option.split)

lemma confirm_loop_accounts [accounts]: "accounts_of (snd (snd (confirm_loop e w xs ms d))) = accounts_of d"
  by (induction xs arbitrary: ms d) (simp_all add: Let_def split_beta accounts split: sum.split option.split)

lemma update_unconfirmed_accounts [accounts]: "accounts_of (snd (snd (update_unconfirmed e w ms d))) = accounts_of d"
  by (simp add: update_unconfirmed_def Let_def split_beta accounts split: sum.split option.split)

lemma regular_scan_accounts [accounts]: "accounts_of (snd (regular_scan e w a b d)) = accounts_of d"
  by (simp add: regular_scan_def Let_def split_beta accounts split: sum.split option.split)

lemma deep_scan_accounts [accounts]: "accounts_of (snd (deep_scan e w g a d)) = accounts_of d"
  by (simp add: deep_scan_def Let_def split_beta accounts split: sum.split option.split)

lemma detection_cycle_accounts [accounts]: "accounts_of (snd (detection_cycle e w g d)) = accounts_of d"
  by (simp add: detection_cycle_def Let_def split_beta accounts split: sum.split option.split)

section \<open>Expiry and retention\<close>

lemma expire_rows_accounts [accounts]: "accounts_of (expire_rows t d) = accounts_of d"
  by (simp add: expire_rows_def Let_def split_beta accounts split: sum.split option.split)

lemma expiry_audit_accounts [accounts]: "accounts_of (expiry_audit e r d) = accounts_of d"
  by (simp add: expiry_audit_def Let_def split_beta accounts split: sum.split option.split)

lemma expiry_event_accounts [accounts]: "accounts_of (snd (expiry_event e i d)) = accounts_of d"
  by (simp add: expiry_event_def Let_def split_beta accounts split: sum.split option.split)

lemma expire_pending_invoices_accounts [accounts]: "accounts_of (snd (expire_pending_invoices e d)) = accounts_of d"
  by (simp add: expire_pending_invoices_def Let_def split_beta accounts accounts_fold accounts_for_each split: sum.split option.split)

lemma expirer_cycle_accounts [accounts]: "accounts_of (snd (expirer_cycle e d)) = accounts_of d"
  by (simp add: expirer_cycle_def Let_def split_beta accounts split: sum.split option.split)

lemma cleanup_expired_invoices_accounts [accounts]: "accounts_of (snd (cleanup_expired_invoices e d)) = accounts_of d"
  by (simp add: cleanup_expired_invoices_def Let_def split_beta accounts split: sum.split option.split)

lemma cleanup_webhook_logs_accounts [accounts]: "accounts_of (snd (cleanup_webhook_logs e d)) = accounts_of d"
  by (simp add: cleanup_webhook_logs_def Let_def split_beta accounts split: sum.split option.split)

lemma cleanup_audit_logs_accounts [accounts]: "accounts_of (snd (cleanup_audit_logs e d)) = accounts_of d"
  by (simp add: cleanup_audit_logs_def Let_def split_beta accounts split: sum.split option.split)

lemma retention_steps_accounts [accounts]: "accounts_of (snd (retention_steps e d)) = accounts_of d"
  by (simp add: retention_steps_def Let_def split_beta accounts split: sum.split option.split)

lemma run_retention_cleanup_accounts [accounts]: "accounts_of (snd (run_retention_cleanup e d)) = accounts_of d"
  by (simp add: run_retention_cleanup_def Let_def split_beta accounts split: sum.split option.split)

end
