(* ===== verification/Sessions.thy ===== *)
theory Sessions
  imports Accounts
begin

text \<open>
  \<open>core/monero_auth.py\<close>, the routes of \<open>api/routes/auth_signature.py\<close> and the dependency
  \<open>get_current_merchant\<close> of \<open>api/auth.py\<close>: login by a signed nonce, session tokens, logout, and the
  choice between session and API key. Redis is its documented behaviour: a map from keys to a
  value and the time it is dropped. The wallet's \<open>verify\<close> answers per attempt.
\<close>

section \<open>Redis keys with a time to live\<close>

type_synonym 'v kv = "string \<Rightarrow> ('v \<times> time) option"

definition kv_get :: "time \<Rightarrow> 'v kv \<Rightarrow> string \<Rightarrow> 'v option" where
  "kv_get now r k = (case r k of None \<Rightarrow> None | Some (v, expires) \<Rightarrow> if expires \<le> now then None else Some v)"

definition kv_setex :: "time \<Rightarrow> string \<Rightarrow> int \<Rightarrow> 'v \<Rightarrow> 'v kv \<Rightarrow> 'v kv" where
  "kv_setex now k ttl v r = r(k \<mapsto> (v, now + secs ttl))"

definition kv_delete :: "time \<Rightarrow> string \<Rightarrow> 'v kv \<Rightarrow> bool \<times> 'v kv" where
  "kv_delete now k r = (kv_get now r k \<noteq> None, r(k := None))"

lemma kv_get_setex: "kv_get now' (kv_setex now k ttl v r) j =
    (if j = k then (if now' < now + secs ttl then Some v else None) else kv_get now' r j)"
  by (simp add: kv_get_def kv_setex_def)

lemma kv_get_delete: "kv_get now' (snd (kv_delete now k r)) j = (if j = k then None else kv_get now' r j)"
  by (simp add: kv_get_def kv_delete_def)

section \<open>Formats\<close>

definition base58 :: "char \<Rightarrow> bool" where
  "base58 c \<longleftrightarrow> (let n = byte c in (49 \<le> n \<and> n \<le> 57) \<or> (65 \<le> n \<and> n \<le> 72) \<or> (74 \<le> n \<and> n \<le> 78) \<or>
     (80 \<le> n \<and> n \<le> 90) \<or> (97 \<le> n \<and> n \<le> 107) \<or> (109 \<le> n \<and> n \<le> 122))"

definition address_body :: "string \<Rightarrow> bool" where
  "address_body s \<longleftrightarrow> length s = 95 \<and> hd s = CHR ''4'' \<and> list_all base58 (tl s)"

definition validate_monero_address :: "string \<Rightarrow> bool" where
  "validate_monero_address address \<longleftrightarrow> address_body address \<or> address_body (chomp address)"

text \<open>\<open>SigV\<close>, digits, then letters, digits, plus, slash or equals: at least one of each.\<close>

definition signature_char :: "char \<Rightarrow> bool" where
  "signature_char c \<longleftrightarrow> b64val c \<noteq> None \<or> c = CHR ''=''"

definition signature_body :: "string \<Rightarrow> bool" where
  "signature_body s \<longleftrightarrow> startswith s ''SigV'' \<and>
     (case drop 4 s of a # b # r \<Rightarrow> 48 \<le> byte a \<and> byte a \<le> 57 \<and> list_all signature_char (b # r) | _ \<Rightarrow> False)"

definition validate_signature_format :: "string \<Rightarrow> bool" where
  "validate_signature_format sig \<longleftrightarrow> signature_body sig \<or> signature_body (chomp sig)"

section \<open>Nonces\<close>

definition nonce_ttl_seconds :: int where "nonce_ttl_seconds = 300"
definition session_ttl_seconds :: int where "session_ttl_seconds = 86400"

definition nonce_key :: "string \<Rightarrow> string" where
  "nonce_key nonce = ''ghostbill_nonce:'' @ nonce"

definition generate_nonce :: "time \<Rightarrow> nat \<Rightarrow> string \<Rightarrow> string kv \<Rightarrow> string \<times> string kv" where
  "generate_nonce now rnd address r =
     (let nonce = ''ghostbill_'' @ token_hex 16 rnd @ ''_'' @ int_str (now div 1000000)
      in (nonce, kv_setex now (nonce_key nonce) nonce_ttl_seconds address r))"

text \<open>\<open>validate_nonce\<close> reads the nonce and, if it is good, deletes it: two commands to Redis.\<close>

definition nonce_look :: "time \<Rightarrow> string kv \<Rightarrow> string \<Rightarrow> string \<Rightarrow> bool \<times> string" where
  "nonce_look now r nonce address =
     (case kv_get now r (nonce_key nonce) of
        None \<Rightarrow> (False, ''Nonce expired or already used'')
      | Some stored \<Rightarrow> if stored \<noteq> address then (False, ''Nonce not bound to this address'') else (True, []))"

definition nonce_drop :: "time \<Rightarrow> string \<Rightarrow> string kv \<Rightarrow> string kv" where
  "nonce_drop now nonce r = snd (kv_delete now (nonce_key nonce) r)"

definition validate_nonce :: "time \<Rightarrow> string \<Rightarrow> string \<Rightarrow> string kv \<Rightarrow> (bool \<times> string) \<times> string kv" where
  "validate_nonce now nonce address r =
     (case nonce_look now r nonce address of
        (False, msg) \<Rightarrow> ((False, msg), r)
      | (True, _) \<Rightarrow> ((True, []), nonce_drop now nonce r))"

definition verify_monero_signature :: "(nat \<Rightarrow> bool rpc_reply) \<Rightarrow> bool" where
  "verify_monero_signature reply = (case rpc_call ''verify'' reply of Inl x \<Rightarrow> False | Inr good \<Rightarrow> good)"

section \<open>Sessions\<close>

definition session_token_prefix :: string where "session_token_prefix = ''gbs_''"

definition session_key :: "string \<Rightarrow> string" where
  "session_key token = ''ghostbill_session:'' @ token"

definition create_session :: "time \<Rightarrow> nat \<Rightarrow> string \<Rightarrow> string kv \<Rightarrow> string \<times> string kv" where
  "create_session now rnd merchant_id r =
     (let token = session_token_prefix @ token_hex 32 rnd
      in (token, kv_setex now (session_key token) session_ttl_seconds merchant_id r))"

definition validate_session :: "time \<Rightarrow> string kv \<Rightarrow> string \<Rightarrow> string option" where
  "validate_session now r token =
     (if \<not> startswith token session_token_prefix then None else kv_get now r (session_key token))"

definition revoke_session :: "time \<Rightarrow> string \<Rightarrow> string kv \<Rightarrow> bool \<times> string kv" where
  "revoke_session now token r = kv_delete now (session_key token) r"

section \<open>The login routes\<close>

definition merchant_by_address :: "string \<Rightarrow> db \<Rightarrow> exc + merchant option" where
  "merchant_by_address address d =
     scalar_one_or_none (filter (\<lambda>m. mer_address m = address \<and> mer_active m) (db_merchants d))"

definition request_nonce :: "time \<Rightarrow> nat \<Rightarrow> string \<Rightarrow> db \<Rightarrow> string kv \<Rightarrow> (exc + string) \<times> string kv" where
  "request_nonce now rnd address d r =
     (if \<not> validate_monero_address address then (Inl (HTTPException 400), r)
      else case merchant_by_address address d of
        Inl x \<Rightarrow> (Inl x, r)
      | Inr None \<Rightarrow> (Inl (HTTPException 400), r)
      | Inr (Some m) \<Rightarrow> (case generate_nonce now rnd address r of (nonce, r1) \<Rightarrow> (Inr nonce, r1)))"

text \<open>What follows the nonce check of \<open>POST /v1/auth/verify\<close>.\<close>

definition finish_login :: "time \<Rightarrow> nat \<Rightarrow> string \<Rightarrow> (nat \<Rightarrow> bool rpc_reply) \<Rightarrow> db \<Rightarrow> string kv \<Rightarrow> (exc + string \<times> uuid) \<times> string kv" where
  "finish_login now rnd address reply d r =
     (if \<not> verify_monero_signature reply then (Inl (HTTPException 401), r)
      else case merchant_by_address address d of
        Inl x \<Rightarrow> (Inl x, r)
      | Inr None \<Rightarrow> (Inl (HTTPException 401), r)
      | Inr (Some m) \<Rightarrow>
          (case create_session now rnd (uuid_str (mer_id m)) r of (token, r1) \<Rightarrow> (Inr (token, mer_id m), r1)))"

text \<open>The wallet is asked about the address, the nonce and the signature of the request.\<close>

definition login ::
    "time \<Rightarrow> nat \<Rightarrow> (string \<Rightarrow> string \<Rightarrow> string \<Rightarrow> nat \<Rightarrow> bool rpc_reply) \<Rightarrow> string \<Rightarrow> string \<Rightarrow> string \<Rightarrow> db \<Rightarrow> string kv
      \<Rightarrow> (exc + string \<times> uuid) \<times> string kv" where
  "login now rnd wallet address nonce sig d r =
     (if \<not> validate_monero_address address then (Inl (HTTPException 400), r)
      else if \<not> validate_signature_format sig then (Inl (HTTPException 400), r)
      else case validate_nonce now nonce address r of
        ((False, _), r1) \<Rightarrow> (Inl (HTTPException 401), r1)
      | ((True, _), r1) \<Rightarrow> finish_login now rnd address (wallet address nonce sig) d r1)"

definition logout :: "time \<Rightarrow> string \<Rightarrow> string kv \<Rightarrow> bool \<times> string kv" where
  "logout now token r = revoke_session now token r"

section \<open>Authentication\<close>

definition auth_via_session :: "time \<Rightarrow> string kv \<Rightarrow> string \<Rightarrow> merchant op" where
  "auth_via_session now r token d =
     (case validate_session now r token of
        None \<Rightarrow> (Inl (HTTPException 401), d)
      | Some text \<Rightarrow> (case uuid_parse text of
            None \<Rightarrow> (Inl (HTTPException 401), d)
          | Some mid \<Rightarrow> (case active_merchant mid d of
                None \<Rightarrow> (Inl (HTTPException 401), d)
              | Some m \<Rightarrow> (Inr m, d))))"

definition get_current_merchant :: "env \<Rightarrow> bcrypt \<Rightarrow> string kv \<Rightarrow> string option \<Rightarrow> merchant op" where
  "get_current_merchant e B r authorization d =
     (case parse_bearer_token authorization of
        None \<Rightarrow> (Inl (HTTPException 401), d)
      | Some token \<Rightarrow>
          if startswith token session_token_prefix then auth_via_session (env_now e) r token d
          else auth_via_api_key e B token d)"

section \<open>Requests that share a nonce\<close>

text \<open>
  Several \<open>verify\<close> requests carry the same nonce and address. Each reads the nonce and later, when
  it was good, deletes it; the commands of different requests may alternate. The third component
  lists the requests whose nonce check has passed.
\<close>

datatype nonce_step = NonceGet nat | NonceDel nat

fun nonce_run :: "time \<Rightarrow> string \<Rightarrow> string \<Rightarrow> nonce_step list \<Rightarrow> string kv \<Rightarrow> nat list \<Rightarrow> nat list \<Rightarrow> string kv \<times> nat list" where
  "nonce_run now nonce address [] r seen passed = (r, passed)"
| "nonce_run now nonce address (NonceGet i # ss) r seen passed =
     nonce_run now nonce address ss r (if fst (nonce_look now r nonce address) then i # seen else seen) passed"
| "nonce_run now nonce address (NonceDel i # ss) r seen passed =
     (if i \<in> set seen then nonce_run now nonce address ss (nonce_drop now nonce r) seen (passed @ [i])
      else nonce_run now nonce address ss r seen passed)"

definition one_by_one :: "nat list \<Rightarrow> nonce_step list" where
  "one_by_one is = concat (map (\<lambda>i. [NonceGet i, NonceDel i]) is)"

end
