(* ===== verification/Account_Laws.thy ===== *)
theory Account_Laws
  imports Sessions
begin

text \<open>
  Laws of credentials: the form of a generated key, which tokens authentication by API key accepts,
  what creating and revoking keys does to the set of active keys, and how nonces and sessions
  behave over time.
\<close>

section \<open>Tokens\<close>

lemma hexdigit_not_space: "n < 16 \<Longrightarrow> \<not> is_space (hexdigit n)"
  by (auto simp: is_space_def hexdigit_def Let_def of_char_of)

lemma hexn_not_space: "c \<in> set (hexn k n) \<Longrightarrow> \<not> is_space c"
  using hexn_chars hexdigit_not_space by blast

lemma strip_plain: "\<forall>c \<in> set s. \<not> is_space c \<Longrightarrow> strip s = s"
  by (simp add: strip_def strip_chars_none)

lemma bearer_token:
  assumes "\<forall>c \<in> set k. \<not> is_space c" and "k \<noteq> []"
  shows "parse_bearer_token (Some (''Bearer '' @ k)) = Some k"
proof -
  have "split_max 1 (CHR '' '') (''Bearer'' @ CHR '' '' # k) = ''Bearer'' # split_max 0 (CHR '' '') k"
    unfolding One_nat_def by (rule split_max_Suc) simp
  then have "split_max 1 (CHR '' '') (''Bearer '' @ k) = [''Bearer'', k]" by simp
  moreover have "lower ''Bearer'' = ''bearer''" by code_simp
  ultimately show ?thesis using assms strip_plain[of k] by (simp add: parse_bearer_token_def)
qed

lemma generate_api_key_form:
  assumes "generate_api_key env rnd = Inr k"
  shows "length k = 72" and "\<forall>c \<in> set k. \<not> is_space c" and "k \<noteq> []" and "\<not> startswith k session_token_prefix"
proof -
  have k: "k = environment_prefix env @ hexn 64 rnd" and env: "env = ''live'' \<or> env = ''test''"
    using assms by (auto simp: generate_api_key_def token_hex_def api_key_hex_length_def split: if_splits)
  show "length k = 72" using env by (auto simp: k environment_prefix_def)
  have "\<forall>c \<in> set (environment_prefix env). \<not> is_space c"
    using env by (auto simp: environment_prefix_def is_space_def)
  then show "\<forall>c \<in> set k. \<not> is_space c" using hexn_not_space by (auto simp: k)
  show "k \<noteq> []" using env by (auto simp: k environment_prefix_def)
  show "\<not> startswith k session_token_prefix"
    using env by (auto simp: k environment_prefix_def startswith_def session_token_prefix_def)
qed

section \<open>Which tokens an API key accepts\<close>

text \<open>The row of a key holds a hash of the text \<open>p\<close>, which is at most 72 bytes long.\<close>

definition key_made :: "bcrypt \<Rightarrow> string \<Rightarrow> api_key \<Rightarrow> bool" where
  "key_made B p k \<longleftrightarrow> length p \<le> 72 \<and> key_prefix k = take key_prefix_length p \<and> (\<exists>s. key_hash k = bc_hashpw B p s)"

definition keys_hashed :: "bcrypt \<Rightarrow> db \<Rightarrow> bool" where
  "keys_hashed B d \<longleftrightarrow> (\<forall>k \<in> set (db_api_keys d). \<exists>p. key_made B p k)"

lemma verify_made:
  assumes "bcrypt_laws B" and "key_made B p k" and "length q \<le> 72"
  shows "verify_api_key B q (key_hash k) = Inr (q = p)"
  using assms by (auto simp: verify_api_key_def key_made_def bcrypt_laws_def)

lemma key_made_unique:
  assumes "bcrypt_laws B" and "key_made B p k" and "key_made B q k"
  shows "p = q"
proof -
  have "Inr (q = p) = (Inr True :: exc + bool)"
    using verify_made[OF assms(1,2), of q] verify_made[OF assms(1,3), of q] assms(3) by (simp add: key_made_def)
  then show ?thesis by simp
qed

lemma first_match_made:
  assumes "bcrypt_laws B" and "\<forall>k \<in> set ks. \<exists>p. key_made B p k" and "length q \<le> 72"
  shows "first_match B q ks = Inr (find (key_made B q) ks)"
  using assms(2)
proof (induction ks)
  case (Cons k ks)
  then obtain p where p: "key_made B p k" by auto
  have "key_made B q k \<longleftrightarrow> q = p" using p key_made_unique[OF assms(1)] by blast
  with Cons verify_made[OF assms(1) p assms(3)] show ?case by (auto split: bool.splits)
qed simp

text \<open>The key that a token unlocks, if any: an active row made from it.\<close>

definition unlocked :: "bcrypt \<Rightarrow> string \<Rightarrow> db \<Rightarrow> api_key option" where
  "unlocked B q d = find (\<lambda>k. key_active k \<and> key_made B q k) (db_api_keys d)"

lemma find_filter: "find P (filter Q xs) = find (\<lambda>x. Q x \<and> P x) xs"
  by (induction xs) auto

lemma auth_unlocks:
  assumes "bcrypt_laws B" and "keys_hashed B d" and "length q \<le> 72"
  shows "auth_via_api_key e B q d =
    (case unlocked B q d of
       None \<Rightarrow> (Inl (HTTPException 401), d)
     | Some k \<Rightarrow> (case active_merchant (key_merchant k) d of
           None \<Rightarrow> (Inl (HTTPException 401), d)
         | Some m \<Rightarrow> (Inr m, modify_api_key (key_id k) (\<lambda>r. r\<lparr>key_last_used_at := Some (env_now e)\<rparr>) d)))"
proof -
  have "first_match B q (candidate_keys q d) = Inr (find (key_made B q) (candidate_keys q d))"
    using assms(2) by (intro first_match_made assms(1,3)) (simp add: keys_hashed_def candidate_keys_def)
  also have "find (key_made B q) (candidate_keys q d) = unlocked B q d"
    unfolding candidate_keys_def unlocked_def find_filter by (rule arg_cong[where f = "\<lambda>P. find P _"]) (auto simp: key_made_def)
  finally show ?thesis by (simp add: auth_via_api_key_def split: option.split)
qed

section \<open>Creating and revoking keys\<close>

lemma create_api_key_run:
  assumes "create_api_key e B rnd salt m label env d = (Inr (i, plain), d')"
  obtains k where "i = db_next_id d" and "key_id k = i" and "key_merchant k = mer_id m" and "key_active k"
    and "key_hash k = bc_hashpw B plain salt" and "key_prefix k = take key_prefix_length plain"
    and "db_api_keys d' = db_api_keys d @ [k]" and "db_merchants d' = db_merchants d"
    and "generate_api_key env rnd = Inr plain" and "length (active_keys (mer_id m) d) < max_active_keys"
proof -
  have less: "length (active_keys (mer_id m) d) < max_active_keys"
    using assms by (simp add: create_api_key_def split: if_splits)
  obtain k0 where g: "generate_api_key env rnd = Inr k0"
    using assms less by (cases "generate_api_key env rnd") (simp_all add: create_api_key_def)
  have h: "hash_api_key B salt k0 = Inr (bc_hashpw B k0 salt)"
    using generate_api_key_form(1)[OF g] by (simp add: hash_api_key_def)
  have run: "k0 = plain" "i = db_next_id d"
      "d' = add_audit (key_created_audit e (mer_id m) (take key_prefix_length plain) env label)
         (add_api_key (new_api_key e i (mer_id m) (bc_hashpw B plain salt) plain label env) (tick_id d))"
    using assms less g h by (auto simp: create_api_key_def Let_def new_api_key_def)
  show ?thesis
    by (rule that[of "new_api_key e i (mer_id m) (bc_hashpw B plain salt) plain label env"])
      (use run g less in \<open>simp_all add: new_api_key_def add_audit_def add_api_key_def\<close>)
qed

lemma keys_hashed_create:
  assumes "keys_hashed B d" and "create_api_key e B rnd salt m label env d = (Inr (i, plain), d')"
  shows "keys_hashed B d'"
proof (rule create_api_key_run[OF assms(2)])
  fix k
  assume k: "key_hash k = bc_hashpw B plain salt" "key_prefix k = take key_prefix_length plain"
      "db_api_keys d' = db_api_keys d @ [k]" "generate_api_key env rnd = Inr plain"
  then have "key_made B plain k" using generate_api_key_form(1)[OF k(4)] by (auto simp: key_made_def)
  then show ?thesis using assms(1) k(3) by (auto simp: keys_hashed_def)
qed

text \<open>A fresh key unlocks its own row; a revoked one unlocks nothing.\<close>

lemma unlocked_created:
  assumes "create_api_key e B rnd salt m label env d = (Inr (i, plain), d')"
    and "\<forall>k \<in> set (db_api_keys d). \<not> key_made B plain k"
  shows "\<exists>k. unlocked B plain d' = Some k \<and> key_id k = i \<and> key_merchant k = mer_id m"
proof (rule create_api_key_run[OF assms(1)])
  fix k
  assume k: "key_id k = i" "key_merchant k = mer_id m" "key_active k" "key_hash k = bc_hashpw B plain salt"
      "key_prefix k = take key_prefix_length plain" "db_api_keys d' = db_api_keys d @ [k]"
      "generate_api_key env rnd = Inr plain"
  have "key_made B plain k" using k(4,5) generate_api_key_form(1)[OF k(7)] by (auto simp: key_made_def)
  moreover have "find (\<lambda>k. key_active k \<and> key_made B plain k) (db_api_keys d) = None"
    using assms(2) by (auto simp: find_None_iff)
  moreover have "find P (xs @ [y]) = (case find P xs of None \<Rightarrow> if P y then Some y else None | Some x \<Rightarrow> Some x)" for P xs
      and y :: api_key by (induction xs) auto
  ultimately show ?thesis using k by (simp add: unlocked_def)
qed

lemma revoke_api_key_run:
  assumes "revoke_api_key e m key_text d = (Inr x, d')"
  obtains kid k where "uuid_parse key_text = Some kid" and "find_api_key kid d = Some k" and "key_merchant k = mer_id m"
    and "filter (\<lambda>q. key_id q \<noteq> kid) (active_keys (mer_id m) d) \<noteq> []"
    and "db_api_keys d' = upd_row key_id kid (\<lambda>q. q\<lparr>key_active := False\<rparr>) (db_api_keys d)"
    and "db_merchants d' = db_merchants d"
proof -
  obtain kid where kid: "uuid_parse key_text = Some kid"
    using assms by (cases "uuid_parse key_text") (simp_all add: revoke_api_key_def)
  obtain k where k: "find_api_key kid d = Some k"
    using assms kid by (cases "find_api_key kid d") (simp_all add: revoke_api_key_def)
  show ?thesis
    by (rule that[OF kid k]) (use assms kid k in \<open>auto simp: revoke_api_key_def modify_api_key_def split: if_split_asm\<close>)
qed

lemma active_keys_upd:
  "filter (\<lambda>k. key_merchant k = mid \<and> key_active k) (upd_row key_id kid (\<lambda>q. q\<lparr>key_active := False\<rparr>) ks) =
     filter (\<lambda>q. key_id q \<noteq> kid) (filter (\<lambda>k. key_merchant k = mid \<and> key_active k) ks)"
  by (induction ks) (auto simp: upd_row_def)

lemma active_keys_revoked:
  assumes "revoke_api_key e m key_text d = (Inr x, d')"
  shows "length (active_keys mid d') \<le> length (active_keys mid d)"
    and "active_keys (mer_id m) d' \<noteq> []"
proof -
  have *: "length (active_keys mid d') \<le> length (active_keys mid d) \<and> active_keys (mer_id m) d' \<noteq> []"
    by (rule revoke_api_key_run[OF assms]) (simp add: active_keys_def active_keys_upd length_filter_le del: filter_filter)
  then show "length (active_keys mid d') \<le> length (active_keys mid d)" "active_keys (mer_id m) d' \<noteq> []" by simp_all
qed

lemma unlocked_revoked:
  assumes "bcrypt_laws B" and "keys_hashed B d" and "unlocked B q d = Some k"
    and "distinct (map key_id (db_api_keys d))" and "\<forall>r \<in> set (db_api_keys d). key_made B q r \<longrightarrow> key_id r = key_id k"
    and "db_api_keys d' = upd_row key_id (key_id k) (\<lambda>q. q\<lparr>key_active := False\<rparr>) (db_api_keys d)"
  shows "unlocked B q d' = None"
  using assms(5,6) by (auto simp: unlocked_def find_None_iff upd_row_def key_made_def)

lemma active_keys_created:
  assumes "create_api_key e B rnd salt m label env d = (Inr x, d')"
  shows "length (active_keys mid d') =
    length (active_keys mid d) + (if mid = mer_id m \<and> length (active_keys mid d) < max_active_keys then 1 else 0)"
  and "mid \<noteq> mer_id m \<or> length (active_keys mid d) < max_active_keys"
proof -
  obtain i plain where x: "x = (i, plain)" by (cases x)
  have *: "length (active_keys mid d') =
      length (active_keys mid d) + (if mid = mer_id m \<and> length (active_keys mid d) < max_active_keys then 1 else 0) \<and>
    (mid \<noteq> mer_id m \<or> length (active_keys mid d) < max_active_keys)"
    by (rule create_api_key_run[OF assms[unfolded x]]) (auto simp: active_keys_def)
  then show "length (active_keys mid d') =
      length (active_keys mid d) + (if mid = mer_id m \<and> length (active_keys mid d) < max_active_keys then 1 else 0)"
    and "mid \<noteq> mer_id m \<or> length (active_keys mid d) < max_active_keys" by simp_all
qed

section \<open>Nonces\<close>

lemma nonce_look_drop: "fst (nonce_look t (nonce_drop now nonce r) nonce address) = False"
  by (simp add: nonce_look_def nonce_drop_def kv_get_delete)

lemma nonce_run_spent:
  assumes "\<not> fst (nonce_look now r nonce address)" and "set is \<inter> set seen = {}"
  shows "nonce_run now nonce address (one_by_one is) r seen passed = (r, passed)"
  using assms(2)
proof (induction "is")
  case (Cons i "is")
  then show ?case using assms(1) by (simp add: one_by_one_def)
qed (simp add: one_by_one_def)

lemma nonce_run_first:
  assumes "fst (nonce_look now r nonce address)" and "distinct (i # is)"
  shows "nonce_run now nonce address (one_by_one (i # is)) r [] [] = (nonce_drop now nonce r, [i])"
proof -
  have "nonce_run now nonce address (one_by_one (i # is)) r [] [] =
      nonce_run now nonce address (one_by_one is) (nonce_drop now nonce r) [i] [i]"
    using assms(1) by (simp add: one_by_one_def)
  also have "\<dots> = (nonce_drop now nonce r, [i])"
    by (rule nonce_run_spent) (use assms(2) nonce_look_drop in auto)
  finally show ?thesis .
qed

section \<open>Logins and sessions\<close>

lemma login_run:
  assumes "login now rnd wallet address nonce sig d r = (Inr (token, mid), r')"
  obtains m where "merchant_by_address address d = Inr (Some m)" and "mer_id m = mid"
    and "kv_get now r (nonce_key nonce) = Some address"
    and "verify_monero_signature (wallet address nonce sig)"
    and "token = session_token_prefix @ token_hex 32 rnd"
    and "r' = kv_setex now (session_key token) session_ttl_seconds (uuid_str mid) (nonce_drop now nonce r)"
proof -
  have ok: "kv_get now r (nonce_key nonce) = Some address"
    using assms by (auto simp: login_def validate_nonce_def nonce_look_def split: if_splits option.splits)
  then have "finish_login now rnd address (wallet address nonce sig) d (nonce_drop now nonce r) = (Inr (token, mid), r')"
    using assms by (simp add: login_def validate_nonce_def nonce_look_def split: if_splits)
  then show ?thesis
    using that ok by (auto simp: finish_login_def create_session_def Let_def split: if_splits sum.splits option.splits)
qed

lemma merchant_by_address_Some:
  "merchant_by_address a d = Inr (Some m) \<Longrightarrow> m \<in> set (db_merchants d) \<and> mer_address m = a \<and> mer_active m"
  by (auto simp: merchant_by_address_def scalar_one_or_none_Some dest!: arg_cong[where f = set] simp del: filter_set)

lemma session_bearer:
  "parse_bearer_token (Some (''Bearer '' @ session_token_prefix @ token_hex 32 rnd)) =
     Some (session_token_prefix @ token_hex 32 rnd)"
proof (rule bearer_token)
  show "\<forall>c \<in> set (session_token_prefix @ token_hex 32 rnd). \<not> is_space c"
    using hexn_not_space by (auto simp: session_token_prefix_def token_hex_def is_space_def)
qed (simp add: session_token_prefix_def)

lemma session_auth:
  assumes "token = session_token_prefix @ token_hex 32 rnd"
    and "kv_get (env_now e) r (session_key token) = (if live then Some (uuid_str mid) else None)" and "mid < 2 ^ 128"
  shows "get_current_merchant e B r (Some (''Bearer '' @ token)) d =
    (case (if live then active_merchant mid d else None) of None \<Rightarrow> (Inl (HTTPException 401), d) | Some m \<Rightarrow> (Inr m, d))"
  using session_bearer[of rnd] assms(2,3)
  by (auto simp: get_current_merchant_def assms(1) auth_via_session_def validate_session_def uuid_roundtrip split: option.split)

end
