(* ===== verification/Customer_Service.thy ===== *)
theory Customer_Service
  imports Invoice_Service Validators
begin

text \<open>
  \<open>services/customer_service.py\<close> and the transactions of \<open>api/routes/customers.py\<close>: customers of a
  merchant, with an external id that is unique per merchant.
\<close>

section \<open>The service\<close>

definition customers_with :: "uuid \<Rightarrow> string \<Rightarrow> db \<Rightarrow> customer list" where
  "customers_with merchant_id x d =
     filter (\<lambda>c. cus_merchant c = merchant_id \<and> cus_external_id c = Some x) (db_customers d)"

definition validate_email :: "string option \<Rightarrow> exc option" where
  "validate_email email = (if email_option_ok email then None else Some CustomerValidationError)"

definition new_customer ::
    "env \<Rightarrow> uuid \<Rightarrow> uuid \<Rightarrow> string option \<Rightarrow> string option \<Rightarrow> json option \<Rightarrow> customer" where
  "new_customer e i merchant_id external_id email metadata =
     \<lparr>cus_id = i, cus_merchant = merchant_id, cus_external_id = external_id, cus_email = email,
      cus_metadata = metadata, cus_created_at = env_now e\<rparr>"

text \<open>The check of the external id: the error, if the id is taken.\<close>

definition external_id_taken :: "(customer list) \<Rightarrow> exc option" where
  "external_id_taken rows = (case scalar_one_or_none rows of
      Inl x \<Rightarrow> Some x | Inr None \<Rightarrow> None | Inr (Some c) \<Rightarrow> Some CustomerConflictError)"

definition create_customer ::
    "env \<Rightarrow> uuid \<Rightarrow> string option \<Rightarrow> string option \<Rightarrow> json option \<Rightarrow> uuid op" where
  "create_customer e merchant_id external_id email metadata d =
     (case validate_email email of
        Some x \<Rightarrow> (Inl x, d)
      | None \<Rightarrow>
     (case (case external_id of None \<Rightarrow> None | Some x \<Rightarrow> external_id_taken (customers_with merchant_id x d)) of
        Some x \<Rightarrow> (Inl x, d)
      | None \<Rightarrow> (Inr (db_next_id d),
          add_customer (new_customer e (db_next_id d) merchant_id external_id email metadata) (tick_id d))))"

definition get_customer :: "uuid \<Rightarrow> uuid \<Rightarrow> customer op" where
  "get_customer merchant_id customer_id d =
     (case find_customer customer_id d of
        None \<Rightarrow> (Inl CustomerNotFoundError, d)
      | Some c \<Rightarrow> if cus_merchant c = merchant_id then (Inr c, d) else (Inl CustomerNotFoundError, d))"

definition list_customers :: "uuid \<Rightarrow> int \<Rightarrow> int \<Rightarrow> (customer list \<times> nat) op" where
  "list_customers merchant_id limit offset d =
     (let rows = filter (\<lambda>c. cus_merchant c = merchant_id) (db_customers d)
      in (Inr (page (nat (max 0 offset)) (nat (max 1 (min limit 100))) (order_desc cus_created_at rows), length rows), d))"

text \<open>A field of a PATCH: outer None when it was not provided.\<close>

record customer_patch =
  cp_external_id :: "string option option"
  cp_email :: "string option option"
  cp_metadata :: "json option option"

definition patch_email :: "uuid \<Rightarrow> string option option \<Rightarrow> unit op" where
  "patch_email customer_id email d =
     (case email of
        None \<Rightarrow> (Inr (), d)
      | Some v \<Rightarrow> (case validate_email v of
            Some x \<Rightarrow> (Inl x, d)
          | None \<Rightarrow> (Inr (), modify_customer customer_id (\<lambda>c. c\<lparr>cus_email := v\<rparr>) d)))"

definition patch_external_id :: "uuid \<Rightarrow> uuid \<Rightarrow> string option \<Rightarrow> string option option \<Rightarrow> unit op" where
  "patch_external_id merchant_id customer_id current external_id d =
     (case external_id of
        None \<Rightarrow> (Inr (), d)
      | Some v \<Rightarrow>
          (case (if v \<noteq> None \<and> v \<noteq> current
                 then external_id_taken (filter (\<lambda>c. cus_id c \<noteq> customer_id) (customers_with merchant_id (the v) d))
                 else None) of
             Some x \<Rightarrow> (Inl x, d)
           | None \<Rightarrow> (Inr (), modify_customer customer_id (\<lambda>c. c\<lparr>cus_external_id := v\<rparr>) d)))"

definition patch_customer_metadata :: "uuid \<Rightarrow> json option option \<Rightarrow> db \<Rightarrow> db" where
  "patch_customer_metadata customer_id metadata d =
     (case metadata of None \<Rightarrow> d | Some v \<Rightarrow> modify_customer customer_id (\<lambda>c. c\<lparr>cus_metadata := v\<rparr>) d)"

definition update_customer :: "uuid \<Rightarrow> uuid \<Rightarrow> customer_patch \<Rightarrow> uuid op" where
  "update_customer merchant_id customer_id p d =
     (case get_customer merchant_id customer_id d of
        (Inl x, d1) \<Rightarrow> (Inl x, d1)
      | (Inr c, d1) \<Rightarrow>
     (case patch_email customer_id (cp_email p) d1 of
        (Inl x, d2) \<Rightarrow> (Inl x, d2)
      | (Inr _, d2) \<Rightarrow>
     (case patch_external_id merchant_id customer_id (cus_external_id c) (cp_external_id p) d2 of
        (Inl x, d3) \<Rightarrow> (Inl x, d3)
      | (Inr _, d3) \<Rightarrow> (Inr customer_id, patch_customer_metadata customer_id (cp_metadata p) d3))))"

section \<open>The routes\<close>

text \<open>The request schema; a violation is answered with status 422.\<close>

definition customer_fields_ok :: "string option \<Rightarrow> string option \<Rightarrow> json option \<Rightarrow> bool" where
  "customer_fields_ok external_id email metadata \<longleftrightarrow>
     (case external_id of None \<Rightarrow> True | Some s \<Rightarrow> length s \<le> 255) \<and>
     (case email of None \<Rightarrow> True | Some s \<Rightarrow> length s \<le> 255 \<and> email_ok s) \<and>
     (case metadata of None \<Rightarrow> True | Some j \<Rightarrow> metadata_ok 0 j)"

fun customer_http_error :: "exc \<Rightarrow> exc" where
  "customer_http_error CustomerNotFoundError = HTTPException 404"
| "customer_http_error CustomerValidationError = HTTPException 400"
| "customer_http_error CustomerConflictError = HTTPException 409"
| "customer_http_error x = x"

definition route_create_customer ::
    "env \<Rightarrow> merchant \<Rightarrow> string option \<Rightarrow> string option \<Rightarrow> json option \<Rightarrow> uuid op" where
  "route_create_customer e m external_id email metadata d =
     (if \<not> customer_fields_ok external_id email metadata then (Inl (HTTPException 422), d)
      else in_transaction (map_error customer_http_error (create_customer e (mer_id m) external_id email metadata)) d)"

definition route_update_customer :: "merchant \<Rightarrow> uuid \<Rightarrow> customer_patch \<Rightarrow> uuid op" where
  "route_update_customer m customer_id p d =
     (if \<not> customer_fields_ok (Option.bind (cp_external_id p) id) (Option.bind (cp_email p) id)
              (Option.bind (cp_metadata p) id) then (Inl (HTTPException 422), d)
      else if cp_external_id p = None \<and> cp_email p = None \<and> cp_metadata p = None then (Inl (HTTPException 400), d)
      else in_transaction (map_error customer_http_error (update_customer (mer_id m) customer_id p)) d)"

definition customer_to_response :: "customer \<Rightarrow> json" where
  "customer_to_response c = JObj [(''id'', JStr (uuid_str (cus_id c))), (''merchant_id'', JStr (uuid_str (cus_merchant c))),
     (''external_id'', jopt JStr (cus_external_id c)), (''email'', jopt JStr (cus_email c)),
     (''metadata'', jopt id (cus_metadata c)), (''created_at'', JStr (isoformat (cus_created_at c)))]"

section \<open>The external id is a key\<close>

definition ext_key :: "customer \<Rightarrow> (uuid \<times> string) option" where
  "ext_key c = map_option (\<lambda>x. (cus_merchant c, x)) (cus_external_id c)"

definition ext_unique :: "db \<Rightarrow> bool" where
  "ext_unique d \<longleftrightarrow> distinct (map cus_id (db_customers d)) \<and>
     (\<forall>a \<in> set (db_customers d). \<forall>b \<in> set (db_customers d). ext_key a \<noteq> None \<longrightarrow> ext_key a = ext_key b \<longrightarrow> a = b)"

lemma external_id_free: "external_id_taken rows = None \<longleftrightarrow> rows = []"
  by (cases rows rule: scalar_one_or_none.cases) (simp_all add: external_id_taken_def)

lemma customers_with_key: "c \<in> set (customers_with mid x d) \<longleftrightarrow> c \<in> set (db_customers d) \<and> ext_key c = Some (mid, x)"
  by (auto simp: customers_with_def ext_key_def)

text \<open>Under uniqueness a lookup never finds two rows, so the check never raises \<open>MultipleResultsFound\<close>.\<close>

lemma customers_with_short:
  assumes "ext_unique d"
  shows "length (customers_with mid x d) \<le> 1"
proof (rule ccontr)
  assume "\<not> length (customers_with mid x d) \<le> 1"
  then obtain a b rest where ab: "customers_with mid x d = a # b # rest"
    by (cases "customers_with mid x d" rule: scalar_one_or_none.cases) simp_all
  have "distinct (db_customers d)" using assms by (simp add: ext_unique_def distinct_map)
  then have "a \<noteq> b" using ab unfolding customers_with_def by (metis distinct_filter distinct_length_2_or_more)
  moreover have "a \<in> set (customers_with mid x d)" "b \<in> set (customers_with mid x d)" using ab by simp_all
  ultimately show False using assms unfolding customers_with_key ext_unique_def by (metis option.distinct(1))
qed

lemma create_customer_run:
  assumes "create_customer e mid ext email meta d = (Inr i, d')"
  shows "i = db_next_id d" and "d' = add_customer (new_customer e i mid ext email meta) (tick_id d)"
    and "\<And>x. ext = Some x \<Longrightarrow> customers_with mid x d = []"
  using assms by (auto simp: create_customer_def external_id_free split: option.splits)

lemma ext_unique_create:
  assumes "ext_unique d" and "create_customer e mid ext email meta d = (Inr i, d')"
    and "\<forall>c \<in> set (db_customers d). cus_id c < db_next_id d"
  shows "ext_unique d'"
proof -
  note run = create_customer_run[OF assms(2)]
  let ?c = "new_customer e i mid ext email meta"
  have rows: "db_customers d' = db_customers d @ [?c]" by (simp add: run(2) add_customer_def)
  have fresh: "ext_key c \<noteq> ext_key ?c" if c: "c \<in> set (db_customers d)" and key: "ext_key ?c \<noteq> None" for c
  proof
    assume eq: "ext_key c = ext_key ?c"
    obtain x where x: "ext = Some x" using key by (auto simp: ext_key_def new_customer_def)
    then have "c \<in> set (customers_with mid x d)" using c eq by (simp add: customers_with_key ext_key_def new_customer_def)
    then show False using run(3)[OF x] by simp
  qed
  show ?thesis using assms(1,3) fresh by (auto simp: ext_unique_def rows new_customer_def run(1) dest: sym)
qed

lemma ext_unique_cong:
  assumes "ext_unique d" and "db_customers d' = upd_row cus_id i f (db_customers d)"
    and "\<And>c. cus_id (f c) = cus_id c" and "\<And>c. ext_key (f c) = ext_key c"
  shows "ext_unique d'"
proof -
  let ?g = "\<lambda>c. if cus_id c = i then f c else c"
  have key: "ext_key (?g c) = ext_key c" for c using assms(4) by simp
  have rows: "db_customers d' = map ?g (db_customers d)" unfolding assms(2) upd_row_def by simp
  have "map cus_id (db_customers d') = map cus_id (db_customers d)"
    unfolding assms(2) using assms(3) by (rule upd_row_keys)
  moreover have "a' = b'"
    if a': "a' \<in> set (db_customers d')" and b': "b' \<in> set (db_customers d')"
      and k: "ext_key a' \<noteq> None" "ext_key a' = ext_key b'" for a' b'
  proof -
    obtain a where a: "a \<in> set (db_customers d)" "a' = ?g a" using a' unfolding rows by auto
    obtain b where b: "b \<in> set (db_customers d)" "b' = ?g b" using b' unfolding rows by auto
    have "ext_key a \<noteq> None" "ext_key a = ext_key b" using k unfolding a(2) b(2) key by simp_all
    then have "a = b" using assms(1) a(1) b(1) unfolding ext_unique_def by blast
    then show ?thesis using a(2) b(2) by simp
  qed
  ultimately show ?thesis using assms(1) unfolding ext_unique_def by metis
qed

lemma customer_row_unique:
  assumes "ext_unique d" and "find_customer i d = Some c" and "a \<in> set (db_customers d)" and "cus_id a = i"
  shows "a = c"
  using assms get_row_distinct[of cus_id "db_customers d" a] by (simp add: ext_unique_def find_customer_def)

lemma ext_unique_rekey:
  assumes uq: "ext_unique d" and c: "find_customer i d = Some c" and id_kept: "\<And>c. cus_id (f c) = cus_id c"
    and fresh: "\<And>b. b \<in> set (db_customers d) \<Longrightarrow> cus_id b \<noteq> i \<Longrightarrow> ext_key (f c) \<noteq> None \<Longrightarrow> ext_key b \<noteq> ext_key (f c)"
  shows "ext_unique (modify_customer i f d)"
proof -
  let ?g = "\<lambda>c. if cus_id c = i then f c else c"
  have rows: "db_customers (modify_customer i f d) = map ?g (db_customers d)"
    by (simp add: modify_customer_def upd_row_def)
  have ids: "map cus_id (map ?g (db_customers d)) = map cus_id (db_customers d)" using id_kept by simp
  have inj: "a' = b'"
    if a': "a' \<in> ?g ` set (db_customers d)" and b': "b' \<in> ?g ` set (db_customers d)"
      and k: "ext_key a' \<noteq> None" "ext_key a' = ext_key b'" for a' b'
  proof -
    obtain a where a: "a \<in> set (db_customers d)" "a' = ?g a" using a' by blast
    obtain b where b: "b \<in> set (db_customers d)" "b' = ?g b" using b' by blast
    have row: "x = c" if "x \<in> set (db_customers d)" "cus_id x = i" for x
      using customer_row_unique[OF uq c that] .
    show ?thesis
    proof (cases "cus_id a = i \<longleftrightarrow> cus_id b = i")
      case True
      then show ?thesis
      proof (cases "cus_id a = i")
        case False
        then have "a' = a" "b' = b" using a b True by simp_all
        then show ?thesis using uq a(1) b(1) k unfolding ext_unique_def by blast
      qed (use a b row True in auto)
    next
      case False
      have clash: False if x: "x \<in> set (db_customers d)" "cus_id x = i" and y: "y \<in> set (db_customers d)" "cus_id y \<noteq> i"
        and key: "ext_key (f x) \<noteq> None" "ext_key (f x) = ext_key y" for x y
        using fresh[OF y] key row[OF x] by simp
      show ?thesis
      proof (cases "cus_id a = i")
        case True
        then have b_id: "cus_id b \<noteq> i" using False by simp
        have "a' = f a" "b' = b" using a(2) b(2) True b_id by simp_all
        with clash[OF a(1) True b(1) b_id] k show ?thesis by blast
      next
        case no: False
        then have b_id: "cus_id b = i" using False by simp
        have ab: "a' = a" "b' = f b" using a(2) b(2) no b_id by simp_all
        have "ext_key (f b) = ext_key a" by (rule k(2)[unfolded ab, symmetric])
        moreover from this have "ext_key (f b) \<noteq> None" using k(1)[unfolded ab] by (rule ssubst)
        ultimately show ?thesis using clash[OF b(1) b_id a(1) no] by blast
      qed
    qed
  qed
  show ?thesis unfolding ext_unique_def rows ids
  proof (intro conjI ballI impI)
    show "distinct (map cus_id (db_customers d))" using uq by (simp add: ext_unique_def)
    fix a' b' assume "a' \<in> set (map ?g (db_customers d))" "b' \<in> set (map ?g (db_customers d))"
      and k: "ext_key a' \<noteq> None" "ext_key a' = ext_key b'"
    then show "a' = b'" unfolding set_map by (rule inj)
  qed
qed

lemma patch_external_id_unique:
  assumes uq: "ext_unique d" and c: "find_customer i d = Some c" "cus_merchant c = mid"
    and run: "patch_external_id mid i (cus_external_id c) ext d = (Inr u, d')"
  shows "ext_unique d'"
proof (cases ext)
  case None
  then show ?thesis using run uq by (simp add: patch_external_id_def)
next
  case (Some v)
  let ?f = "\<lambda>c. c\<lparr>cus_external_id := v\<rparr>"
  have d': "d' = modify_customer i ?f d"
    and free: "v \<noteq> None \<Longrightarrow> v \<noteq> cus_external_id c \<Longrightarrow> filter (\<lambda>c. cus_id c \<noteq> i) (customers_with mid (the v) d) = []"
    using run Some by (auto simp: patch_external_id_def external_id_free split: option.splits if_splits)
  have fkey: "ext_key (?f c) = map_option (\<lambda>x. (mid, x)) v" using c(2) by (simp add: ext_key_def)
  show ?thesis unfolding d'
  proof (rule ext_unique_rekey[OF uq c(1)])
    fix b assume b: "b \<in> set (db_customers d)" "cus_id b \<noteq> i" and some: "ext_key (?f c) \<noteq> None"
    show "ext_key b \<noteq> ext_key (?f c)"
    proof (cases "v = cus_external_id c")
      case True
      then have "?f c = c" by simp
      moreover have "c \<in> set (db_customers d)" "cus_id c = i"
        using c(1) get_row_in get_row_key unfolding find_customer_def by fastforce+
      ultimately show ?thesis using uq b some unfolding ext_unique_def by metis
    next
      case False
      obtain x where x: "v = Some x" using some fkey by (cases v) simp_all
      have "b \<notin> set (customers_with mid x d)" using free False b(2) x by (auto simp: filter_empty_conv)
      then show ?thesis using b(1) fkey x by (simp add: customers_with_key)
    qed
  qed simp
qed

lemma patch_email_run:
  assumes "patch_email i email d = (Inr u, d')"
  shows "\<exists>v. d' = d \<or> d' = modify_customer i (\<lambda>c. c\<lparr>cus_email := v\<rparr>) d"
  using assms by (auto simp: patch_email_def split: option.splits)

lemma ext_unique_modify:
  assumes "ext_unique d" and "\<And>c. cus_id (f c) = cus_id c" and "\<And>c. ext_key (f c) = ext_key c"
  shows "ext_unique (modify_customer i f d)"
  by (rule ext_unique_cong[OF assms(1) _ assms(2,3)]) (simp add: modify_customer_def)

lemma ext_unique_update:
  assumes uq: "ext_unique d" and run: "update_customer mid i p d = (Inr j, d')"
  shows "ext_unique d'"
proof -
  obtain c where c: "find_customer i d = Some c" "cus_merchant c = mid"
    using run by (auto simp: update_customer_def get_customer_def split: option.splits if_splits)
  obtain u d2 where e: "patch_email i (cp_email p) d = (Inr u, d2)"
    using run c by (cases "patch_email i (cp_email p) d") (auto simp: update_customer_def get_customer_def split: sum.splits)
  obtain u3 d3 where x: "patch_external_id mid i (cus_external_id c) (cp_external_id p) d2 = (Inr u3, d3)"
    and d': "d' = patch_customer_metadata i (cp_metadata p) d3"
    using run c e by (cases "patch_external_id mid i (cus_external_id c) (cp_external_id p) d2")
      (auto simp: update_customer_def get_customer_def split: sum.splits)
  obtain v where d2: "d2 = d \<or> d2 = modify_customer i (\<lambda>c. c\<lparr>cus_email := v\<rparr>) d" using patch_email_run[OF e] by blast
  have u2: "ext_unique d2"
    using d2 uq ext_unique_modify[OF uq, of "\<lambda>c. c\<lparr>cus_email := v\<rparr>" i] by (auto simp: ext_key_def)
  obtain c2 where c2: "find_customer i d2 = Some c2" "cus_merchant c2 = mid" "cus_external_id c2 = cus_external_id c"
    using d2 c customers.look_modify_same[of "\<lambda>c. c\<lparr>cus_email := v\<rparr>" i d c] by auto
  have "ext_unique d3" by (rule patch_external_id_unique[OF u2 c2(1,2)]) (use x c2(3) in simp)
  then show ?thesis
    unfolding d' patch_customer_metadata_def by (cases "cp_metadata p") (auto intro: ext_unique_modify simp: ext_key_def)
qed

end
