(* ===== verification/License_Service.thy ===== *)
theory License_Service
  imports Accounts
begin

text \<open>
  \<open>services/license_service.py\<close> and \<open>api/routes/licenses.py\<close>: license keys of the dashboard, stored as
  SHA-256 hashes, their verification, and the soft limits of a tier. The hash is an argument.
\<close>

section \<open>Tiers\<close>

definition valid_tiers :: "string list" where
  "valid_tiers = [''community'', ''starter'', ''growth'', ''enterprise'']"

record tier_limits =
  tl_invoices_per_month :: int
  tl_analytics :: bool
  tl_admin :: bool

text \<open>\<open>TIER_LIMITS.get(tier, TIER_LIMITS["community"])\<close>.\<close>

definition limits_of :: "string \<Rightarrow> tier_limits" where
  "limits_of tier =
     (if tier = ''starter'' then \<lparr>tl_invoices_per_month = 500, tl_analytics = False, tl_admin = False\<rparr>
      else if tier = ''growth'' \<or> tier = ''enterprise''
        then \<lparr>tl_invoices_per_month = -1, tl_analytics = True, tl_admin = True\<rparr>
      else \<lparr>tl_invoices_per_month = -1, tl_analytics = False, tl_admin = False\<rparr>)"

definition limits_json :: "tier_limits \<Rightarrow> json" where
  "limits_json t = JObj [(''invoices_per_month'', JInt (tl_invoices_per_month t)),
     (''analytics'', JBool (tl_analytics t)), (''admin'', JBool (tl_admin t))]"

record tier_check =
  tc_allowed :: bool
  tc_over_limit :: bool
  tc_tier :: string
  tc_limit :: int
  tc_current :: int

definition tier_limit_headers :: "tier_check \<Rightarrow> (string \<times> string) list" where
  "tier_limit_headers r = (''X-License-Tier'', tc_tier r) #
     (if tc_over_limit r then [(''X-License-Limit-Warning'',
        int_str (tc_current r) @ ''/'' @ int_str (tc_limit r) @ '' '' @ tc_tier r @ '' limit exceeded'')] else [])"

text \<open>\<open>int(limits.get(feature, -1))\<close>; the tier is always \<open>community\<close>.\<close>

definition feature_limit :: "tier_limits \<Rightarrow> string \<Rightarrow> int" where
  "feature_limit t feature =
     (if feature = ''invoices_per_month'' then tl_invoices_per_month t
      else if feature = ''analytics'' then (if tl_analytics t then 1 else 0)
      else if feature = ''admin'' then (if tl_admin t then 1 else 0)
      else -1)"

definition invoices_since :: "uuid \<Rightarrow> time \<Rightarrow> db \<Rightarrow> invoice list" where
  "invoices_since mid start d = filter (\<lambda>r. inv_merchant r = mid \<and> start \<le> inv_created_at r) (db_invoices d)"

definition check_tier_limit :: "time \<Rightarrow> uuid \<Rightarrow> string \<Rightarrow> db \<Rightarrow> tier_check" where
  "check_tier_limit now mid feature d =
     (let tier = ''community''; limit = feature_limit (limits_of tier) feature;
          current = (if feature = ''invoices_per_month'' then int (length (invoices_since mid (month_start now) d)) else 0)
      in \<lparr>tc_allowed = True, tc_over_limit = (0 \<le> limit \<and> limit \<le> current), tc_tier = tier, tc_limit = limit,
          tc_current = current\<rparr>)"

section \<open>Keys\<close>

definition license_key_hex_length :: nat where "license_key_hex_length = 32"

definition generate_license_key :: "string \<Rightarrow> nat \<Rightarrow> exc + string" where
  "generate_license_key tier rnd =
     (if tier \<notin> set valid_tiers then Inl ValueError
      else Inr (''gbl_'' @ tier @ ''_'' @ token_hex (license_key_hex_length div 2) rnd))"

definition hash_license_key :: "(string \<Rightarrow> string) \<Rightarrow> string \<Rightarrow> string" where
  "hash_license_key sha256 plain_key = sha256 plain_key"

definition extract_key_prefix :: "string \<Rightarrow> string" where
  "extract_key_prefix plain_key =
     (case split_max 2 (CHR ''_'') plain_key of
        [a, b, c] \<Rightarrow> a @ ''_'' @ b @ ''_'' @ take 8 c
      | _ \<Rightarrow> take 20 plain_key)"

section \<open>Licenses\<close>

definition new_license ::
    "env \<Rightarrow> uuid \<Rightarrow> string \<Rightarrow> string \<Rightarrow> string \<Rightarrow> string \<Rightarrow> int option \<Rightarrow> string option \<Rightarrow> license" where
  "new_license e i h prefix tier email duration_days note =
     \<lparr>lic_id = i, lic_key_hash = h, lic_key_prefix = prefix, lic_email = email, lic_tier = tier, lic_active = True,
      lic_expires_at = (case duration_days of None \<Rightarrow> None | Some n \<Rightarrow> if 0 < n then Some (env_now e + days n) else None),
      lic_note = note, lic_created_at = env_now e\<rparr>"

text \<open>\<open>key_hash\<close> is unique.\<close>

definition create_license ::
    "env \<Rightarrow> (string \<Rightarrow> string) \<Rightarrow> nat \<Rightarrow> string \<Rightarrow> string \<Rightarrow> int option \<Rightarrow> string option \<Rightarrow> (uuid \<times> string) op" where
  "create_license e sha256 rnd tier email duration_days note d =
     (if tier \<notin> set valid_tiers then (Inl ValueError, d)
      else case generate_license_key tier rnd of
        Inl x \<Rightarrow> (Inl x, d)
      | Inr plain_key \<Rightarrow>
          let h = hash_license_key sha256 plain_key; i = db_next_id d;
              lic = new_license e i h (extract_key_prefix plain_key) tier email duration_days note
          in if list_ex (\<lambda>l. lic_key_hash l = h) (db_licenses d) then (Inl IntegrityError, tick_id d)
             else (Inr (i, plain_key), add_license lic (tick_id d)))"

definition list_licenses :: "db \<Rightarrow> license list" where
  "list_licenses d = order_desc lic_created_at (db_licenses d)"

definition deactivate_license :: "string \<Rightarrow> uuid option op" where
  "deactivate_license license_id d =
     (case uuid_parse license_id of
        None \<Rightarrow> (Inr None, d)
      | Some lid \<Rightarrow> (case find_license lid d of
            None \<Rightarrow> (Inr None, d)
          | Some l \<Rightarrow> (Inr (Some lid), modify_license lid (\<lambda>l. l\<lparr>lic_active := False\<rparr>) d)))"

definition invalid_license :: json where
  "invalid_license = JObj [(''valid'', JBool False)]"

definition verify_license_key :: "(string \<Rightarrow> string) \<Rightarrow> time \<Rightarrow> string \<Rightarrow> db \<Rightarrow> exc + json" where
  "verify_license_key sha256 now plain_key d =
     (if plain_key = [] \<or> \<not> startswith plain_key ''gbl_'' then Inr invalid_license
      else case scalar_one_or_none (filter (\<lambda>l. lic_key_hash l = hash_license_key sha256 plain_key) (db_licenses d)) of
        Inl x \<Rightarrow> Inl x
      | Inr None \<Rightarrow> Inr invalid_license
      | Inr (Some l) \<Rightarrow>
          if \<not> lic_active l then Inr invalid_license
          else if (case lic_expires_at l of None \<Rightarrow> False | Some t \<Rightarrow> t < now)
            then Inr (JObj [(''valid'', JBool False), (''reason'', JStr ''expired'')])
          else Inr (JObj [(''valid'', JBool True), (''tier'', JStr (lic_tier l)),
                 (''expires_at'', jopt (\<lambda>t. JStr (isoformat t)) (lic_expires_at l)),
                 (''limits'', limits_json (limits_of (lic_tier l)))]))"

section \<open>The routes, after the admin check\<close>

text \<open>Status 422 is a violation of the request schema.\<close>

definition route_create_license ::
    "env \<Rightarrow> (string \<Rightarrow> string) \<Rightarrow> nat \<Rightarrow> string \<Rightarrow> string \<Rightarrow> int option \<Rightarrow> string option \<Rightarrow> (uuid \<times> string) op" where
  "route_create_license e sha256 rnd tier email duration_days note d =
     (if length email < 5 \<or> 255 < length email \<or>
         (case duration_days of None \<Rightarrow> False | Some n \<Rightarrow> n < 1 \<or> 3650 < n) \<or>
         (case note of None \<Rightarrow> False | Some s \<Rightarrow> 500 < length s) then (Inl (HTTPException 422), d)
      else if tier \<notin> set valid_tiers then (Inl (HTTPException 400), d)
      else in_transaction (create_license e sha256 rnd tier email duration_days note) d)"

definition route_deactivate_license :: "string \<Rightarrow> uuid op" where
  "route_deactivate_license license_id =
     in_transaction (\<lambda>d. case deactivate_license license_id d of
        (Inl x, d1) \<Rightarrow> (Inl x, d1)
      | (Inr None, d1) \<Rightarrow> (Inl (HTTPException 404), d1)
      | (Inr (Some i), d1) \<Rightarrow> (Inr i, d1))"

definition license_to_response :: "license \<Rightarrow> json" where
  "license_to_response l = JObj [(''id'', JStr (uuid_str (lic_id l))), (''key_prefix'', JStr (lic_key_prefix l)),
     (''email'', JStr (lic_email l)), (''tier'', JStr (lic_tier l)), (''active'', JBool (lic_active l)),
     (''expires_at'', jopt (\<lambda>t. JStr (isoformat t)) (lic_expires_at l)), (''note'', jopt JStr (lic_note l)),
     (''created_at'', JStr (isoformat (lic_created_at l)))]"

definition route_verify_license :: "(string \<Rightarrow> string) \<Rightarrow> time \<Rightarrow> string \<Rightarrow> db \<Rightarrow> exc + json" where
  "route_verify_license sha256 now k d =
     (if length k < 10 then Inl (HTTPException 422) else verify_license_key sha256 now k d)"

section \<open>The life of a license\<close>

lemma create_license_run:
  assumes "create_license e sha256 rnd tier email dur note d = (Inr (i, k), d')"
  shows "i = db_next_id d" and "tier \<in> set valid_tiers" and "generate_license_key tier rnd = Inr k"
    and "filter (\<lambda>l. lic_key_hash l = sha256 k) (db_licenses d) = []"
    and "d' = add_license (new_license e i (sha256 k) (extract_key_prefix k) tier email dur note) (tick_id d)"
  using assms by (auto simp: create_license_def Let_def hash_license_key_def list_ex_iff filter_empty_conv
      split: sum.splits if_splits)

lemma license_row:
  assumes "create_license e sha256 rnd tier email dur note d = (Inr (i, k), d')"
  shows "filter (\<lambda>l. lic_key_hash l = sha256 k) (db_licenses d') =
    [new_license e i (sha256 k) (extract_key_prefix k) tier email dur note]"
  using create_license_run(4,5)[OF assms] by (simp add: add_license_def new_license_def)

lemma license_key_form: "generate_license_key tier rnd = Inr k \<Longrightarrow> k \<noteq> [] \<and> startswith k ''gbl_''"
  by (auto simp: generate_license_key_def startswith_def split: if_splits)

text \<open>What verification answers for the key of a row that is the only one with its hash.\<close>

lemma verify_row:
  assumes "filter (\<lambda>l. lic_key_hash l = sha256 k) (db_licenses d) = [l]" and "k \<noteq> []" and "startswith k ''gbl_''"
  shows "verify_license_key sha256 now k d =
    (if \<not> lic_active l then Inr invalid_license
     else if (case lic_expires_at l of None \<Rightarrow> False | Some t \<Rightarrow> t < now)
       then Inr (JObj [(''valid'', JBool False), (''reason'', JStr ''expired'')])
     else Inr (JObj [(''valid'', JBool True), (''tier'', JStr (lic_tier l)),
            (''expires_at'', jopt (\<lambda>t. JStr (isoformat t)) (lic_expires_at l)),
            (''limits'', limits_json (limits_of (lic_tier l)))]))"
  using assms by (simp add: verify_license_key_def hash_license_key_def)

lemma filter_hash_upd:
  "filter (\<lambda>l. lic_key_hash l = h) (upd_row lic_id i (\<lambda>l. l\<lparr>lic_active := False\<rparr>) ls) =
     upd_row lic_id i (\<lambda>l. l\<lparr>lic_active := False\<rparr>) (filter (\<lambda>l. lic_key_hash l = h) ls)"
  by (induction ls) (simp_all add: upd_row_def)

end
