(* ===== verification/System_Accounts.thy ===== *)
theory System_Accounts
  imports System Account_Frame Account_Laws Customer_Service License_Service
begin

text \<open>
  The whole server as a transition system: billing steps and account steps, in any order and any
  number. Billing leaves the account tables alone and account requests leave the ledger alone, so
  each side's invariant is proved on its own and holds of every reachable state.
\<close>

section \<open>Billing leaves accounts alone\<close>

lemma accounts_as_admin [accounts]:
  "accounts_of (snd (f d)) = accounts_of d \<Longrightarrow> accounts_of (snd (as_admin a m f d)) = accounts_of d"
  by (simp add: as_admin_def accounts split: sum.split)

lemma retry_dlq_entry_accounts [accounts]: "accounts_of (snd (retry_dlq_entry e i d)) = accounts_of d"
  by (simp add: retry_dlq_entry_def accounts split: option.split)

lemma trigger_renewal_accounts [accounts]: "accounts_of (snd (trigger_renewal_for e sid d)) = accounts_of d"
  by (simp add: trigger_renewal_for_def split_beta accounts split: option.split sum.split exc.split)

lemma renewal_loop_accounts: "renewal_loop fuel es k c d = Some (x, d') \<Longrightarrow> accounts_of d' = accounts_of d"
proof (induction fuel arbitrary: k c d)
  case (Suc fuel)
  obtain y c1 d1 where s: "renew_subs (es k) (due_batch (es k) d) c d = (y, c1, d1)" by (metis prod.exhaust)
  then have "accounts_of d1 = accounts_of d" using renew_subs_accounts[of "es k" "due_batch (es k) d" c d] by simp
  then show ?case using Suc s by (auto simp: Let_def accounts split: if_splits option.splits)
qed simp

lemma run_sweep_accounts:
  assumes "run_sweep fuel e0 es e1 d = Some (x, d')"
  shows "accounts_of d' = accounts_of d"
proof -
  obtain a d1 where 1: "trial_sweep e0 d = (a, d1)" by fastforce
  have k1: "accounts_of d1 = accounts_of d" using trial_sweep_accounts[of e0 d] 1 by simp
  have g: "accounts_of (snd (in_transaction (check_grace_periods e1) d2)) = accounts_of d2" for d2
    by (simp add: accounts)
  show ?thesis
    using assms 1 k1 renewal_loop_accounts g
    by (fastforce simp: run_sweep_def split_beta split: sum.splits option.splits prod.splits)
qed

lemma billing_step_accounts: "billing_step home d d' \<Longrightarrow> accounts_of d' = accounts_of d"
proof (induction rule: billing_step.induct)
  case (sweep fuel e0 es e1 d x d')
  then show ?case by (rule run_sweep_accounts)
next
  case (renewal_triggered d e app_env secret host authorization sid)
  then show ?case by (simp add: route_trigger_renewal_def accounts split: option.split)
qed (simp_all add: route_create_invoice_def route_cancel_invoice_def subscription_route_def expirer_cycle_def accounts)

section \<open>Account requests\<close>

text \<open>What one deployment fixes: its bcrypt, its cipher and its master key.\<close>

record keyring =
  kr_bcrypt :: bcrypt
  kr_aead :: aead
  kr_master :: string

text \<open>The merchant of a request that creates keys is the row its authentication loaded.\<close>

inductive account_step :: "keyring \<Rightarrow> db \<Rightarrow> db \<Rightarrow> bool" for K where
  merchant_registered: "length (en_nonce en) = nonce_size \<Longrightarrow>
    account_step K d (snd (route_register_merchant e (kr_aead K) (kr_master K) (kr_bcrypt K) en b d))"
| merchant_updated: "account_step K d (snd (in_transaction (update_me e m p) d))"
| secret_regenerated: "account_step K d (snd (in_transaction (regenerate_webhook_secret e rnd m) d))"
| merchant_toggled: "account_step K d (snd (as_admin adm m (toggle_merchant_active e adm mid) d))"
| key_created: "find_merchant (mer_id m) d = Some m \<Longrightarrow>
    account_step K d (snd (in_transaction (create_api_key e (kr_bcrypt K) rnd salt m label env) d))"
| key_revoked: "account_step K d (snd (in_transaction (revoke_api_key e m key_text) d))"
| authenticated: "account_step K d (snd (in_transaction (get_current_merchant e (kr_bcrypt K) r authorization) d))"
| customer_created: "account_step K d (snd (route_create_customer e m ext email meta d))"
| customer_updated: "account_step K d (snd (route_update_customer m cid p d))"
| license_created: "account_step K d (snd (route_create_license e sha rnd tier email duration remark d))"
| license_deactivated: "account_step K d (snd (route_deactivate_license key_text d))"
| audit_written: "account_step K d (audit_log_write e stored event mid meta eid d)"

subsection \<open>They leave the ledger alone\<close>

definition rows_of :: "db \<Rightarrow> invoice list \<times> invoice_address list \<times> payment list" where
  "rows_of d = (db_invoices d, db_addresses d, db_payments d)"

definition rows_kept :: "db \<Rightarrow> db \<Rightarrow> bool" where
  "rows_kept d d' \<longleftrightarrow> rows_of d' = rows_of d \<and> db_next_id d \<le> db_next_id d'"

lemma rows_kept_refl [simp]: "rows_kept d d"
  by (simp add: rows_kept_def)

lemma keeps_rows_kept:
  assumes "rows_kept d d'"
  shows "keeps home d d'"
proof -
  have rows: "db_invoices d' = db_invoices d" "db_addresses d' = db_addresses d" "db_payments d' = db_payments d"
    and nx: "db_next_id d \<le> db_next_id d'" using assms by (simp_all add: rows_kept_def rows_of_def)
  have find: "find_invoice i d' = find_invoice i d" "find_payment i d' = find_payment i d" for i
    by (simp_all add: find_invoice_def find_payment_def rows)
  show ?thesis
  proof (rule keepsI)
    assume ok: "sys_ok home d"
    show "ledger_ok d'"
      using ok nx sum_invoice_payments_cong[OF rows(3)]
      by (auto simp: sys_ok_def ledger_ok_def ledger_wf_def settled_but_def settled_row_def rows intro: less_le_trans)
    show "home_ok home d'" using ok home_ok_cong[OF rows(2,3)] by (simp add: sys_ok_def)
    show "evolves d d'" using nx by (simp add: evolves_def find)
  qed
qed

lemma rows_kept_in_transaction: "rows_kept d (snd (f d)) \<Longrightarrow> rows_kept d (snd (in_transaction f d))"
  by (auto simp: in_transaction_def rollback_def rows_kept_def rows_of_def split_beta split: sum.split)

lemma rows_kept_map_error: "rows_kept d (snd (f d)) \<Longrightarrow> rows_kept d (snd (map_error g f d))"
  by (simp add: map_error_def split_beta split: sum.split)

lemma rows_kept_writes:
  "rows_kept d (modify_merchant i f d)" "rows_kept d (modify_api_key i g d)" "rows_kept d (modify_customer i h d)"
  "rows_kept d (modify_license i u d)" "rows_kept d (tick_id d)" "rows_kept d (add_customer c (tick_id d))"
  "rows_kept d (add_license l (tick_id d))" "rows_kept d (add_audit a d)"
  "rows_kept d (add_audit a (add_api_key k (tick_id d)))" "rows_kept d (audit e mid s t i x (modify_api_key j g d))"
  by (simp_all add: rows_kept_def rows_of_def account_tables table_defs)

lemma register_rows: "rows_kept d (snd (register_merchant e A hex B en b d))"
  by (simp add: register_merchant_def issue_key_def Let_def split_beta rows_kept_def rows_of_def add_merchant_def
      add_api_key_def split: sum.split option.split)

lemma create_api_key_rows: "rows_kept d (snd (create_api_key e B rnd salt m label env d))"
  by (simp add: create_api_key_def Let_def rows_kept_writes split: sum.split)

lemma revoke_api_key_rows: "rows_kept d (snd (revoke_api_key e m key_text d))"
  by (simp add: revoke_api_key_def rows_kept_writes split: option.split)

lemma auth_rows: "rows_kept d (snd (get_current_merchant e B r authorization d))"
  by (simp add: get_current_merchant_def auth_via_session_def auth_via_api_key_def rows_kept_writes
      split: sum.split option.split)

lemma update_customer_rows: "rows_kept d (snd (update_customer mid cid p d))"
  by (simp add: update_customer_def get_customer_def patch_email_def patch_external_id_def patch_customer_metadata_def
      split_beta rows_kept_def rows_of_def modify_customer_def split: sum.split option.split)

lemma account_step_rows: "account_step K d d' \<Longrightarrow> rows_kept d d'"
proof (induction rule: account_step.induct)
  case (merchant_registered en d e b)
  then show ?case by (simp add: route_register_merchant_def rows_kept_in_transaction register_rows)
next
  case (merchant_updated d e m p)
  then show ?case
    by (intro rows_kept_in_transaction) (simp add: update_me_def rows_kept_writes split: option.split)
next
  case (secret_regenerated d e rnd m)
  then show ?case
    by (intro rows_kept_in_transaction) (simp add: regenerate_webhook_secret_def Let_def rows_kept_writes)
next
  case (merchant_toggled d adm m e mid)
  have "rows_kept d (snd (toggle_merchant_active e adm mid d))"
    by (simp add: toggle_merchant_active_def rows_kept_writes split: option.split)
  then show ?case by (simp add: as_admin_def rows_kept_in_transaction split: sum.split)
next
  case (customer_created d e m ext email meta)
  have "rows_kept d (snd (create_customer e (mer_id m) ext email meta d))"
    by (simp add: create_customer_def rows_kept_writes split: option.split)
  then show ?case by (simp add: route_create_customer_def rows_kept_in_transaction rows_kept_map_error)
next
  case (customer_updated d m cid p)
  then show ?case
    by (simp add: route_update_customer_def rows_kept_in_transaction rows_kept_map_error update_customer_rows)
next
  case (license_created d e sha rnd tier email duration remark)
  have "rows_kept d (snd (create_license e sha rnd tier email duration remark d))"
    by (simp add: create_license_def Let_def rows_kept_writes split: sum.split)
  then show ?case by (simp add: route_create_license_def rows_kept_in_transaction)
next
  case (license_deactivated d key_text)
  then show ?case unfolding route_deactivate_license_def
    by (intro rows_kept_in_transaction) (simp add: deactivate_license_def rows_kept_writes split: option.split)
next
  case (audit_written d e stored event mid meta eid)
  then show ?case by (simp add: audit_log_write_def rows_kept_writes)
qed (simp_all add: rows_kept_in_transaction create_api_key_rows revoke_api_key_rows auth_rows)

section \<open>The transition system\<close>

inductive step :: "(string \<Rightarrow> int \<times> int) \<Rightarrow> keyring \<Rightarrow> db \<Rightarrow> db \<Rightarrow> bool" for home K where
  billing: "billing_step home d d' \<Longrightarrow> step home K d d'"
| account: "account_step K d d' \<Longrightarrow> step home K d d'"

inductive_cases step_elim: "step home K d d'"

lemma step_keeps: "step home K d d' \<Longrightarrow> keeps home d d'"
  by (elim step_elim) (auto intro: billing_step_keeps keeps_rows_kept account_step_rows)

inductive steps :: "(string \<Rightarrow> int \<times> int) \<Rightarrow> keyring \<Rightarrow> db \<Rightarrow> db \<Rightarrow> bool" for home K where
  steps_refl: "steps home K d d"
| steps_step: "steps home K d d' \<Longrightarrow> step home K d' d'' \<Longrightarrow> steps home K d d''"

lemma steps_keeps: "steps home K d d' \<Longrightarrow> keeps home d d'"
  by (induction rule: steps.induct) (auto intro: keeps_trans step_keeps)

text \<open>A database before the first invoice: merchants, customers and settings may be there.\<close>

definition initial :: "db \<Rightarrow> bool" where
  "initial d \<longleftrightarrow> db_invoices d = [] \<and> db_payments d = [] \<and> db_addresses d = []"

definition reachable :: "(string \<Rightarrow> int \<times> int) \<Rightarrow> keyring \<Rightarrow> db \<Rightarrow> bool" where
  "reachable home K d \<longleftrightarrow> (\<exists>d0. initial d0 \<and> steps home K d0 d)"

lemma sys_ok_initial: "initial d \<Longrightarrow> sys_ok home d"
  by (simp add: sys_ok_def ledger_ok_def ledger_wf_def settled_but_def home_ok_def initial_def)

lemma reachable_ok: "reachable home K d \<Longrightarrow> sys_ok home d"
  using steps_keeps sys_ok_initial unfolding reachable_def keeps_def by blast

lemma steps_trans: "steps home K b c \<Longrightarrow> steps home K a b \<Longrightarrow> steps home K a c"
  by (induction rule: steps.induct) (auto intro: steps_step)

lemma reachable_from: "reachable home K d \<Longrightarrow> steps home K d d' \<Longrightarrow> reachable home K d'"
  unfolding reachable_def using steps_trans by blast

lemma reachable_steps: "reachable home K d \<Longrightarrow> steps home K d d' \<Longrightarrow> sys_ok home d' \<and> evolves d d'"
  using steps_keeps reachable_ok unfolding keeps_def by blast

end
