(* ===== verification/Demo.thy ===== *)
theory Demo
  imports System_Accounts Replay
begin

text \<open>
  Concrete data the witnesses run on: a merchant, a wallet whose n-th subaddress is index n, a node
  that reports a given list of transfers, and a run from the empty database: an invoice is created,
  then paid in full, or cancelled and then paid.
\<close>

definition demo_env :: "time \<Rightarrow> env" where
  "demo_env now = \<lparr>env_now = now, env_tor_only = False,
     env_wallet = (\<lambda>n k. RpcResult (nat_str n, int n + 1)), env_exc_text = (\<lambda>x. ''error'')\<rparr>"

definition demo_merchant :: merchant where
  "demo_merchant = \<lparr>mer_id = 0, mer_name = ''shop'', mer_email = None, mer_address = ''4A'', mer_view_key = None,
     mer_webhook_url = None, mer_webhook_secret = None, mer_environment = ''mainnet'', mer_active = True,
     mer_metadata = None, mer_prepay_plans = None, mer_created_at = 0, mer_updated_at = 0\<rparr>"

definition demo_db :: db where
  "demo_db = empty_db\<lparr>db_merchants := [demo_merchant]\<rparr>"

definition demo_invoiced :: db where
  "demo_invoiced = snd (route_create_invoice (demo_env 0) demo_merchant (Some (Fin 1)) None None None None empty_db)"

definition demo_tx :: "int \<Rightarrow> transfer" where
  "demo_tx c = \<lparr>tx_txid = ''aa'', tx_amount = 1000000000000, tx_major = 0, tx_minor = Some 1,
     tx_confirmations = Some c, tx_height = Some 100, tx_type = ''in''\<rparr>"

definition demo_wallet :: "transfer list \<Rightarrow> wallet_view" where
  "demo_wallet txs = \<lparr>wv_height = (\<lambda>k. RpcResult 100),
     wv_transfers = (\<lambda>q k. RpcResult \<lparr>rp_in = Some txs, rp_pool = None\<rparr>), wv_txid = (\<lambda>t k. RpcResult None)\<rparr>"

definition demo_engine :: engine where
  "demo_engine = \<lparr>eng_last_scanned = None, eng_last_deep_scan = 0, eng_misses = (\<lambda>t. 0), eng_health = None\<rparr>"

definition demo_paid :: db where
  "demo_paid = snd (detection_cycle (demo_env (secs 60)) (demo_wallet [demo_tx 12]) demo_engine demo_invoiced)"

definition demo_cancelled :: db where
  "demo_cancelled = snd (route_cancel_invoice (demo_env (secs 30)) demo_merchant 1 demo_invoiced)"

definition demo_exception :: db where
  "demo_exception = snd (detection_cycle (demo_env (secs 60)) (demo_wallet [demo_tx 12]) demo_engine demo_cancelled)"

text \<open>
  Instances of the library code with its laws: a hash that is the text itself, and a cipher that
  appends the associated data, the nonce and the key as its tag, cut or filled to 16 bytes.
\<close>

definition demo_bcrypt :: bcrypt where
  "demo_bcrypt = \<lparr>bc_hashpw = (\<lambda>p s. p), bc_checkpw = (\<lambda>q h. Inr (q = h))\<rparr>"

definition demo_tag :: "bytes \<Rightarrow> bytes \<Rightarrow> bytes option \<Rightarrow> bytes" where
  "demo_tag k n a = take 16 (case_option [] id a @ n @ k @ replicate 16 (CHR ''.''))"

definition demo_aead :: aead where
  "demo_aead = \<lparr>aead_encrypt = (\<lambda>k n p a. p @ demo_tag k n a),
     aead_decrypt = (\<lambda>k n c a. if 16 \<le> length c \<and> drop (length c - 16) c = demo_tag k n a
        then Some (take (length c - 16) c) else None)\<rparr>"

definition demo_ring :: keyring where
  "demo_ring = \<lparr>kr_bcrypt = demo_bcrypt, kr_aead = demo_aead, kr_master = replicate 64 (CHR ''0'')\<rparr>"

lemma demo_laws: "bcrypt_laws (kr_bcrypt demo_ring)" "aead_laws (kr_aead demo_ring)"
proof -
  show "bcrypt_laws (kr_bcrypt demo_ring)" by (simp add: bcrypt_laws_def demo_ring_def demo_bcrypt_def)
  have len: "length (demo_tag k n a) = 16" for k n a by (simp add: demo_tag_def)
  have "(if 16 \<le> length c \<and> drop (length c - 16) c = t then Some (take (length c - 16) c) else None) = Some p
      \<longleftrightarrow> c = p @ t" if "length t = 16" for c t p :: bytes
  proof (cases "16 \<le> length c \<and> drop (length c - 16) c = t")
    case True
    then have "c = take (length c - 16) c @ t" by (metis append_take_drop_id)
    then have "c = p @ t \<longleftrightarrow> take (length c - 16) c = p" by (metis append_same_eq)
    with True show ?thesis by simp
  next
    case False
    then show ?thesis using that by auto
  qed
  from this[OF len] show "aead_laws (kr_aead demo_ring)"
    unfolding aead_laws_def demo_ring_def demo_aead_def by (simp add: len)
qed

lemma demo_run:
  "map inv_status (db_invoices demo_invoiced) = [IPending]"
  "map (\<lambda>p. (pay_id p, pay_amount_atomic p)) (db_payments demo_paid) = [(3, 1000000000000)]"
  "map (\<lambda>r. (inv_id r, inv_status r)) (db_invoices demo_cancelled) = [(1, ICancelled)]"
  "map inv_id (db_invoices demo_exception) = [1]"
  by code_simp+

lemma demo_steps:
  "reachable (\<lambda>t. (0, 1)) demo_ring demo_invoiced" "reachable (\<lambda>t. (0, 1)) demo_ring demo_paid"
  "reachable (\<lambda>t. (0, 1)) demo_ring demo_cancelled" "steps (\<lambda>t. (0, 1)) demo_ring demo_cancelled demo_exception"
proof -
  have "initial empty_db" by (simp add: initial_def empty_db_def)
  moreover have "steps (\<lambda>t. (0, 1)) demo_ring empty_db demo_invoiced"
    unfolding demo_invoiced_def by (rule steps_step[OF steps_refl billing[OF invoice_created]])
  ultimately show r: "reachable (\<lambda>t. (0, 1)) demo_ring demo_invoiced" unfolding reachable_def by blast
  have w: "wallet_at_home (\<lambda>t. (0, 1)) (demo_wallet [demo_tx 12])"
    by (simp add: wallet_at_home_def demo_wallet_def get_transfers_def rpc_call_def rpc_loop.simps
        merge_transfers_def at_home_def demo_tx_def max_retries_def)
  have "steps (\<lambda>t. (0, 1)) demo_ring demo_invoiced demo_paid"
    unfolding demo_paid_def by (rule steps_step[OF steps_refl billing[OF detection[OF w]]])
  then show "reachable (\<lambda>t. (0, 1)) demo_ring demo_paid" by (rule reachable_from[OF r])
  have "steps (\<lambda>t. (0, 1)) demo_ring demo_invoiced demo_cancelled"
    unfolding demo_cancelled_def by (rule steps_step[OF steps_refl billing[OF invoice_cancelled]])
  then show "reachable (\<lambda>t. (0, 1)) demo_ring demo_cancelled" by (rule reachable_from[OF r])
  show "steps (\<lambda>t. (0, 1)) demo_ring demo_cancelled demo_exception"
    unfolding demo_exception_def by (rule steps_step[OF steps_refl billing[OF detection[OF w]]])
qed

text \<open>The same invoice, written out, with a given status and payments.\<close>

definition demo_invoice :: "invoice_status \<Rightarrow> invoice" where
  "demo_invoice st = \<lparr>inv_id = 1, inv_merchant = 0, inv_amount_atomic = 1000000000000, inv_amount_xmr = 1,
     inv_fiat_currency = None, inv_fiat_amount = None, inv_fiat_rate = None, inv_status = st,
     inv_description = None, inv_metadata = None, inv_expires_at = secs 3600, inv_paid_at = None,
     inv_created_at = 0, inv_updated_at = 0\<rparr>"

definition demo_address :: invoice_address where
  "demo_address = \<lparr>adr_id = 2, adr_invoice = 1, adr_address = ''8A'', adr_index = 1, adr_account = 0, adr_created_at = 0\<rparr>"

definition demo_payment :: "int \<Rightarrow> payment" where
  "demo_payment c = new_payment (demo_env 0) 3 1 ''aa'' 1000000000000 c (Some 100)"

definition demo_ledger :: "invoice_status \<Rightarrow> payment list \<Rightarrow> db" where
  "demo_ledger st ps = demo_db\<lparr>db_invoices := [demo_invoice st], db_addresses := [demo_address],
     db_payments := ps, db_next_id := 4\<rparr>"

lemmas demo_defs = demo_ledger_def demo_payment_def demo_address_def demo_invoice_def demo_db_def
  demo_merchant_def demo_tx_def demo_env_def empty_db_def

lemma demo_ledger_ok:
  "ledger_ok (demo_ledger IPending [])" "ledger_ok (demo_ledger ICancelled [])"
  "ledger_wf (demo_ledger IPending [demo_payment 12])"
  "settled_but {1} (demo_ledger IPending [demo_payment 12])"
  "tx_single (demo_ledger IPending []) (demo_tx c)"
  by (simp_all add: demo_defs ledger_ok_def ledger_wf_def settled_but_def settled_row_def
      sum_invoice_payments_def sum_status_def tx_single_def find_payment_by_tx_hash_def new_payment_def confirmation_threshold_def)

text \<open>The first report of a transfer, with twelve confirmations, with two, and on a cancelled invoice.\<close>

definition demo_report :: "int \<Rightarrow> invoice_status \<Rightarrow> db" where
  "demo_report c st = snd (process_transfer (demo_env 5) (demo_tx c) False (demo_ledger st []))"

lemma demo_report_run:
  "process_transfer (demo_env 5) (demo_tx 12) False (demo_ledger IPending []) = (Inr (Some 4), demo_report 12 IPending)"
  "process_transfer (demo_env 5) (demo_tx 2) False (demo_ledger IPending []) = (Inr (Some 4), demo_report 2 IPending)"
  "process_transfer (demo_env 5) (demo_tx 2) False (demo_ledger ICancelled []) = (Inr (Some 4), demo_report 2 ICancelled)"
proof -
  have "fst (process_transfer (demo_env 5) (demo_tx 12) False (demo_ledger IPending [])) = Inr (Some 4)" by code_simp
  then show "process_transfer (demo_env 5) (demo_tx 12) False (demo_ledger IPending []) = (Inr (Some 4), demo_report 12 IPending)"
    by (simp add: demo_report_def prod_eq_iff)
  have "fst (process_transfer (demo_env 5) (demo_tx 2) False (demo_ledger IPending [])) = Inr (Some 4)" by code_simp
  then show "process_transfer (demo_env 5) (demo_tx 2) False (demo_ledger IPending []) = (Inr (Some 4), demo_report 2 IPending)"
    by (simp add: demo_report_def prod_eq_iff)
  have "fst (process_transfer (demo_env 5) (demo_tx 2) False (demo_ledger ICancelled [])) = Inr (Some 4)" by code_simp
  then show "process_transfer (demo_env 5) (demo_tx 2) False (demo_ledger ICancelled []) = (Inr (Some 4), demo_report 2 ICancelled)"
    by (simp add: demo_report_def prod_eq_iff)
qed

lemma demo_lookup:
  "tx_minor (demo_tx c) = Some 1" "dust_threshold_atomic \<le> tx_amount (demo_tx c)"
  "find_invoice_by_subaddress_index (tx_major (demo_tx c)) 1 (demo_ledger st []) = Inr (Some (demo_invoice st))"
  "find_payment_by_tx_hash (tx_txid (demo_tx c)) (demo_ledger st []) = Inr None"
  "find_invoice 1 (demo_ledger st ps) = Some (demo_invoice st)"
  "inv_status (demo_invoice st) = st" "inv_id (demo_invoice st) = 1"
  "tx_conf (demo_tx c) = c" "tx_amount (demo_tx c) = 1000000000000"
  by (simp_all add: demo_defs dust_threshold_atomic_def find_invoice_by_subaddress_index_def find_invoice_def
      find_payment_by_tx_hash_def tx_conf_def)

text \<open>An old expired invoice, with and without a delivery that refers to it.\<close>

definition demo_url :: weburl where
  "demo_url = \<lparr>url_text = ''https://shop.example/hook'', url_parses = True, url_scheme = ''https'', url_username = None,
     url_password = None, url_hostname = Some ''shop.example'', url_ip = None\<rparr>"

definition demo_delivery :: webhook_delivery where
  "demo_delivery = new_delivery (demo_env 0) 9 demo_merchant demo_url ''invoice.expired'' (JObj []) (Some 1)"

definition demo_stale :: "webhook_delivery list \<Rightarrow> db" where
  "demo_stale ds = (demo_ledger IExpired [])\<lparr>db_deliveries := ds\<rparr>"

end
