(* ===== verification/Ledger_Properties.thy ===== *)
theory Ledger_Properties
  imports Demo
begin

text \<open>
  What a merchant relies on when money arrives: payments are recorded once, count only when
  confirmed, and an invoice's status always follows from its confirmed payments.
\<close>

section \<open>Recalculation\<close>



section \<open>Incoming transfers\<close>



text \<open>C7: the first report of a transfer to an open or settled invoice adds its amount to the invoice's
  confirmed total exactly when it has ten confirmations, and nothing to any other invoice.\<close>

theorem new_transfer_credits:
  assumes "ledger_ok d" and "tx_minor tx = Some m" and "dust_threshold_atomic \<le> tx_amount tx"
    and "find_invoice_by_subaddress_index (tx_major tx) m d = Inr (Some r)"
    and "find_payment_by_tx_hash (tx_txid tx) d = Inr None"
    and "process_transfer e tx mp d = (Inr (Some pid), d1)"
  shows "sum_invoice_payments i d1 = sum_invoice_payments i d +
    (if i = inv_id r \<and> 10 \<le> tx_conf tx then tx_amount tx else 0)"
proof -
  have run: "process_new e tx mp r d = (Inr (Some pid), d1)"
    using assms(6) new_transfer_run[OF assms(2-5)] by simp
  show ?thesis
  proof (rule process_new_effect[OF run])
    fix d0 p
    assume p: "p = new_payment e (db_next_id d) (inv_id r) (tx_txid tx) (tx_amount tx) (tx_conf tx) (tx_block_height tx)"
      and pays: "db_payments d0 = db_payments d @ [p]" "db_payments d1 = db_payments d0"
    have "sum_invoice_payments i d1 = sum_status PConfirmed i (add_payment p d)"
      using pays by (simp add: sum_invoice_payments_def sum_status_def add_payment_def)
    then show ?thesis
      by (simp add: sum_status_add_payment sum_invoice_payments_def p new_payment_def confirmation_threshold_def)
  qed
qed

lemma new_transfer_credits_witness:
  "sum_invoice_payments 1 (demo_report 12 IPending) = sum_invoice_payments 1 (demo_ledger IPending []) + 1000000000000"
  using new_transfer_credits[OF demo_ledger_ok(1) demo_lookup(1-4) demo_report_run(1), of 1] by (simp add: demo_lookup)

text \<open>A payment that is not confirmed settles nothing: after the first report of a transfer with
  fewer than ten confirmations every invoice is exactly as it was.\<close>

theorem unconfirmed_settles_nothing:
  assumes "ledger_ok d" and "tx_minor tx = Some m" and "dust_threshold_atomic \<le> tx_amount tx"
    and "find_invoice_by_subaddress_index (tx_major tx) m d = Inr (Some r)"
    and "find_payment_by_tx_hash (tx_txid tx) d = Inr None"
    and "process_transfer e tx mp d = (Inr (Some pid), d1)" and "tx_conf tx < 10"
  shows "db_invoices d1 = db_invoices d \<and> (\<exists>p. db_payments d1 = db_payments d @ [p] \<and> pay_status p = PDetected)"
proof -
  have run: "process_new e tx mp r d = (Inr (Some pid), d1)"
    using assms(6) new_transfer_run[OF assms(2-5)] by simp
  have r: "find_invoice (inv_id r) d = Some r" by (rule find_by_subaddress_found[OF assms(4)])
  show ?thesis
  proof (rule process_new_effect[OF run])
    fix d0 p
    assume p: "p = new_payment e (db_next_id d) (inv_id r) (tx_txid tx) (tx_amount tx) (tx_conf tx) (tx_block_height tx)"
      and pays: "db_payments d0 = db_payments d @ [p]" "db_invoices d0 = db_invoices d" "db_payments d1 = db_payments d0"
      and c: "create_payment e r (tx_txid tx) (tx_amount tx) (tx_conf tx) (tx_block_height tx) mp d = (Inr pid, d0)"
      and x: "inv_status r = ICancelled \<Longrightarrow> d1 = d0"
      and y: "inv_status r \<noteq> ICancelled \<Longrightarrow> d1 = snd (recalculate_invoice_status e (inv_id r) d0)"
    have st: "pay_status p = PDetected" using assms(7) by (simp add: p new_payment_def confirmation_threshold_def)
    have sums: "sum_invoice_payments j d0 = sum_invoice_payments j d" for j
      using pays(1) st by (simp add: sum_invoice_payments_def sum_status_def)
    have "settled_but {} d0"
      using assms(1) sums pays(2) by (simp add: ledger_ok_def settled_but_def settled_row_def)
    then have "ledger_ok d0" using create_payment_ledger(1)[OF assms(1) r c] by (simp add: ledger_ok_def)
    moreover have "find_invoice (inv_id r) d0 = Some r" using r pays(2) by (simp add: find_invoice_def)
    ultimately have "d1 = d0" using x y recalculate_noop by (cases "inv_status r = ICancelled") fastforce+
    then show ?thesis using pays st by auto
  qed
qed

lemma unconfirmed_settles_nothing_witness:
  "db_invoices (demo_report 2 IPending) = [demo_invoice IPending]"
  using unconfirmed_settles_nothing[OF demo_ledger_ok(1) demo_lookup(1-4) demo_report_run(2)]
  by (simp add: demo_lookup) (simp add: demo_defs)

text \<open>Money sent to a cancelled invoice is recorded, with its exact amount, but the invoice stays
  cancelled and so does everything else about it; the merchant is told with the
  event invoice.exception_payment.\<close>

theorem cancelled_invoice_payment:
  assumes "ledger_ok d" and "tx_minor tx = Some m" and "dust_threshold_atomic \<le> tx_amount tx"
    and "find_invoice_by_subaddress_index (tx_major tx) m d = Inr (Some r)"
    and "find_payment_by_tx_hash (tx_txid tx) d = Inr None"
    and "process_transfer e tx mp d = (Inr (Some pid), d1)" and "inv_status r = ICancelled"
  shows "db_invoices d1 = db_invoices d \<and>
    (\<exists>p. find_payment pid d1 = Some p \<and> pay_invoice p = inv_id r \<and> pay_amount_atomic p = tx_amount tx \<and>
      ''invoice.exception_payment'' \<in> set (determine_webhook_events p r (inv_status r) None))"
proof -
  have run: "process_new e tx mp r d = (Inr (Some pid), d1)"
    using assms(6) new_transfer_run[OF assms(2-5)] by simp
  show ?thesis
  proof (rule process_new_effect[OF run])
    fix d0 p
    assume p: "p = new_payment e (db_next_id d) (inv_id r) (tx_txid tx) (tx_amount tx) (tx_conf tx) (tx_block_height tx)"
      and pid: "pid = db_next_id d"
      and pays: "db_payments d0 = db_payments d @ [p]" "db_invoices d0 = db_invoices d" "db_payments d1 = db_payments d0"
      and x: "inv_status r = ICancelled \<Longrightarrow> d1 = d0"
    have "find_payment pid d = None"
      using assms(1) pid by (auto simp: find_payment_def get_row_None ledger_ok_def ledger_wf_def)
    then have "find_payment pid d1 = Some p"
      using pays by (simp add: find_payment_def get_row_append p pid new_payment_def)
    then show ?thesis using x pays(2) assms(7)
      by (auto simp: p new_payment_def determine_webhook_events_def)
  qed
qed

lemma cancelled_invoice_payment_witness:
  "\<exists>p. find_payment 4 (demo_report 2 ICancelled) = Some p \<and> pay_amount_atomic p = 1000000000000"
  using cancelled_invoice_payment[OF demo_ledger_ok(2) demo_lookup(1-4) demo_report_run(3)]
  by (auto simp: demo_lookup)

end
