(* ===== verification/Lifecycle_Properties.thy ===== *)
theory Lifecycle_Properties
  imports Demo
begin

text \<open>
  An invoice from its creation to its removal: creation and cancellation on every branch, expiry,
  retention, and how expiry and payment interleave.
\<close>

section \<open>Creation and cancellation\<close>

text \<open>C9: creating an invoice is all or nothing. When the request fails, on whatever check, in the
  wallet or in the database, every table is as before; when it succeeds there is one more
  invoice, pending, for exactly the requested amount, and one more subaddress, used by no other
  invoice.\<close>

theorem create_invoice_atomic:
  "case route_create_invoice e m raw desc ex meta fr d of
     (Inl x, d') \<Rightarrow> db_invoices d' = db_invoices d \<and> db_addresses d' = db_addresses d \<and>
       db_audit d' = db_audit d \<and> db_payments d' = db_payments d
   | (Inr i, d') \<Rightarrow> \<exists>a r adr. raw = Some (Fin a) \<and> db_invoices d' = db_invoices d @ [r] \<and> inv_id r = i \<and>
       inv_status r = IPending \<and> inv_amount_atomic r = xmr_to_atomic a \<and> 0 < inv_amount_atomic r \<and>
       inv_merchant r = mer_id m \<and> db_addresses d' = db_addresses d @ [adr] \<and> adr_invoice adr = i \<and>
       address_free adr d"
proof (cases rule: create_invoice_cases[of e m raw desc ex meta fr "''USD''" d])
  case (created a s idx r details)
  have "inv_amount_atomic (stored_invoice r) = xmr_to_atomic a" "inv_status (stored_invoice r) = IPending"
    "inv_id (stored_invoice r) = db_next_id d" "inv_merchant (stored_invoice r) = mer_id m"
    by (simp_all add: created(5) stored_invoice_def new_invoice_def)
  then show ?thesis using created
    by (simp add: route_create_invoice_def in_transaction_def map_error_def new_address_def add_address_def
        tick_rpc_def tick_id_def add_invoice_def)
qed (simp_all add: route_create_invoice_def in_transaction_def map_error_def rollback_def)

text \<open>C10: a merchant can cancel exactly its own pending invoices without a live payment; cancelling
  changes that invoice's status and nothing else of any invoice or payment, and every refusal
  leaves the tables alone.\<close>

theorem cancel_invoice_exact:
  "((\<exists>d'. route_cancel_invoice e m i d = (Inr i, d')) \<longleftrightarrow>
     (\<exists>r. find_invoice i d = Some r \<and> inv_merchant r = mer_id m \<and> inv_status r = IPending \<and>
       filter (\<lambda>p. pay_invoice p = i \<and> pay_status p \<noteq> POrphaned) (db_payments d) = [])) \<and>
   db_payments (snd (route_cancel_invoice e m i d)) = db_payments d \<and>
   find_invoice j (snd (route_cancel_invoice e m i d)) =
     (if j = i \<and> is_ok (route_cancel_invoice e m i d)
      then map_option (\<lambda>r. r\<lparr>inv_status := ICancelled, inv_updated_at := env_now e\<rparr>) (find_invoice i d)
      else find_invoice j d)" (is "?iff \<and> ?pay \<and> ?find")
proof (intro conjI)
  have none: "active_payment i = (\<lambda>p. pay_invoice p = i \<and> pay_status p \<noteq> POrphaned)"
    unfolding active_payment_def by (rule ext) (metis payment_status.exhaust payment_status.distinct)
  have run: "cancel_invoice e (mer_id m) i d =
      (case find_invoice i d of None \<Rightarrow> (Inl InvoiceNotFoundError, d) | Some r \<Rightarrow>
        if inv_merchant r \<noteq> mer_id m then (Inl InvoiceNotFoundError, d)
        else if inv_status r \<noteq> IPending \<or> filter (active_payment i) (db_payments d) \<noteq> [] then (Inl InvoiceStateError, d)
        else (Inr i, audit e (Some (mer_id m)) ''invoice.cancelled'' ''invoice'' i
              [(''previous_status'', JStr ''pending'')] (set_invoice_status e i ICancelled d)))"
    by (simp add: cancel_invoice_def get_invoice_def split: option.split)
  have rd: "rollback d d = d" by (simp add: rollback_def)
  note defs = route_cancel_invoice_def in_transaction_def map_error_def run rd none
  show ?iff by (auto simp: defs split: option.splits)
  show ?pay by (simp add: defs set_invoice_status_def split: option.split)
  show ?find
    by (simp add: defs set_invoice_status_def find_invoice_def modify_invoice_def get_row_upd split: option.split)
qed

section \<open>Expiry\<close>

text \<open>C8: the expirer expires exactly the pending invoices past their time that no detected or
  confirmed payment refers to. Every other invoice keeps every field, and no payment changes,
  whether or not the notifications could be queued.\<close>

theorem expirer_exact:
  "db_invoices (snd (expire_pending_invoices e d)) =
     map (\<lambda>r. if inv_status r = IPending \<and> inv_expires_at r < env_now e \<and>
                 filter (\<lambda>p. pay_invoice p = inv_id r \<and> pay_status p \<noteq> POrphaned) (db_payments d) = []
              then r\<lparr>inv_status := IExpired, inv_updated_at := env_now e\<rparr> else r) (db_invoices d) \<and>
   db_payments (snd (expire_pending_invoices e d)) = db_payments d"
proof -
  have act: "active_payment i p \<longleftrightarrow> pay_invoice p = i \<and> pay_status p \<noteq> POrphaned" for i p
    by (cases "pay_status p") (auto simp: active_payment_def)
  have "list_ex (active_payment i) ps \<longleftrightarrow> filter (\<lambda>p. pay_invoice p = i \<and> pay_status p \<noteq> POrphaned) ps \<noteq> []" for i ps
    by (auto simp: list_ex_iff filter_empty_conv act)
  then show ?thesis
    using expire_pending_invoices_ledger[of e d] unfolding ledger_unchanged_def
    by (simp add: expire_rows_def expirable_def)
qed

section \<open>Expiry and payment\<close>

text \<open>The order of the expirer and of the payment only decides between on time and late. If the
  full confirmed payment of a pending invoice is seen first, the invoice is paid or overpaid and
  the expirer then leaves it alone; if the expirer runs first on the past-due invoice, the same
  payment makes it late-paid. In both orders the invoice is credited with the full amount.\<close>

theorem expiry_payment_race:
  assumes "ledger_ok d" and "tx_minor tx = Some m" and "dust_threshold_atomic \<le> tx_amount tx"
    and "find_invoice_by_subaddress_index (tx_major tx) m d = Inr (Some r)"
    and "find_payment_by_tx_hash (tx_txid tx) d = Inr None"
    and "expirable (env_now e2) d r" and "10 \<le> tx_conf tx" and "inv_amount_atomic r \<le> tx_amount tx"
    and "process_transfer e1 tx mp d = (Inr (Some pid), d1)"
    and "process_transfer e1 tx mp (snd (expire_pending_invoices e2 d)) = (Inr (Some pid2), d2)"
  shows "(\<exists>r1. find_invoice (inv_id r) (snd (expire_pending_invoices e2 d1)) = Some r1 \<and>
      inv_status r1 = (if inv_amount_atomic r < tx_amount tx then IOverpaid else IPaid)) \<and>
    (\<exists>r2. find_invoice (inv_id r) d2 = Some r2 \<and> inv_status r2 = ILate) \<and>
    sum_invoice_payments (inv_id r) (snd (expire_pending_invoices e2 d1)) = tx_amount tx \<and>
    sum_invoice_payments (inv_id r) d2 = tx_amount tx"
proof -
  let ?x = "snd (expire_pending_invoices e2 d)"
  have r: "find_invoice (inv_id r) d = Some r" by (rule find_by_subaddress_found[OF assms(4)])
  have pend: "inv_status r = IPending" and zero: "sum_invoice_payments (inv_id r) d = 0"
    using assms(6) no_active_no_sum by (auto simp: expirable_def)
  have okx: "ledger_ok ?x" by (rule expire_pending_invoices_ok[OF assms(1)])
  have invx: "db_invoices ?x = map (\<lambda>r. if expirable (env_now e2) d r
        then r\<lparr>inv_status := IExpired, inv_updated_at := env_now e2\<rparr> else r) (db_invoices d)"
    and adrx: "db_addresses ?x = db_addresses d" and payx: "db_payments ?x = db_payments d"
    using expire_pending_invoices_ledger[of e2 d] by (simp_all add: ledger_unchanged_def expire_rows_def)
  have findx: "find_invoice j ?x = map_option (\<lambda>r. if expirable (env_now e2) d r
        then r\<lparr>inv_status := IExpired, inv_updated_at := env_now e2\<rparr> else r) (find_invoice j d)" for j
    unfolding find_invoice_def invx by (rule get_row_map) simp
  have subx: "find_invoice_by_subaddress_index (tx_major tx) m ?x =
      Inr (Some (r\<lparr>inv_status := IExpired, inv_updated_at := env_now e2\<rparr>))"
    using assms(4,6) by (auto simp: find_invoice_by_subaddress_index_def adrx findx split: sum.splits option.splits)
  have zerox: "sum_invoice_payments (inv_id r) ?x = 0" using zero sum_invoice_payments_cong[OF payx] by simp
  obtain r1 where r1: "find_invoice (inv_id r) d1 = Some r1"
      "inv_status r1 = target_status IPending (tx_amount tx) (inv_amount_atomic r)"
      "sum_invoice_payments (inv_id r) d1 = tx_amount tx"
    using new_transfer_settles[OF assms(1-5) _ assms(9)] pend zero assms(7) by auto
  obtain r2 where r2: "find_invoice (inv_id r) d2 = Some r2"
      "inv_status r2 = target_status IExpired (tx_amount tx) (inv_amount_atomic r)"
      "sum_invoice_payments (inv_id r) d2 = tx_amount tx"
    using new_transfer_settles[OF okx assms(2,3) subx _ _ assms(10)] zerox assms(5,7)
    by (auto simp: find_payment_by_tx_hash_def payx)
  let ?y = "snd (expire_pending_invoices e2 d1)"
  have y: "db_payments ?y = db_payments d1" "db_invoices ?y = db_invoices (expire_rows (env_now e2) d1)"
    using expire_pending_invoices_ledger[of e2 d1] by (simp_all add: ledger_unchanged_def expire_rows_def)
  have "find_invoice (inv_id r) ?y = map_option (\<lambda>q. if expirable (env_now e2) d1 q
        then q\<lparr>inv_status := IExpired, inv_updated_at := env_now e2\<rparr> else q) (find_invoice (inv_id r) d1)"
    unfolding find_invoice_def y(2) expire_rows_def by (simp add: get_row_map)
  moreover have "inv_status r1 = (if inv_amount_atomic r < tx_amount tx then IOverpaid else IPaid)"
    using r1(2) assms(8) by (simp add: target_status_def)
  ultimately have "find_invoice (inv_id r) ?y = Some r1"
    using r1(1) by (auto simp: expirable_def split: if_splits)
  then show ?thesis
    using r1 r2 assms(8) sum_invoice_payments_cong[OF y(1)] by (simp add: target_status_def)
qed

lemma expiry_payment_race_witness:
  "sum_invoice_payments 1 (snd (expire_pending_invoices (demo_env (secs 7200)) (demo_report 12 IPending))) = 1000000000000"
proof -
  have x: "expirable (env_now (demo_env (secs 7200))) (demo_ledger IPending []) (demo_invoice IPending)"
    by (simp add: expirable_def demo_defs secs_def)
  obtain as where as: "snd (expire_pending_invoices (demo_env (secs 7200)) (demo_ledger IPending [])) =
      (demo_ledger IPending [])\<lparr>db_invoices :=
        [demo_invoice IPending\<lparr>inv_status := IExpired, inv_updated_at := secs 7200\<rparr>], db_audit := as\<rparr>"
    by (simp add: expire_pending_invoices_def demo_defs expirable_def Let_def expiry_audit_def audit_def
        expire_rows_def expiry_event_def secs_def find_invoice_def find_merchant_def queue_webhook_def
        valid_events_def add_audit_def)
  have "fst (process_transfer (demo_env 5) (demo_tx 12) False ((demo_ledger IPending [])\<lparr>db_invoices :=
        [demo_invoice IPending\<lparr>inv_status := IExpired, inv_updated_at := secs 7200\<rparr>], db_audit := as\<rparr>)) =
      Inr (Some 4)" by code_simp
  then have "fst (process_transfer (demo_env 5) (demo_tx 12) False
      (snd (expire_pending_invoices (demo_env (secs 7200)) (demo_ledger IPending [])))) = Inr (Some 4)"
    by (simp only: as)
  then obtain d2 where d2: "process_transfer (demo_env 5) (demo_tx 12) False
      (snd (expire_pending_invoices (demo_env (secs 7200)) (demo_ledger IPending []))) = (Inr (Some 4), d2)"
    by (metis prod.collapse)
  have n: "10 \<le> tx_conf (demo_tx 12)" "inv_amount_atomic (demo_invoice IPending) \<le> tx_amount (demo_tx 12)"
    by (simp_all add: demo_lookup) (simp add: demo_invoice_def)
  show ?thesis
    using expiry_payment_race[OF demo_ledger_ok(1) demo_lookup(1-4) x n demo_report_run(1) d2]
    by (simp only: demo_lookup)
qed

section \<open>Retention\<close>



text \<open>One old expired invoice that a webhook delivery still refers to stops the whole cleanup:
  the foreign key refuses the delete, the transaction is rolled back, and nothing at all is
  removed, neither other invoices nor deliveries nor audit entries.\<close>

theorem retention_blocked:
  assumes "i \<in> set (retention_ids (env_now e) d)" and "x \<in> set (db_deliveries d)" and "del_invoice x = Some i"
  shows "fst (run_retention_cleanup e d) = Inl IntegrityError \<and>
    snd (run_retention_cleanup e d) = d"
  using assms by (auto simp: run_retention_cleanup_def in_transaction_def retention_steps_def
      cleanup_expired_invoices_def Let_def rollback_def list_ex_iff split: option.splits)

lemma retention_blocked_witness:
  "snd (run_retention_cleanup (demo_env (days 40)) (demo_stale [demo_delivery])) = demo_stale [demo_delivery]"
proof -
  have "1 \<in> set (retention_ids (env_now (demo_env (days 40))) (demo_stale [demo_delivery]))" by code_simp
  then show ?thesis
    using retention_blocked[of 1 "demo_env (days 40)" "demo_stale [demo_delivery]" demo_delivery]
    by (simp add: demo_stale_def demo_delivery_def new_delivery_def)
qed

end
