(* ===== verification/Webhook_Laws.thy ===== *)
theory Webhook_Laws
  imports Webhook_Service
begin

text \<open>
  The life of a delivery: the schedule of its retries, and where it ends. A history is the list
  of instants at which the worker reports an attempt of the delivery, with its outcome.
\<close>

definition at_time :: "env \<Rightarrow> time \<Rightarrow> env" where
  "at_time e t = e\<lparr>env_now := t\<rparr>"

definition run_attempts :: "env \<Rightarrow> uuid \<Rightarrow> (time \<times> bool) list \<Rightarrow> db \<Rightarrow> db" where
  "run_attempts e i hist d = fold (\<lambda>(t, ok). process_delivery_result (at_time e t) i ok) hist d"

text \<open>One report on a delivery, case by case.\<close>

lemma find_delivery_modify:
  "(\<And>r. del_id (f r) = del_id r) \<Longrightarrow>
   find_delivery j (modify_delivery i f d) = (if i = j then map_option f (find_delivery j d) else find_delivery j d)"
  by (rule deliveries.look_modify)

lemma process_failure_retry:
  assumes "find_delivery i d = Some del" and "Suc (del_attempts del) < del_max_attempts del"
  shows "find_delivery i (process_delivery_result e i False d) =
      Some (del\<lparr>del_attempts := Suc (del_attempts del), del_last_attempt_at := Some (env_now e),
        del_next_retry_at := calculate_next_retry (env_now e) (Suc (del_attempts del))\<rparr>)"
    and "db_dead_letters (process_delivery_result e i False d) = db_dead_letters d"
proof -
  have f: "find_delivery i (modify_delivery i (\<lambda>r. r\<lparr>del_attempts := Suc (del_attempts r),
      del_last_attempt_at := Some (env_now e)\<rparr>) d) =
    Some (del\<lparr>del_attempts := Suc (del_attempts del), del_last_attempt_at := Some (env_now e)\<rparr>)"
    using assms(1) by (simp add: find_delivery_modify)
  show "find_delivery i (process_delivery_result e i False d) =
      Some (del\<lparr>del_attempts := Suc (del_attempts del), del_last_attempt_at := Some (env_now e),
        del_next_retry_at := calculate_next_retry (env_now e) (Suc (del_attempts del))\<rparr>)"
    using assms by (simp add: process_delivery_result_def Let_def find_delivery_modify)
  show "db_dead_letters (process_delivery_result e i False d) = db_dead_letters d"
    using assms(2) f by (simp add: process_delivery_result_def Let_def modify_delivery_def)
qed

lemma process_failure_last:
  assumes "find_delivery i d = Some del" and "del_max_attempts del \<le> Suc (del_attempts del)"
  shows "find_delivery i (process_delivery_result e i False d) =
      Some (del\<lparr>del_attempts := Suc (del_attempts del), del_last_attempt_at := Some (env_now e),
        del_status := WDeadLettered, del_next_retry_at := None\<rparr>)"
    and "\<exists>q. db_dead_letters (process_delivery_result e i False d) = db_dead_letters d @ [q] \<and>
      dlq_delivery q = i \<and> dlq_merchant q = del_merchant del \<and> dlq_event_type q = del_event_type del \<and>
      \<not> dlq_resolved q \<and> dlq_retry_count q = 0"
proof -
  have f: "find_delivery i (modify_delivery i (\<lambda>r. r\<lparr>del_attempts := Suc (del_attempts r),
      del_last_attempt_at := Some (env_now e)\<rparr>) d) =
    Some (del\<lparr>del_attempts := Suc (del_attempts del), del_last_attempt_at := Some (env_now e)\<rparr>)"
    using assms(1) by (simp add: find_delivery_modify)
  have i: "del_id del = i" using deliveries.look_key[OF assms(1)] .
  have fa: "find_delivery i (add_dead_letter q (tick_id d1)) = find_delivery i d1" for q d1
    by (simp add: find_delivery_def add_dead_letter_def)
  show "find_delivery i (process_delivery_result e i False d) =
      Some (del\<lparr>del_attempts := Suc (del_attempts del), del_last_attempt_at := Some (env_now e),
        del_status := WDeadLettered, del_next_retry_at := None\<rparr>)"
    using assms by (simp add: process_delivery_result_def Let_def move_to_dlq_def fa find_delivery_modify)
  show "\<exists>q. db_dead_letters (process_delivery_result e i False d) = db_dead_letters d @ [q] \<and>
      dlq_delivery q = i \<and> dlq_merchant q = del_merchant del \<and> dlq_event_type q = del_event_type del \<and>
      \<not> dlq_resolved q \<and> dlq_retry_count q = 0"
    using assms(2) f i by (simp add: process_delivery_result_def Let_def move_to_dlq_def
        add_dead_letter_def modify_delivery_def tick_id_def new_dead_letter_def)
qed

lemma process_success:
  assumes "find_delivery i d = Some del"
  shows "find_delivery i (process_delivery_result e i True d) =
      Some (del\<lparr>del_attempts := Suc (del_attempts del), del_last_attempt_at := Some (env_now e),
        del_status := WDelivered, del_next_retry_at := None\<rparr>)"
    and "db_dead_letters (process_delivery_result e i True d) = db_dead_letters d"
proof -
  have f: "find_delivery i (modify_delivery i (\<lambda>r. r\<lparr>del_attempts := Suc (del_attempts r),
      del_last_attempt_at := Some (env_now e)\<rparr>) d) =
    Some (del\<lparr>del_attempts := Suc (del_attempts del), del_last_attempt_at := Some (env_now e)\<rparr>)"
    using assms by (simp add: find_delivery_modify)
  show "find_delivery i (process_delivery_result e i True d) =
      Some (del\<lparr>del_attempts := Suc (del_attempts del), del_last_attempt_at := Some (env_now e),
        del_status := WDelivered, del_next_retry_at := None\<rparr>)"
    using assms by (simp add: process_delivery_result_def Let_def find_delivery_modify)
  show "db_dead_letters (process_delivery_result e i True d) = db_dead_letters d"
    using f by (simp add: process_delivery_result_def Let_def modify_delivery_def)
qed

text \<open>
  A fresh delivery that fails at the instants \<open>ts\<close>: it stays pending with the next retry at the
  last instant plus the delay of that round, until the last attempt moves it to the queue.
\<close>

lemma run_attempts_snoc:
  "run_attempts e i (hist @ [(t, ok)]) d = process_delivery_result (at_time e t) i ok (run_attempts e i hist d)"
  by (simp add: run_attempts_def)

lemma run_failures_pending:
  assumes "find_delivery i d = Some del" and "del_status del = WPending" and "del_attempts del = 0"
    and "length ts < del_max_attempts del"
  shows "\<exists>q. find_delivery i (run_attempts e i (map (\<lambda>t. (t, False)) ts) d) = Some q \<and>
      del_status q = WPending \<and> del_attempts q = length ts \<and> del_max_attempts q = del_max_attempts del \<and>
      del_merchant q = del_merchant del \<and> del_event_type q = del_event_type del \<and>
      del_payload q = del_payload del \<and>
      (ts \<noteq> [] \<longrightarrow> del_next_retry_at q = calculate_next_retry (last ts) (length ts)) \<and>
      db_dead_letters (run_attempts e i (map (\<lambda>t. (t, False)) ts) d) = db_dead_letters d"
  using assms(4)
proof (induction ts rule: rev_induct)
  case Nil
  then show ?case using assms by (simp add: run_attempts_def)
next
  case (snoc t ts)
  let ?d = "run_attempts e i (map (\<lambda>t. (t, False)) ts) d"
  have "length ts < del_max_attempts del" using snoc.prems by simp
  then obtain q where q: "find_delivery i ?d = Some q" "del_status q = WPending"
    "del_attempts q = length ts" "del_max_attempts q = del_max_attempts del"
    "del_merchant q = del_merchant del" "del_event_type q = del_event_type del" "del_payload q = del_payload del"
    "db_dead_letters ?d = db_dead_letters d"
    using snoc.IH by blast
  have "Suc (del_attempts q) < del_max_attempts q" using q snoc.prems by simp
  note P = process_failure_retry[OF q(1) this, of "at_time e t"]
  show ?case using P q by (simp add: run_attempts_snoc at_time_def)
qed

lemma run_failures_dead:
  assumes "find_delivery i d = Some del" and "del_status del = WPending" and "del_attempts del = 0"
    and "length ts = del_max_attempts del" and "0 < del_max_attempts del"
  shows "\<exists>q. find_delivery i (run_attempts e i (map (\<lambda>t. (t, False)) ts) d) = Some q \<and>
      del_status q = WDeadLettered \<and> del_attempts q = del_max_attempts del \<and> del_next_retry_at q = None"
    and "\<exists>x. db_dead_letters (run_attempts e i (map (\<lambda>t. (t, False)) ts) d) = db_dead_letters d @ [x] \<and>
      dlq_delivery x = i \<and> dlq_merchant x = del_merchant del \<and> dlq_event_type x = del_event_type del \<and> \<not> dlq_resolved x"
proof -
  obtain us t where ts: "ts = us @ [t]" using assms(4,5) by (cases ts rule: rev_cases) auto
  let ?d = "run_attempts e i (map (\<lambda>t. (t, False)) us) d"
  have "length us < del_max_attempts del" using assms(4) ts by simp
  from run_failures_pending[OF assms(1-3) this, of e] obtain q where q: "find_delivery i ?d = Some q"
    "del_attempts q = length us" "del_max_attempts q = del_max_attempts del"
    "del_merchant q = del_merchant del" "del_event_type q = del_event_type del"
    "db_dead_letters ?d = db_dead_letters d" by blast
  have "del_max_attempts q \<le> Suc (del_attempts q)" using q ts assms(4) by simp
  note P = process_failure_last[OF q(1) this, of "at_time e t"]
  show "\<exists>q. find_delivery i (run_attempts e i (map (\<lambda>t. (t, False)) ts) d) = Some q \<and>
      del_status q = WDeadLettered \<and> del_attempts q = del_max_attempts del \<and> del_next_retry_at q = None"
    using P(1) q ts assms(4) by (simp add: run_attempts_snoc)
  show "\<exists>x. db_dead_letters (run_attempts e i (map (\<lambda>t. (t, False)) ts) d) = db_dead_letters d @ [x] \<and>
      dlq_delivery x = i \<and> dlq_merchant x = del_merchant del \<and> dlq_event_type x = del_event_type del \<and> \<not> dlq_resolved x"
    using P(2) q ts by (auto simp: run_attempts_snoc)
qed

text \<open>A dead delivery is not picked up again: only pending ones are due.\<close>

lemma dead_not_due: "del_status del \<noteq> WPending \<Longrightarrow> \<not> due_delivery now del"
  by (simp add: due_delivery_def)

end
