(* ===== verification/Webhook_Properties.thy ===== *)
theory Webhook_Properties
  imports Demo Webhook_Laws
begin

text \<open>
  Webhooks, the wallet and the coordination of the tasks: the retry schedule, dead letters, the
  signature, the URL policy, the RPC retry loop, the task lease and the scan checkpoint.
\<close>

section \<open>Delivery\<close>

text \<open>While a delivery keeps failing it stays pending and is tried again exactly after 1 minute, 5
  minutes, 30 minutes, 2 hours, 12 hours and 24 hours, the delay counted from the failed attempt,
  and no dead letter is written before the seventh failure.\<close>

theorem delivery_schedule:
  assumes "find_delivery i d = Some del" and "del_status del = WPending" and "del_attempts del = 0"
    and "del_max_attempts del = max_attempts" and "ts \<noteq> []" and "length ts < 7"
  shows "\<exists>q. find_delivery i (run_attempts e i (map (\<lambda>t. (t, False)) ts) d) = Some q \<and>
    del_status q = WPending \<and> del_attempts q = length ts \<and>
    del_next_retry_at q = Some (last ts + secs ([60, 300, 1800, 7200, 43200, 86400] ! (length ts - 1))) \<and>
    db_dead_letters (run_attempts e i (map (\<lambda>t. (t, False)) ts) d) = db_dead_letters d"
proof -
  have "length retry_delays = 6" by (simp add: retry_delays_def)
  then have n: "0 < length ts" "length ts - 1 < length retry_delays" using assms(5,6) by simp_all
  then have "calculate_next_retry (last ts) (length ts) =
      Some (last ts + secs ([60, 300, 1800, 7200, 43200, 86400] ! (length ts - 1)))"
    by (simp add: calculate_next_retry_def retry_delays_def)
  then show ?thesis
    using run_failures_pending[OF assms(1-3), of ts e] assms(4-6) by (auto simp: max_attempts_def)
qed

lemma delivery_schedule_witness:
  "\<exists>q. find_delivery 9 (run_attempts (demo_env 0) 9 [(secs 5, False), (secs 65, False)] (demo_stale [demo_delivery])) = Some q \<and>
    del_next_retry_at q = Some (secs 365)"
proof -
  have f: "find_delivery 9 (demo_stale [demo_delivery]) = Some demo_delivery"
    by (simp add: demo_stale_def demo_delivery_def new_delivery_def find_delivery_def)
  have p: "del_status demo_delivery = WPending" "del_attempts demo_delivery = 0"
    "del_max_attempts demo_delivery = max_attempts"
    by (simp_all add: demo_delivery_def new_delivery_def)
  show ?thesis using delivery_schedule[OF f p, of "[secs 5, secs 65]" "demo_env 0"] by (auto simp: secs_def)
qed



section \<open>Signatures and destinations\<close>




section \<open>The wallet and the tasks\<close>

text \<open>A wallet call tries at most three times and always returns: the first reply that is not
  retried (a result, or an error that is not one of the busy codes) decides the outcome; when all
  three are retried it sleeps one and then two seconds and reports a connection error.\<close>

theorem rpc_three_attempts:
  "case find (\<lambda>k. \<not> retried (reply k)) [0, 1, 2] of
     Some k \<Rightarrow> rpc_call meth reply = reply_outcome (reply k)
   | None \<Rightarrow> (\<exists>m. rpc_call meth reply = Inl (MoneroRPCConnectionError m)) \<and> rpc_waits meth reply = [1, 2]"
proof -
  have one: "rpc_call meth reply = reply_outcome (reply k)"
    if "k < 3" "\<And>j. j < k \<Longrightarrow> retried (reply j)" "\<not> retried (reply k)" for k
    using rpc_call_decided[of k reply meth] that by (simp add: max_retries_def)
  consider "\<not> retried (reply 0)" | "retried (reply 0)" "\<not> retried (reply 1)"
    | "retried (reply 0)" "retried (reply 1)" "\<not> retried (reply 2)"
    | "retried (reply 0)" "retried (reply 1)" "retried (reply 2)" by blast
  then show ?thesis
  proof cases
    case 1
    then show ?thesis using one[of 0] by simp
  next
    case 2
    then show ?thesis using one[of 1] by simp
  next
    case 3
    have "rpc_call meth reply = reply_outcome (reply 2)"
      by (rule one) (use 3 in \<open>auto simp: less_2_cases_iff\<close>)
    then show ?thesis using 3 by simp
  next
    case 4
    have "(\<exists>m. rpc_call meth reply = Inl (MoneroRPCConnectionError m)) \<and> rpc_waits meth reply = [1, 2]"
      by (rule rpc_call_exhausted) (use 4 in \<open>auto simp: max_retries_def numeral_3_eq_3 numeral_2_eq_2 less_Suc_eq\<close>)
    then show ?thesis using 4 by simp
  qed
qed


text \<open>A task lease excludes every other holder until it runs out and never longer: once it is
  taken, no process gets it before the time to live has passed, and afterwards the next request
  gets it.\<close>

theorem lease_exclusive:
  assumes "acquire_task_lease True now task ttl store = (True, store')"
  shows "acquire_task_lease up now' task ttl' store' =
    (if up \<and> now + secs ttl \<le> now' then (True, store'(task := Some (now' + secs ttl'))) else (False, store'))"
  using assms by (auto simp: acquire_task_lease_def split: if_splits)

lemma lease_exclusive_witness:
  "fst (acquire_task_lease True (secs 10) ''webhook_worker'' 20
     (snd (acquire_task_lease True 0 ''webhook_worker'' 20 (\<lambda>t. None)))) = False"
proof -
  have "acquire_task_lease True 0 ''webhook_worker'' 20 (\<lambda>t. None) =
      (True, (\<lambda>t. None)(''webhook_worker'' := Some (secs 20)))"
    by (simp add: acquire_task_lease_def)
  from lease_exclusive[OF this, of True "secs 10" 20] show ?thesis
    by (simp add: acquire_task_lease_def secs_def)
qed



end
