(* ===== verification/Renewal_Laws.thy ===== *)
theory Renewal_Laws
  imports Subscription_Service
begin

text \<open>
  What renewing and prepaying achieve: the effect of a successful renewal on the subscription and
  its periods, why repeating it does nothing, and the effect of a fulfilled prepayment.
\<close>

section \<open>What creating an invoice leaves alone\<close>

lemma create_invoice_frame:
  assumes "create_invoice e m raw desc ex meta fr fc d = (x, d')"
  shows "db_subs d' = db_subs d" and "db_sub_payments d' = db_sub_payments d"
    and "db_payments d' = db_payments d" and "db_merchants d' = db_merchants d"
    and "db_events d' = db_events d" and "db_deliveries d' = db_deliveries d"
    and "db_next_id d \<le> db_next_id d'"
proof -
  have "db_subs d' = db_subs d \<and> db_sub_payments d' = db_sub_payments d \<and> db_payments d' = db_payments d \<and>
      db_merchants d' = db_merchants d \<and> db_events d' = db_events d \<and> db_deliveries d' = db_deliveries d \<and>
      db_next_id d \<le> db_next_id d'"
    by (rule create_invoice_cases[of e m raw desc ex meta fr fc d])
       (use assms in \<open>auto simp: delete_invoice_def tick_rpc_def add_invoice_def add_address_def\<close>)
  then show "db_subs d' = db_subs d" and "db_sub_payments d' = db_sub_payments d"
    and "db_payments d' = db_payments d" and "db_merchants d' = db_merchants d"
    and "db_events d' = db_events d" and "db_deliveries d' = db_deliveries d"
    and "db_next_id d \<le> db_next_id d'" by simp_all
qed

text \<open>A created invoice is pending, carries the amount in piconero, and is found under its id.\<close>

lemma create_invoice_found:
  assumes run: "create_invoice e m raw desc ex meta fr fc d = (Inr i, d')"
    and fresh: "find_invoice (db_next_id d) d = None"
  obtains a s r where "raw = Some (Fin a)" and "0 < a" and "validate_expires_in ex = Inr s"
    and "r = stored_invoice (new_invoice e i m a desc s meta fr fc)"
    and "find_invoice i d' = Some r" and "i = db_next_id d"
    and "\<And>j. j \<noteq> i \<Longrightarrow> find_invoice j d' = find_invoice j d"
proof (cases rule: create_invoice_cases[of e m raw desc ex meta fr fc d])
  case (created a s idx r details)
  let ?r = "stored_invoice r"
  have i: "i = db_next_id d" using created(7) run by simp
  have inv: "db_invoices d' = db_invoices d @ [?r]"
    using created(7) run by (auto simp: add_address_def tick_rpc_def add_invoice_def)
  have id: "inv_id ?r = i" using created(5) i by (simp add: stored_invoice_def new_invoice_def)
  have "find_invoice i d' = Some ?r" using fresh id i
    by (simp add: find_invoice_def inv get_row_append)
  moreover have "find_invoice j d' = find_invoice j d" if "j \<noteq> i" for j
    using that id by (simp add: find_invoice_def inv get_row_append split: option.split)
  ultimately show ?thesis using that[OF created(1,2,4) _ _ i] created(5) i by simp
qed (use run in auto)

section \<open>A successful renewal\<close>

lemma renewal_pending_effect:
  assumes "renewal_pending e sid s d = (Inr u, d1)" and "find_sub sid d = Some s"
  shows "\<exists>s1. find_sub sid d1 = Some s1 \<and> s1\<lparr>sub_updated_at := 0\<rparr> = (fst (apply_pending_changes s))\<lparr>sub_updated_at := 0\<rparr>"
    and "db_sub_payments d1 = db_sub_payments d" and "db_invoices d1 = db_invoices d"
    and "db_next_id d \<le> db_next_id d1" and "j \<noteq> sid \<Longrightarrow> find_sub j d1 = find_sub j d"
proof -
  obtain s' ch where ac: "apply_pending_changes s = (s', ch)" by fastforce
  have sid: "sub_id s = sid" using subs.look_key[OF assms(2)] .
  have s'id: "sub_id s' = sid" using apply_pending_fields(1)[of s] ac sid by simp
  have keep: "find_sub j (touch_sub e sid (\<lambda>_. s') d) =
      (if sid = j then Some (s'\<lparr>sub_updated_at := env_now e\<rparr>) else find_sub j d)" for j
  proof -
    have "get_row sub_id j (upd_row sub_id sid (\<lambda>_. s'\<lparr>sub_updated_at := env_now e\<rparr>) rs) =
      (if sid = j then (case get_row sub_id j rs of None \<Rightarrow> None | Some _ \<Rightarrow> Some (s'\<lparr>sub_updated_at := env_now e\<rparr>))
       else get_row sub_id j rs)" for rs
      by (induction rs) (auto simp: upd_row_def s'id)
    then show ?thesis using assms(2) by (auto simp: touch_sub_def modify_sub_def find_sub_def)
  qed
  have none: "ch = [] \<Longrightarrow> s' = s"
    using apply_pending_none[of s] apply_pending_changes_empty[of s] ac by simp
  have d1: "d1 = (if ch = [] then d else log_renewal_event e sid ''pending_applied'' None None ch
      (touch_sub e sid (\<lambda>_. s') d))"
    using assms(1) ac by (auto simp: renewal_pending_def split: if_splits option.splits)
  have fl: "find_sub j (log_renewal_event e sid r iv er x dd) = find_sub j dd" for j r iv er x dd
    by (simp add: find_sub_def)
  show "\<exists>s1. find_sub sid d1 = Some s1 \<and> s1\<lparr>sub_updated_at := 0\<rparr> = (fst (apply_pending_changes s))\<lparr>sub_updated_at := 0\<rparr>"
    using none assms(2) by (auto simp: d1 ac fl keep)
  show "db_sub_payments d1 = db_sub_payments d" and "db_invoices d1 = db_invoices d"
    and "db_next_id d \<le> db_next_id d1" and "j \<noteq> sid \<Longrightarrow> find_sub j d1 = find_sub j d"
    by (simp_all add: d1 fl keep)
qed

text \<open>
  The start of a renewal: nothing recorded for the period, nothing unpaid, and then the steps of
  the code in order.
\<close>

lemma create_renewal_invoice_for_Inr:
  assumes "create_renewal_invoice_for e sid m d = (Inr (iid, spid), d')"
  obtains s start d1 d2 where "find_sub sid d = Some s" and "sub_next_due_at s = Some start"
    and "period_sps sid start d = []" and "unpaid_sps sid d = []"
    and "renewal_pending e sid s d = (Inr (), d1)"
    and "create_invoice e m (Some (Fin (sub_amount_xmr (fst (apply_pending_changes s)))))
           (Some (''Subscription '' @ uuid_str sid)) (Some (renewal_expires_in (fst (apply_pending_changes s))))
           (Some (JObj (period_metadata sid start (start + days (sub_interval_days (fst (apply_pending_changes s)))))))
           None ''USD'' d1 = (Inr iid, d2)"
    and "renewal_commit e sid (fst (apply_pending_changes s)) (has_pending s) start
           (start + days (sub_interval_days (fst (apply_pending_changes s)))) iid d2 = (spid, d')"
proof -
  obtain s where s: "find_sub sid d = Some s"
    using assms by (cases "find_sub sid d") (simp_all add: create_renewal_invoice_for_def)
  obtain start where st: "sub_next_due_at s = Some start"
    using assms s by (cases "sub_next_due_at s") (simp_all add: create_renewal_invoice_for_def)
  have ps: "scalar_one_or_none (period_sps sid start d) = Inr None"
    using assms s st by (auto simp: create_renewal_invoice_for_def split: sum.splits option.splits)
  have up: "unpaid_sps sid d = []"
    using assms s st ps by (auto simp: create_renewal_invoice_for_def split: if_splits)
  obtain x d1 where rp: "renewal_pending e sid s d = (x, d1)" by fastforce
  have x: "x = Inr ()" using assms s st ps up rp by (cases x) (auto simp: create_renewal_invoice_for_def)
  obtain y d2 where ci: "create_invoice e m (Some (Fin (sub_amount_xmr (fst (apply_pending_changes s)))))
           (Some (''Subscription '' @ uuid_str sid)) (Some (renewal_expires_in (fst (apply_pending_changes s))))
           (Some (JObj (period_metadata sid start (start + days (sub_interval_days (fst (apply_pending_changes s)))))))
           None ''USD'' d1 = (y, d2)" by fastforce
  have eq: "create_renewal_invoice_for e sid m d = (case (y, d2) of (Inl x, d2) \<Rightarrow> (Inl x, d2)
      | (Inr iid, d2) \<Rightarrow> (case renewal_commit e sid (fst (apply_pending_changes s)) (has_pending s) start
           (start + days (sub_interval_days (fst (apply_pending_changes s)))) iid d2 of
                 (spid, d3) \<Rightarrow> (Inr (iid, spid), d3)))"
    unfolding create_renewal_invoice_for_def s option.case st ps sum.case up rp x prod.case Let_def ci
    by simp
  have y: "y = Inr iid"
    using assms eq by (cases y) (auto split: prod.splits)
  have rc: "renewal_commit e sid (fst (apply_pending_changes s)) (has_pending s) start
           (start + days (sub_interval_days (fst (apply_pending_changes s)))) iid d2 = (spid, d')"
    using assms eq y by (auto split: prod.splits)
  show ?thesis
    by (rule that[OF s st _ up _ _ rc]) (use ps rp x ci y in \<open>simp_all add: scalar_one_or_none_None\<close>)
qed

lemma renewal_commit_effect:
  assumes "renewal_commit e sid s b start stop iid d = (spid, d')" and "find_sub sid d = Some s0"
  shows "db_sub_payments d' = db_sub_payments d @ [new_sp e spid sid iid start stop]"
    and "find_sub sid d' = Some (s0\<lparr>sub_next_due_at :=
      Some (calculate_next_due (sub_billing_anchor_at s) (sub_interval_days s) (env_now e)), sub_updated_at := env_now e\<rparr>)"
    and "db_invoices d' = db_invoices d" and "j \<noteq> sid \<Longrightarrow> find_sub j d' = find_sub j d"
proof -
  have fl: "find_sub j (log_renewal_event e i r iv er x dd) = find_sub j dd"
    "find_sub j (audit e mm ac et ei det dd) = find_sub j dd" for j r iv er x dd i mm ac et ei det
    by (simp_all add: find_sub_def)
  have fa: "find_sub j (add_sub_payment sp (tick_id d)) = find_sub j d" for j sp
    by (simp add: find_sub_def)
  have ft: "find_sub j (touch_sub e sid (\<lambda>r. r\<lparr>sub_next_due_at := t\<rparr>) dd) =
      (if sid = j then map_option (\<lambda>s. s\<lparr>sub_next_due_at := t, sub_updated_at := env_now e\<rparr>) (find_sub j dd)
       else find_sub j dd)" for j t dd
    using find_sub_touch[of "\<lambda>r. r\<lparr>sub_next_due_at := t\<rparr>" j e sid dd] by simp
  show "db_sub_payments d' = db_sub_payments d @ [new_sp e spid sid iid start stop]"
    using assms(1) by (auto simp: renewal_commit_def Let_def) (simp add: add_sub_payment_def)
  show "find_sub sid d' = Some (s0\<lparr>sub_next_due_at :=
      Some (calculate_next_due (sub_billing_anchor_at s) (sub_interval_days s) (env_now e)), sub_updated_at := env_now e\<rparr>)"
    using assms by (auto simp: renewal_commit_def Let_def fl fa ft)
  show "db_invoices d' = db_invoices d"
    using assms(1) by (auto simp: renewal_commit_def Let_def)
  show "j \<noteq> sid \<Longrightarrow> find_sub j d' = find_sub j d"
    using assms(1) by (auto simp: renewal_commit_def Let_def fl fa ft)
qed

text \<open>Nothing is linked to an identifier that has not been drawn, and none of the rows in use.\<close>

definition ids_fresh :: "db \<Rightarrow> bool" where
  "ids_fresh d \<longleftrightarrow> (\<forall>r \<in> set (db_invoices d). inv_id r < db_next_id d) \<and>
     (\<forall>sp \<in> set (db_sub_payments d). sp_invoice sp < db_next_id d)"

lemma fresh_invoice: "ids_fresh d \<Longrightarrow> db_next_id d \<le> i \<Longrightarrow> find_invoice i d = None"
  unfolding find_invoice_def get_row_None ids_fresh_def by auto

lemma stamp_last: "(s :: subscription)\<lparr>sub_updated_at := a, sub_next_due_at := b\<rparr> =
    s\<lparr>sub_next_due_at := b, sub_updated_at := a\<rparr>"
  by simp

lemma renewal_effect:
  assumes run: "create_renewal_invoice_for e sid m d = (Inr (iid, spid), d')" and fr: "ids_fresh d"
  obtains s start s' r where "find_sub sid d = Some s" and "sub_next_due_at s = Some start"
    and "period_sps sid start d = []" and "unpaid_sps sid d = []"
    and "db_sub_payments d' = db_sub_payments d @
      [new_sp e spid sid iid start (start + days (sub_interval_days (fst (apply_pending_changes s))))]"
    and "find_sub sid d' = Some s'"
    and "s'\<lparr>sub_updated_at := 0\<rparr> = (fst (apply_pending_changes s))
      \<lparr>sub_next_due_at := Some (calculate_next_due (sub_billing_anchor_at s)
         (sub_interval_days (fst (apply_pending_changes s))) (env_now e)), sub_updated_at := 0\<rparr>"
    and "sub_next_due_at s' = Some (calculate_next_due (sub_billing_anchor_at s)
         (sub_interval_days (fst (apply_pending_changes s))) (env_now e))"
    and "find_invoice iid d' = Some r" and "inv_status r = IPending"
    and "inv_amount_atomic r = xmr_to_atomic (sub_amount_xmr (fst (apply_pending_changes s)))"
    and "inv_expires_at r = env_now e + secs (renewal_expires_in (fst (apply_pending_changes s)))"
    and "inv_merchant r = mer_id m"
    and "\<And>j. j \<noteq> iid \<Longrightarrow> find_invoice j d' = find_invoice j d"
    and "\<And>j. j \<noteq> sid \<Longrightarrow> find_sub j d' = find_sub j d"
proof -
  obtain s start d1 d2 where A: "find_sub sid d = Some s" "sub_next_due_at s = Some start"
    "period_sps sid start d = []" "unpaid_sps sid d = []" "renewal_pending e sid s d = (Inr (), d1)"
    and ci: "create_invoice e m (Some (Fin (sub_amount_xmr (fst (apply_pending_changes s)))))
           (Some (''Subscription '' @ uuid_str sid)) (Some (renewal_expires_in (fst (apply_pending_changes s))))
           (Some (JObj (period_metadata sid start (start + days (sub_interval_days (fst (apply_pending_changes s)))))))
           None ''USD'' d1 = (Inr iid, d2)"
    and rc: "renewal_commit e sid (fst (apply_pending_changes s)) (has_pending s) start
           (start + days (sub_interval_days (fst (apply_pending_changes s)))) iid d2 = (spid, d')"
    using create_renewal_invoice_for_Inr[OF run] by metis
  let ?s = "fst (apply_pending_changes s)"
  note P = renewal_pending_effect[OF A(5) A(1)]
  note F = create_invoice_frame[OF ci]
  obtain s1 where s1: "find_sub sid d1 = Some s1" "s1\<lparr>sub_updated_at := 0\<rparr> = ?s\<lparr>sub_updated_at := 0\<rparr>"
    using P(1) by blast
  have fs2: "find_sub j d2 = find_sub j d1" for j using F(1) by (simp add: find_sub_def)
  then have s2: "find_sub sid d2 = Some s1" using s1(1) by simp
  note C = renewal_commit_effect[OF rc s2]
  have fi1: "find_invoice j d1 = find_invoice j d" for j using P(3) by (simp add: find_invoice_def)
  have "find_invoice (db_next_id d1) d1 = None" using fresh_invoice[OF fr P(4)] fi1 by simp
  from create_invoice_found[OF ci this] obtain a x r where
    r: "Some (Fin (sub_amount_xmr ?s)) = Some (Fin a)" "validate_expires_in (Some (renewal_expires_in ?s)) = Inr x"
      "r = stored_invoice (new_invoice e iid m a (Some (''Subscription '' @ uuid_str sid)) x
         (Some (JObj (period_metadata sid start (start + days (sub_interval_days ?s))))) None ''USD'')"
      "find_invoice iid d2 = Some r" "\<And>j. j \<noteq> iid \<Longrightarrow> find_invoice j d2 = find_invoice j d1"
    by metis
  have x: "x = renewal_expires_in ?s" using r(2) by (auto split: if_splits)
  have fi2: "find_invoice j d' = find_invoice j d2" for j using C(3) by (simp add: find_invoice_def)
  show ?thesis
  proof (rule that[OF A(1-4)])
    show "db_sub_payments d' = db_sub_payments d @ [new_sp e spid sid iid start (start + days (sub_interval_days ?s))]"
      using C(1) F(2) P(2) by simp
    show "find_sub sid d' = Some (s1\<lparr>sub_next_due_at := Some (calculate_next_due (sub_billing_anchor_at ?s)
        (sub_interval_days ?s) (env_now e)), sub_updated_at := env_now e\<rparr>)" by (rule C(2))
    show "(s1\<lparr>sub_next_due_at := Some (calculate_next_due (sub_billing_anchor_at ?s) (sub_interval_days ?s) (env_now e)),
        sub_updated_at := env_now e\<rparr>)\<lparr>sub_updated_at := 0\<rparr> =
      ?s\<lparr>sub_next_due_at := Some (calculate_next_due (sub_billing_anchor_at s) (sub_interval_days ?s) (env_now e)),
         sub_updated_at := 0\<rparr>"
      using arg_cong[OF s1(2), of "\<lambda>q. q\<lparr>sub_next_due_at := Some (calculate_next_due (sub_billing_anchor_at s)
        (sub_interval_days ?s) (env_now e))\<rparr>"]
      unfolding stamp_last by (simp add: apply_pending_fields)
    show "sub_next_due_at (s1\<lparr>sub_next_due_at := Some (calculate_next_due (sub_billing_anchor_at ?s)
        (sub_interval_days ?s) (env_now e)), sub_updated_at := env_now e\<rparr>) =
      Some (calculate_next_due (sub_billing_anchor_at s) (sub_interval_days ?s) (env_now e))"
      by (simp add: apply_pending_fields)
    show "find_invoice iid d' = Some r" using r(4) fi2 by simp
    show "inv_status r = IPending" "inv_amount_atomic r = xmr_to_atomic (sub_amount_xmr ?s)"
      "inv_expires_at r = env_now e + secs (renewal_expires_in ?s)" "inv_merchant r = mer_id m"
      using r(1,3) x by (simp_all add: stored_invoice_def new_invoice_def)
    show "find_invoice j d' = find_invoice j d" if "j \<noteq> iid" for j using r(5)[OF that] fi1 fi2 by simp
    show "find_sub j d' = find_sub j d" if "j \<noteq> sid" for j using C(4)[OF that] P(5)[OF that] fs2 by simp
  qed
qed

text \<open>Renewing again before the invoice is paid is refused, and leaves the database alone.\<close>

lemma renewal_repeat:
  assumes run: "create_renewal_invoice_for e sid m d = (Inr (iid, spid), d')" and fr: "ids_fresh d"
  shows "\<exists>msg result. create_renewal_invoice_for e' sid m' d' = (Inl (SkipRenewalError msg result), d') \<and>
    result \<in> {''skipped_idempotent'', ''skipped_unpaid''} \<or>
    create_renewal_invoice_for e' sid m' d' = (Inl MultipleResultsFound, d')"
proof -
  obtain s start s' r where R:
    "db_sub_payments d' = db_sub_payments d @
      [new_sp e spid sid iid start (start + days (sub_interval_days (fst (apply_pending_changes s))))]"
    "find_sub sid d' = Some s'" "sub_next_due_at s' = Some (calculate_next_due (sub_billing_anchor_at s)
         (sub_interval_days (fst (apply_pending_changes s))) (env_now e))"
    "find_invoice iid d' = Some r" "inv_status r = IPending"
    by (rule renewal_effect[OF run fr], rule that; assumption)
  have "unpaid_sps sid d' \<noteq> []"
    using R(1,4,5) by (simp add: unpaid_sps_def sps_with_def new_sp_def unpaid_status_def)
  then have un: "0 < length (unpaid_sps sid d')" by simp
  let ?t = "calculate_next_due (sub_billing_anchor_at s) (sub_interval_days (fst (apply_pending_changes s))) (env_now e)"
  show ?thesis
  proof (cases "scalar_one_or_none (period_sps sid ?t d')")
    case (Inl x)
    then have "x = MultipleResultsFound"
      by (cases "period_sps sid ?t d'" rule: scalar_one_or_none.cases) simp_all
    then show ?thesis using R(2,3) Inl by (simp add: create_renewal_invoice_for_def)
  next
    case (Inr y)
    then show ?thesis using R(2,3) un by (cases y) (simp_all add: create_renewal_invoice_for_def)
  qed
qed

section \<open>A fulfilled prepayment\<close>

lemma handle_prepay_Inr:
  assumes "handle_prepay_payment e ivc sid d = (Inr u, d')" and "invoice_sps (inv_id ivc) d = []"
  obtains s due periods where "find_sub sid d = Some s" and "sub_next_due_at s = Some due"
    and "meta_periods (meta_dict ivc) = Inr periods"
    and "prepay_fulfil e ivc s due periods d = (Inr (), d')"
  using assms by (auto simp: handle_prepay_payment_def split: option.splits sum.splits)

lemma prepay_fulfil_effect:
  assumes run: "prepay_fulfil e ivc s due periods d = (Inr (), d')" and s: "find_sub sid d = Some s"
  shows "db_sub_payments d' = db_sub_payments d @
      prepay_rows e sid (inv_id ivc) due (sub_interval_days s) (db_next_id d) 0 (nat periods)"
    and "\<exists>s'. find_sub sid d' = Some s' \<and>
      sub_next_due_at s' = Some (due + days (periods * sub_interval_days s)) \<and>
      sub_prepaid_until s' = Some (due + days (periods * sub_interval_days s)) \<and>
      sub_prepay_invoice s' = None \<and>
      sub_status s' = (if sub_status s = SPastDue then SActive else sub_status s) \<and>
      sub_amount_atomic s' = sub_amount_atomic s \<and> sub_billing_anchor_at s' = sub_billing_anchor_at s"
proof -
  have sid: "sub_id s = sid" using subs.look_key[OF s] .
  show "db_sub_payments d' = db_sub_payments d @
      prepay_rows e sid (inv_id ivc) due (sub_interval_days s) (db_next_id d) 0 (nat periods)"
    using run sid by (auto simp: prepay_fulfil_def Let_def add_rows_def split: if_splits)
  let ?t = "Some (due + days (periods * sub_interval_days s))"
  let ?f = "\<lambda>r. r\<lparr>sub_next_due_at := ?t, sub_prepaid_until := ?t, sub_prepay_invoice := None,
      sub_status := (if sub_status r = SPastDue then SActive else sub_status r)\<rparr>"
  have fl: "find_sub j (log_renewal_event e i r iv er x dd) = find_sub j dd"
    "find_sub j (audit e mm ac et ei det dd) = find_sub j dd"
    "find_sub j (add_rows rs dd) = find_sub j dd" for j r iv er x dd i mm ac et ei det rs
    by (simp_all add: find_sub_def)
  have "find_sub sid d' = find_sub sid (touch_sub e sid ?f
      (add_rows (prepay_rows e (sub_id s) (inv_id ivc) due (sub_interval_days s) (db_next_id d) 0 (nat periods)) d))"
    using run sid by (auto simp: prepay_fulfil_def Let_def fl split: if_splits)
  also have "\<dots> = Some ((?f s)\<lparr>sub_updated_at := env_now e\<rparr>)"
    by (subst find_sub_touch) (simp_all add: fl s)
  finally show "\<exists>s'. find_sub sid d' = Some s' \<and>
      sub_next_due_at s' = Some (due + days (periods * sub_interval_days s)) \<and>
      sub_prepaid_until s' = Some (due + days (periods * sub_interval_days s)) \<and>
      sub_prepay_invoice s' = None \<and>
      sub_status s' = (if sub_status s = SPastDue then SActive else sub_status s) \<and>
      sub_amount_atomic s' = sub_amount_atomic s \<and> sub_billing_anchor_at s' = sub_billing_anchor_at s"
    by simp
qed

lemma prepay_rows_tile:
  assumes "0 < iv" and "n = Suc k"
  shows "sp_period_start (prepay_rows e sid iid due iv nx 0 n ! 0) = due"
    and "sp_period_end (prepay_rows e sid iid due iv nx 0 n ! k) = due + days (int n * iv)"
    and "\<And>j. Suc j < n \<Longrightarrow> sp_period_end (prepay_rows e sid iid due iv nx 0 n ! j) =
      sp_period_start (prepay_rows e sid iid due iv nx 0 n ! Suc j)"
    and "\<And>j. j < n \<Longrightarrow> sp_period_end (prepay_rows e sid iid due iv nx 0 n ! j) =
      sp_period_start (prepay_rows e sid iid due iv nx 0 n ! j) + days iv"
proof -
  have nth: "prepay_rows e sid iid due iv nx 0 n ! j =
      new_sp e (nx + j) sid iid (due + days (int j * iv)) (due + days ((int j + 1) * iv))" if "j < n" for j
    using prepay_rows_nth[OF that, of e sid iid due iv nx 0] by simp
  show "sp_period_start (prepay_rows e sid iid due iv nx 0 n ! 0) = due"
    using nth[of 0] assms(2) by (simp add: new_sp_def days_def secs_def)
  show "sp_period_end (prepay_rows e sid iid due iv nx 0 n ! k) = due + days (int n * iv)"
    using nth[of k] assms(2) by (simp add: new_sp_def add.commute)
  show "sp_period_end (prepay_rows e sid iid due iv nx 0 n ! j) =
      sp_period_start (prepay_rows e sid iid due iv nx 0 n ! Suc j)" if "Suc j < n" for j
    using nth[of j] nth[of "Suc j"] that by (simp add: new_sp_def add.commute)
  show "sp_period_end (prepay_rows e sid iid due iv nx 0 n ! j) =
      sp_period_start (prepay_rows e sid iid due iv nx 0 n ! j) + days iv" if "j < n" for j
    using nth[OF that] by (simp add: new_sp_def days_add[symmetric] algebra_simps)
qed

lemma prepay_repeat:
  assumes run: "handle_prepay_payment e ivc sid d = (Inr u, d')" and new: "invoice_sps (inv_id ivc) d = []"
    and n: "meta_periods (meta_dict ivc) = Inr periods" "1 \<le> periods"
  shows "handle_prepay_payment e' ivc sid d' = (Inr (), d')"
proof -
  obtain s due where s: "find_sub sid d = Some s" "prepay_fulfil e ivc s due periods d = (Inr (), d')"
    using handle_prepay_Inr[OF run new] n(1) by (metis sum.inject(2))
  note E = prepay_fulfil_effect[OF s(2,1)]
  obtain k where k: "nat periods = Suc k" using n(2) by (metis Suc_nat_eq_nat_zadd1 Suc_pred' zero_less_nat_eq int_one_le_iff_zero_less)
  have "new_sp e (db_next_id d + 0) sid (inv_id ivc) (due + days (int 0 * sub_interval_days s))
      (due + days ((int 0 + 1) * sub_interval_days s)) \<in> set (db_sub_payments d')"
    unfolding E(1) set_append k prepay_rows.simps(2) by simp
  then have "\<exists>sp \<in> set (db_sub_payments d'). sp_invoice sp = inv_id ivc"
    by (rule rev_bexI) (simp add: new_sp_def)
  then have "invoice_sps (inv_id ivc) d' \<noteq> []"
    by (simp add: invoice_sps_def filter_empty_conv)
  then have "0 < length (invoice_sps (inv_id ivc) d')" by simp
  moreover obtain s' where s': "find_sub sid d' = Some s'" "sub_prepay_invoice s' = None" using E(2) by blast
  ultimately show ?thesis by (simp add: handle_prepay_payment_def clear_prepay_guard_def)
qed

end
