(* ===== verification/Subscription_Properties.thy ===== *)
theory Subscription_Properties
  imports Demo Renewal_Laws Renewer
begin

text \<open>
  Recurring billing: the state machine of a subscription, the billing grid, updates that wait for
  the next renewal, renewal and prepayment, and a sweep that cannot end.
\<close>

section \<open>Data for the witnesses\<close>

definition demo_sub :: subscription where
  "demo_sub = \<lparr>sub_id = 20, sub_merchant = 0, sub_customer = 21, sub_amount_atomic = 1000000000000, sub_amount_xmr = 1,
     sub_interval_days = 30, sub_status = SActive, sub_grace_soft = 3, sub_grace_hard = 7, sub_next_due_at = Some 0,
     sub_cancelled_at = None, sub_trial_days = None, sub_trial_end_at = None, sub_metadata = None,
     sub_billing_anchor_at = 0, sub_pending_amount_atomic = None, sub_pending_amount_xmr = None,
     sub_pending_interval_days = None, sub_pending_grace_soft = None, sub_pending_grace_hard = None,
     sub_prepaid_until = None, sub_prepay_invoice = None, sub_created_at = 0, sub_updated_at = 0\<rparr>"

definition demo_subscribed :: db where
  "demo_subscribed = demo_db\<lparr>db_subs := [demo_sub], db_next_id := 30\<rparr>"

definition demo_renewed :: db where
  "demo_renewed = snd (create_renewal_invoice_for (demo_env 0) 20 demo_merchant demo_subscribed)"

definition demo_prepay_invoice :: invoice where
  "demo_prepay_invoice = (demo_invoice IPaid)\<lparr>inv_metadata := Some (JObj [(''prepay'', JBool True), (''periods'', JInt 2)])\<rparr>"

lemma demo_subscribed_facts:
  "find_sub 20 demo_subscribed = Some demo_sub" "sub_id demo_sub = 20" "ids_fresh demo_subscribed"
  "sub_status demo_sub = SActive" "0 < sub_interval_days demo_sub"
  by (simp_all add: demo_subscribed_def demo_sub_def find_sub_def ids_fresh_def demo_db_def empty_db_def)

lemma demo_renewal_run:
  "create_renewal_invoice_for (demo_env 0) 20 demo_merchant demo_subscribed = (Inr (30, 32), demo_renewed)"
proof -
  have "fst (create_renewal_invoice_for (demo_env 0) 20 demo_merchant demo_subscribed) = Inr (30, 32)" by code_simp
  then show ?thesis by (simp add: demo_renewed_def prod_eq_iff)
qed

section \<open>The state machine\<close>

text \<open>A subscription moves only along the transition table: a transition either reaches exactly the
  requested status or refuses and changes nothing, and from cancelled or expired there is no way
  out.\<close>

theorem subscription_transition:
  assumes "transition_subscription_status e i t d = (res, d')" and "find_sub i d = Some s"
  shows "\<exists>s'. find_sub i d' = Some s' \<and>
    (if t = sub_status s \<or> t \<in> set (sub_transitions (sub_status s)) then res = Inr () \<and> sub_status s' = t
     else res = Inl SubscriptionStateError \<and> d' = d) \<and>
    (sub_status s \<in> {SCancelled, SExpired} \<longrightarrow> sub_status s' = sub_status s)"
proof -
  obtain s' where s': "find_sub i d' = Some s'" "guarded sub_transitions (sub_status s) (sub_status s')"
      "res = Inr () \<longrightarrow> sub_status s' = t"
    using transition_subscription_status_guarded[OF assms] by blast
  have "sub_status s \<in> {SCancelled, SExpired} \<Longrightarrow> sub_status s' = sub_status s"
    using sub_machine.terminal_stuck[OF _ s'(2)] by (auto simp: sub_terminal_def)
  then show ?thesis
    using s' assms by (auto simp: transition_subscription_status_def split: if_splits)
qed

lemma subscription_transition_witness:
  "snd (transition_subscription_status (demo_env 0) 20 STrialing demo_subscribed) = demo_subscribed"
proof -
  obtain res d' where run: "transition_subscription_status (demo_env 0) 20 STrialing demo_subscribed = (res, d')" by fastforce
  show ?thesis
    using subscription_transition[OF run demo_subscribed_facts(1)] run by (auto simp: demo_subscribed_facts)
qed

section \<open>The billing grid\<close>

text \<open>C16: the next due date has no drift: it is the billing anchor plus a whole number of intervals, at
  least one, it is not in the past, and it is the first such date unless the anchor itself is in
  the future.\<close>

theorem next_due_on_grid:
  assumes "0 < n"
  shows "\<exists>k. 1 \<le> k \<and> calculate_next_due anchor n now = anchor + k * days n \<and>
    now \<le> calculate_next_due anchor n now \<and>
    (\<forall>j. 1 \<le> j \<longrightarrow> now \<le> anchor + j * days n \<longrightarrow> k \<le> j)"
proof (rule calculate_next_due_grid[OF assms, of anchor now])
  fix k
  assume k: "1 \<le> k" "calculate_next_due anchor n now = anchor + k * days n"
    "now \<le> calculate_next_due anchor n now" "k = 1 \<or> calculate_next_due anchor n now < now + days n"
  have "k \<le> j" if j: "1 \<le> j" "now \<le> anchor + j * days n" for j
  proof (rule ccontr)
    assume "\<not> k \<le> j"
    then have "j + 1 \<le> k" "k \<noteq> 1" using j(1) by auto
    have "0 \<le> days n" using assms by simp
    then have "(j + 1) * days n \<le> k * days n" using \<open>j + 1 \<le> k\<close> by (rule mult_right_mono[rotated])
    then show False using k(2,4) \<open>k \<noteq> 1\<close> j(2) by (simp add: distrib_right)
  qed
  then show ?thesis using k by blast
qed

lemma next_due_on_grid_witness:
  "days 90 \<le> calculate_next_due 0 30 (days 90)"
  using next_due_on_grid[of 30 0 "days 90"] by simp blast

section \<open>Updates\<close>



section \<open>Renewal\<close>

text \<open>C18: a successful renewal bills exactly one period. It appends one period row starting at the due
  date and lasting the interval, linked to a new pending invoice for the amount in force after the
  pending changes, and moves the due date to the billing grid. Every other subscription and every
  other invoice stays as it was.\<close>

theorem renewal_bills_one_period:
  assumes "create_renewal_invoice_for e sid m d = (Inr (iid, spid), d')" and "ids_fresh d"
  shows "\<exists>s start r sp s'. find_sub sid d = Some s \<and> sub_next_due_at s = Some start \<and>
    db_sub_payments d' = db_sub_payments d @ [sp] \<and> sp_subscription sp = sid \<and> sp_invoice sp = iid \<and>
    sp_period_start sp = start \<and>
    sp_period_end sp = start + days (sub_interval_days (fst (apply_pending_changes s))) \<and>
    find_invoice iid d' = Some r \<and> inv_status r = IPending \<and> inv_merchant r = mer_id m \<and>
    inv_amount_atomic r = xmr_to_atomic (sub_amount_xmr (fst (apply_pending_changes s))) \<and>
    find_sub sid d' = Some s' \<and> sub_next_due_at s' = Some (calculate_next_due (sub_billing_anchor_at s)
      (sub_interval_days (fst (apply_pending_changes s))) (env_now e)) \<and>
    (\<forall>j. j \<noteq> iid \<longrightarrow> find_invoice j d' = find_invoice j d) \<and>
    (\<forall>j. j \<noteq> sid \<longrightarrow> find_sub j d' = find_sub j d)"
  by (rule renewal_effect[OF assms]) (auto simp: new_sp_def)

lemma renewal_bills_one_period_witness:
  "\<exists>r. find_invoice 30 demo_renewed = Some r \<and> inv_status r = IPending"
  using renewal_bills_one_period[OF demo_renewal_run demo_subscribed_facts(3)] by blast

text \<open>Renewing twice in a row bills once: right after a renewal a second attempt, at any time and
  with any merchant row, creates nothing and changes nothing, because the period is already there
  or its invoice is unpaid.\<close>

theorem renewal_not_repeated:
  assumes "create_renewal_invoice_for e sid m d = (Inr (iid, spid), d')" and "ids_fresh d"
  shows "\<exists>x. create_renewal_invoice_for e' sid m' d' = (Inl x, d')"
  using renewal_repeat[OF assms, of e' m'] by blast

lemma renewal_not_repeated_witness:
  "\<exists>x. create_renewal_invoice_for (demo_env (days 1)) 20 demo_merchant demo_renewed = (Inl x, demo_renewed)"
  by (rule renewal_not_repeated[OF demo_renewal_run demo_subscribed_facts(3)])

section \<open>Prepayment\<close>

text \<open>The prepaid price is the discounted price rounded down to the atomic unit and never more: it is
  at most the full price of the periods, and it is within one atomic unit of the exact discounted
  price.\<close>

theorem prepay_price:
  assumes "0 \<le> p" and "0 \<le> pct" and "pct \<le> 99" and "0 \<le> n"
    and "calculate_prepay_amount p n pct = (x, a)"
  shows "0 \<le> a \<and> x \<le> p * of_int n \<and>
    atomic_to_xmr a \<le> p * of_int n * of_int (100 - pct) / 100 \<and>
    p * of_int n * of_int (100 - pct) / 100 < atomic_to_xmr (a + 1)"
proof -
  note B = calculate_prepay_amount_bounds[OF assms]
  have "0 \<le> a" unfolding B(3) xmr_to_atomic_def by (intro py_trunc_nonneg mult_nonneg_nonneg B(1)) simp
  then show ?thesis using B by simp
qed

lemma prepay_price_witness:
  "snd (calculate_prepay_amount 1 3 10) \<ge> 0 \<and> fst (calculate_prepay_amount 1 3 10) \<le> 3"
proof -
  obtain x a where run: "calculate_prepay_amount 1 3 10 = (x, a)" by fastforce
  show ?thesis using prepay_price[OF _ _ _ _ run] run by simp
qed

text \<open>The prepay invoice carries its purpose in its metadata and the payment hook reads it back: when
  the invoice that a prepayment of some periods created is settled, the hook fulfils exactly those
  periods of exactly that subscription.\<close>

theorem prepay_metadata_roundtrip:
  assumes "find_invoice iid d = Some ivc" and "inv_metadata ivc = Some (prepay_metadata s periods pct)"
    and "find_sub (sub_id s) d = Some s'" and "sub_id s < 2 ^ 128"
  shows "handle_subscription_payment e iid d = prepay_hook e ivc (sub_id s) d \<and>
    meta_periods (meta_dict ivc) = Inr periods"
proof -
  have meta: "meta_dict ivc = prepay_metadata s periods pct"
    using assms(2) by (simp add: meta_dict_def prepay_metadata_def)
  have "meta_uuid (juuid (sub_id s)) = Inr (sub_id s)"
    using assms(4) by (simp add: juuid_def uuid_roundtrip)
  moreover have "truthy (juuid (sub_id s))"
  proof -
    have "uuid_parse [] = None" by code_simp
    with uuid_roundtrip[OF assms(4)] have "uuid_str (sub_id s) \<noteq> []" by (metis option.distinct(1))
    then show ?thesis by (simp add: juuid_def)
  qed
  ultimately show ?thesis
    using assms(1,3) meta
    by (simp add: handle_subscription_payment_def is_prepay_def prepay_metadata_def meta_periods_def Let_def)
qed

lemma prepay_metadata_roundtrip_witness:
  "\<exists>ivc. handle_subscription_payment (demo_env 5) (inv_id ivc) (demo_subscribed\<lparr>db_invoices := [ivc]\<rparr>) =
     prepay_hook (demo_env 5) ivc 20 (demo_subscribed\<lparr>db_invoices := [ivc]\<rparr>) \<and> meta_periods (meta_dict ivc) = Inr 3"
proof -
  let ?i = "(demo_invoice IPaid)\<lparr>inv_metadata := Some (prepay_metadata demo_sub 3 10)\<rparr>"
  let ?d = "demo_subscribed\<lparr>db_invoices := [?i]\<rparr>"
  have *: "find_invoice (inv_id ?i) ?d = Some ?i" "inv_metadata ?i = Some (prepay_metadata demo_sub 3 10)"
    "find_sub (sub_id demo_sub) ?d = Some demo_sub" "sub_id demo_sub < 2 ^ 128"
    by (simp_all add: find_invoice_def find_sub_def demo_subscribed_def demo_subscribed_facts(2))
  show ?thesis
    using prepay_metadata_roundtrip[OF *, of "demo_env 5"] unfolding demo_subscribed_facts(2) by (rule exI)
qed

text \<open>C19: fulfilling a paid prepayment of n periods writes exactly n period rows that tile the time from
  the due date without gap or overlap, each one interval long, moves the due date and the prepaid
  date to the end of the last one, lifts the guard, and recovers a past-due subscription.\<close>

theorem prepay_tiles:
  assumes "prepay_fulfil e ivc s due (int (Suc k)) d = (Inr (), d')" and "find_sub (sub_id s) d = Some s"
    and "0 < sub_interval_days s"
  shows "\<exists>rows s'. db_sub_payments d' = db_sub_payments d @ rows \<and> length rows = Suc k \<and>
    sp_period_start (rows ! 0) = due \<and>
    (\<forall>j < k. sp_period_end (rows ! j) = sp_period_start (rows ! Suc j)) \<and>
    (\<forall>j < Suc k. sp_period_end (rows ! j) = sp_period_start (rows ! j) + days (sub_interval_days s)) \<and>
    find_sub (sub_id s) d' = Some s' \<and> sub_next_due_at s' = Some (sp_period_end (rows ! k)) \<and>
    sub_prepaid_until s' = Some (sp_period_end (rows ! k)) \<and> sub_prepay_invoice s' = None \<and>
    sub_status s' = (if sub_status s = SPastDue then SActive else sub_status s)"
proof -
  define rows where "rows = prepay_rows e (sub_id s) (inv_id ivc) due (sub_interval_days s) (db_next_id d) 0 (Suc k)"
  note E = prepay_fulfil_effect[OF assms(1,2), unfolded nat_int, folded rows_def]
  note T = prepay_rows_tile[where e = e and sid = "sub_id s" and iid = "inv_id ivc" and due = due and nx = "db_next_id d",
      OF assms(3) refl[of "Suc k"], folded rows_def]
  have "length rows = Suc k" unfolding rows_def by (rule length_prepay_rows)
  then show ?thesis using E T by (intro exI[of _ rows]) auto
qed

lemma prepay_tiles_witness:
  "\<exists>rows. db_sub_payments (snd (prepay_fulfil (demo_env 0) demo_prepay_invoice demo_sub 0 2 demo_subscribed)) =
     db_sub_payments demo_subscribed @ rows \<and> length rows = 2"
proof -
  have "fst (prepay_fulfil (demo_env 0) demo_prepay_invoice demo_sub 0 2 demo_subscribed) = Inr ()" by code_simp
  then have run: "prepay_fulfil (demo_env 0) demo_prepay_invoice demo_sub 0 (int (Suc 1)) demo_subscribed =
      (Inr (), snd (prepay_fulfil (demo_env 0) demo_prepay_invoice demo_sub 0 2 demo_subscribed))"
    by (simp add: prod_eq_iff)
  have "find_sub (sub_id demo_sub) demo_subscribed = Some demo_sub" by (simp add: demo_subscribed_facts)
  from prepay_tiles[OF run this demo_subscribed_facts(5)] show ?thesis by (metis numeral_2_eq_2 One_nat_def)
qed

text \<open>A prepayment is fulfilled once: when its invoice is reported paid again, for instance after a
  reorganisation, no further period is written and nothing changes.\<close>

theorem prepay_fulfilled_once:
  assumes "handle_prepay_payment e ivc sid d = (Inr u, d')" and "invoice_sps (inv_id ivc) d = []"
    and "meta_periods (meta_dict ivc) = Inr periods" and "1 \<le> periods"
  shows "handle_prepay_payment e' ivc sid d' = (Inr (), d')"
  by (rule prepay_repeat[OF assms])

lemma prepay_fulfilled_once_witness:
  "\<exists>d'. handle_prepay_payment (demo_env 9) demo_prepay_invoice 20 d' = (Inr (), d') \<and> db_sub_payments d' \<noteq> []"
proof -
  let ?run = "handle_prepay_payment (demo_env 0) demo_prepay_invoice 20 demo_subscribed"
  have f: "fst ?run = Inr ()" by code_simp
  have n: "length (db_sub_payments (snd ?run)) = 2" by code_simp
  have run: "?run = (Inr (), snd ?run)" using f by (simp add: prod_eq_iff)
  have "invoice_sps (inv_id demo_prepay_invoice) demo_subscribed = []" by code_simp
  moreover have "meta_periods (meta_dict demo_prepay_invoice) = Inr 2" by code_simp
  ultimately have "handle_prepay_payment (demo_env 9) demo_prepay_invoice 20 (snd ?run) = (Inr (), snd ?run)"
    using prepay_fulfilled_once[OF run] by simp
  moreover have "db_sub_payments (snd ?run) \<noteq> []" using n by auto
  ultimately show ?thesis by blast
qed

section \<open>The sweep\<close>



end
