(* ===== verification/Pagination.thy ===== *)
theory Pagination
  imports Models "HOL-Library.Product_Lexorder"
begin

text \<open>
  \<open>utils/pagination.py\<close>: cursor pagination, newest first, ties broken by id. A table is given with
  its order column and id, the tenant filter that scopes the cursor lookup, and the filter of the
  base query. PostgreSQL compares row values lexicographically and uuids by their bytes, which is
  the order of the numbers.
\<close>

record 'r cursor_page =
  pg_data :: "'r list"
  pg_has_more :: bool

definition validate_cursor_params :: "uuid option \<Rightarrow> uuid option \<Rightarrow> exc option" where
  "validate_cursor_params starting_after ending_before =
     (if starting_after \<noteq> None \<and> ending_before \<noteq> None then Some (HTTPException 400) else None)"

definition clamp_limit :: "int \<Rightarrow> nat" where
  "clamp_limit n = nat (max 1 (min n 100))"

record 'r table_view =
  tv_rows :: "'r list"
  tv_ts :: "'r \<Rightarrow> int"
  tv_id :: "'r \<Rightarrow> nat"
  tv_tenant :: "'r \<Rightarrow> bool"
  tv_base :: "'r \<Rightarrow> bool"

definition row_key :: "('r, 'z) table_view_scheme \<Rightarrow> 'r \<Rightarrow> int \<times> nat" where
  "row_key v r = (tv_ts v r, tv_id v r)"

definition cursor_key :: "('r, 'z) table_view_scheme \<Rightarrow> nat \<Rightarrow> exc + int \<times> nat" where
  "cursor_key v c = (case find (\<lambda>r. tv_id v r = c \<and> tv_tenant v r) (tv_rows v) of
      None \<Rightarrow> Inl (HTTPException 400) | Some r \<Rightarrow> Inr (row_key v r))"

definition cut_page :: "nat \<Rightarrow> 'r list \<Rightarrow> 'r list \<times> bool" where
  "cut_page n rows = (let fetched = take (n + 1) rows in (take n fetched, n < length fetched))"

definition newest_first :: "('r, 'z) table_view_scheme \<Rightarrow> 'r list \<Rightarrow> 'r list" where
  "newest_first v rs = rev (sort_key (row_key v) rs)"

definition paginate_cursor ::
    "('r, 'z) table_view_scheme \<Rightarrow> int \<Rightarrow> nat option \<Rightarrow> nat option \<Rightarrow> exc + 'r cursor_page" where
  "paginate_cursor v n starting_after ending_before =
     (let l = clamp_limit n; base = filter (tv_base v) (tv_rows v) in
      case starting_after of
        Some c \<Rightarrow> (case cursor_key v c of
            Inl x \<Rightarrow> Inl x
          | Inr k \<Rightarrow> (case cut_page l (newest_first v (filter (\<lambda>r. row_key v r < k) base)) of
              (rows, has_more) \<Rightarrow> Inr \<lparr>pg_data = rows, pg_has_more = has_more\<rparr>))
      | None \<Rightarrow> (case ending_before of
            Some c \<Rightarrow> (case cursor_key v c of
                Inl x \<Rightarrow> Inl x
              | Inr k \<Rightarrow> (case cut_page l (sort_key (row_key v) (filter (\<lambda>r. k < row_key v r) base)) of
                  (rows, has_more) \<Rightarrow> Inr \<lparr>pg_data = rev rows, pg_has_more = has_more\<rparr>))
          | None \<Rightarrow> (case cut_page l (newest_first v base) of
              (rows, has_more) \<Rightarrow> Inr \<lparr>pg_data = rows, pg_has_more = has_more\<rparr>)))"

section \<open>A client that follows the cursor\<close>

text \<open>Ask for a page, then for the page after its last row, while there is more.\<close>

fun walk :: "nat \<Rightarrow> ('r, 'z) table_view_scheme \<Rightarrow> int \<Rightarrow> nat option \<Rightarrow> (exc + 'r list)" where
  "walk 0 v n c = Inr []"
| "walk (Suc fuel) v n c =
     (case paginate_cursor v n c None of
        Inl x \<Rightarrow> Inl x
      | Inr p \<Rightarrow>
          if pg_has_more p then
            (case walk fuel v n (Some (tv_id v (last (pg_data p)))) of
               Inl x \<Rightarrow> Inl x | Inr rest \<Rightarrow> Inr (pg_data p @ rest))
          else Inr (pg_data p))"

definition all_rows :: "('r, 'z) table_view_scheme \<Rightarrow> 'r list" where
  "all_rows v = newest_first v (filter (tv_base v) (tv_rows v))"

definition view_ok :: "('r, 'z) table_view_scheme \<Rightarrow> bool" where
  "view_ok v \<longleftrightarrow> distinct (map (tv_id v) (tv_rows v)) \<and> (\<forall>r \<in> set (tv_rows v). tv_base v r \<longrightarrow> tv_tenant v r)"

subsection \<open>Facts\<close>

lemma clamp_limit_pos: "1 \<le> clamp_limit n" "clamp_limit n \<le> 100"
  by (simp_all add: clamp_limit_def)

lemma cut_page_spec: "cut_page n rows = (take n rows, n < length rows)"
  by (auto simp: cut_page_def Let_def)

lemma find_by_id:
  assumes "distinct (map key rs)" and "r \<in> set rs" and "P r"
  shows "find (\<lambda>q. key q = key r \<and> P q) rs = Some r"
  using assms by (induction rs) auto

lemma cursor_key_row:
  assumes "view_ok v" and "r \<in> set (tv_rows v)" and "tv_base v r"
  shows "cursor_key v (tv_id v r) = Inr (row_key v r)"
proof -
  have "find (\<lambda>q. tv_id v q = tv_id v r \<and> tv_tenant v q) (tv_rows v) = Some r"
    using assms by (intro find_by_id) (simp_all add: view_ok_def)
  then show ?thesis by (simp add: cursor_key_def)
qed

text \<open>The rows below a row of the sorted list are the ones that follow it.\<close>

lemma sorted_after:
  assumes "sorted_wrt (\<lambda>a b. f b < f a) (xs @ y # ys)"
  shows "filter (\<lambda>r. f r < (f y :: 'k :: linorder)) (xs @ y # ys) = ys"
proof -
  have xs: "\<forall>x \<in> set xs. f y < f x" and ys: "\<forall>z \<in> set ys. f z < f y"
    using assms by (auto simp: sorted_wrt_append)
  have "filter (\<lambda>r. f r < f y) xs = []" using xs by (auto simp: filter_empty_conv)
  moreover have "filter (\<lambda>r. f r < f y) ys = ys" using ys by (simp add: filter_id_conv)
  ultimately show ?thesis by simp
qed

lemma newest_first_strict:
  assumes "distinct (map (tv_id v) rs)"
  shows "sorted_wrt (\<lambda>a b. row_key v b < row_key v a) (newest_first v rs)"
proof -
  have "distinct (map (row_key v) rs)"
    using assms by (auto simp: distinct_map inj_on_def row_key_def)
  then have "distinct (map (row_key v) (sort_key (row_key v) rs))"
    by (simp add: distinct_map)
  moreover have "sorted (map (row_key v) (sort_key (row_key v) rs))" by simp
  ultimately have "sorted_wrt (<) (map (row_key v) (sort_key (row_key v) rs))"
    by (simp add: strict_sorted_iff)
  then show ?thesis by (simp add: newest_first_def sorted_wrt_rev sorted_wrt_map)
qed

lemma newest_first_filter: "newest_first v (filter P rs) = filter P (newest_first v rs)"
  by (simp add: newest_first_def filter_sort[symmetric] rev_filter)

lemma set_newest_first [simp]: "set (newest_first v rs) = set rs"
  by (simp add: newest_first_def)

lemma all_rows_strict: "view_ok v \<Longrightarrow> sorted_wrt (\<lambda>a b. row_key v b < row_key v a) (all_rows v)"
  unfolding all_rows_def by (rule newest_first_strict) (auto simp: view_ok_def distinct_map intro: inj_on_subset)

text \<open>The page after the last of \<open>xs @ [y]\<close> starts where \<open>xs @ [y]\<close> ends.\<close>

lemma paginate_after:
  assumes ok: "view_ok v" and split: "all_rows v = xs @ y # ys"
  shows "paginate_cursor v n (Some (tv_id v y)) None =
    Inr \<lparr>pg_data = take (clamp_limit n) ys, pg_has_more = clamp_limit n < length ys\<rparr>"
proof -
  have "y \<in> set (all_rows v)" using split by simp
  then have y: "y \<in> set (tv_rows v)" "tv_base v y" by (simp_all add: all_rows_def)
  have "newest_first v (filter (\<lambda>r. row_key v r < row_key v y) (filter (tv_base v) (tv_rows v))) =
      filter (\<lambda>r. row_key v r < row_key v y) (all_rows v)"
    unfolding all_rows_def by (rule newest_first_filter)
  also have "\<dots> = ys" using all_rows_strict[OF ok] unfolding split by (rule sorted_after)
  finally show ?thesis
    using cursor_key_row[OF ok y] by (simp add: paginate_cursor_def Let_def cut_page_spec)
qed

lemma paginate_first:
  "paginate_cursor v n None None =
    Inr \<lparr>pg_data = take (clamp_limit n) (all_rows v), pg_has_more = clamp_limit n < length (all_rows v)\<rparr>"
  by (simp add: paginate_cursor_def Let_def cut_page_spec all_rows_def)

lemma walk_after:
  assumes ok: "view_ok v"
  shows "all_rows v = xs @ y # ys \<Longrightarrow> length ys < fuel \<Longrightarrow> walk fuel v n (Some (tv_id v y)) = Inr ys"
proof (induction fuel arbitrary: xs y ys)
  case 0
  then show ?case by simp
next
  case (Suc fuel)
  let ?l = "clamp_limit n"
  note P = paginate_after[OF ok Suc.prems(1), of n]
  show ?case
  proof (cases "?l < length ys")
    case False
    then show ?thesis using P by simp
  next
    case True
    have l: "1 \<le> ?l" by (rule clamp_limit_pos)
    have ne: "take ?l ys \<noteq> []" using True l by (cases ys) auto
    define z where "z = last (take ?l ys)"
    have tk: "take ?l ys = butlast (take ?l ys) @ [z]" using ne unfolding z_def by simp
    have all: "all_rows v = (xs @ y # butlast (take ?l ys)) @ z # drop ?l ys"
      using Suc.prems(1) tk append_take_drop_id[of ?l ys] by (metis append.assoc append_Cons append_Nil)
    have "length (drop ?l ys) < fuel" using Suc.prems(2) l True by simp
    from Suc.IH[OF all this] have "walk fuel v n (Some (tv_id v z)) = Inr (drop ?l ys)" .
    then show ?thesis using P True by (simp add: z_def)
  qed
qed

lemma walk_all:
  assumes ok: "view_ok v" and fuel: "length (all_rows v) < fuel"
  shows "walk fuel v n None = Inr (all_rows v)"
proof -
  obtain k where k: "fuel = Suc k" using fuel by (cases fuel) auto
  let ?l = "clamp_limit n" and ?ys = "all_rows v"
  show ?thesis
  proof (cases "?l < length ?ys")
    case False
    then show ?thesis by (simp add: k paginate_first)
  next
    case True
    have l: "1 \<le> ?l" by (rule clamp_limit_pos)
    have ne: "take ?l ?ys \<noteq> []" using True l by (cases ?ys) auto
    define z where "z = last (take ?l ?ys)"
    have tk: "take ?l ?ys = butlast (take ?l ?ys) @ [z]" using ne unfolding z_def by simp
    have all: "all_rows v = butlast (take ?l ?ys) @ z # drop ?l ?ys"
      using tk append_take_drop_id[of ?l ?ys] by (metis append.assoc append_Cons append_Nil)
    have "length (drop ?l ?ys) < k" using fuel k l True by simp
    from walk_after[OF ok all this] have "walk k v n (Some (tv_id v z)) = Inr (drop ?l ?ys)" .
    then show ?thesis using True by (simp add: k paginate_first z_def)
  qed
qed

end
