(* ===== verification/Rate_Limit.thy ===== *)
theory Rate_Limit
  imports Textual
begin

text \<open>
  \<open>core/rate_limit.py\<close> and \<open>middleware/rate_limiter.py\<close>: the sliding window on a Redis sorted
  set, the per-merchant counter, and the decision the middleware takes on a request. Redis is
  its documented behaviour: a sorted set of members with scores, a counter with a time to live;
  each pipeline is one transaction. Times are microseconds, so a member (the time with six
  decimals) is its score.
\<close>

section \<open>Tiers\<close>

datatype rate_tier = Starter | Growth | Enterprise | Unauthenticated | TorUnauthenticated | PublicApi

fun tier_value :: "rate_tier \<Rightarrow> string" where
  "tier_value Starter = ''starter''"
| "tier_value Growth = ''growth''"
| "tier_value Enterprise = ''enterprise''"
| "tier_value Unauthenticated = ''unauthenticated''"
| "tier_value TorUnauthenticated = ''tor_unauthenticated''"
| "tier_value PublicApi = ''public_api''"

fun tier_limit :: "rate_tier \<Rightarrow> nat" where
  "tier_limit Starter = 100"
| "tier_limit Growth = 300"
| "tier_limit Enterprise = 1000"
| "tier_limit Unauthenticated = 10"
| "tier_limit TorUnauthenticated = 30"
| "tier_limit PublicApi = 300"

definition window_seconds :: int where
  "window_seconds = 60"

record rate_result =
  rr_allowed :: bool
  rr_limit :: nat
  rr_remaining :: int
  rr_reset_after :: time
  rr_retry_after :: "time option"

definition whole_secs :: "time \<Rightarrow> int" where
  "whole_secs t = t div 1000000"

definition rate_headers :: "rate_result \<Rightarrow> (string \<times> string) list" where
  "rate_headers r =
     [(''X-RateLimit-Limit'', nat_str (rr_limit r)),
      (''X-RateLimit-Remaining'', int_str (max 0 (rr_remaining r))),
      (''X-RateLimit-Reset'', int_str (whole_secs (rr_reset_after r)))] @
     (case rr_retry_after r of None \<Rightarrow> [] | Some t \<Rightarrow> [(''Retry-After'', int_str (whole_secs t + 1))])"

section \<open>Sliding window\<close>

text \<open>
  The pipeline drops the members up to \<open>now - window\<close>, counts what is left, adds \<open>now\<close>, and
  reads the oldest; a rejected request takes its own member out again. The set is kept sorted.
\<close>

definition live :: "time \<Rightarrow> time \<Rightarrow> time list \<Rightarrow> time list" where
  "live window now zs = filter (\<lambda>t. \<not> (0 \<le> t \<and> t \<le> now - window)) zs"

definition sliding_check :: "nat \<Rightarrow> time \<Rightarrow> time \<Rightarrow> time list \<Rightarrow> rate_result \<times> time list" where
  "sliding_check n window now zs =
     (let zs1 = live window now zs;
          current_count = length zs1;
          zs2 = insort_insert now zs1;
          reset_after = max 0 (hd zs2 + window - now)
      in if n \<le> current_count then
           (\<lparr>rr_allowed = False, rr_limit = n, rr_remaining = 0, rr_reset_after = reset_after,
             rr_retry_after = Some reset_after\<rparr>, filter (\<lambda>t. t \<noteq> now) zs2)
         else
           (\<lparr>rr_allowed = True, rr_limit = n, rr_remaining = int n - int current_count - 1,
             rr_reset_after = reset_after, rr_retry_after = None\<rparr>, zs2))"

text \<open>When Redis fails: \<open>fail_open\<close> decides.\<close>

definition sliding_failed :: "nat \<Rightarrow> time \<Rightarrow> bool \<Rightarrow> rate_result" where
  "sliding_failed n window fail_open =
     \<lparr>rr_allowed = fail_open, rr_limit = n, rr_remaining = (if fail_open then int n else 0),
      rr_reset_after = window, rr_retry_after = (if fail_open then None else Some window)\<rparr>"

definition get_usage :: "time \<Rightarrow> time list \<Rightarrow> nat \<times> time list" where
  "get_usage now zs = (let zs1 = live (secs window_seconds) now zs in (length zs1, zs1))"

text \<open>A sequence of requests on one key: which were let through, in order.\<close>

fun sliding_run :: "nat \<Rightarrow> time \<Rightarrow> time list \<Rightarrow> time list \<Rightarrow> time list" where
  "sliding_run n window [] zs = []"
| "sliding_run n window (now # ts) zs =
     (case sliding_check n window now zs of (r, zs') \<Rightarrow>
        if rr_allowed r then now # sliding_run n window ts zs' else sliding_run n window ts zs')"

section \<open>Per-merchant counter\<close>

text \<open>\<open>INCR\<close> and \<open>TTL\<close> on the key, which Redis has dropped once it ran out.\<close>

type_synonym counter = "(nat \<times> time option) option"

fun merchant_limit :: "string \<Rightarrow> nat" where
  "merchant_limit t = (if t = ''write'' then 120 else if t = ''read'' then 300 else 120)"

definition counter_now :: "time \<Rightarrow> counter \<Rightarrow> counter" where
  "counter_now now c = (case c of
      Some (n, Some expires) \<Rightarrow> if expires \<le> now then None else c
    | _ \<Rightarrow> c)"

text \<open>\<open>TTL\<close> answers in whole seconds, rounded.\<close>

definition redis_ttl :: "time \<Rightarrow> time \<Rightarrow> int" where
  "redis_ttl expires now = (expires - now + 500000) div 1000000"

definition merchant_check :: "nat \<Rightarrow> time \<Rightarrow> counter \<Rightarrow> rate_result \<times> counter" where
  "merchant_check n now c =
     (case counter_now now c of
        Some (k, Some expires) \<Rightarrow>
          let ttl = redis_ttl expires now; reset = (if 0 < ttl then secs ttl else secs 60) in
          (\<lparr>rr_allowed = Suc k \<le> n, rr_limit = n, rr_remaining = max 0 (int n - int (Suc k)),
            rr_reset_after = reset, rr_retry_after = (if Suc k \<le> n then None else Some reset)\<rparr>,
           Some (Suc k, Some expires))
      | other \<Rightarrow>
          let k = (case other of None \<Rightarrow> 0 | Some (k, _) \<Rightarrow> k); reset = secs 60 in
          (\<lparr>rr_allowed = Suc k \<le> n, rr_limit = n, rr_remaining = max 0 (int n - int (Suc k)),
            rr_reset_after = reset, rr_retry_after = (if Suc k \<le> n then None else Some reset)\<rparr>,
           Some (Suc k, Some (now + reset))))"

fun merchant_run :: "nat \<Rightarrow> time list \<Rightarrow> counter \<Rightarrow> time list" where
  "merchant_run n [] c = []"
| "merchant_run n (now # ts) c =
     (case merchant_check n now c of (r, c') \<Rightarrow>
        if rr_allowed r then now # merchant_run n ts c' else merchant_run n ts c')"

section \<open>The middleware\<close>

record request =
  req_path :: string
  req_method :: string
  req_peer :: "string option"
  req_forwarded :: "string option"
  req_authorization :: string
  req_rate_tier :: "rate_tier option"

definition exempt_paths :: "string list" where
  "exempt_paths = [''/health'', ''/docs'', ''/openapi.json'']"

definition exempt_ips :: "string list" where
  "exempt_ips = [''127.0.0.1'', ''::1'', ''172.17.0.1'', ''172.23.0.1'']"

definition trusted_proxies :: "string list" where
  "trusted_proxies = [''127.0.0.1'', ''::1'', ''172.17.0.1'', ''172.18.0.1'', ''172.19.0.1'', ''172.23.0.1'']"

definition write_methods :: "string list" where
  "write_methods = [''POST'', ''PATCH'', ''DELETE'', ''PUT'']"

text \<open>The regular expression of the public paths; \<open>$\<close> also matches before a final newline.\<close>

definition hex_dash :: "char \<Rightarrow> bool" where
  "hex_dash c \<longleftrightarrow> hexval c \<noteq> None \<or> c = CHR ''-''"

definition at_end :: "string \<Rightarrow> bool" where
  "at_end s \<longleftrightarrow> s = [] \<or> s = [char_of (10 :: nat)]"

definition id_then :: "string \<Rightarrow> string list \<Rightarrow> bool" where
  "id_then s ends \<longleftrightarrow> length (take 36 s) = 36 \<and> list_all hex_dash (take 36 s) \<and>
     list_ex (\<lambda>x. startswith (drop 36 s) x \<and> at_end (drop (length x) (drop 36 s))) ends"

definition public_api_path :: "string \<Rightarrow> bool" where
  "public_api_path path \<longleftrightarrow> (let p = lower path in
     (startswith p ''/v1/invoices/'' \<and> id_then (drop 13 p) [''/public'', ''/events'']) \<or>
     (startswith p ''/pay/'' \<and> id_then (drop 5 p) ['''']))"

definition get_client_ip :: "request \<Rightarrow> string" where
  "get_client_ip q =
     (let peer_ip = (case req_peer q of None \<Rightarrow> ''unknown'' | Some p \<Rightarrow> p) in
      case req_forwarded q of
        None \<Rightarrow> peer_ip
      | Some f \<Rightarrow>
          if f \<noteq> [] \<and> peer_ip \<in> set trusted_proxies
          then strip (takeWhile (\<lambda>c. c \<noteq> CHR '','') f) else peer_ip)"

definition detect_tor_request :: "string \<Rightarrow> bool" where
  "detect_tor_request ip \<longleftrightarrow>
     list_ex (startswith ip) [''127.0.0.1'', ''::1'', ''172.17.'', ''172.18.'', ''172.19.'']"

definition get_identifier_for_key :: "string \<Rightarrow> string" where
  "get_identifier_for_key k = take 16 k"

definition bearer_gb :: "request \<Rightarrow> bool" where
  "bearer_gb q \<longleftrightarrow> startswith (req_authorization q) ''Bearer gb_''"

definition resolve_rate_context :: "request \<Rightarrow> string \<times> rate_tier" where
  "resolve_rate_context q =
     (if public_api_path (req_path q) then (''pub:'' @ get_client_ip q, PublicApi)
      else if bearer_gb q then
        (get_identifier_for_key (drop 7 (req_authorization q)),
         case req_rate_tier q of None \<Rightarrow> Starter | Some t \<Rightarrow> t)
      else if detect_tor_request (get_client_ip q) then (''tor_shared'', TorUnauthenticated)
      else (''ip:'' @ get_client_ip q, Unauthenticated))"

record limiter =
  lim_windows :: "string \<Rightarrow> time list"
  lim_counters :: "string \<Rightarrow> counter"

definition window_key :: "string \<Rightarrow> rate_tier \<Rightarrow> string" where
  "window_key identifier tier = ''ratelimit:'' @ tier_value tier @ '':'' @ identifier"

definition counter_key :: "string \<Rightarrow> string \<Rightarrow> string" where
  "counter_key m t = ''rate:merchant:'' @ m @ '':'' @ t"

definition limiter_reset :: "string \<Rightarrow> rate_tier \<Rightarrow> limiter \<Rightarrow> limiter" where
  "limiter_reset identifier tier s = s\<lparr>lim_windows := (lim_windows s)(window_key identifier tier := [])\<rparr>"

datatype verdict =
    Exempt
  | Limited "(string \<times> string) list" string  \<comment> \<open>429 with headers and error\<close>
  | Passed "(string \<times> string) list"

text \<open>The middleware's limiter on addresses fails open, the one on merchants fails closed.\<close>

definition ip_check :: "bool \<Rightarrow> time \<Rightarrow> string \<Rightarrow> rate_tier \<Rightarrow> limiter \<Rightarrow> rate_result \<times> limiter" where
  "ip_check redis_up now identifier tier s =
     (let n = tier_limit tier; w = secs window_seconds; k = window_key identifier tier in
      if \<not> redis_up then (sliding_failed n w True, s)
      else case sliding_check n w now (lim_windows s k) of
        (r, zs) \<Rightarrow> (r, s\<lparr>lim_windows := (lim_windows s)(k := zs)\<rparr>))"

definition counter_check :: "bool \<Rightarrow> time \<Rightarrow> string \<Rightarrow> string \<Rightarrow> limiter \<Rightarrow> rate_result \<times> limiter" where
  "counter_check redis_up now m t s =
     (let n = merchant_limit t; k = counter_key m t in
      if \<not> redis_up then (sliding_failed n (secs 60) False, s)
      else case merchant_check n now (lim_counters s k) of
        (r, c) \<Rightarrow> (r, s\<lparr>lim_counters := (lim_counters s)(k := c)\<rparr>))"

definition add_missing :: "(string \<times> string) list \<Rightarrow> (string \<times> string) list \<Rightarrow> (string \<times> string) list" where
  "add_missing hs extra = hs @ filter (\<lambda>(h, v). h \<notin> fst ` set hs) extra"

text \<open>\<open>redis\<close> is \<open>None\<close> where the application has no Redis, \<open>Some False\<close> where it does not answer.\<close>

definition rate_dispatch :: "bool option \<Rightarrow> time \<Rightarrow> request \<Rightarrow> limiter \<Rightarrow> verdict \<times> limiter" where
  "rate_dispatch redis now q s =
     (if req_path q \<in> set exempt_paths then (Exempt, s)
      else if get_client_ip q \<in> set exempt_ips then (Exempt, s)
      else case redis of None \<Rightarrow> (Exempt, s) | Some redis_up \<Rightarrow> case resolve_rate_context q of (identifier, tier) \<Rightarrow>
        (case ip_check redis_up now identifier tier s of (ip_result, s1) \<Rightarrow>
          if \<not> rr_allowed ip_result then (Limited (rate_headers ip_result) ''rate_limit_exceeded'', s1)
          else if bearer_gb q then
            (case counter_check redis_up now (get_identifier_for_key (drop 7 (req_authorization q)))
                    (if req_method q \<in> set write_methods then ''write'' else ''read'') s1 of
               (m_result, s2) \<Rightarrow>
                 if \<not> rr_allowed m_result
                 then (Limited (rate_headers m_result) ''merchant_rate_limit_exceeded'', s2)
                 else (Passed (add_missing (rate_headers m_result) (rate_headers ip_result)), s2))
          else (Passed (rate_headers ip_result), s1)))"

section \<open>Facts\<close>

lemma live_sub: "set (live w now zs) \<subseteq> set zs"
  by (auto simp: live_def)

text \<open>
  On distinct times the set of a key holds exactly the accepted requests of the last window, so
  at most \<open>n\<close> requests are accepted in any window.
\<close>

definition in_window :: "time \<Rightarrow> time \<Rightarrow> time list \<Rightarrow> time list" where
  "in_window window now ts = filter (\<lambda>t. now - window < t \<and> t \<le> now) ts"

definition set_tracks :: "time \<Rightarrow> time \<Rightarrow> time list \<Rightarrow> time list \<Rightarrow> bool" where
  "set_tracks window now acc zs \<longleftrightarrow> sorted zs \<and> distinct zs \<and> set zs \<subseteq> set acc \<and>
     (\<forall>t \<in> set acc. now - window < t \<longrightarrow> t \<in> set zs)"

lemma live_tracks:
  assumes "set_tracks window prev acc zs" and "prev \<le> now" and "\<forall>t \<in> set acc. 0 \<le> t \<and> t < now"
  shows "set (live window now zs) = set (in_window window now acc)" and "distinct (live window now zs)"
    and "sorted (live window now zs)"
proof -
  show "set (live window now zs) = set (in_window window now acc)"
    using assms unfolding set_tracks_def live_def in_window_def by fastforce
  show "distinct (live window now zs)" using assms(1) by (simp add: set_tracks_def live_def)
  show "sorted (live window now zs)" using assms(1) sorted_filter[of "\<lambda>t. t" zs] by (simp add: set_tracks_def live_def)
qed

lemma length_live:
  assumes "set_tracks window prev acc zs" and "prev \<le> now" and "\<forall>t \<in> set acc. 0 \<le> t \<and> t < now" and "distinct acc"
  shows "length (live window now zs) = length (in_window window now acc)"
  using live_tracks(1,2)[OF assms(1-3)] assms(4) distinct_card[of "live window now zs"]
    distinct_card[of "in_window window now acc"]
  by (simp add: in_window_def)

lemma sliding_run_bound:
  assumes "set_tracks window prev acc zs" and "distinct acc" and "\<forall>t \<in> set acc. 0 \<le> t \<and> t \<le> prev"
    and "sorted_wrt (<) (prev # ts)" and "0 \<le> prev" and "0 < window"
    and "\<forall>t \<in> set acc. length (in_window window t acc) \<le> n"
  shows "\<forall>t \<in> set (acc @ sliding_run n window ts zs).
    length (in_window window t (acc @ sliding_run n window ts zs)) \<le> n"
  using assms
proof (induction ts arbitrary: prev acc zs)
  case Nil
  then show ?case by simp
next
  case (Cons now ts)
  have now: "prev < now" "0 \<le> now" using Cons.prems(4,5) by auto
  have acc: "\<forall>t \<in> set acc. 0 \<le> t \<and> t < now" using Cons.prems(3) now by auto
  note T = live_tracks[OF Cons.prems(1) less_imp_le[OF now(1)] acc]
  note L = length_live[OF Cons.prems(1) less_imp_le[OF now(1)] acc Cons.prems(2)]
  have fresh: "now \<notin> set (live window now zs)" using T(1) acc by (auto simp: in_window_def)
  obtain r zs' where c: "sliding_check n window now zs = (r, zs')" by fastforce
  have w0: "window \<ge> 0" using Cons.prems(6) by simp
  show ?case
  proof (cases "rr_allowed r")
    case True
    then have cnt: "length (live window now zs) < n" and zs': "zs' = insort now (live window now zs)"
      using c fresh by (auto simp: sliding_check_def Let_def insort_insert_key_def split: if_splits)
    have "set_tracks window now (acc @ [now]) zs'"
      unfolding set_tracks_def zs'
      using T fresh live_sub[of window now zs] Cons.prems(1,6) acc
      by (auto simp: sorted_insort distinct_insort set_insort_key in_window_def set_tracks_def dest: order.strict_implies_order)
    moreover have "\<forall>t \<in> set (acc @ [now]). length (in_window window t (acc @ [now])) \<le> n"
    proof
      fix t assume "t \<in> set (acc @ [now])"
      then consider "t \<in> set acc" | "t = now" by auto
      then show "length (in_window window t (acc @ [now])) \<le> n"
      proof cases
        case 1
        then have "t < now" using acc by blast
        then have "in_window window t (acc @ [now]) = in_window window t acc" by (simp add: in_window_def)
        then show ?thesis using Cons.prems(7) 1 by simp
      next
        case 2
        have "length (in_window window now acc) < n" using cnt L by simp
        then show ?thesis using 2 by (auto simp: in_window_def)
      qed
    qed
    moreover have "distinct (acc @ [now])" "\<forall>t \<in> set (acc @ [now]). 0 \<le> t \<and> t \<le> now"
      using Cons.prems(2) acc now by auto
    ultimately have "\<forall>t \<in> set ((acc @ [now]) @ sliding_run n window ts zs').
        length (in_window window t ((acc @ [now]) @ sliding_run n window ts zs')) \<le> n"
      using Cons.IH[of now "acc @ [now]" zs'] Cons.prems(4,6) now by simp
    then show ?thesis using c True by simp
  next
    case False
    then have "zs' = filter (\<lambda>t. t \<noteq> now) (insort now (live window now zs))"
      using c fresh by (auto simp: sliding_check_def Let_def insort_insert_key_def split: if_splits)
    then have zs': "set zs' = set (live window now zs)" "distinct zs'" "sorted zs'"
      using fresh T sorted_filter[of "\<lambda>t. t" "insort now (live window now zs)"]
      by (auto simp: set_insort_key distinct_insort sorted_insort)
    have "set_tracks window now acc zs'"
      unfolding set_tracks_def using T zs' live_sub[of window now zs] Cons.prems(1) acc
      by (auto simp: in_window_def set_tracks_def)
    moreover have "\<forall>t \<in> set acc. 0 \<le> t \<and> t \<le> now" using acc by auto
    ultimately have "\<forall>t \<in> set (acc @ sliding_run n window ts zs').
        length (in_window window t (acc @ sliding_run n window ts zs')) \<le> n"
      using Cons.IH[of now acc zs'] Cons.prems(2,4,6,7) now by simp
    then show ?thesis using c False by simp
  qed
qed

text \<open>Requests that share a microsecond share a member, and are all let through.\<close>

lemma sliding_same_time:
  assumes "2 \<le> n" and "0 < window"
  shows "sliding_run n window (replicate k t) [t] = replicate k t"
proof (induction k)
  case (Suc k)
  have "live window t [t] = [t]" using assms(2) by (simp add: live_def)
  then have "sliding_check n window t [t] = (fst (sliding_check n window t [t]), [t])"
    and "rr_allowed (fst (sliding_check n window t [t]))"
    using assms(1) by (simp_all add: sliding_check_def Let_def insort_insert_key_def)
  then show ?case using Suc by (simp add: case_prod_beta) (metis fst_conv snd_conv)
qed simp

text \<open>While a counter lives, at most \<open>n\<close> requests pass.\<close>

lemma merchant_run_live:
  assumes "\<forall>t \<in> set ts. t < expires"
  shows "length (merchant_run n ts (Some (k, Some expires))) \<le> n - k"
  using assms
proof (induction ts arbitrary: k)
  case (Cons t ts)
  then have t: "t < expires" by simp
  have "counter_now t (Some (k, Some expires)) = Some (k, Some expires)" using t by (simp add: counter_now_def)
  then show ?case using Cons.IH[of "Suc k"] Cons.prems
    by (auto simp: merchant_check_def Let_def)
qed simp

end
