(* ===== verification/Platform_Properties.thy ===== *)
theory Platform_Properties
  imports Pagination Rate_Limit
begin

text \<open>What the whole platform rests on: amounts, cursor pagination, rate limits.\<close>

section \<open>Amounts\<close>

text \<open>No piconero is lost between the wallet and the books: an amount in atomic units, converted to
  XMR, stored in a NUMERIC(18,12) column and converted back, is the same integer; and converting a
  price to atomic units never rounds up.\<close>

theorem money_roundtrip:
  "xmr_to_atomic (pg_numeric 12 (atomic_to_xmr n)) = n \<and>
   atomic_to_xmr (xmr_to_atomic (\<bar>x\<bar>)) \<le> \<bar>x\<bar> \<and> \<bar>x\<bar> < atomic_to_xmr (xmr_to_atomic \<bar>x\<bar> + 1)"
  using xmr_to_atomic_bounds[of "\<bar>x\<bar>"] by (simp add: pg_numeric_exact xmr_to_atomic_atomic_to_xmr)

section \<open>Pagination\<close>

text \<open>C21: following the cursors from page to page shows every row exactly once, newest first, whatever the
  page size: the walk ends, never fails on its own cursors, and returns the sorted table.\<close>

theorem pages_cover_table:
  assumes "view_ok v" and "length (all_rows v) < fuel"
  shows "walk fuel v n None = Inr (newest_first v (filter (tv_base v) (tv_rows v)))"
  using walk_all[OF assms] by (simp add: all_rows_def)

lemma pages_cover_table_witness:
  "walk 6 \<lparr>tv_rows = [(10, 1), (30, 2), (20, 3), (30, 4), (99, 5)], tv_ts = fst, tv_id = snd,
       tv_tenant = (\<lambda>r. snd r \<noteq> 5), tv_base = (\<lambda>r. snd r \<noteq> 5)\<rparr> 2 None
   = Inr [(30, 4), (30, 2), (20, 3), (10, 1)]"
proof -
  let ?v = "\<lparr>tv_rows = [(10, 1), (30, 2), (20, 3), (30, 4), (99, 5)], tv_ts = fst, tv_id = snd,
    tv_tenant = (\<lambda>r. snd r \<noteq> 5), tv_base = (\<lambda>r. snd r \<noteq> 5)\<rparr> :: (int \<times> nat) table_view"
  have "view_ok ?v" by (simp add: view_ok_def)
  moreover have "length (all_rows ?v) < 6" by (simp add: all_rows_def newest_first_def)
  ultimately have "walk 6 ?v 2 None = Inr (newest_first ?v (filter (tv_base ?v) (tv_rows ?v)))"
    by (rule pages_cover_table)
  also have "newest_first ?v (filter (tv_base ?v) (tv_rows ?v)) = [(30, 4), (30, 2), (20, 3), (10, 1)]" by code_simp
  finally show ?thesis .
qed

section \<open>Rate limits\<close>

text \<open>C22: the sliding window is a bound: from an empty window, of requests arriving at different instants at
  most n are let through in any window, however they are spaced.\<close>

theorem sliding_window_bound:
  assumes "sorted_wrt (<) ts" and "\<forall>t \<in> set ts. 0 < t" and "0 < window"
  shows "\<forall>t \<in> set (sliding_run n window ts []).
    length (filter (\<lambda>a. t - window < a \<and> a \<le> t) (sliding_run n window ts [])) \<le> n"
proof -
  have "set_tracks window 0 [] []" by (simp add: set_tracks_def)
  from sliding_run_bound[OF this, of ts n] assms show ?thesis by (simp add: in_window_def)
qed

lemma sliding_window_bound_witness:
  "sliding_run 2 10 [1, 2, 3, 14] [] = [1, 2, 14] \<and>
   length (filter (\<lambda>a. 2 - 10 < a \<and> a \<le> 2) (sliding_run 2 10 [1, 2, 3, 14] [])) \<le> 2"
proof -
  have run: "sliding_run 2 10 [1, 2, 3, 14] [] = [1, 2, 14]" by code_simp
  have ts: "sorted_wrt (<) [1, 2, 3, 14 :: int]" "\<forall>t \<in> set [1, 2, 3, 14]. (0::int) < t" "(0::int) < 10"
    by simp_all
  have "2 \<in> set (sliding_run 2 10 [1, 2, 3, 14] [])" unfolding run by simp
  from bspec[OF sliding_window_bound[OF ts, of 2] this] run show ?thesis by (rule conjI[rotated])
qed

text \<open>The bound fails for requests with the same clock reading: they share one member of the set, so
  all of them are let through, however many they are, as soon as the limit is at least two.\<close>

theorem same_instant_unlimited:
  assumes "2 \<le> n" and "0 < window" and "0 \<le> t"
  shows "sliding_run n window (replicate k t) [] = replicate k t"
proof (cases k)
  case (Suc j)
  have "sliding_check n window t [] = (fst (sliding_check n window t []), [t])"
    and "rr_allowed (fst (sliding_check n window t []))"
    using assms(1) by (simp_all add: sliding_check_def live_def Let_def insort_insert_key_def)
  then show ?thesis
    using sliding_same_time[OF assms(1,2), of j t] by (simp add: Suc case_prod_beta) (metis fst_conv snd_conv)
qed simp

lemma same_instant_unlimited_witness: "length (sliding_run 10 60 (replicate 1000 7) []) = 1000"
  using same_instant_unlimited[of 10 60 7 1000] by simp

end
