(* ===== verification/Account_Invariant.thy ===== *)
theory Account_Invariant
  imports System_Accounts
begin

text \<open>
  The invariant of the account tables: identifiers, payout addresses, license hashes and external ids
  are unique, every stored view key decrypts, every key row belongs to a merchant and holds the
  hash of a key text, and every merchant has between one and ten active keys. Every step of the
  server keeps it.
\<close>

section \<open>The invariant\<close>

definition view_key_kept :: "keyring \<Rightarrow> merchant \<Rightarrow> bool" where
  "view_key_kept K m \<longleftrightarrow> (\<exists>v t. mer_view_key m = Some v \<and>
     decrypt_view_key (kr_aead K) (kr_master K) v None = Inr t \<and> length t = 64)"

definition merchants_ok :: "keyring \<Rightarrow> db \<Rightarrow> bool" where
  "merchants_ok K d \<longleftrightarrow> distinct (map mer_id (db_merchants d)) \<and> distinct (map mer_address (db_merchants d)) \<and>
     (\<forall>m \<in> set (db_merchants d). mer_id m < db_next_id d \<and> view_key_kept K m)"

definition keys_ok :: "keyring \<Rightarrow> db \<Rightarrow> bool" where
  "keys_ok K d \<longleftrightarrow> distinct (map key_id (db_api_keys d)) \<and> keys_hashed (kr_bcrypt K) d \<and>
     (\<forall>k \<in> set (db_api_keys d). key_id k < db_next_id d \<and> key_merchant k \<in> mer_id ` set (db_merchants d)) \<and>
     (\<forall>i \<in> mer_id ` set (db_merchants d). active_keys i d \<noteq> [] \<and> length (active_keys i d) \<le> max_active_keys)"

definition customers_ok :: "db \<Rightarrow> bool" where
  "customers_ok d \<longleftrightarrow> ext_unique d \<and> (\<forall>c \<in> set (db_customers d). cus_id c < db_next_id d)"

definition licenses_ok :: "db \<Rightarrow> bool" where
  "licenses_ok d \<longleftrightarrow> distinct (map lic_key_hash (db_licenses d)) \<and> distinct (map lic_id (db_licenses d)) \<and>
     (\<forall>l \<in> set (db_licenses d). lic_id l < db_next_id d)"

definition accounts_ok :: "keyring \<Rightarrow> db \<Rightarrow> bool" where
  "accounts_ok K d \<longleftrightarrow> merchants_ok K d \<and> keys_ok K d \<and> customers_ok d \<and> licenses_ok d"

text \<open>Each part depends on its own tables.\<close>

lemma merchants_ok_cong:
  "merchants_ok K d \<Longrightarrow> db_merchants d' = db_merchants d \<Longrightarrow> db_next_id d \<le> db_next_id d' \<Longrightarrow> merchants_ok K d'"
  by (auto simp: merchants_ok_def intro: less_le_trans)

lemma keys_ok_cong:
  "keys_ok K d \<Longrightarrow> db_api_keys d' = db_api_keys d \<Longrightarrow> mer_id ` set (db_merchants d') = mer_id ` set (db_merchants d) \<Longrightarrow>
     db_next_id d \<le> db_next_id d' \<Longrightarrow> keys_ok K d'"
  unfolding keys_ok_def keys_hashed_def active_keys_def by (auto simp del: filter_filter intro: less_le_trans)

lemma customers_ok_cong:
  "customers_ok d \<Longrightarrow> db_customers d' = db_customers d \<Longrightarrow> db_next_id d \<le> db_next_id d' \<Longrightarrow> customers_ok d'"
  unfolding customers_ok_def ext_unique_def by (auto intro: less_le_trans)

lemma licenses_ok_cong:
  "licenses_ok d \<Longrightarrow> db_licenses d' = db_licenses d \<Longrightarrow> db_next_id d \<le> db_next_id d' \<Longrightarrow> licenses_ok d'"
  unfolding licenses_ok_def by (auto intro: less_le_trans)

lemmas accounts_parts = merchants_ok_cong keys_ok_cong customers_ok_cong licenses_ok_cong

lemma accounts_ok_cong:
  assumes "accounts_ok K d" and "accounts_of d' = accounts_of d" and "db_next_id d \<le> db_next_id d'"
  shows "accounts_ok K d'"
  using assms(1,3) accounts_ofD[OF assms(2)]
  unfolding accounts_ok_def by (auto elim: accounts_parts)

lemma active_bounds:
  assumes "accounts_ok K d" and "i \<in> mer_id ` set (db_merchants d)"
  shows "active_keys i d \<noteq> []" and "length (active_keys i d) \<le> max_active_keys"
  using assms unfolding accounts_ok_def keys_ok_def by blast+

lemma accounts_ok_transaction:
  assumes ok: "accounts_ok K d" and run: "\<And>y d'. f d = (Inr y, d') \<Longrightarrow> accounts_ok K d'"
    and nx: "db_next_id d \<le> db_next_id (snd (f d))"
  shows "accounts_ok K (snd (in_transaction f d))"
proof (cases "f d")
  case (Pair x d')
  show ?thesis
  proof (cases x)
    case (Inl y)
    have "accounts_ok K (rollback d d')"
      by (rule accounts_ok_cong[OF ok]) (use nx Pair in \<open>simp_all add: rollback_def accounts_of_def\<close>)
    then show ?thesis by (simp add: in_transaction_def Pair Inl)
  next
    case (Inr y)
    then show ?thesis using run Pair by (simp add: in_transaction_def)
  qed
qed

lemma rows_kept_next: "rows_kept d d' \<Longrightarrow> db_next_id d \<le> db_next_id d'"
  by (simp add: rows_kept_def)

section \<open>Merchants\<close>

text \<open>Changes of a merchant that leave its id, address and view key.\<close>

lemma merchants_ok_modify:
  assumes "accounts_ok K d" and "\<And>m. mer_id (f m) = mer_id m" and "\<And>m. mer_address (f m) = mer_address m"
    and "\<And>m. mer_view_key (f m) = mer_view_key m"
  shows "accounts_ok K (modify_merchant i f d)"
proof -
  have keys: "map mer_id (upd_row mer_id i f (db_merchants d)) = map mer_id (db_merchants d)"
    "map mer_address (upd_row mer_id i f (db_merchants d)) = map mer_address (db_merchants d)"
    using assms(2,3) by (simp_all add: upd_row_fields)
  have ids: "mer_id ` set (upd_row mer_id i f (db_merchants d)) = mer_id ` set (db_merchants d)"
    using arg_cong[OF keys(1), of set] by simp
  have "view_key_kept K (f m) = view_key_kept K m" for m by (simp add: view_key_kept_def assms(4))
  then have "mer_id m < db_next_id d \<and> view_key_kept K m" if "m \<in> set (upd_row mer_id i f (db_merchants d))" for m
    using that assms(1,2) by (auto simp: in_upd_row accounts_ok_def merchants_ok_def split: if_splits)
  then have "merchants_ok K (modify_merchant i f d)"
    using assms(1) keys by (simp add: accounts_ok_def merchants_ok_def modify_merchant_def)
  moreover have "keys_ok K (modify_merchant i f d)"
    by (rule keys_ok_cong[of K d]) (use assms(1) ids in \<open>simp_all add: accounts_ok_def modify_merchant_def\<close>)
  ultimately show ?thesis
    using assms(1) customers_ok_cong[of d] licenses_ok_cong[of d] by (simp add: accounts_ok_def modify_merchant_def)
qed

lemma set_if_fields:
  "(\<And>x m. mer_address (f x m) = mer_address m) \<Longrightarrow> mer_address (set_if v f m) = mer_address m"
  "(\<And>x m. mer_view_key (f x m) = mer_view_key m) \<Longrightarrow> mer_view_key (set_if v f m) = mer_view_key m"
  by (simp_all add: set_if_def split: option.split)

lemma patch_merchant_core:
  "mer_address (patch_merchant e p plans m) = mer_address m"
  "mer_view_key (patch_merchant e p plans m) = mer_view_key m"
  by (simp_all add: patch_merchant_def set_if_fields)

lemma update_me_ok: "accounts_ok K d \<Longrightarrow> update_me e m p d = (Inr y, d') \<Longrightarrow> accounts_ok K d'"
  using update_me_run[of e m p d y d'] merchants_ok_modify patch_merchant_id patch_merchant_core by metis

lemma issued_made: "issued B k \<Longrightarrow> \<exists>p. key_made B p k"
proof -
  assume "issued B k"
  then obtain env rnd p s where p: "generate_api_key env rnd = Inr p" "key_hash k = bc_hashpw B p s"
      "key_prefix k = take key_prefix_length p" unfolding issued_def by blast
  have "key_made B p k" using generate_api_key_form(1)[OF p(1)] p(2,3) by (auto simp: key_made_def)
  then show ?thesis by blast
qed

text \<open>The cipher text of a registration decrypts.\<close>

lemma registered_view_key:
  assumes "aead_laws A" and "length n = nonce_size" and "encrypt_view_key A hex n t None = Inr v"
  shows "decrypt_view_key A hex v None = Inr t"
  using assms encrypt_decrypt by (auto simp: encrypt_view_key_def decrypt_view_key_def split: sum.splits)

lemma register_merchant_ok:
  assumes ok: "accounts_ok K d" and laws: "aead_laws (kr_aead K)" and n: "length (en_nonce en) = nonce_size"
    and body: "register_body_ok b"
    and run: "register_merchant e (kr_aead K) (kr_master K) (kr_bcrypt K) en b d = (Inr reg, d')"
  shows "accounts_ok K d'"
proof (rule register_merchant_run[OF run])
  fix m k1 k2
  assume m: "db_merchants d' = db_merchants d @ [m]" "mer_id m = reg_merchant reg" "reg_merchant reg = db_next_id d"
      "mer_address m = rb_address b" "\<not> (\<exists>q \<in> set (db_merchants d). mer_address q = rb_address b)"
    and k: "db_api_keys d' = db_api_keys d @ [k1, k2]" "key_merchant k1 = mer_id m" "key_merchant k2 = mer_id m"
      "key_active k1" "key_active k2" "key_id k1 = db_next_id d + 1" "key_id k2 = db_next_id d + 2"
      "issued (kr_bcrypt K) k1" "issued (kr_bcrypt K) k2"
    and vk: "\<exists>v. mer_view_key m = Some v \<and>
      encrypt_view_key (kr_aead K) (kr_master K) (en_nonce en) (lower (rb_view_key b)) None = Inr v"
    and d': "d' = d\<lparr>db_merchants := db_merchants d', db_api_keys := db_api_keys d', db_next_id := db_next_id d + 3\<rparr>"
  let ?n = "db_next_id d"
  have rest: "db_customers d' = db_customers d" "db_licenses d' = db_licenses d" "db_next_id d' = ?n + 3"
    by (subst d', simp)+
  have mid: "mer_id m = ?n" using m(2,3) by simp
  have old: "mer_id q < ?n" "mer_address q \<noteq> mer_address m" if "q \<in> set (db_merchants d)" for q
    using that ok m(4,5) by (auto simp: accounts_ok_def merchants_ok_def)
  have keep: "view_key_kept K m"
    using vk registered_view_key[OF laws n] body by (auto simp: view_key_kept_def register_body_ok_def lower_def)
  have "?n \<notin> mer_id ` set (db_merchants d)" using old(1) by fastforce
  moreover have "mer_address m \<notin> mer_address ` set (db_merchants d)" using old(2) by fastforce
  ultimately have ms: "merchants_ok K d'"
    using ok old(1) keep mid by (auto simp: accounts_ok_def merchants_ok_def m(1) rest(3) intro: trans_less_add1)
  have owner: "key_merchant k < ?n" "key_id k < ?n" "key_merchant k \<in> mer_id ` set (db_merchants d)"
    if "k \<in> set (db_api_keys d)" for k
    using that ok old(1) by (fastforce simp: accounts_ok_def keys_ok_def)+
  have none: "active_keys ?n d = []" using owner(1) by (fastforce simp: active_keys_def filter_empty_conv)
  have act: "active_keys i d' = active_keys i d @ (if i = ?n then [k1, k2] else [])" for i
    using k(2-5) mid by (simp add: active_keys_def k(1))
  have bounds: "active_keys i d' \<noteq> [] \<and> length (active_keys i d') \<le> max_active_keys"
    if "i \<in> mer_id ` set (db_merchants d')" for i
  proof (cases "i = ?n")
    case True
    then show ?thesis by (simp add: act none max_active_keys_def)
  next
    case False
    then have "i \<in> mer_id ` set (db_merchants d)" using that by (auto simp: m(1) mid)
    then show ?thesis using active_bounds[OF ok] False by (simp add: act)
  qed
  have fresh: "?n + 1 \<notin> key_id ` set (db_api_keys d)" "?n + 2 \<notin> key_id ` set (db_api_keys d)"
    using owner(2) by fastforce+
  have hashed: "keys_hashed (kr_bcrypt K) d'"
    using ok issued_made[OF k(8)] issued_made[OF k(9)] by (simp add: accounts_ok_def keys_ok_def keys_hashed_def k(1))
  have dist: "distinct (map key_id (db_api_keys d'))"
    using ok fresh k(6,7) by (simp add: accounts_ok_def keys_ok_def k(1))
  have rows: "key_id q < ?n + 3 \<and> key_merchant q \<in> mer_id ` set (db_merchants d')"
    if "q \<in> set (db_api_keys d')" for q
    using that owner(2)[of q] owner(3)[of q] k(2,3,6,7) by (auto simp: k(1) m(1))
  have ks: "keys_ok K d'" using dist hashed rows bounds by (simp add: keys_ok_def rest(3))
  have "customers_ok d'" "licenses_ok d'"
    using ok by (auto simp: accounts_ok_def customers_ok_def ext_unique_def licenses_ok_def rest intro: less_le_trans)
  with ms ks show ?thesis by (simp add: accounts_ok_def)
qed

section \<open>API keys\<close>

text \<open>Changes of a key row that leave its id, owner, hash and prefix, and of no other table.\<close>

lemma keys_ok_modify:
  assumes ok: "accounts_ok K d"
    and f: "\<And>k. key_id (f k) = key_id k" "\<And>k. key_merchant (f k) = key_merchant k"
      "\<And>k. key_hash (f k) = key_hash k" "\<And>k. key_prefix (f k) = key_prefix k"
    and act: "\<And>i. i \<in> mer_id ` set (db_merchants d) \<Longrightarrow> active_keys i (modify_api_key j f d) \<noteq> [] \<and>
      length (active_keys i (modify_api_key j f d)) \<le> max_active_keys"
  shows "accounts_ok K (modify_api_key j f d)"
proof -
  let ?ks = "upd_row key_id j f (db_api_keys d)"
  have made: "key_made B p (f k) = key_made B p k" for B p k by (simp add: key_made_def f(3,4))
  have "\<exists>q \<in> set (db_api_keys d). key_id k = key_id q \<and> key_merchant k = key_merchant q \<and>
      (\<forall>p. key_made (kr_bcrypt K) p k = key_made (kr_bcrypt K) p q)" if "k \<in> set ?ks" for k
    using that f(1,2) made unfolding in_upd_row by metis
  then have rows: "key_id k < db_next_id d \<and> key_merchant k \<in> mer_id ` set (db_merchants d) \<and>
      (\<exists>p. key_made (kr_bcrypt K) p k)" if "k \<in> set ?ks" for k
    using that ok unfolding accounts_ok_def keys_ok_def keys_hashed_def by metis
  have "map key_id ?ks = map key_id (db_api_keys d)" by (rule upd_row_keys) (rule f(1))
  then have "keys_ok K (modify_api_key j f d)"
    using ok rows act unfolding accounts_ok_def keys_ok_def keys_hashed_def by (simp add: modify_api_key_def)
  then show ?thesis
    using ok merchants_ok_cong[of K d] customers_ok_cong[of d] licenses_ok_cong[of d]
    by (simp add: accounts_ok_def modify_api_key_def)
qed

lemma create_api_key_ok:
  assumes ok: "accounts_ok K d" and m: "find_merchant (mer_id m) d = Some m"
    and run: "create_api_key e (kr_bcrypt K) rnd salt m label env d = (Inr (i, plain), d')"
  shows "accounts_ok K d'"
proof (rule create_api_key_run[OF run])
  fix k
  assume k: "i = db_next_id d" "key_id k = i" "key_merchant k = mer_id m" "db_api_keys d' = db_api_keys d @ [k]"
      "db_merchants d' = db_merchants d"
  have nx: "db_next_id d' = Suc (db_next_id d)" and rest: "db_customers d' = db_customers d" "db_licenses d' = db_licenses d"
    using run by (auto simp: create_api_key_def Let_def add_audit_def add_api_key_def split: if_splits sum.splits)
  have hashed: "keys_hashed (kr_bcrypt K) d'"
    using keys_hashed_create[OF _ run] ok by (simp add: accounts_ok_def keys_ok_def)
  have "m \<in> set (db_merchants d)" using get_row_in[of mer_id "mer_id m" "db_merchants d" m] m by (simp add: find_merchant_def)
  then have own: "mer_id m \<in> mer_id ` set (db_merchants d)" by simp
  have bounds: "active_keys j d' \<noteq> [] \<and> length (active_keys j d') \<le> max_active_keys"
    if "j \<in> mer_id ` set (db_merchants d)" for j
  proof -
    have "active_keys j d \<noteq> []" "length (active_keys j d) \<le> max_active_keys"
      using active_bounds[OF ok that] .
    moreover have "active_keys j d' = active_keys j d @ filter (\<lambda>k. key_merchant k = j \<and> key_active k) [k]"
      by (simp add: active_keys_def k(4))
    moreover have "length (active_keys j d') \<le> max_active_keys"
      using active_keys_created[OF run, of j] calculation(2) by (auto split: if_splits)
    ultimately show ?thesis by simp
  qed
  have "\<forall>k \<in> set (db_api_keys d). key_id k < db_next_id d" using ok by (simp add: accounts_ok_def keys_ok_def)
  then have "db_next_id d \<notin> key_id ` set (db_api_keys d)" by fastforce
  then have "keys_ok K d'"
    using ok hashed bounds own k(1-3) by (auto simp: accounts_ok_def keys_ok_def k(4,5) nx intro: less_SucI)
  moreover have "merchants_ok K d'" "customers_ok d'" "licenses_ok d'"
    using ok by (auto simp: accounts_ok_def merchants_ok_def customers_ok_def ext_unique_def licenses_ok_def k(5) rest nx intro: less_SucI)
  ultimately show ?thesis by (simp add: accounts_ok_def)
qed

lemma revoke_api_key_ok:
  assumes ok: "accounts_ok K d" and run: "revoke_api_key e m t d = (Inr x, d')"
  shows "accounts_ok K d'"
proof (rule revoke_api_key_run[OF run])
  fix kid k
  let ?f = "\<lambda>q. q\<lparr>key_active := False\<rparr>"
  let ?d = "modify_api_key kid ?f d"
  assume k: "find_api_key kid d = Some k" "key_merchant k = mer_id m"
      "filter (\<lambda>q. key_id q \<noteq> kid) (active_keys (mer_id m) d) \<noteq> []"
      "db_api_keys d' = upd_row key_id kid ?f (db_api_keys d)" "db_merchants d' = db_merchants d"
  have "db_customers d' = db_customers d" "db_licenses d' = db_licenses d" "db_next_id d' = db_next_id d"
    using run by (auto simp: revoke_api_key_def modify_api_key_def split: option.splits if_splits)
  then have d': "accounts_of d' = accounts_of ?d" "db_next_id ?d \<le> db_next_id d'"
    using k(4,5) by (simp_all add: accounts_of_def modify_api_key_def)
  have dist: "distinct (map key_id (db_api_keys d))" using ok by (simp add: accounts_ok_def keys_ok_def)
  have act: "active_keys i ?d = filter (\<lambda>q. key_id q \<noteq> kid) (active_keys i d)" for i
    by (simp add: active_keys_def modify_api_key_def active_keys_upd del: filter_filter)
  have other: "active_keys i ?d = active_keys i d" if ne: "i \<noteq> mer_id m" for i
  proof -
    have "key_id q \<noteq> kid" if q: "q \<in> set (active_keys i d)" for q
    proof
      assume "key_id q = kid"
      moreover have "q \<in> set (db_api_keys d)" "key_merchant q = i" using q by (simp_all add: active_keys_def)
      ultimately have "q = k" using get_row_distinct[OF dist] k(1) by (fastforce simp: find_api_key_def)
      then show False using \<open>key_merchant q = i\<close> k(2) ne by simp
    qed
    then show ?thesis by (simp add: act filter_id_conv)
  qed
  have "accounts_ok K ?d"
  proof (rule keys_ok_modify[OF ok])
    fix i assume i: "i \<in> mer_id ` set (db_merchants d)"
    show "active_keys i ?d \<noteq> [] \<and> length (active_keys i ?d) \<le> max_active_keys"
    proof (cases "i = mer_id m")
      case True
      have "length (active_keys i ?d) \<le> length (active_keys i d)" by (simp add: act)
      moreover have "active_keys i ?d \<noteq> []" using k(3) True by (simp add: act)
      ultimately show ?thesis using active_bounds(2)[OF ok i] le_trans by blast
    next
      case False
      then show ?thesis using active_bounds[OF ok i] other by simp
    qed
  qed simp_all
  then show ?thesis using accounts_ok_cong d' by blast
qed

lemma filter_upd_length:
  "(\<And>r. P (f r) = P r) \<Longrightarrow> length (filter P (upd_row key i f rs)) = length (filter P rs)"
  by (induction rs) (simp_all add: upd_row_def)

lemma authenticate_ok:
  assumes ok: "accounts_ok K d"
  shows "accounts_ok K (snd (get_current_merchant e B r authorization d))"
proof -
  have used: "accounts_ok K (modify_api_key j (\<lambda>q. q\<lparr>key_last_used_at := t\<rparr>) d)" for j t
  proof (rule keys_ok_modify[OF ok])
    fix i assume i: "i \<in> mer_id ` set (db_merchants d)"
    have "length (active_keys i (modify_api_key j (\<lambda>q. q\<lparr>key_last_used_at := t\<rparr>) d)) = length (active_keys i d)"
      by (simp add: active_keys_def modify_api_key_def filter_upd_length)
    then show "active_keys i (modify_api_key j (\<lambda>q. q\<lparr>key_last_used_at := t\<rparr>) d) \<noteq> [] \<and>
        length (active_keys i (modify_api_key j (\<lambda>q. q\<lparr>key_last_used_at := t\<rparr>) d)) \<le> max_active_keys"
      using active_bounds[OF ok i] by (metis length_0_conv)
  qed simp_all
  show ?thesis
    using ok by (simp add: get_current_merchant_def auth_via_session_def auth_via_api_key_def used
        split: option.split sum.split)
qed

section \<open>Customers and licenses\<close>

lemma accounts_ok_customers:
  assumes "accounts_ok K d" and "customers_ok d'" and "db_merchants d' = db_merchants d"
    and "db_api_keys d' = db_api_keys d" and "db_licenses d' = db_licenses d" and "db_next_id d \<le> db_next_id d'"
  shows "accounts_ok K d'"
  using assms unfolding accounts_ok_def by (auto elim: accounts_parts)

lemma create_customer_ok:
  assumes ok: "accounts_ok K d" and run: "create_customer e mid ext email meta d = (Inr i, d')"
  shows "accounts_ok K d'"
proof -
  note r = create_customer_run[OF run]
  have lt: "\<forall>c \<in> set (db_customers d). cus_id c < db_next_id d" and uq: "ext_unique d"
    using ok by (simp_all add: accounts_ok_def customers_ok_def)
  have rows: "db_customers d' = db_customers d @ [new_customer e i mid ext email meta]" "db_next_id d' = Suc (db_next_id d)"
    by (simp_all add: r(2) add_customer_def)
  have "customers_ok d'"
    using ext_unique_create[OF uq run lt] lt by (auto simp: customers_ok_def rows new_customer_def r(1))
  then show ?thesis
    by (rule accounts_ok_customers[OF ok]) (simp_all add: r(2) add_customer_def)
qed

lemma update_customer_fields:
  assumes "update_customer mid i p d = (Inr j, d')"
  shows "map cus_id (db_customers d') = map cus_id (db_customers d)" and "db_merchants d' = db_merchants d"
    and "db_api_keys d' = db_api_keys d" and "db_licenses d' = db_licenses d" and "db_next_id d' = db_next_id d"
  using assms
  by (auto simp: update_customer_def get_customer_def patch_email_def patch_external_id_def patch_customer_metadata_def
      modify_customer_def upd_row_keys split: option.splits if_splits sum.splits prod.splits)

lemma update_customer_ok:
  assumes ok: "accounts_ok K d" and run: "update_customer mid i p d = (Inr j, d')"
  shows "accounts_ok K d'"
proof -
  note f = update_customer_fields[OF run]
  have "cus_id ` set (db_customers d') = cus_id ` set (db_customers d)" using arg_cong[OF f(1), of set] by simp
  moreover have "cus_id ` set (db_customers d) \<subseteq> {..<db_next_id d}"
    using ok by (auto simp: accounts_ok_def customers_ok_def)
  ultimately have "customers_ok d'"
    using ext_unique_update[OF _ run] ok by (auto simp: accounts_ok_def customers_ok_def f(5))
  then show ?thesis by (rule accounts_ok_customers[OF ok]) (simp_all add: f)
qed

lemma accounts_ok_licenses:
  assumes "accounts_ok K d" and "licenses_ok d'" and "db_merchants d' = db_merchants d"
    and "db_api_keys d' = db_api_keys d" and "db_customers d' = db_customers d" and "db_next_id d \<le> db_next_id d'"
  shows "accounts_ok K d'"
  using assms unfolding accounts_ok_def by (auto elim: accounts_parts)

lemma create_license_ok:
  assumes ok: "accounts_ok K d" and run: "create_license e sha rnd tier email dur note d = (Inr (i, k), d')"
  shows "accounts_ok K d'"
proof -
  note r = create_license_run[OF run]
  have lt: "\<forall>l \<in> set (db_licenses d). lic_id l < db_next_id d" using ok by (simp add: accounts_ok_def licenses_ok_def)
  have "licenses_ok d'"
    using ok r(1,4) lt
    by (auto simp: accounts_ok_def licenses_ok_def r(5) add_license_def new_license_def filter_empty_conv intro: less_SucI)
  then show ?thesis by (rule accounts_ok_licenses[OF ok]) (simp_all add: r(5) add_license_def)
qed

lemma deactivate_license_ok:
  assumes ok: "accounts_ok K d"
  shows "accounts_ok K (snd (deactivate_license t d))"
proof -
  have "accounts_ok K (modify_license i (\<lambda>l. l\<lparr>lic_active := False\<rparr>) d)" for i
  proof (rule accounts_ok_licenses[OF ok])
    let ?ls = "upd_row lic_id i (\<lambda>l. l\<lparr>lic_active := False\<rparr>) (db_licenses d)"
    have "map lic_key_hash ?ls = map lic_key_hash (db_licenses d)" "map lic_id ?ls = map lic_id (db_licenses d)"
      by (simp_all add: upd_row_fields)
    moreover have "lic_id l < db_next_id d" if "l \<in> set ?ls" for l
      using that ok by (auto simp: in_upd_row accounts_ok_def licenses_ok_def split: if_splits)
    ultimately show "licenses_ok (modify_license i (\<lambda>l. l\<lparr>lic_active := False\<rparr>) d)"
      using ok by (simp add: accounts_ok_def licenses_ok_def modify_license_def)
  qed (simp_all add: modify_license_def)
  then show ?thesis using ok by (simp add: deactivate_license_def split: option.split)
qed

section \<open>Every step keeps the invariant\<close>

lemma accounts_ok_map_error:
  assumes "\<And>y d'. f d = (Inr y, d') \<Longrightarrow> accounts_ok K d'" and "map_error g f d = (Inr y, d')"
  shows "accounts_ok K d'"
  using assms by (auto simp: map_error_def split: sum.splits prod.splits)

lemma account_step_ok:
  assumes "account_step K d d'" and ok: "accounts_ok K d" and laws: "aead_laws (kr_aead K)"
  shows "accounts_ok K d'"
  using assms(1)
proof (cases rule: account_step.cases)
  case (merchant_registered en e b)
  have "accounts_ok K (snd (in_transaction (register_merchant e (kr_aead K) (kr_master K) (kr_bcrypt K) en b) d))"
    if "register_body_ok b"
    using register_merchant_ok[OF ok laws merchant_registered(2) that]
    by (intro accounts_ok_transaction[OF ok] rows_kept_next[OF register_rows])
  then show ?thesis using ok merchant_registered(1) by (simp add: route_register_merchant_def)
next
  case (merchant_updated e m p)
  have "rows_kept d (snd (update_me e m p d))" by (simp add: update_me_def rows_kept_writes split: option.split)
  then show ?thesis unfolding merchant_updated
    by (intro accounts_ok_transaction[OF ok update_me_ok[OF ok] rows_kept_next])
next
  case (secret_regenerated e rnd m)
  have "accounts_ok K (snd (regenerate_webhook_secret e rnd m d))"
    unfolding regenerate_webhook_secret_def Let_def snd_conv by (rule merchants_ok_modify[OF ok]) simp_all
  then show ?thesis unfolding secret_regenerated
    by (intro accounts_ok_transaction[OF ok]) (auto simp: regenerate_webhook_secret_def Let_def modify_merchant_def)
next
  case (merchant_toggled adm m e mid)
  have "accounts_ok K (modify_merchant mid (\<lambda>m. m\<lparr>mer_active := \<not> mer_active m, mer_updated_at := env_now e\<rparr>) d)"
    by (rule merchants_ok_modify[OF ok]) simp_all
  then have "accounts_ok K (snd (in_transaction (toggle_merchant_active e adm mid) d))"
    by (intro accounts_ok_transaction[OF ok])
      (auto simp: toggle_merchant_active_def modify_merchant_def split: option.splits if_splits)
  then show ?thesis using ok merchant_toggled by (simp add: as_admin_def split: sum.split)
next
  case (key_created m e rnd salt label env)
  show ?thesis unfolding key_created(1)
    by (intro accounts_ok_transaction[OF ok] rows_kept_next[OF create_api_key_rows])
      (metis surj_pair create_api_key_ok[OF ok key_created(2)])
next
  case (key_revoked e m t)
  show ?thesis unfolding key_revoked
    by (intro accounts_ok_transaction[OF ok] rows_kept_next[OF revoke_api_key_rows] revoke_api_key_ok[OF ok])
next
  case (authenticated e r authorization)
  show ?thesis unfolding authenticated
    by (intro accounts_ok_transaction[OF ok] rows_kept_next[OF auth_rows]) (metis authenticate_ok[OF ok] snd_conv)
next
  case (customer_created e m ext email meta)
  have "rows_kept d (snd (create_customer e (mer_id m) ext email meta d))"
    by (simp add: create_customer_def rows_kept_writes split: option.split)
  then have "accounts_ok K (snd (in_transaction (map_error customer_http_error (create_customer e (mer_id m) ext email meta)) d))"
    by (intro accounts_ok_transaction[OF ok] rows_kept_next rows_kept_map_error)
      (rule accounts_ok_map_error[of _ d], rule create_customer_ok[OF ok])
  then show ?thesis using ok customer_created by (simp add: route_create_customer_def)
next
  case (customer_updated m cid p)
  have "accounts_ok K (snd (in_transaction (map_error customer_http_error (update_customer (mer_id m) cid p)) d))"
    by (intro accounts_ok_transaction[OF ok] rows_kept_next rows_kept_map_error update_customer_rows)
      (rule accounts_ok_map_error[of _ d], rule update_customer_ok[OF ok])
  then show ?thesis using ok customer_updated by (simp add: route_update_customer_def)
next
  case (license_created e sha rnd tier email dur remark)
  have "rows_kept d (snd (create_license e sha rnd tier email dur remark d))"
    by (simp add: create_license_def Let_def rows_kept_writes split: sum.split)
  then have "accounts_ok K (snd (in_transaction (create_license e sha rnd tier email dur remark) d))"
    by (intro accounts_ok_transaction[OF ok] rows_kept_next) (metis surj_pair create_license_ok[OF ok])
  then show ?thesis using ok license_created by (simp add: route_create_license_def)
next
  case (license_deactivated t)
  have "rows_kept d (snd (deactivate_license t d))" by (simp add: deactivate_license_def rows_kept_writes split: option.split)
  with deactivate_license_ok[OF ok, of t] show ?thesis
    unfolding license_deactivated route_deactivate_license_def
    by (intro accounts_ok_transaction[OF ok])
      (auto simp: rows_kept_def split: sum.splits option.splits prod.splits)
next
  case (audit_written e stored event mid meta eid)
  show ?thesis unfolding audit_written
    by (rule accounts_ok_cong[OF ok]) (simp_all add: audit_log_write_def accounts add_audit_def)
qed

theorem steps_accounts_ok:
  assumes "steps home K d d'" and "sys_ok home d" and "accounts_ok K d" and "aead_laws (kr_aead K)"
  shows "accounts_ok K d' \<and> sys_ok home d'"
  using assms(1-3)
proof (induction rule: steps.induct)
  case (steps_step d d' d'')
  then have "keeps home d' d''" and ok: "accounts_ok K d'" "sys_ok home d'" using step_keeps by auto
  then have sys: "sys_ok home d''" and nx: "db_next_id d' \<le> db_next_id d''" using keeps_next by (auto simp: keeps_def)
  have "accounts_ok K d''"
    using steps_step(2) accounts_ok_cong[OF ok(1) billing_step_accounts nx] account_step_ok[OF _ ok(1) assms(4)]
    by (elim step_elim) auto
  with sys show ?case by simp
qed simp

lemma empty_ok: "accounts_ok K empty_db" "sys_ok home empty_db"
  by (simp_all add: accounts_ok_def merchants_ok_def keys_ok_def keys_hashed_def customers_ok_def ext_unique_def
      licenses_ok_def empty_db_def sys_ok_initial initial_def)

end
