(* ===== verification/Access_Properties.thy ===== *)
theory Access_Properties
  imports Demo Account_Invariant
begin

text \<open>
  Properties of accounts and credentials: what holds of the account tables in every reachable
  state, which credentials authenticate a merchant and for how long, and which stored view keys
  decrypt.
\<close>

section \<open>Demonstration data\<close>

definition demo_body :: register_body where
  "demo_body = \<lparr>rb_address = CHR ''4'' # replicate 94 (CHR ''1''), rb_view_key = replicate 64 (CHR ''a''),
     rb_name = ''shop'', rb_email = None, rb_webhook_url = None\<rparr>"

definition demo_entropy :: entropy where
  "demo_entropy = \<lparr>en_nonce = replicate 12 (CHR ''n''), en_secret = 7, en_key = (\<lambda>env. length env + hd (map of_char env)),
     en_salt = (\<lambda>env. [])\<rparr>"

definition demo_registered :: db where
  "demo_registered = snd (route_register_merchant (demo_env 0) (kr_aead demo_ring) (kr_master demo_ring)
     (kr_bcrypt demo_ring) demo_entropy demo_body empty_db)"

definition demo_owner :: merchant where
  "demo_owner = hd (db_merchants demo_registered)"

lemma demo_registered_run:
  "db_merchants demo_registered = [demo_owner]" "mer_id demo_owner = 1" "mer_active demo_owner"
  "mer_address demo_owner = rb_address demo_body" "map key_hash (db_api_keys demo_registered) = [''gb_live_'' @ token_hex 32 112, ''gb_test_'' @ token_hex 32 120]"
  "map key_merchant (db_api_keys demo_registered) = [1, 1]" "db_next_id demo_registered = 4"
proof -
  have k: "master_key (kr_master demo_ring) = Inr (replicate 32 (CHR 0x00))" by code_simp
  have ascii: "utf8_ok (lower (rb_view_key demo_body))" by code_simp
  have "lower (rb_view_key demo_body) \<noteq> []" by (simp add: demo_body_def lower_def)
  then obtain enc where enc: "encrypt_view_key (kr_aead demo_ring) (kr_master demo_ring) (en_nonce demo_entropy)
      (lower (rb_view_key demo_body)) None = Inr enc"
    using k ascii by (simp add: encrypt_view_key_def encrypt_def)
  have empty: "db_merchants empty_db = []" "db_api_keys empty_db = []" "db_next_id empty_db = 1"
    by (simp_all add: empty_db_def)
  have fresh: "\<forall>m \<in> set (db_merchants empty_db). mer_address m \<noteq> rb_address demo_body" by (simp add: empty)
  obtain reg where run: "register_merchant (demo_env 0) (kr_aead demo_ring) (kr_master demo_ring) (kr_bcrypt demo_ring)
      demo_entropy demo_body empty_db = (Inr reg, empty_db\<lparr>
        db_merchants := [new_merchant (demo_env 0) 1 demo_body enc (generate_webhook_secret (en_secret demo_entropy))],
        db_api_keys := [default_key (demo_env 0) (kr_bcrypt demo_ring) demo_entropy 2 1 ''live'',
          default_key (demo_env 0) (kr_bcrypt demo_ring) demo_entropy 3 1 ''test''], db_next_id := 4\<rparr>)"
    using register_merchant_succeeds[OF fresh enc, of "demo_env 0" "kr_bcrypt demo_ring"] by (auto simp: empty numeral_2_eq_2 numeral_3_eq_3)
  have "register_body_ok demo_body" by code_simp
  then have d: "demo_registered = empty_db\<lparr>
      db_merchants := [new_merchant (demo_env 0) 1 demo_body enc (generate_webhook_secret (en_secret demo_entropy))],
      db_api_keys := [default_key (demo_env 0) (kr_bcrypt demo_ring) demo_entropy 2 1 ''live'',
        default_key (demo_env 0) (kr_bcrypt demo_ring) demo_entropy 3 1 ''test''], db_next_id := 4\<rparr>"
    by (simp add: demo_registered_def route_register_merchant_def in_transaction_def run)
  show "db_merchants demo_registered = [demo_owner]" "mer_id demo_owner = 1" "mer_active demo_owner"
    "mer_address demo_owner = rb_address demo_body" by (simp_all add: demo_owner_def d new_merchant_def)
  show "map key_merchant (db_api_keys demo_registered) = [1, 1]" "db_next_id demo_registered = 4"
    by (simp_all add: d default_key_def new_api_key_def Let_def)
  show "map key_hash (db_api_keys demo_registered) = [''gb_live_'' @ token_hex 32 112, ''gb_test_'' @ token_hex 32 120]"
    by (simp add: d default_key_def new_api_key_def Let_def demo_ring_def demo_bcrypt_def environment_prefix_def
        demo_entropy_def)
qed

lemma demo_registered_steps: "steps (\<lambda>t. (0, 1)) demo_ring empty_db demo_registered"
  unfolding demo_registered_def
  by (rule steps_step[OF steps_refl account[OF merchant_registered]]) (simp add: demo_entropy_def nonce_size_def)

section \<open>The account tables\<close>

text \<open>C4: in every state the server can reach from an empty database, no two merchants share a payout
  address, every merchant has between one and ten active API keys and a stored view key that
  decrypts to 64 characters, every API key belongs to a merchant and holds the hash of a key text,
  a merchant's customers have distinct external ids, and license hashes are distinct.\<close>

theorem accounts_stay_sound:
  assumes "aead_laws (kr_aead K)" and "steps home K empty_db d"
  shows "distinct (map mer_address (db_merchants d)) \<and>
    (\<forall>m \<in> set (db_merchants d). active_keys (mer_id m) d \<noteq> [] \<and> length (active_keys (mer_id m) d) \<le> 10 \<and>
       (\<exists>v t. mer_view_key m = Some v \<and> decrypt_view_key (kr_aead K) (kr_master K) v None = Inr t \<and> length t = 64)) \<and>
    (\<forall>k \<in> set (db_api_keys d). key_merchant k \<in> mer_id ` set (db_merchants d) \<and> (\<exists>p. key_made (kr_bcrypt K) p k)) \<and>
    (\<forall>a \<in> set (db_customers d). \<forall>b \<in> set (db_customers d). ext_key a \<noteq> None \<longrightarrow> ext_key a = ext_key b \<longrightarrow> a = b) \<and>
    distinct (map lic_key_hash (db_licenses d))"
proof -
  have ok: "accounts_ok K d" using steps_accounts_ok[OF assms(2) empty_ok(2,1) assms(1)] by blast
  then have "merchants_ok K d" "keys_ok K d" "customers_ok d" "licenses_ok d" by (simp_all add: accounts_ok_def)
  then show ?thesis
    using active_bounds[OF ok]
    unfolding merchants_ok_def keys_ok_def keys_hashed_def customers_ok_def ext_unique_def licenses_ok_def
      view_key_kept_def max_active_keys_def by blast
qed

lemma accounts_stay_sound_witness:
  "\<exists>m. db_merchants demo_registered = [m] \<and> active_keys (mer_id m) demo_registered \<noteq> [] \<and>
     length (active_keys (mer_id m) demo_registered) \<le> 10"
proof -
  show ?thesis using accounts_stay_sound[OF demo_laws(2) demo_registered_steps] demo_registered_run(1) by simp
qed

section \<open>API keys\<close>

lemma reachable_keys_hashed:
  assumes "aead_laws (kr_aead K)" and "steps home K empty_db d"
  shows "accounts_ok K d" and "keys_hashed (kr_bcrypt K) d" and "distinct (map key_id (db_api_keys d))"
  using steps_accounts_ok[OF assms(2) empty_ok(2,1) assms(1)] by (simp_all add: accounts_ok_def keys_ok_def)


text \<open>A third key of the demonstration merchant.\<close>

definition demo_key :: string where
  "demo_key = ''gb_live_'' @ token_hex 32 99"

definition demo_keyed :: db where
  "demo_keyed = snd (create_api_key (demo_env 0) (kr_bcrypt demo_ring) 99 [] demo_owner None ''live'' demo_registered)"

lemma demo_key_run:
  "create_api_key (demo_env 0) (kr_bcrypt demo_ring) 99 [] demo_owner None ''live'' demo_registered = (Inr (4, demo_key), demo_keyed)"
  "find_merchant (mer_id demo_owner) demo_registered = Some demo_owner"
  "\<forall>k \<in> set (db_api_keys demo_registered). \<not> key_made (kr_bcrypt demo_ring) demo_key k"
proof -
  have "length (active_keys 1 demo_registered) \<le> 2"
    using arg_cong[OF demo_registered_run(5), of length] length_filter_le le_trans
    unfolding active_keys_def by (metis length_map list.size(3,4) One_nat_def Suc_1 add.commute plus_1_eq_Suc)
  then show "create_api_key (demo_env 0) (kr_bcrypt demo_ring) 99 [] demo_owner None ''live'' demo_registered = (Inr (4, demo_key), demo_keyed)"
    using demo_registered_run(2,7)
    by (simp add: demo_keyed_def create_api_key_def max_active_keys_def generate_api_key_def hash_api_key_def
        environment_prefix_def api_key_hex_length_def token_hex_def demo_key_def Let_def)
  show "find_merchant (mer_id demo_owner) demo_registered = Some demo_owner"
    by (simp add: find_merchant_def demo_registered_run(1))
  have "hexn 64 112 \<noteq> hexn 64 99" using hex_value_hexn[of 112 64] hex_value_hexn[of 99 64] by auto
  then have "demo_key \<notin> set (map key_hash (db_api_keys demo_registered))"
    unfolding demo_registered_run(5) by (simp add: demo_key_def token_hex_def)
  then show "\<forall>k \<in> set (db_api_keys demo_registered). \<not> key_made (kr_bcrypt demo_ring) demo_key k"
    by (auto simp: key_made_def demo_ring_def demo_bcrypt_def image_iff)
qed

lemma bearer_of_key:
  assumes "generate_api_key env rnd = Inr plain"
  shows "get_current_merchant e B r (Some (''Bearer '' @ plain)) d = auth_via_api_key e B plain d"
proof -
  note form = generate_api_key_form[OF assms]
  have "parse_bearer_token (Some (''Bearer '' @ plain)) = Some plain" by (rule bearer_token[OF form(2,3)])
  then show ?thesis using form(4) unfolding get_current_merchant_def by simp
qed

lemma created_key_authenticates:
  assumes "bcrypt_laws B" and "keys_hashed B d" and "find_merchant (mer_id m) d = Some m" and "mer_active m"
    and run: "create_api_key e B rnd salt m label env d = (Inr (i, plain), d')"
    and "\<forall>k \<in> set (db_api_keys d). \<not> key_made B plain k"
  shows "fst (get_current_merchant e2 B r (Some (''Bearer '' @ plain)) d') = Inr m"
proof -
  obtain gen: "generate_api_key env rnd = Inr plain" and mers: "db_merchants d' = db_merchants d"
    by (rule create_api_key_run[OF run])
  obtain k where k: "unlocked B plain d' = Some k" "key_merchant k = mer_id m"
    using unlocked_created[OF run assms(6)] by blast
  have "active_merchant (mer_id m) d' = Some m"
    using assms(3,4) mers by (simp add: active_merchant_def find_merchant_def)
  then show ?thesis
    using auth_unlocks[OF assms(1) keys_hashed_create[OF assms(2) run], of plain e2] generate_api_key_form(1)[OF gen] k
    unfolding bearer_of_key[OF gen] by simp
qed




text \<open>C24: the text of a new API key, sent as a bearer token, authenticates its merchant at once, provided
  no older row holds a hash of the same text; and from the moment the key is revoked, the same
  request is answered with status 401.\<close>

theorem api_key_lifecycle:
  assumes "bcrypt_laws (kr_bcrypt K)" and "aead_laws (kr_aead K)" and "steps home K empty_db d"
    and "find_merchant (mer_id m) d = Some m" and "mer_active m"
    and run: "create_api_key e (kr_bcrypt K) rnd salt m label env d = (Inr (i, plain), d')"
    and "\<forall>k \<in> set (db_api_keys d). \<not> key_made (kr_bcrypt K) plain k"
  shows "fst (get_current_merchant e2 (kr_bcrypt K) r (Some (''Bearer '' @ plain)) d') = Inr m \<and>
    (\<forall>key_text x d2. uuid_parse key_text = Some i \<longrightarrow> revoke_api_key e3 m key_text d' = (Inr x, d2) \<longrightarrow>
       get_current_merchant e4 (kr_bcrypt K) r (Some (''Bearer '' @ plain)) d2 = (Inl (HTTPException 401), d2))"
proof -
  let ?B = "kr_bcrypt K"
  note reach = reachable_keys_hashed[OF assms(2,3)]
  obtain k0 where gen: "generate_api_key env rnd = Inr plain" and rows: "db_api_keys d' = db_api_keys d @ [k0]"
      and k0: "key_id k0 = i" "i = db_next_id d"
    by (rule create_api_key_run[OF run])
  note form = generate_api_key_form[OF gen]
  note tok = bearer_of_key[OF gen]
  have hashed: "keys_hashed ?B d'" by (rule keys_hashed_create[OF reach(2) run])
  obtain k where k: "unlocked ?B plain d' = Some k" "key_id k = i"
    using unlocked_created[OF run assms(7)] by blast
  have now: "fst (get_current_merchant e2 ?B r (Some (''Bearer '' @ plain)) d') = Inr m"
    by (rule created_key_authenticates[OF assms(1) reach(2) assms(4,5) run assms(7)])
  have later: "get_current_merchant e4 ?B r (Some (''Bearer '' @ plain)) d2 = (Inl (HTTPException 401), d2)"
    if t: "uuid_parse key_text = Some i" and rev: "revoke_api_key e3 m key_text d' = (Inr x, d2)" for key_text x d2
  proof -
    have d2: "db_api_keys d2 = upd_row key_id i (\<lambda>q. q\<lparr>key_active := False\<rparr>) (db_api_keys d')"
      using t by (auto intro: revoke_api_key_run[OF rev])
    have "\<forall>k \<in> set (db_api_keys d). key_id k < i" using reach(1) k0(2) by (simp add: accounts_ok_def keys_ok_def)
    then have "i \<notin> key_id ` set (db_api_keys d)" by auto
    then have dist: "distinct (map key_id (db_api_keys d'))" using reach(3) by (simp add: rows k0(1))
    have own: "\<forall>r \<in> set (db_api_keys d'). key_made ?B plain r \<longrightarrow> key_id r = key_id k"
      using assms(7) k0(1) k(2) by (auto simp: rows)
    have none: "unlocked ?B plain d2 = None"
      by (rule unlocked_revoked[OF assms(1) hashed k(1) dist own]) (simp add: d2 k(2))
    have "key_made ?B p (q\<lparr>key_active := False\<rparr>) = key_made ?B p q" for p q by (simp add: key_made_def)
    then have "keys_hashed ?B d2"
      using hashed unfolding keys_hashed_def d2 by (auto simp: in_upd_row)
    then show ?thesis using auth_unlocks[OF assms(1) _, of d2 plain e4] form(1) none unfolding tok by simp
  qed
  show ?thesis using now later by blast
qed

lemma api_key_lifecycle_witness:
  "fst (get_current_merchant (demo_env 5) (kr_bcrypt demo_ring) (\<lambda>_. None) (Some (''Bearer '' @ demo_key)) demo_keyed) = Inr demo_owner"
  using api_key_lifecycle[OF demo_laws demo_registered_steps demo_key_run(2) demo_registered_run(3) demo_key_run(1,3)] by blast

section \<open>Sessions\<close>

lemma keys_of_redis: "session_key t \<noteq> nonce_key n"
  by (simp add: session_key_def nonce_key_def)

text \<open>C25: a login succeeds only when the wallet confirms the signature and the nonce was issued to the
  address; the token it returns authenticates the merchant for exactly 24 hours, as long as the
  merchant is active, and not after logout; and no later login with the same nonce succeeds.\<close>

theorem session_lifetime:
  assumes run: "login now rnd wallet address nonce sig d r = (Inr (token, mid), r')" and "mid < 2 ^ 128"
  shows "verify_monero_signature (wallet address nonce sig) \<and> kv_get now r (nonce_key nonce) = Some address \<and>
    get_current_merchant e B r' (Some (''Bearer '' @ token)) d2 =
      (case (if env_now e < now + secs 86400 then active_merchant mid d2 else None) of
         None \<Rightarrow> (Inl (HTTPException 401), d2) | Some m \<Rightarrow> (Inr m, d2)) \<and>
    get_current_merchant e B (snd (logout now2 token r')) (Some (''Bearer '' @ token)) d2 = (Inl (HTTPException 401), d2) \<and>
    isl (fst (login now3 rnd3 wallet3 address nonce sig3 d3 r'))"
proof -
  obtain tk: "token = session_token_prefix @ token_hex 32 rnd"
    and r': "r' = kv_setex now (session_key token) session_ttl_seconds (uuid_str mid) (nonce_drop now nonce r)"
    and look: "kv_get now r (nonce_key nonce) = Some address" and sig: "verify_monero_signature (wallet address nonce sig)"
    by (rule login_run[OF run])
  have live: "kv_get t r' (session_key token) = (if t < now + secs 86400 then Some (uuid_str mid) else None)" for t
    by (simp add: r' kv_get_setex session_ttl_seconds_def)
  have gone: "kv_get t (snd (logout now2 token r')) (session_key token) = (if False then Some (uuid_str mid) else None)" for t
    by (simp add: logout_def revoke_session_def kv_get_delete)
  have "kv_get t r' (nonce_key nonce) = None" for t
    using keys_of_redis[of token nonce] by (simp add: r' kv_get_setex nonce_drop_def kv_get_delete)
  then have "isl (fst (login now3 rnd3 wallet3 address nonce sig3 d3 r'))"
    by (simp add: login_def validate_nonce_def nonce_look_def)
  then show ?thesis
    using sig look session_auth[OF tk live assms(2), where e = e and B = B and d = d2]
      session_auth[OF tk gone assms(2), where e = e and B = B and d = d2] by simp
qed

text \<open>A nonce that was issued to the demonstration merchant, and a wallet that confirms.\<close>

definition demo_redis :: "string kv" where
  "demo_redis = kv_setex 0 (nonce_key ''n'') nonce_ttl_seconds (rb_address demo_body) (\<lambda>_. None)"

abbreviation demo_login :: "string kv \<Rightarrow> (exc + string \<times> uuid) \<times> string kv" where
  "demo_login \<equiv> login 5 1 (\<lambda>a n s k. RpcResult True) (rb_address demo_body) ''n'' ''SigV2abc'' demo_registered"

lemma demo_login_run: "\<exists>token. fst (demo_login demo_redis) = Inr (token, 1)"
proof -
  have "validate_monero_address (rb_address demo_body)" "validate_signature_format ''SigV2abc''" by code_simp+
  moreover have "verify_monero_signature (\<lambda>k. RpcResult True)"
    by (simp add: verify_monero_signature_def rpc_call_def rpc_loop.simps max_retries_def)
  moreover have "merchant_by_address (rb_address demo_body) demo_registered = Inr (Some demo_owner)"
    using demo_registered_run(1-4) by (simp add: merchant_by_address_def)
  moreover have "kv_get 5 demo_redis (nonce_key ''n'') = Some (rb_address demo_body)"
    by (simp add: demo_redis_def kv_get_setex nonce_ttl_seconds_def secs_def)
  ultimately show ?thesis
    using demo_registered_run(2)
    by (simp add: login_def validate_nonce_def nonce_look_def finish_login_def create_session_def Let_def)
qed

lemma session_lifetime_witness:
  "\<exists>token. fst (demo_login demo_redis) = Inr (token, 1) \<and> isl (fst (demo_login (snd (demo_login demo_redis))))"
proof -
  obtain token where t: "fst (demo_login demo_redis) = Inr (token, 1)" using demo_login_run by blast
  then have "demo_login demo_redis = (Inr (token, 1), snd (demo_login demo_redis))" by (simp add: prod_eq_iff)
  from session_lifetime[OF this] have "isl (fst (demo_login (snd (demo_login demo_redis))))" by simp
  with t show ?thesis by blast
qed

text \<open>Two logins that read the nonce before either deletes it both pass the check.\<close>

theorem nonce_race:
  assumes "kv_get now r (nonce_key nonce) = Some address" and "i \<noteq> j"
  shows "snd (nonce_run now nonce address [NonceGet i, NonceDel i, NonceGet j, NonceDel j] r [] []) = [i] \<and>
    snd (nonce_run now nonce address [NonceGet i, NonceGet j, NonceDel i, NonceDel j] r [] []) = [i, j]"
proof -
  have "fst (nonce_look now r nonce address)" using assms(1) by (simp add: nonce_look_def)
  then show ?thesis using assms(2) nonce_run_first[of now r nonce address i "[j]"] by (simp add: one_by_one_def)
qed

section \<open>Stored view keys\<close>

text \<open>C26: decryption accepts exactly two kinds of blob: the encryption of the returned text bound to the
  same associated data, behind the version byte, and a legacy encryption without associated data
  that does not begin with the version byte; in particular what was encrypted comes back.\<close>

theorem decryption_accepts:
  assumes "aead_laws A" and "s \<noteq> []" and "list_all (\<lambda>c. byte c < 128) s" and "b64decode s = Some blob"
  shows "(decrypt A k s m aad = Inr p \<longleftrightarrow> utf8_ok p \<and>
      (if startswith blob version_1 then current_blob A k m aad p blob else legacy_blob A k p blob)) \<and>
    (length n = nonce_size \<longrightarrow> encrypt A k n q m aad = Inr s \<longrightarrow> decrypt A k s m aad = Inr q)"
  using decrypt_blob[OF assms] encrypt_decrypt[OF assms(1)] by blast

lemma decryption_accepts_witness:
  "\<exists>s. encrypt demo_aead [CHR ''k''] (replicate 12 (CHR ''n'')) ''view'' None None = Inr s \<and>
     decrypt demo_aead [CHR ''k''] s None None = Inr ''view''"
proof -
  let ?blob = "version_1 @ replicate 12 (CHR ''n'') @ aead_encrypt demo_aead [CHR ''k''] (replicate 12 (CHR ''n'')) ''view'' None"
  have e: "encrypt demo_aead [CHR ''k''] (replicate 12 (CHR ''n'')) ''view'' None None = Inr (b64encode ?blob)"
    by (simp add: encrypt_def aad_of_def)
  have law: "aead_laws demo_aead" using demo_laws(2) by (simp add: demo_ring_def)
  have "b64encode ?blob \<noteq> []" "list_all (\<lambda>c. byte c < 128) (b64encode ?blob)" "b64decode (b64encode ?blob) = Some ?blob"
    by (simp_all add: b64encode_ascii b64_roundtrip version_1_def)
  from decryption_accepts[OF law this, of "[CHR ''k'']" None None "''view''" "replicate 12 (CHR ''n'')" "''view''"] e
  show ?thesis by (simp add: nonce_size_def)
qed

end
