(* ===== verification/Webhook_Refinement.thy ===== *)
theory Webhook_Refinement
  imports Webhook_Laws
begin

text \<open>
  What the webhook worker promises, as an abstract machine over the phases of deliveries, and the
  refinement: one cycle of the worker is one step of that machine on every delivery it claimed, and
  nothing else.
\<close>

section \<open>Refinement, step by step\<close>

text \<open>A family of steps on a concrete state, each enabled by a condition that the other steps keep.\<close>

locale stepwise_refinement =
  fixes view :: "'c \<Rightarrow> 'a"
    and enabled :: "'x \<Rightarrow> 'c \<Rightarrow> bool"
    and run :: "'x \<Rightarrow> 'c \<Rightarrow> 'c"
    and spec :: "'x \<Rightarrow> 'a \<Rightarrow> 'a"
  assumes refines_step: "enabled x c \<Longrightarrow> view (run x c) = spec x (view c)"
    and stays_enabled: "enabled x c \<Longrightarrow> enabled y c \<Longrightarrow> x \<noteq> y \<Longrightarrow> enabled y (run x c)"
begin

lemma refines_fold:
  "distinct xs \<Longrightarrow> \<forall>x \<in> set xs. enabled x c \<Longrightarrow> view (fold run xs c) = fold spec xs (view c)"
proof (induction xs arbitrary: c)
  case (Cons x xs)
  have "\<forall>y \<in> set xs. enabled y (run x c)" using Cons.prems stays_enabled by auto
  with Cons show ?case by (simp add: refines_step)
qed simp

end

section \<open>The abstract machine\<close>

text \<open>Waiting: allowed and used attempts, and when the next one is due.\<close>

datatype phase = Waiting nat nat "time option" | Done | Dead | Failed

definition phase_of :: "webhook_delivery \<Rightarrow> phase" where
  "phase_of r = (case del_status r of
      WPending \<Rightarrow> Waiting (del_max_attempts r) (del_attempts r) (del_next_retry_at r)
    | WDelivered \<Rightarrow> Done | WDeadLettered \<Rightarrow> Dead | WFailed \<Rightarrow> Failed)"

text \<open>The board: the phase of every delivery, and the deliveries with a dead letter, oldest first.\<close>

type_synonym board = "(uuid \<Rightarrow> phase option) \<times> uuid list"

definition board_of :: "db \<Rightarrow> board" where
  "board_of d = (\<lambda>i. map_option phase_of (find_delivery i d), map dlq_delivery (db_dead_letters d))"

text \<open>The worker can sign: the merchant is there and has a secret.\<close>

definition can_sign :: "db \<Rightarrow> uuid \<Rightarrow> bool" where
  "can_sign d i = (case find_delivery i d of None \<Rightarrow> False | Some r \<Rightarrow>
     (case find_merchant (del_merchant r) d of None \<Rightarrow> False | Some m \<Rightarrow> nonempty (mer_webhook_secret m)))"

definition deliver_spec :: "time \<Rightarrow> (uuid \<Rightarrow> bool) \<Rightarrow> (uuid \<Rightarrow> http_reply) \<Rightarrow> uuid \<Rightarrow> board \<Rightarrow> board" where
  "deliver_spec now signs http i b = (case b of (ph, dead) \<Rightarrow> (case ph i of
      Some (Waiting allowed used due) \<Rightarrow>
        if \<not> signs i then (ph(i \<mapsto> Dead), dead @ [i])
        else if reply_success (http i) then (ph(i \<mapsto> Done), dead)
        else if allowed \<le> Suc used then (ph(i \<mapsto> Dead), dead @ [i])
        else (ph(i \<mapsto> Waiting allowed (Suc used) (calculate_next_retry now (Suc used))), dead)
    | _ \<Rightarrow> b))"

section \<open>One delivery\<close>

lemma board_eqI:
  assumes "find_delivery i d' = Some r'" and "\<And>j. j \<noteq> i \<Longrightarrow> find_delivery j d' = find_delivery j d"
    and "map dlq_delivery (db_dead_letters d') = dead"
  shows "board_of d' = ((fst (board_of d))(i \<mapsto> phase_of r'), dead)"
  using assms by (auto simp: board_of_def fun_eq_iff)

lemma find_delivery_add_dead_letter [simp]: "find_delivery j (add_dead_letter q d) = find_delivery j d"
  by (simp add: find_delivery_def add_dead_letter_def)

lemma find_delivery_modify_dead_letter [simp]: "find_delivery j (modify_dead_letter i f d) = find_delivery j d"
  by (simp add: find_delivery_def modify_dead_letter_def)

lemma find_delivery_tick_id [simp]: "find_delivery j (tick_id d) = find_delivery j d"
  by (simp add: find_delivery_def)

lemma move_to_dlq_board:
  assumes "find_delivery i d = Some r"
  shows "find_delivery i (move_to_dlq e i reason d) = Some (r\<lparr>del_status := WDeadLettered, del_next_retry_at := None\<rparr>)"
    and "j \<noteq> i \<Longrightarrow> find_delivery j (move_to_dlq e i reason d) = find_delivery j d"
    and "map dlq_delivery (db_dead_letters (move_to_dlq e i reason d)) = map dlq_delivery (db_dead_letters d) @ [i]"
  using assms deliveries.look_key[OF assms]
  by (simp_all add: move_to_dlq_def find_delivery_modify)
     (simp add: add_dead_letter_def modify_delivery_def new_dead_letter_def)

lemma map_dlq_delivery_upd:
  "(\<And>r. dlq_delivery (f r) = dlq_delivery r) \<Longrightarrow> map dlq_delivery (upd_row dlq_id i f rs) = map dlq_delivery rs"
  by (simp add: upd_row_def)

lemma mark_dlq_resolved_board: "board_of (snd (mark_dlq_resolved_for_delivery e i d)) = board_of d"
proof -
  have "board_of (modify_dead_letter k f d0) = board_of d0" if "\<And>r. dlq_delivery (f r) = dlq_delivery r" for k f d0
    unfolding board_of_def find_delivery_modify_dead_letter using that
    by (simp add: modify_dead_letter_def map_dlq_delivery_upd)
  then show ?thesis
    by (simp add: mark_dlq_resolved_for_delivery_def Let_def split: option.split sum.split)
qed

lemma mark_dlq_resolved_find:
  "find_delivery j (snd (mark_dlq_resolved_for_delivery e i d)) = find_delivery j d"
  by (simp add: mark_dlq_resolved_for_delivery_def Let_def split: option.split sum.split)

text \<open>A report on one delivery leaves the others alone.\<close>

lemma process_delivery_other: "j \<noteq> i \<Longrightarrow> find_delivery j (process_delivery_result e i ok d) = find_delivery j d"
  by (simp add: process_delivery_result_def Let_def find_delivery_modify move_to_dlq_board(2) move_to_dlq_def split: option.split)

definition pending_at :: "uuid \<Rightarrow> db \<Rightarrow> bool" where
  "pending_at i d = (case find_delivery i d of None \<Rightarrow> False | Some r \<Rightarrow> del_status r = WPending)"

lemma worker_deliver_other:
  assumes "j \<noteq> i"
  shows "find_delivery j (snd (worker_deliver e http i d)) = find_delivery j d"
proof -
  have m: "find_delivery j (modify_delivery i (record_reply x) d) = find_delivery j d" for x
    using assms by (intro deliveries.look_modify_other) (auto simp: record_reply_def split: http_reply.split)
  have p: "find_delivery j (process_delivery_result e i ok (modify_delivery i (record_reply x) d)) = find_delivery j d" for x ok
    using process_delivery_other[OF assms] m by simp
  have q: "find_delivery j d3 = find_delivery j d"
    if "mark_dlq_resolved_for_delivery e i (process_delivery_result e i ok (modify_delivery i (record_reply x) d)) = (y, d3)" for x ok y d3
    using mark_dlq_resolved_find[of j e i] that p by (metis snd_conv)
  have mv: "find_delivery j (move_to_dlq e i reason d) = find_delivery j d" for reason
    using move_to_dlq_board(2)[OF _ assms] by (cases "find_delivery i d") (simp_all add: move_to_dlq_def)
  show ?thesis
    by (auto simp: worker_deliver_def attempt_delivery_def Let_def p mv dest: q split: option.split sum.split prod.split)
qed

lemma record_reply_fields [simp]:
  "del_id (record_reply x r) = del_id r" "del_status (record_reply x r) = del_status r"
  "del_attempts (record_reply x r) = del_attempts r" "del_max_attempts (record_reply x r) = del_max_attempts r"
  "del_next_retry_at (record_reply x r) = del_next_retry_at r" "del_merchant (record_reply x r) = del_merchant r"
  by (simp_all add: record_reply_def split: http_reply.split)

text \<open>A report on a pending delivery, seen on the board.\<close>

lemma process_delivery_board:
  assumes r: "find_delivery i d = Some r" and p: "del_status r = WPending"
  shows "board_of (process_delivery_result e i ok d) =
    (let (ph, dead) = board_of d in
     if ok then (ph(i \<mapsto> Done), dead)
     else if del_max_attempts r \<le> Suc (del_attempts r) then (ph(i \<mapsto> Dead), dead @ [i])
     else (ph(i \<mapsto> Waiting (del_max_attempts r) (Suc (del_attempts r))
             (calculate_next_retry (env_now e) (Suc (del_attempts r)))), dead))"
proof -
  have other: "find_delivery j (process_delivery_result e i ok d) = find_delivery j d" if "j \<noteq> i" for j
    using process_delivery_other[OF that] .
  consider "ok" | "\<not> ok" "del_max_attempts r \<le> Suc (del_attempts r)" | "\<not> ok" "Suc (del_attempts r) < del_max_attempts r"
    by linarith
  then show ?thesis
  proof cases
    case 1
    then have "board_of (process_delivery_result e i ok d) =
        ((fst (board_of d))(i \<mapsto> Done), map dlq_delivery (db_dead_letters d))"
      using board_eqI[OF process_success(1)[OF r, of e]] process_success(2)[OF r, of e] other
      by (simp add: phase_of_def)
    then show ?thesis using 1 by (simp add: board_of_def)
  next
    case 2
    obtain q where q: "db_dead_letters (process_delivery_result e i False d) = db_dead_letters d @ [q]" "dlq_delivery q = i"
      using process_failure_last(2)[OF r 2(2), of e] by blast
    have "board_of (process_delivery_result e i ok d) =
        ((fst (board_of d))(i \<mapsto> Dead), map dlq_delivery (db_dead_letters d) @ [i])"
      using board_eqI[OF process_failure_last(1)[OF r 2(2), of e]] q other 2(1) by (simp add: phase_of_def)
    then show ?thesis using 2 by (simp add: board_of_def)
  next
    case 3
    have "board_of (process_delivery_result e i ok d) =
        ((fst (board_of d))(i \<mapsto> Waiting (del_max_attempts r) (Suc (del_attempts r))
             (calculate_next_retry (env_now e) (Suc (del_attempts r)))), map dlq_delivery (db_dead_letters d))"
      using board_eqI[OF process_failure_retry(1)[OF r 3(2), of e]] process_failure_retry(2)[OF r 3(2), of e] other 3(1) p
      by (simp add: phase_of_def)
    then show ?thesis using 3 by (simp add: board_of_def)
  qed
qed

lemma record_reply_board: "board_of (modify_delivery i (record_reply x) d) = board_of d"
proof -
  have "phase_of (record_reply x r) = phase_of r" for r
    by (simp add: phase_of_def split: webhook_status.split)
  then have "map_option phase_of (find_delivery j (modify_delivery i (record_reply x) d)) =
      map_option phase_of (find_delivery j d)" for j
    by (subst deliveries.look_modify) (simp_all add: option.map_comp comp_def)
  then show ?thesis by (simp add: board_of_def modify_delivery_def)
qed

lemma worker_deliver_board:
  assumes r: "find_delivery i d = Some r" and p: "del_status r = WPending"
  shows "board_of (snd (worker_deliver e http i d)) = deliver_spec (env_now e) (can_sign d) http i (board_of d)"
proof -
  obtain ph dead where b: "board_of d = (ph, dead)" by fastforce
  have w: "ph i = Some (Waiting (del_max_attempts r) (del_attempts r) (del_next_retry_at r))"
    using b r p by (auto simp: board_of_def phase_of_def)
  show ?thesis
  proof (cases "can_sign d i")
    case False
    then obtain reason where m: "snd (worker_deliver e http i d) = move_to_dlq e i reason d"
      using r by (auto simp: worker_deliver_def can_sign_def split: option.splits)
    have "board_of (move_to_dlq e i reason d) = (ph(i \<mapsto> Dead), dead @ [i])"
      using board_eqI[OF move_to_dlq_board(1)[OF r] move_to_dlq_board(2)[OF r] move_to_dlq_board(3)[OF r], of e reason] b
      by (simp add: phase_of_def board_of_def)
    then show ?thesis using m w False by (simp add: deliver_spec_def b)
  next
    case True
    then obtain m where m: "find_merchant (del_merchant r) d = Some m" "nonempty (mer_webhook_secret m)"
      using r by (auto simp: can_sign_def split: option.splits)
    let ?d1 = "modify_delivery i (record_reply (http i)) d"
    let ?d2 = "process_delivery_result e i (reply_success (http i)) ?d1"
    have "board_of (snd (worker_deliver e http i d)) = board_of ?d2"
    proof (cases "reply_success (http i)")
      case True
      then have "snd (worker_deliver e http i d) = snd (mark_dlq_resolved_for_delivery e i ?d2)"
        using r m by (simp add: worker_deliver_def attempt_delivery_def Let_def split: sum.split prod.split)
      then show ?thesis by (simp add: mark_dlq_resolved_board)
    next
      case False
      then show ?thesis using r m by (simp add: worker_deliver_def attempt_delivery_def Let_def)
    qed
    moreover have f: "find_delivery i ?d1 = Some (record_reply (http i) r)"
      using r by (simp add: find_delivery_modify)
    have "del_status (record_reply (http i) r) = WPending" using p by simp
    from process_delivery_board[OF f this, of e "reply_success (http i)"] have "board_of ?d2 = (let (ph, dead) = board_of d in
       if reply_success (http i) then (ph(i \<mapsto> Done), dead)
       else if del_max_attempts r \<le> Suc (del_attempts r) then (ph(i \<mapsto> Dead), dead @ [i])
       else (ph(i \<mapsto> Waiting (del_max_attempts r) (Suc (del_attempts r))
             (calculate_next_retry (env_now e) (Suc (del_attempts r)))), dead))"
      unfolding record_reply_board record_reply_fields .
    ultimately show ?thesis using w True by (simp add: deliver_spec_def b)
  qed
qed

section \<open>One cycle\<close>

lemma worker_deliver_merchants: "db_merchants (snd (worker_deliver e http i d)) = db_merchants d"
  by (simp add: worker_deliver_def attempt_delivery_def process_delivery_result_def mark_dlq_resolved_for_delivery_def
      move_to_dlq_def modify_delivery_def add_dead_letter_def modify_dead_letter_def tick_id_def Let_def
      split: option.split sum.split prod.split)

lemma can_sign_cong:
  "find_delivery i d' = find_delivery i d \<Longrightarrow> db_merchants d' = db_merchants d \<Longrightarrow> can_sign d' i = can_sign d i"
  by (simp add: can_sign_def find_merchant_def split: option.split)

interpretation worker: stepwise_refinement board_of
  "\<lambda>i d. pending_at i d \<and> can_sign d i = signs i"
  "\<lambda>i d. snd (worker_deliver e http i d)"
  "deliver_spec (env_now e) signs http" for e http signs
proof
  fix i d
  assume en: "pending_at i d \<and> can_sign d i = signs i"
  then obtain r where "find_delivery i d = Some r" "del_status r = WPending"
    by (auto simp: pending_at_def split: option.splits)
  moreover have "deliver_spec (env_now e) (can_sign d) http i b = deliver_spec (env_now e) signs http i b" for b
    using en by (simp add: deliver_spec_def split: prod.split option.split phase.split)
  ultimately show "board_of (snd (worker_deliver e http i d)) = deliver_spec (env_now e) signs http i (board_of d)"
    by (simp add: worker_deliver_board)
next
  fix i j :: uuid and d
  assume "pending_at j d \<and> can_sign d j = signs j" and "i \<noteq> j"
  then show "pending_at j (snd (worker_deliver e http i d)) \<and> can_sign (snd (worker_deliver e http i d)) j = signs j"
    using worker_deliver_other[of j i e http d] can_sign_cong[OF _ worker_deliver_merchants, of j e http i d]
    by (simp add: pending_at_def)
qed

lemma worker_loop_fold: "snd (worker_loop e http is d) = fold (\<lambda>i d. snd (worker_deliver e http i d)) is d"
proof (induction "is" arbitrary: d)
  case (Cons i "is")
  obtain c d1 where 1: "worker_deliver e http i d = (c, d1)" by fastforce
  obtain n d2 where 2: "worker_loop e http is d1 = (n, d2)" by fastforce
  show ?case using Cons[of d1] by (simp add: 1 2)
qed simp

text \<open>Claiming stamps the last attempt, which none of this sees.\<close>

lemma stamp_board:
  "board_of (modify_delivery i (\<lambda>r. r\<lparr>del_last_attempt_at := t\<rparr>) d) = board_of d"
  "pending_at j (modify_delivery i (\<lambda>r. r\<lparr>del_last_attempt_at := t\<rparr>) d) = pending_at j d"
  "can_sign (modify_delivery i (\<lambda>r. r\<lparr>del_last_attempt_at := t\<rparr>) d) j = can_sign d j"
proof -
  let ?d = "modify_delivery i (\<lambda>r. r\<lparr>del_last_attempt_at := t\<rparr>) d"
  have "phase_of (r\<lparr>del_last_attempt_at := t\<rparr>) = phase_of r" for r
    by (simp add: phase_of_def split: webhook_status.split)
  then have "map_option phase_of (find_delivery k ?d) = map_option phase_of (find_delivery k d)" for k
    by (subst deliveries.look_modify) (simp_all add: option.map_comp comp_def)
  then show "board_of ?d = board_of d" by (simp add: board_of_def modify_delivery_def)
  show "pending_at j ?d = pending_at j d"
    unfolding pending_at_def by (subst deliveries.look_modify) (auto split: option.split)
  show "can_sign ?d j = can_sign d j"
    unfolding can_sign_def by (subst deliveries.look_modify) (auto simp: find_merchant_def modify_delivery_def split: option.split)
qed

lemma claim_board:
  "board_of (fold (\<lambda>i. modify_delivery i (\<lambda>r. r\<lparr>del_last_attempt_at := t\<rparr>)) ids d) = board_of d"
  "pending_at j (fold (\<lambda>i. modify_delivery i (\<lambda>r. r\<lparr>del_last_attempt_at := t\<rparr>)) ids d) = pending_at j d"
  "can_sign (fold (\<lambda>i. modify_delivery i (\<lambda>r. r\<lparr>del_last_attempt_at := t\<rparr>)) ids d) j = can_sign d j"
  by (induction ids arbitrary: d) (simp_all add: stamp_board)

text \<open>The deliveries a cycle works on: pending, due, at most fifty, the longest overdue first.\<close>

definition batch_ids :: "env \<Rightarrow> db \<Rightarrow> uuid list" where
  "batch_ids e d = map del_id (get_pending_deliveries e worker_batch_size d)"

lemma batch_rows:
  assumes "distinct (map del_id (db_deliveries d))"
  shows "distinct (batch_ids e d)" and "length (batch_ids e d) \<le> 50"
    and "i \<in> set (batch_ids e d) \<Longrightarrow> \<exists>r. find_delivery i d = Some r \<and> due_delivery (env_now e) r"
proof -
  let ?due = "filter (due_delivery (env_now e)) (db_deliveries d)"
  let ?sorted = "order_asc (\<lambda>r. the (del_next_retry_at r)) ?due"
  have b: "get_pending_deliveries e worker_batch_size d = take 50 ?sorted"
    by (simp add: get_pending_deliveries_def page_def worker_batch_size_def)
  have set: "set ?sorted = set ?due" by (simp add: order_asc_def)
  have "distinct (map del_id ?due)" using assms by (simp add: distinct_map inj_on_def)
  then have "distinct (map del_id ?sorted)"
    by (simp add: order_asc_def distinct_map inj_on_def)
  then show "distinct (batch_ids e d)" by (simp add: batch_ids_def b flip: take_map)
  show "length (batch_ids e d) \<le> 50" by (simp add: batch_ids_def b)
  assume "i \<in> set (batch_ids e d)"
  then obtain r where r: "r \<in> set ?due" "del_id r = i"
    using set set_take_subset[of 50 ?sorted] by (auto simp: batch_ids_def b)
  then have "find_delivery i d = Some r"
    using assms get_row_distinct[of del_id "db_deliveries d" r] by (auto simp: find_delivery_def)
  then show "\<exists>r. find_delivery i d = Some r \<and> due_delivery (env_now e) r" using r by auto
qed

lemma worker_cycle_board:
  assumes "distinct (map del_id (db_deliveries d))"
  shows "board_of (snd (worker_cycle e http d)) =
    fold (deliver_spec (env_now e) (can_sign d) http) (batch_ids e d) (board_of d)"
proof -
  let ?ids = "batch_ids e d"
  let ?d = "fold (\<lambda>i. modify_delivery i (\<lambda>r. r\<lparr>del_last_attempt_at := Some (env_now e)\<rparr>)) ?ids d"
  have "pending_at i d" if "i \<in> set ?ids" for i
    using batch_rows(3)[OF assms that] by (auto simp: pending_at_def due_delivery_def)
  then have "\<forall>i \<in> set ?ids. pending_at i ?d \<and> can_sign ?d i = can_sign d i" by (simp add: claim_board)
  from worker.refines_fold[OF batch_rows(1)[OF assms] this, where e = e and http = http]
  show ?thesis
    by (simp add: worker_cycle_def claim_pending_deliveries_def Let_def worker_loop_fold batch_ids_def claim_board(1)
        split: prod.split)
qed

section \<open>Deliveries a cycle does not touch\<close>

lemma worker_deliver_ids: "map del_id (db_deliveries (snd (worker_deliver e http i d))) = map del_id (db_deliveries d)"
proof -
  have m: "map del_id (db_deliveries (modify_delivery j f d)) = map del_id (db_deliveries d)"
    if "\<And>r. del_id (f r) = del_id r" for j f d
    using that by (simp add: modify_delivery_def upd_row_keys)
  have q: "map del_id (db_deliveries (move_to_dlq e j x d)) = map del_id (db_deliveries d)" for j x d
    by (simp add: move_to_dlq_def add_dead_letter_def m split: option.split)
  have p: "map del_id (db_deliveries (process_delivery_result e j ok d)) = map del_id (db_deliveries d)" for j ok d
    by (simp add: process_delivery_result_def Let_def m q split: option.split)
  have r: "db_deliveries (snd (mark_dlq_resolved_for_delivery e j d)) = db_deliveries d" for j d
    by (simp add: mark_dlq_resolved_for_delivery_def Let_def modify_dead_letter_def split: option.split sum.split)
  show ?thesis
    by (simp add: worker_deliver_def attempt_delivery_def Let_def split_beta m p q r split: option.split sum.split)
qed

lemma worker_loop_other:
  "map del_id (db_deliveries (snd (worker_loop e http is d))) = map del_id (db_deliveries d)"
  "j \<notin> set is \<Longrightarrow> find_delivery j (snd (worker_loop e http is d)) = find_delivery j d"
  unfolding worker_loop_fold by (induction "is" arbitrary: d) (simp_all add: worker_deliver_ids worker_deliver_other)

lemma claim_other:
  "map del_id (db_deliveries (fold (\<lambda>i. modify_delivery i (\<lambda>r. r\<lparr>del_last_attempt_at := t\<rparr>)) ids d)) = map del_id (db_deliveries d)"
  "j \<notin> set ids \<Longrightarrow> find_delivery j (fold (\<lambda>i. modify_delivery i (\<lambda>r. r\<lparr>del_last_attempt_at := t\<rparr>)) ids d) = find_delivery j d"
proof -
  have "map del_id (db_deliveries (modify_delivery i (\<lambda>r. r\<lparr>del_last_attempt_at := t\<rparr>) d)) = map del_id (db_deliveries d)" for i d
    by (simp add: modify_delivery_def upd_row_keys)
  then show "map del_id (db_deliveries (fold (\<lambda>i. modify_delivery i (\<lambda>r. r\<lparr>del_last_attempt_at := t\<rparr>)) ids d)) = map del_id (db_deliveries d)"
    by (induction ids arbitrary: d) simp_all
  show "find_delivery j (fold (\<lambda>i. modify_delivery i (\<lambda>r. r\<lparr>del_last_attempt_at := t\<rparr>)) ids d) = find_delivery j d"
    if "j \<notin> set ids"
    using that by (induction ids arbitrary: d) (simp_all add: deliveries.look_modify_other)
qed

lemma worker_cycle_other:
  "map del_id (db_deliveries (snd (worker_cycle e http d))) = map del_id (db_deliveries d)"
  "j \<notin> set (batch_ids e d) \<Longrightarrow> find_delivery j (snd (worker_cycle e http d)) = find_delivery j d"
  by (simp_all add: worker_cycle_def claim_pending_deliveries_def Let_def batch_ids_def worker_loop_other claim_other)

text \<open>Some cycles in a row. A pending delivery without a date for its next attempt is never picked up.\<close>

definition worker_cycles :: "(env \<times> (uuid \<Rightarrow> http_reply)) list \<Rightarrow> db \<Rightarrow> db" where
  "worker_cycles cs d = fold (\<lambda>(e, http) d. snd (worker_cycle e http d)) cs d"

lemma undated_delivery_stays:
  assumes "distinct (map del_id (db_deliveries d))" and "find_delivery j d = Some r" and "del_next_retry_at r = None"
  shows "find_delivery j (worker_cycles cs d) = Some r"
  using assms(1,2)
proof (induction cs arbitrary: d)
  case (Cons c cs)
  obtain e http where c: "c = (e, http)" by fastforce
  have "j \<notin> set (batch_ids e d)" using batch_rows(3)[OF Cons.prems(1)] Cons.prems(2) assms(3) by (fastforce simp: due_delivery_def)
  then have "find_delivery j (snd (worker_cycle e http d)) = Some r" using worker_cycle_other(2) Cons.prems(2) by simp
  moreover have "distinct (map del_id (db_deliveries (snd (worker_cycle e http d))))"
    using Cons.prems(1) by (simp add: worker_cycle_other(1))
  ultimately show ?case using Cons.IH by (simp add: worker_cycles_def c)
qed (simp add: worker_cycles_def)

end
