(* ===== verification/Listings.thy ===== *)
theory Listings
  imports Pagination Customer_Service License_Service Subscription_Service Payment_Service
begin

text \<open>
  The read side of the API: the listing routes of \<open>api/routes\<close> (invoices, payments, customers,
  subscriptions, renewal log, API keys, webhook deliveries, dead letters), the routes that show one
  row, the two webhook retry routes, and the JSON they answer with. \<open>str\<close> of a Decimal is \<open>JDec\<close>;
  \<open>json.dumps\<close> of a payload is an argument. A violated query bound is status 422.
\<close>

section \<open>Query parameters\<close>

text \<open>\<open>InvoiceStatus(s)\<close> and its like: the member with that value, or \<open>ValueError\<close>.\<close>

definition parse_enum :: "('a \<Rightarrow> string) \<Rightarrow> 'a list \<Rightarrow> string \<Rightarrow> 'a option" where
  "parse_enum value members s = find (\<lambda>x. value x = s) members"

definition invoice_statuses :: "invoice_status list" where
  "invoice_statuses = [IPending, IPaid, IExpired, IPartially, IOverpaid, ILate, ICancelled]"

definition payment_statuses :: "payment_status list" where
  "payment_statuses = [PDetected, PConfirmed, POrphaned]"

definition subscription_statuses :: "subscription_status list" where
  "subscription_statuses = [SActive, SPaused, SPastDue, SCancelled, SExpired, STrialing]"

definition webhook_statuses :: "webhook_status list" where
  "webhook_statuses = [WPending, WDelivered, WFailed, WDeadLettered]"

text \<open>\<open>if status is not None\<close>: the empty text is a value. A value that does not parse is status 400.\<close>

definition enum_param :: "('a \<Rightarrow> string) \<Rightarrow> 'a list \<Rightarrow> string option \<Rightarrow> exc + 'a option" where
  "enum_param value members s = (case s of
      None \<Rightarrow> Inr None
    | Some t \<Rightarrow> (case parse_enum value members t of None \<Rightarrow> Inl (HTTPException 400) | Some x \<Rightarrow> Inr (Some x)))"

text \<open>\<open>if status\<close>: the empty text counts as missing.\<close>

definition truthy_param :: "string option \<Rightarrow> string option" where
  "truthy_param s = (if s = Some [] then None else s)"

definition uuid_param :: "string option \<Rightarrow> exc + uuid option" where
  "uuid_param s = (case truthy_param s of
      None \<Rightarrow> Inr None
    | Some t \<Rightarrow> (case uuid_parse t of None \<Rightarrow> Inl (HTTPException 400) | Some i \<Rightarrow> Inr (Some i)))"

definition matches :: "'a option \<Rightarrow> 'a \<Rightarrow> bool" where
  "matches want x = (case want of None \<Rightarrow> True | Some y \<Rightarrow> x = y)"

record page_query =
  pq_limit :: int
  pq_after :: "uuid option"
  pq_before :: "uuid option"

text \<open>The frame of every listing route: query bounds, both cursors, the filters, one page.\<close>

definition list_page :: "page_query \<Rightarrow> exc + 'r table_view \<Rightarrow> exc + 'r cursor_page" where
  "list_page q view =
     (if pq_limit q < 1 \<or> 100 < pq_limit q then Inl (HTTPException 422)
      else case validate_cursor_params (pq_after q) (pq_before q) of
        Some x \<Rightarrow> Inl x
      | None \<Rightarrow> (case view of Inl x \<Rightarrow> Inl x | Inr v \<Rightarrow> paginate_cursor v (pq_limit q) (pq_after q) (pq_before q)))"

definition page_response :: "('r \<Rightarrow> json) \<Rightarrow> exc + 'r cursor_page \<Rightarrow> exc + json" where
  "page_response f p = (case p of
      Inl x \<Rightarrow> Inl x
    | Inr pg \<Rightarrow> Inr (JObj [(''data'', JList (map f (pg_data pg))), (''has_more'', JBool (pg_has_more pg))]))"

section \<open>The listings of a merchant\<close>

definition invoices_view :: "uuid \<Rightarrow> invoice_status option \<Rightarrow> db \<Rightarrow> invoice table_view" where
  "invoices_view mid st d =
     \<lparr>tv_rows = db_invoices d, tv_ts = inv_created_at, tv_id = inv_id, tv_tenant = (\<lambda>r. inv_merchant r = mid),
      tv_base = (\<lambda>r. inv_merchant r = mid \<and> matches st (inv_status r))\<rparr>"

definition page_of_invoices :: "uuid \<Rightarrow> string option \<Rightarrow> page_query \<Rightarrow> db \<Rightarrow> exc + invoice cursor_page" where
  "page_of_invoices mid status q d = list_page q
     (case enum_param invoice_status_value invoice_statuses status of
        Inl x \<Rightarrow> Inl x | Inr st \<Rightarrow> Inr (invoices_view mid st d))"

text \<open>The payments are joined with their invoices. The cursor lookup selects from \<open>payments\<close> and filters
  on \<open>Invoice.merchant_id\<close> without a join: the condition is that some invoice of the merchant
  exists, whoever the payment belongs to.\<close>

definition payments_view :: "uuid \<Rightarrow> uuid option \<Rightarrow> payment_status option \<Rightarrow> db \<Rightarrow> payment table_view" where
  "payments_view mid iid st d =
     \<lparr>tv_rows = db_payments d, tv_ts = pay_created_at, tv_id = pay_id,
      tv_tenant = (\<lambda>p. list_ex (\<lambda>r. inv_merchant r = mid) (db_invoices d)),
      tv_base = (\<lambda>p. payment_of_merchant mid d p \<and> matches iid (pay_invoice p) \<and> matches st (pay_status p))\<rparr>"

definition page_of_payments ::
    "uuid \<Rightarrow> string option \<Rightarrow> string option \<Rightarrow> page_query \<Rightarrow> db \<Rightarrow> exc + payment cursor_page" where
  "page_of_payments mid invoice_id status q d = list_page q
     (case uuid_param invoice_id of
        Inl x \<Rightarrow> Inl x
      | Inr iid \<Rightarrow> (case enum_param payment_status_value payment_statuses (truthy_param status) of
            Inl x \<Rightarrow> Inl x | Inr st \<Rightarrow> Inr (payments_view mid iid st d)))"

definition customers_view :: "uuid \<Rightarrow> db \<Rightarrow> customer table_view" where
  "customers_view mid d =
     \<lparr>tv_rows = db_customers d, tv_ts = cus_created_at, tv_id = cus_id, tv_tenant = (\<lambda>c. cus_merchant c = mid),
      tv_base = (\<lambda>c. cus_merchant c = mid)\<rparr>"

definition page_of_customers :: "uuid \<Rightarrow> page_query \<Rightarrow> db \<Rightarrow> exc + customer cursor_page" where
  "page_of_customers mid q d = list_page q (Inr (customers_view mid d))"

definition subscriptions_view ::
    "uuid \<Rightarrow> subscription_status option \<Rightarrow> uuid option \<Rightarrow> db \<Rightarrow> subscription table_view" where
  "subscriptions_view mid st cid d =
     \<lparr>tv_rows = db_subs d, tv_ts = sub_created_at, tv_id = sub_id, tv_tenant = (\<lambda>s. sub_merchant s = mid),
      tv_base = (\<lambda>s. sub_merchant s = mid \<and> matches st (sub_status s) \<and> matches cid (sub_customer s))\<rparr>"

definition page_of_subscriptions ::
    "uuid \<Rightarrow> string option \<Rightarrow> uuid option \<Rightarrow> page_query \<Rightarrow> db \<Rightarrow> exc + subscription cursor_page" where
  "page_of_subscriptions mid status cid q d = list_page q
     (case enum_param subscription_status_value subscription_statuses status of
        Inl x \<Rightarrow> Inl x | Inr st \<Rightarrow> Inr (subscriptions_view mid st cid d))"

definition events_view :: "uuid \<Rightarrow> db \<Rightarrow> renewal_event table_view" where
  "events_view sid d =
     \<lparr>tv_rows = db_events d, tv_ts = ev_created_at, tv_id = ev_id, tv_tenant = (\<lambda>v. ev_subscription v = sid),
      tv_base = (\<lambda>v. ev_subscription v = sid)\<rparr>"

definition page_of_renewal_log :: "uuid \<Rightarrow> uuid \<Rightarrow> page_query \<Rightarrow> db \<Rightarrow> exc + renewal_event cursor_page" where
  "page_of_renewal_log mid sid q d = list_page q
     (case get_sub_of mid sid d of Inl x \<Rightarrow> Inl (HTTPException 404) | Inr s \<Rightarrow> Inr (events_view sid d))"

definition api_keys_view :: "uuid \<Rightarrow> db \<Rightarrow> api_key table_view" where
  "api_keys_view mid d =
     \<lparr>tv_rows = db_api_keys d, tv_ts = key_created_at, tv_id = key_id, tv_tenant = (\<lambda>k. key_merchant k = mid),
      tv_base = (\<lambda>k. key_merchant k = mid)\<rparr>"

definition page_of_api_keys :: "uuid \<Rightarrow> page_query \<Rightarrow> db \<Rightarrow> exc + api_key cursor_page" where
  "page_of_api_keys mid q d = list_page q (Inr (api_keys_view mid d))"

definition deliveries_view ::
    "uuid \<Rightarrow> uuid option \<Rightarrow> webhook_status option \<Rightarrow> db \<Rightarrow> webhook_delivery table_view" where
  "deliveries_view mid iid st d =
     \<lparr>tv_rows = db_deliveries d, tv_ts = del_created_at, tv_id = del_id, tv_tenant = (\<lambda>r. del_merchant r = mid),
      tv_base = (\<lambda>r. del_merchant r = mid \<and> (iid = None \<or> del_invoice r = iid) \<and> matches st (del_status r))\<rparr>"

definition page_of_deliveries ::
    "uuid \<Rightarrow> string option \<Rightarrow> string option \<Rightarrow> page_query \<Rightarrow> db \<Rightarrow> exc + webhook_delivery cursor_page" where
  "page_of_deliveries mid invoice_id status q d = list_page q
     (case uuid_param invoice_id of
        Inl x \<Rightarrow> Inl x
      | Inr iid \<Rightarrow> (case enum_param webhook_status_value webhook_statuses (truthy_param status) of
            Inl x \<Rightarrow> Inl x | Inr st \<Rightarrow> Inr (deliveries_view mid iid st d)))"

text \<open>Without a filter only unresolved entries are listed.\<close>

definition dead_letters_view :: "uuid \<Rightarrow> bool option \<Rightarrow> db \<Rightarrow> dead_letter table_view" where
  "dead_letters_view mid resolved d =
     \<lparr>tv_rows = db_dead_letters d, tv_ts = dlq_created_at, tv_id = dlq_id, tv_tenant = (\<lambda>x. dlq_merchant x = mid),
      tv_base = (\<lambda>x. dlq_merchant x = mid \<and> dlq_resolved x = (case resolved of None \<Rightarrow> False | Some b \<Rightarrow> b))\<rparr>"

definition page_of_dead_letters :: "uuid \<Rightarrow> bool option \<Rightarrow> page_query \<Rightarrow> db \<Rightarrow> exc + dead_letter cursor_page" where
  "page_of_dead_letters mid resolved q d = list_page q (Inr (dead_letters_view mid resolved d))"

section \<open>Responses\<close>

definition jtime :: "time option \<Rightarrow> json" where
  "jtime = jopt (\<lambda>t. JStr (isoformat t))"

definition invoice_address_of :: "uuid \<Rightarrow> db \<Rightarrow> invoice_address option" where
  "invoice_address_of i d = find (\<lambda>a. adr_invoice a = i) (db_addresses d)"

definition invoice_fields :: "db \<Rightarrow> invoice \<Rightarrow> (string \<times> json) list" where
  "invoice_fields d r = (let addr = invoice_address_of (inv_id r) d in
     [(''id'', juuid (inv_id r)), (''merchant_id'', juuid (inv_merchant r)), (''amount_xmr'', JDec (inv_amount_xmr r)),
      (''amount_atomic'', JInt (inv_amount_atomic r)), (''fiat_currency'', jopt JStr (inv_fiat_currency r)),
      (''fiat_amount'', jopt JDec (inv_fiat_amount r)), (''fiat_rate'', jopt JDec (inv_fiat_rate r)),
      (''status'', JStr (invoice_status_value (inv_status r))), (''description'', jopt JStr (inv_description r)),
      (''metadata'', jopt id (inv_metadata r)), (''address'', jopt (\<lambda>a. JStr (adr_address a)) addr),
      (''address_index'', jopt (\<lambda>a. JInt (adr_index a)) addr),
      (''expires_at'', JStr (isoformat (inv_expires_at r))), (''paid_at'', jtime (inv_paid_at r)),
      (''created_at'', JStr (isoformat (inv_created_at r))), (''updated_at'', JStr (isoformat (inv_updated_at r)))])"

definition invoice_to_response :: "db \<Rightarrow> invoice \<Rightarrow> json" where
  "invoice_to_response d r = JObj (invoice_fields d r)"

definition payment_summary :: "payment \<Rightarrow> json" where
  "payment_summary p = JObj [(''id'', juuid (pay_id p)), (''tx_hash'', JStr (pay_tx_hash p)),
     (''amount_atomic'', JInt (pay_amount_atomic p)), (''amount_xmr'', JDec (pay_amount_xmr p)),
     (''status'', JStr (payment_status_value (pay_status p))), (''confirmations'', JInt (pay_confirmations p)),
     (''block_height'', jopt JInt (pay_block_height p)), (''detected_at'', JStr (isoformat (pay_detected_at p))),
     (''confirmed_at'', jtime (pay_confirmed_at p))]"

definition invoice_payments :: "uuid \<Rightarrow> db \<Rightarrow> payment list" where
  "invoice_payments i d = filter (\<lambda>p. pay_invoice p = i) (db_payments d)"

definition paid_atomic :: "uuid \<Rightarrow> db \<Rightarrow> int" where
  "paid_atomic i d = sum_list (map pay_amount_atomic (filter (\<lambda>p. pay_status p \<noteq> POrphaned) (invoice_payments i d)))"

definition invoice_to_detail_response :: "db \<Rightarrow> invoice \<Rightarrow> json" where
  "invoice_to_detail_response d r = JObj (invoice_fields d r @
     [(''paid_atomic'', JInt (paid_atomic (inv_id r) d)),
      (''paid_xmr'', JDec (atomic_to_xmr (paid_atomic (inv_id r) d))),
      (''payments'', JList (map payment_summary (invoice_payments (inv_id r) d)))])"

definition payment_to_response :: "payment \<Rightarrow> json" where
  "payment_to_response p = JObj [(''id'', juuid (pay_id p)), (''invoice_id'', juuid (pay_invoice p)),
     (''tx_hash'', JStr (pay_tx_hash p)), (''amount_atomic'', JInt (pay_amount_atomic p)),
     (''amount_xmr'', JDec (pay_amount_xmr p)), (''status'', JStr (payment_status_value (pay_status p))),
     (''confirmations'', JInt (pay_confirmations p)), (''block_height'', jopt JInt (pay_block_height p)),
     (''detected_at'', JStr (isoformat (pay_detected_at p))), (''confirmed_at'', jtime (pay_confirmed_at p)),
     (''created_at'', JStr (isoformat (pay_created_at p)))]"

definition key_to_response :: "api_key \<Rightarrow> json" where
  "key_to_response k = JObj [(''id'', juuid (key_id k)), (''key_prefix'', JStr (key_prefix k)),
     (''label'', jopt JStr (key_label k)), (''environment'', JStr (key_environment k)),
     (''is_active'', JBool (key_active k)), (''last_used_at'', jtime (key_last_used_at k)),
     (''created_at'', JStr (isoformat (key_created_at k)))]"

text \<open>A list shows the first 200 characters of a long payload.\<close>

definition truncate_payload :: "(json \<Rightarrow> string) \<Rightarrow> json \<Rightarrow> json \<times> bool" where
  "truncate_payload dumps payload =
     (let rendered = dumps payload in
      if length rendered \<le> 200 then (payload, False) else (JObj [(''truncated'', JStr (take 200 rendered))], True))"

definition delivery_to_response :: "(json \<Rightarrow> string) \<Rightarrow> bool \<Rightarrow> webhook_delivery \<Rightarrow> json" where
  "delivery_to_response dumps trunc r =
     (case (if trunc then truncate_payload dumps (del_payload r) else (del_payload r, False)) of (payload, was_cut) \<Rightarrow>
      JObj [(''id'', juuid (del_id r)), (''merchant_id'', juuid (del_merchant r)),
        (''invoice_id'', jopt juuid (del_invoice r)), (''event_type'', JStr (del_event_type r)),
        (''payload'', payload), (''url'', JStr (url_text (del_url r))),
        (''status'', JStr (webhook_status_value (del_status r))), (''attempts'', JInt (int (del_attempts r))),
        (''max_attempts'', JInt (int (del_max_attempts r))), (''last_attempt_at'', jtime (del_last_attempt_at r)),
        (''next_retry_at'', jtime (del_next_retry_at r)), (''response_code'', jopt JInt (del_response_code r)),
        (''response_body'', if trunc then JNull else jopt JStr (del_response_body r)),
        (''payload_truncated'', JBool was_cut), (''created_at'', JStr (isoformat (del_created_at r)))])"

definition dlq_to_response :: "(json \<Rightarrow> string) \<Rightarrow> bool \<Rightarrow> dead_letter \<Rightarrow> json" where
  "dlq_to_response dumps trunc x =
     (case (if trunc then truncate_payload dumps (dlq_payload x) else (dlq_payload x, False)) of (payload, was_cut) \<Rightarrow>
      JObj [(''id'', juuid (dlq_id x)), (''delivery_id'', juuid (dlq_delivery x)),
        (''event_type'', JStr (dlq_event_type x)), (''payload'', payload),
        (''original_created_at'', JStr (isoformat (dlq_original_created_at x))),
        (''dead_lettered_at'', JStr (isoformat (dlq_dead_lettered_at x))),
        (''retry_count'', JInt (int (dlq_retry_count x))), (''last_retry_at'', jtime (dlq_last_retry_at x)),
        (''last_error'', jopt JStr (dlq_last_error x)), (''resolved'', JBool (dlq_resolved x)),
        (''resolved_at'', jtime (dlq_resolved_at x)), (''payload_truncated'', JBool was_cut)])"

definition pending_changes :: "subscription \<Rightarrow> (string \<times> json) list" where
  "pending_changes s =
     (case sub_pending_amount_atomic s of None \<Rightarrow> []
      | Some n \<Rightarrow> [(''amount_xmr'', jopt JDec (sub_pending_amount_xmr s)), (''amount_atomic'', JInt n)]) @
     (case sub_pending_interval_days s of None \<Rightarrow> [] | Some n \<Rightarrow> [(''interval_days'', JInt n)]) @
     (case sub_pending_grace_soft s of None \<Rightarrow> [] | Some n \<Rightarrow> [(''grace_days_soft'', JInt n)]) @
     (case sub_pending_grace_hard s of None \<Rightarrow> [] | Some n \<Rightarrow> [(''grace_days_hard'', JInt n)])"

text \<open>\<open>_build_pending_changes\<close>: \<open>str(None)\<close> would be the text \<open>None\<close>, but the two amount columns are
  always set together.\<close>

definition build_pending_changes :: "subscription \<Rightarrow> json \<times> bool" where
  "build_pending_changes s =
     (if sub_pending_amount_atomic s = None \<and> sub_pending_interval_days s = None \<and>
         sub_pending_grace_soft s = None \<and> sub_pending_grace_hard s = None then (JNull, False)
      else (JObj (pending_changes s), True))"

definition sub_to_response :: "subscription \<Rightarrow> json" where
  "sub_to_response s = (case build_pending_changes s of (pending, any_pending) \<Rightarrow>
     JObj [(''id'', juuid (sub_id s)), (''merchant_id'', juuid (sub_merchant s)), (''customer_id'', juuid (sub_customer s)),
       (''amount_xmr'', JDec (sub_amount_xmr s)), (''amount_atomic'', JInt (sub_amount_atomic s)),
       (''interval_days'', JInt (sub_interval_days s)), (''status'', JStr (subscription_status_value (sub_status s))),
       (''grace_days_soft'', JInt (sub_grace_soft s)), (''grace_days_hard'', JInt (sub_grace_hard s)),
       (''billing_anchor_at'', JStr (isoformat (sub_billing_anchor_at s))), (''next_due_at'', jtime (sub_next_due_at s)),
       (''cancelled_at'', jtime (sub_cancelled_at s)), (''trial_days'', jopt JInt (sub_trial_days s)),
       (''trial_end_at'', jtime (sub_trial_end_at s)), (''prepaid_until'', jtime (sub_prepaid_until s)),
       (''metadata'', jopt id (sub_metadata s)), (''pending_changes'', pending), (''has_pending_changes'', JBool any_pending),
       (''created_at'', JStr (isoformat (sub_created_at s))), (''updated_at'', JStr (isoformat (sub_updated_at s)))])"

definition renewal_event_response :: "renewal_event \<Rightarrow> json" where
  "renewal_event_response v = JObj [(''id'', juuid (ev_id v)), (''result'', JStr (ev_result v)),
     (''invoice_id'', jopt juuid (ev_invoice v)), (''error_message'', jopt JStr (ev_error v)),
     (''details'', ev_details v), (''created_at'', JStr (isoformat (ev_created_at v)))]"

section \<open>The routes\<close>

definition route_list_invoices :: "merchant \<Rightarrow> string option \<Rightarrow> page_query \<Rightarrow> db \<Rightarrow> exc + json" where
  "route_list_invoices m status q d = page_response (invoice_to_response d) (page_of_invoices (mer_id m) status q d)"

definition route_list_payments :: "merchant \<Rightarrow> string option \<Rightarrow> string option \<Rightarrow> page_query \<Rightarrow> db \<Rightarrow> exc + json" where
  "route_list_payments m invoice_id status q d =
     page_response payment_to_response (page_of_payments (mer_id m) invoice_id status q d)"

definition route_list_customers :: "merchant \<Rightarrow> page_query \<Rightarrow> db \<Rightarrow> exc + json" where
  "route_list_customers m q d = page_response customer_to_response (page_of_customers (mer_id m) q d)"

definition route_list_subscriptions :: "merchant \<Rightarrow> string option \<Rightarrow> uuid option \<Rightarrow> page_query \<Rightarrow> db \<Rightarrow> exc + json" where
  "route_list_subscriptions m status cid q d =
     page_response sub_to_response (page_of_subscriptions (mer_id m) status cid q d)"

definition route_renewal_log :: "merchant \<Rightarrow> uuid \<Rightarrow> page_query \<Rightarrow> db \<Rightarrow> exc + json" where
  "route_renewal_log m sid q d = page_response renewal_event_response (page_of_renewal_log (mer_id m) sid q d)"

definition route_list_api_keys :: "merchant \<Rightarrow> page_query \<Rightarrow> db \<Rightarrow> exc + json" where
  "route_list_api_keys m q d = page_response key_to_response (page_of_api_keys (mer_id m) q d)"

definition route_list_deliveries ::
    "(json \<Rightarrow> string) \<Rightarrow> merchant \<Rightarrow> string option \<Rightarrow> string option \<Rightarrow> page_query \<Rightarrow> db \<Rightarrow> exc + json" where
  "route_list_deliveries dumps m invoice_id status q d =
     page_response (delivery_to_response dumps True) (page_of_deliveries (mer_id m) invoice_id status q d)"

definition route_list_dead_letters :: "(json \<Rightarrow> string) \<Rightarrow> merchant \<Rightarrow> bool option \<Rightarrow> page_query \<Rightarrow> db \<Rightarrow> exc + json" where
  "route_list_dead_letters dumps m resolved q d =
     page_response (dlq_to_response dumps True) (page_of_dead_letters (mer_id m) resolved q d)"

definition route_get_invoice :: "merchant \<Rightarrow> uuid \<Rightarrow> db \<Rightarrow> exc + json" where
  "route_get_invoice m i d = (case get_invoice (mer_id m) i d of
      (Inl x, _) \<Rightarrow> Inl (invoice_http_error x) | (Inr r, _) \<Rightarrow> Inr (invoice_to_detail_response d r))"

definition route_get_payment :: "merchant \<Rightarrow> string \<Rightarrow> db \<Rightarrow> exc + json" where
  "route_get_payment m payment_id d = (case uuid_parse payment_id of
      None \<Rightarrow> Inl (HTTPException 400)
    | Some i \<Rightarrow> (case get_payment (mer_id m) i d of
          None \<Rightarrow> Inl (HTTPException 404) | Some p \<Rightarrow> Inr (payment_to_response p)))"

definition route_get_customer :: "merchant \<Rightarrow> uuid \<Rightarrow> db \<Rightarrow> exc + json" where
  "route_get_customer m i d = (case get_customer (mer_id m) i d of
      (Inl x, _) \<Rightarrow> Inl (customer_http_error x) | (Inr c, _) \<Rightarrow> Inr (customer_to_response c))"

definition route_get_delivery :: "(json \<Rightarrow> string) \<Rightarrow> merchant \<Rightarrow> string \<Rightarrow> db \<Rightarrow> exc + json" where
  "route_get_delivery dumps m delivery_id d = (case uuid_parse delivery_id of
      None \<Rightarrow> Inl (HTTPException 400)
    | Some i \<Rightarrow> (case find_delivery i d of
          None \<Rightarrow> Inl (HTTPException 404)
        | Some r \<Rightarrow> if del_merchant r \<noteq> mer_id m then Inl (HTTPException 404)
                   else Inr (delivery_to_response dumps False r)))"

fun webhook_http_error :: "exc \<Rightarrow> exc" where
  "webhook_http_error WebhookRetryNotFoundError = HTTPException 404"
| "webhook_http_error WebhookRetryConflictError = HTTPException 409"
| "webhook_http_error WebhookRetryInvalidStateError = HTTPException 400"
| "webhook_http_error x = x"

definition route_retry_delivery :: "env \<Rightarrow> merchant \<Rightarrow> string \<Rightarrow> uuid op" where
  "route_retry_delivery e m delivery_id d = (case uuid_parse delivery_id of
      None \<Rightarrow> (Inl (HTTPException 400), d)
    | Some i \<Rightarrow> in_transaction (map_error webhook_http_error (retry_delivery e (mer_id m) i)) d)"

definition route_retry_dead_letter :: "env \<Rightarrow> merchant \<Rightarrow> uuid \<Rightarrow> uuid op" where
  "route_retry_dead_letter e m i d = (case find_dead_letter i d of
      None \<Rightarrow> (Inl (HTTPException 404), d)
    | Some x \<Rightarrow>
        if dlq_merchant x \<noteq> mer_id m then (Inl (HTTPException 404), d)
        else if dlq_resolved x then (Inl (HTTPException 409), d)
        else in_transaction (map_error webhook_http_error (retry_dead_letter e m i)) d)"

section \<open>What a page holds\<close>

lemma paginate_rows:
  assumes "paginate_cursor v n after before = Inr p" and "r \<in> set (pg_data p)"
  shows "r \<in> set (tv_rows v) \<and> tv_base v r"
proof -
  have "set (take k (newest_first v xs)) \<subseteq> set xs" for k xs
    using set_take_subset[of k "newest_first v xs"] by simp
  moreover have "set (take k (sort_key (row_key v) xs)) \<subseteq> set xs" for k xs
    using set_take_subset[of k "sort_key (row_key v) xs"] by simp
  ultimately show ?thesis using assms
    by (fastforce simp: paginate_cursor_def Let_def cut_page_spec split: option.splits sum.splits)
qed

lemma list_page_rows:
  assumes "list_page q (Inr v) = Inr p" and "r \<in> set (pg_data p)"
  shows "r \<in> set (tv_rows v) \<and> tv_base v r"
  using assms paginate_rows[of v "pq_limit q" "pq_after q" "pq_before q" p r]
  by (simp add: list_page_def split: if_splits option.splits)

lemma paginate_length:
  assumes "paginate_cursor v n after before = Inr p"
  shows "length (pg_data p) \<le> clamp_limit n"
  using assms by (auto simp: paginate_cursor_def Let_def cut_page_spec split: option.splits sum.splits)

lemma list_page_Inl [simp]: "list_page q (Inl x) \<noteq> Inr p"
  by (simp add: list_page_def split: option.split)

text \<open>A cursor that is refused, whatever the page.\<close>

lemma list_page_foreign:
  assumes "pq_after q = Some c \<or> pq_before q = Some c" and "\<And>r. r \<in> set (tv_rows v) \<Longrightarrow> tv_id v r = c \<Longrightarrow> \<not> tv_tenant v r"
  shows "list_page q (Inr v) \<noteq> Inr p"
proof -
  have "find (\<lambda>r. tv_id v r = c \<and> tv_tenant v r) (tv_rows v) = None"
    using assms(2) by (auto simp: find_None_iff)
  then have "cursor_key v c = Inl (HTTPException 400)" by (simp add: cursor_key_def)
  then show ?thesis using assms(1)
    by (auto simp: list_page_def paginate_cursor_def validate_cursor_params_def Let_def split: option.split)
qed

end
