(* ===== verification/Price_Feed.thy ===== *)
theory Price_Feed
  imports Sessions
begin

text \<open>
  The XMR price: \<open>services/price_feed.py\<close>, the loop body of \<open>tasks/price_updater.py\<close>,
  \<open>GET /v1/price\<close> (\<open>api/routes/price.py\<close>) and \<open>_get_fiat_rate\<close> of \<open>api/routes/invoices.py\<close>. A
  provider's answer is its JSON document, or None when the request or its decoding raised. The
  cache key holds the dict that was stored (\<open>json.loads\<close> gives back what \<open>json.dumps\<close> wrote). A
  float is a rational; \<open>float(text)\<close> is an argument.
\<close>

section \<open>Reading the providers' answers\<close>

definition price_key :: string where "price_key = ''xmr_price''"
definition stale_threshold_seconds :: int where "stale_threshold_seconds = 600"
definition cache_ttl_seconds :: int where "cache_ttl_seconds = stale_threshold_seconds"

text \<open>\<open>x.get(key, default)\<close>; None: \<open>x\<close> is not a dict.\<close>

definition dict_get :: "string \<Rightarrow> json \<Rightarrow> json \<Rightarrow> json option" where
  "dict_get key dflt x = (case x of
      JObj kvs \<Rightarrow> Some (case jget key x of None \<Rightarrow> dflt | Some v \<Rightarrow> v) | _ \<Rightarrow> None)"

text \<open>\<open>x[0]\<close> of a list or a text.\<close>

fun first_item :: "json \<Rightarrow> json option" where
  "first_item (JList (y # ys)) = Some y"
| "first_item (JStr (c # cs)) = Some (JStr [c])"
| "first_item _ = None"

text \<open>\<open>float(x)\<close>; None: it raises.\<close>

fun to_float :: "(string \<Rightarrow> rat option) \<Rightarrow> json \<Rightarrow> rat option" where
  "to_float parse (JInt n) = Some (of_int n)"
| "to_float parse (JFloat x) = Some x"
| "to_float parse (JDec x) = Some x"
| "to_float parse (JBool b) = Some (if b then 1 else 0)"
| "to_float parse (JStr s) = parse s"
| "to_float parse _ = None"

text \<open>\<open>time.time()\<close> in seconds; the clock counts microseconds.\<close>

definition unix_seconds :: "time \<Rightarrow> rat" where
  "unix_seconds t = of_int t / 1000000"

text \<open>The dict of a quote; an absent EUR price is null, one that is no number raises.\<close>

definition price_data :: "(string \<Rightarrow> rat option) \<Rightarrow> time \<Rightarrow> string \<Rightarrow> json \<Rightarrow> json \<Rightarrow> json option" where
  "price_data parse now source usd eur =
     (case (to_float parse usd, if eur = JNull then Some JNull else map_option JFloat (to_float parse eur)) of
        (Some u, Some e) \<Rightarrow> Some (JObj [(''usd'', JFloat u), (''eur'', e), (''timestamp'', JStr (isoformat now)),
            (''timestamp_unix'', JFloat (unix_seconds now)), (''source'', JStr source)])
      | _ \<Rightarrow> None)"

definition fetch_coingecko :: "(string \<Rightarrow> rat option) \<Rightarrow> time \<Rightarrow> json option \<Rightarrow> json option" where
  "fetch_coingecko parse now reply =
     Option.bind reply (\<lambda>data. Option.bind (dict_get ''monero'' (JObj []) data) (\<lambda>monero.
       Option.bind (dict_get ''usd'' JNull monero) (\<lambda>usd. Option.bind (dict_get ''eur'' JNull monero) (\<lambda>eur.
         if usd = JNull then None else price_data parse now ''coingecko'' usd eur))))"

text \<open>The last trade price of a pair, null when the pair or its trades are missing.\<close>

definition kraken_price :: "string \<Rightarrow> json \<Rightarrow> json option" where
  "kraken_price pair result =
     Option.bind (dict_get pair (JObj []) result) (\<lambda>p. Option.bind (dict_get ''c'' (JList [JNull]) p) first_item)"

definition fetch_kraken :: "(string \<Rightarrow> rat option) \<Rightarrow> time \<Rightarrow> json option \<Rightarrow> json option" where
  "fetch_kraken parse now reply =
     Option.bind reply (\<lambda>data. Option.bind (dict_get ''error'' JNull data) (\<lambda>err.
       if truthy err then None
       else Option.bind (dict_get ''result'' (JObj []) data) (\<lambda>result.
         Option.bind (kraken_price ''XXMRZUSD'' result) (\<lambda>usd. Option.bind (kraken_price ''XXMRZEUR'' result) (\<lambda>eur.
           if usd = JNull then None else price_data parse now ''kraken'' usd eur)))))"

section \<open>The cache\<close>

text \<open>\<open>get_cached_price\<close>: the stored dict with its staleness.\<close>

definition get_cached_price :: "time \<Rightarrow> json kv \<Rightarrow> json option" where
  "get_cached_price now r = (case kv_get now r price_key of
      None \<Rightarrow> None
    | Some data \<Rightarrow> Some (jset ''stale''
        (JBool (of_int stale_threshold_seconds <
          unix_seconds now - (case jget ''timestamp_unix'' data of Some (JFloat t) \<Rightarrow> t | _ \<Rightarrow> 0))) data))"

definition no_price :: json where
  "no_price = JObj [(''usd'', JNull), (''eur'', JNull), (''timestamp'', JNull), (''timestamp_unix'', JInt 0),
     (''source'', JStr ''none''), (''stale'', JBool True)]"

definition update_price ::
    "(string \<Rightarrow> rat option) \<Rightarrow> time \<Rightarrow> json option \<Rightarrow> json option \<Rightarrow> json kv \<Rightarrow> json \<times> json kv" where
  "update_price parse now coingecko kraken r =
     (case (case fetch_coingecko parse now coingecko of Some p \<Rightarrow> Some p | None \<Rightarrow> fetch_kraken parse now kraken) of
        Some p \<Rightarrow> (jset ''stale'' (JBool False) p, kv_setex now price_key cache_ttl_seconds p r)
      | None \<Rightarrow> (case get_cached_price now r of
            Some cached \<Rightarrow> (jset ''source'' (JStr ''cache'') (jset ''stale'' (JBool True) cached), r)
          | None \<Rightarrow> (no_price, r)))"

definition jdel :: "string \<Rightarrow> json \<Rightarrow> json" where
  "jdel key x = (case x of JObj kvs \<Rightarrow> JObj (filter (\<lambda>kv. fst kv \<noteq> key) kvs) | _ \<Rightarrow> x)"

definition get_price :: "time \<Rightarrow> json kv \<Rightarrow> json" where
  "get_price now r = (case get_cached_price now r of
      Some cached \<Rightarrow> jdel ''timestamp_unix'' cached
    | None \<Rightarrow> JObj [(''usd'', JNull), (''eur'', JNull), (''timestamp'', JNull), (''source'', JStr ''none''),
        (''stale'', JBool True), (''message'', JStr ''Price not yet available. Background updater is starting.'')])"

text \<open>\<open>_get_fiat_rate\<close>: the stored dict has no \<open>stale\<close> entry, so that check never refuses it.\<close>

definition get_fiat_rate :: "time \<Rightarrow> json kv \<Rightarrow> rat option" where
  "get_fiat_rate now r = (case kv_get now r price_key of
      None \<Rightarrow> None
    | Some data \<Rightarrow>
        if (case jget ''stale'' data of None \<Rightarrow> False | Some j \<Rightarrow> truthy j) then None
        else (case jget ''usd'' data of Some (JFloat x) \<Rightarrow> Some x | _ \<Rightarrow> None))"

section \<open>The updater\<close>

definition poll_interval_seconds :: int where "poll_interval_seconds = 60"

text \<open>One update: when it runs and what the two providers answer.\<close>

record price_poll =
  pp_now :: time
  pp_coingecko :: "json option"
  pp_kraken :: "json option"

fun price_updates :: "(string \<Rightarrow> rat option) \<Rightarrow> price_poll list \<Rightarrow> json kv \<Rightarrow> json kv" where
  "price_updates parse [] r = r"
| "price_updates parse (p # ps) r =
     price_updates parse ps (snd (update_price parse (pp_now p) (pp_coingecko p) (pp_kraken p) r))"

text \<open>The USD price a poll takes from the providers, CoinGecko first.\<close>

definition quoted :: "(string \<Rightarrow> rat option) \<Rightarrow> price_poll \<Rightarrow> json option" where
  "quoted parse p = (case fetch_coingecko parse (pp_now p) (pp_coingecko p) of
      Some q \<Rightarrow> Some q | None \<Rightarrow> fetch_kraken parse (pp_now p) (pp_kraken p))"

section \<open>The age of a served price\<close>

lemma price_data_shape:
  assumes "price_data parse now source usd eur = Some q"
  obtains u e where "q = JObj [(''usd'', JFloat u), (''eur'', e), (''timestamp'', JStr (isoformat now)),
      (''timestamp_unix'', JFloat (unix_seconds now)), (''source'', JStr source)]"
  using assms by (auto simp: price_data_def split: option.splits)

lemma quoted_shape:
  assumes "quoted parse p = Some q"
  obtains u e s where "q = JObj [(''usd'', JFloat u), (''eur'', e), (''timestamp'', JStr (isoformat (pp_now p))),
      (''timestamp_unix'', JFloat (unix_seconds (pp_now p))), (''source'', JStr s)]"
proof -
  have "\<exists>s usd eur. price_data parse (pp_now p) s usd eur = Some q"
    using assms unfolding quoted_def fetch_coingecko_def fetch_kraken_def
    by (fastforce simp: Option.bind_eq_Some_conv split: option.splits if_splits)
  then show ?thesis using that price_data_shape by metis
qed

lemma update_price_cache:
  "snd (update_price parse (pp_now p) (pp_coingecko p) (pp_kraken p) r) =
    (case quoted parse p of Some q \<Rightarrow> kv_setex (pp_now p) price_key cache_ttl_seconds q r | None \<Rightarrow> r)"
  by (simp add: update_price_def quoted_def split: option.split)

text \<open>What the cache holds after some polls is the quote of one of them, dropped ten minutes later.\<close>

lemma price_updates_entry:
  assumes "price_updates parse ps r price_key = Some (data, expires)"
  shows "r price_key = Some (data, expires) \<or>
    (\<exists>p \<in> set ps. quoted parse p = Some data \<and> expires = pp_now p + secs 600)"
  using assms
proof (induction ps arbitrary: r)
  case (Cons p ps)
  then have "snd (update_price parse (pp_now p) (pp_coingecko p) (pp_kraken p) r) price_key = Some (data, expires) \<or>
      (\<exists>p \<in> set ps. quoted parse p = Some data \<and> expires = pp_now p + secs 600)" by simp
  then show ?case unfolding update_price_cache
    by (auto simp: kv_setex_def cache_ttl_seconds_def stale_threshold_seconds_def split: option.splits)
qed simp

lemma cached_entry:
  assumes "kv_get now (price_updates parse ps (\<lambda>_. None)) price_key = Some data"
  obtains p where "p \<in> set ps" and "quoted parse p = Some data" and "now < pp_now p + secs 600"
proof -
  obtain expires where "price_updates parse ps (\<lambda>_. None) price_key = Some (data, expires)" and "now < expires"
    using assms by (auto simp: kv_get_def split: option.splits if_splits)
  then show ?thesis using price_updates_entry[of parse ps "\<lambda>_. None" data expires] that by auto
qed

end
