(* ===== verification/Analytics.thy ===== *)
theory Analytics
  imports Price_Feed Payment_Service "HOL-Library.Multiset" "HOL-Library.List_Lexorder" "HOL-Library.Char_ord"
begin

text \<open>
  \<open>services/analytics_service.py\<close>: revenue by day, invoice counts and subscription metrics of one
  merchant, each behind a cache of five minutes, and the query bounds of \<open>api/routes/analytics.py\<close>.
  The \<open>NUMERIC\<close> division of PostgreSQL, which rounds, is an argument.
\<close>

section \<open>The cache\<close>

definition cache_ttl :: int where "cache_ttl = 300"

definition with_cache :: "time \<Rightarrow> string \<Rightarrow> json \<Rightarrow> json kv \<Rightarrow> json \<times> json kv" where
  "with_cache now key fresh r = (case kv_get now r key of
      Some j \<Rightarrow> if truthy j then (j, r) else (fresh, kv_setex now key cache_ttl fresh r)
    | None \<Rightarrow> (fresh, kv_setex now key cache_ttl fresh r))"

definition cache_name :: "uuid \<Rightarrow> string \<Rightarrow> string" where
  "cache_name mid s = ''analytics:'' @ uuid_str mid @ '':'' @ s"

section \<open>Revenue\<close>

definition period_days :: "string \<Rightarrow> int" where
  "period_days period = (if period = ''7d'' then 7 else if period = ''90d'' then 90 else if period = ''1y'' then 365 else 30)"

text \<open>\<open>_atomic_to_xmr\<close>: twelve decimals, then trailing zeros and the point are cut.\<close>

definition xmr_text :: "int \<Rightarrow> string" where
  "xmr_text n =
     (let k = nat \<bar>n\<bar>; u = nat piconero in
      rstrip_chars (\<lambda>c. c = CHR ''.'') (rstrip_chars (\<lambda>c. c = CHR ''0'')
        ((if n < 0 then ''-'' else []) @ nat_str (k div u) @ ''.'' @ decn 12 (k mod u))))"

definition counted :: "time \<Rightarrow> payment \<Rightarrow> bool" where
  "counted start p \<longleftrightarrow> pay_status p = PConfirmed \<and>
     (case pay_confirmed_at p of None \<Rightarrow> False | Some t \<Rightarrow> start \<le> t)"

definition counted_payments :: "time \<Rightarrow> uuid \<Rightarrow> db \<Rightarrow> payment list" where
  "counted_payments start i d = filter (\<lambda>p. pay_invoice p = i \<and> counted start p) (db_payments d)"

text \<open>One row of the grouped query; \<open>rr_day\<close> is the day of the first confirmation.\<close>

record revenue_row =
  rr_day :: time
  rr_count :: nat
  rr_gross :: int
  rr_amount :: int

definition first_time :: "payment list \<Rightarrow> time" where
  "first_time ps = (case List.map_filter pay_confirmed_at ps of [] \<Rightarrow> 0 | t # ts \<Rightarrow> fold min ts t)"

definition invoice_row :: "time \<Rightarrow> db \<Rightarrow> invoice \<Rightarrow> revenue_row option" where
  "invoice_row start d r = (case counted_payments start (inv_id r) d of
      [] \<Rightarrow> None
    | p # ps \<Rightarrow> Some \<lparr>rr_day = days (day_of (first_time (p # ps))), rr_count = length (p # ps),
          rr_gross = sum_list (map pay_amount_atomic (p # ps)), rr_amount = inv_amount_atomic r\<rparr>)"

definition revenue_rows :: "time \<Rightarrow> uuid \<Rightarrow> db \<Rightarrow> revenue_row list" where
  "revenue_rows start mid d =
     sort_key rr_day (List.map_filter (invoice_row start d) (filter (\<lambda>r. inv_merchant r = mid) (db_invoices d)))"

definition row_revenue :: "revenue_row \<Rightarrow> int" where
  "row_revenue r = min (rr_gross r) (rr_amount r)"

record daily_point =
  dp_date :: string
  dp_count :: nat
  dp_gross :: int
  dp_revenue :: int

definition bump :: "revenue_row \<Rightarrow> daily_point \<Rightarrow> daily_point" where
  "bump r p = p\<lparr>dp_count := dp_count p + rr_count r, dp_gross := dp_gross p + rr_gross r,
     dp_revenue := dp_revenue p + row_revenue r\<rparr>"

text \<open>The dict \<open>daily\<close> after one more row: \<open>setdefault\<close>, then the sums.\<close>

fun add_row :: "revenue_row \<Rightarrow> daily_point list \<Rightarrow> daily_point list" where
  "add_row r [] = [bump r \<lparr>dp_date = date_str (rr_day r), dp_count = 0, dp_gross = 0, dp_revenue = 0\<rparr>]"
| "add_row r (p # ps) = (if dp_date p = date_str (rr_day r) then bump r p # ps else p # add_row r ps)"

record revenue_report =
  rv_data :: "daily_point list"
  rv_gross :: int
  rv_revenue :: int
  rv_payments :: nat

definition revenue_report_for :: "time \<Rightarrow> uuid \<Rightarrow> db \<Rightarrow> revenue_report" where
  "revenue_report_for start mid d =
     (let rows = revenue_rows start mid d in
      \<lparr>rv_data = sort_key dp_date (fold add_row rows []), rv_gross = sum_list (map rr_gross rows),
       rv_revenue = sum_list (map row_revenue rows), rv_payments = sum_list (map rr_count rows)\<rparr>)"

definition point_json :: "daily_point \<Rightarrow> json" where
  "point_json p = JObj [(''date'', JStr (dp_date p)), (''count'', JInt (int (dp_count p))),
     (''gross_received_atomic'', JInt (dp_gross p)), (''gross_received_xmr'', JStr (xmr_text (dp_gross p))),
     (''invoice_revenue_atomic'', JInt (dp_revenue p)), (''invoice_revenue_xmr'', JStr (xmr_text (dp_revenue p))),
     (''amount_atomic'', JInt (dp_revenue p)), (''amount_xmr'', JStr (xmr_text (dp_revenue p)))]"

definition revenue_json :: "string \<Rightarrow> revenue_report \<Rightarrow> json" where
  "revenue_json period v = JObj [(''period'', JStr period), (''data'', JList (map point_json (rv_data v))),
     (''gross_received_atomic'', JInt (rv_gross v)), (''gross_received_xmr'', JStr (xmr_text (rv_gross v))),
     (''invoice_revenue_atomic'', JInt (rv_revenue v)), (''invoice_revenue_xmr'', JStr (xmr_text (rv_revenue v))),
     (''total_atomic'', JInt (rv_revenue v)), (''total_xmr'', JStr (xmr_text (rv_revenue v))),
     (''total_payments'', JInt (int (rv_payments v)))]"

definition get_revenue :: "time \<Rightarrow> uuid \<Rightarrow> string \<Rightarrow> db \<Rightarrow> json kv \<Rightarrow> json \<times> json kv" where
  "get_revenue now mid period d r =
     with_cache now (cache_name mid (''revenue:'' @ period))
       (revenue_json period (revenue_report_for (now - days (period_days period)) mid d)) r"

definition route_revenue :: "time \<Rightarrow> merchant \<Rightarrow> string \<Rightarrow> db \<Rightarrow> json kv \<Rightarrow> (exc + json) \<times> json kv" where
  "route_revenue now m period d r =
     (if period \<notin> set [''7d'', ''30d'', ''90d'', ''1y''] then (Inl (HTTPException 422), r)
      else case get_revenue now (mer_id m) period d r of (j, r') \<Rightarrow> (Inr j, r'))"

section \<open>Invoice counts\<close>

definition status_order :: "invoice_status list" where
  "status_order = [IPaid, IPending, IExpired, IPartially, IOverpaid, ILate, ICancelled]"

definition recent_invoices :: "time \<Rightarrow> uuid \<Rightarrow> db \<Rightarrow> invoice list" where
  "recent_invoices start mid d = filter (\<lambda>r. inv_merchant r = mid \<and> start \<le> inv_created_at r) (db_invoices d)"

text \<open>The groups that are not empty, in the order of \<open>status_order\<close>, which names every status.\<close>

definition status_counts :: "invoice list \<Rightarrow> (invoice_status \<times> nat) list" where
  "status_counts rs = filter (\<lambda>(s, n). 0 < n) (map (\<lambda>s. (s, length (filter (\<lambda>r. inv_status r = s) rs))) status_order)"

definition get_invoice_stats :: "time \<Rightarrow> uuid \<Rightarrow> int \<Rightarrow> db \<Rightarrow> json kv \<Rightarrow> json \<times> json kv" where
  "get_invoice_stats now mid n_days d r =
     (let groups = status_counts (recent_invoices (now - days n_days) mid d) in
      with_cache now (cache_name mid (''invoices:'' @ int_str n_days))
        (JObj [(''total'', JInt (int (sum_list (map snd groups)))),
          (''data'', JList (map (\<lambda>(s, n). JObj [(''status'', JStr (invoice_status_value s)), (''count'', JInt (int n))]) groups)),
          (''period_days'', JInt n_days)]) r)"

definition route_invoice_stats :: "time \<Rightarrow> merchant \<Rightarrow> int \<Rightarrow> db \<Rightarrow> json kv \<Rightarrow> (exc + json) \<times> json kv" where
  "route_invoice_stats now m n_days d r =
     (if n_days < 1 \<or> 365 < n_days then (Inl (HTTPException 422), r)
      else case get_invoice_stats now (mer_id m) n_days d r of (j, r') \<Rightarrow> (Inr j, r'))"

section \<open>Subscription metrics\<close>

definition subs_with :: "uuid \<Rightarrow> subscription_status list \<Rightarrow> db \<Rightarrow> subscription list" where
  "subs_with mid sts d = filter (\<lambda>s. sub_merchant s = mid \<and> sub_status s \<in> set sts) (db_subs d)"

text \<open>\<open>sum(amount * 30 / interval)\<close> over the active subscriptions, cut to an integer; NULL is 0.\<close>

definition mrr_atomic :: "(int \<Rightarrow> int \<Rightarrow> rat) \<Rightarrow> uuid \<Rightarrow> db \<Rightarrow> int" where
  "mrr_atomic sql_div mid d =
     py_trunc (sum_list (map (\<lambda>s. sql_div (sub_amount_atomic s * 30) (sub_interval_days s)) (subs_with mid [SActive] d)))"

definition churn_30d :: "time \<Rightarrow> uuid \<Rightarrow> db \<Rightarrow> nat" where
  "churn_30d now mid d =
     length (filter (\<lambda>s. now - days 30 \<le> sub_updated_at s) (subs_with mid [SCancelled, SExpired] d))"

definition new_30d :: "time \<Rightarrow> uuid \<Rightarrow> db \<Rightarrow> nat" where
  "new_30d now mid d = length (filter (\<lambda>s. sub_merchant s = mid \<and> now - days 30 \<le> sub_created_at s) (db_subs d))"

definition get_subscription_metrics ::
    "(int \<Rightarrow> int \<Rightarrow> rat) \<Rightarrow> time \<Rightarrow> uuid \<Rightarrow> db \<Rightarrow> json kv \<Rightarrow> json \<times> json kv" where
  "get_subscription_metrics sql_div now mid d r =
     (let n = (\<lambda>sts. JInt (int (length (subs_with mid sts d)))); mrr = mrr_atomic sql_div mid d in
      with_cache now (cache_name mid ''subscriptions'')
        (JObj [(''active'', n [SActive]), (''paused'', n [SPaused]), (''past_due'', n [SPastDue]),
          (''cancelled'', n [SCancelled]), (''expired'', n [SExpired]),
          (''total'', n [SActive, SPaused, SPastDue, SCancelled, SExpired, STrialing]),
          (''mrr_atomic'', JInt mrr), (''mrr_xmr'', JStr (xmr_text mrr)),
          (''churn_30d'', JInt (int (churn_30d now mid d))), (''new_30d'', JInt (int (new_30d now mid d)))]) r)"

section \<open>The days add up to the totals\<close>

lemma add_row_sums:
  "sum_list (map dp_gross (add_row r ps)) = rr_gross r + sum_list (map dp_gross ps)"
  "sum_list (map dp_revenue (add_row r ps)) = row_revenue r + sum_list (map dp_revenue ps)"
  "sum_list (map dp_count (add_row r ps)) = rr_count r + sum_list (map dp_count ps)"
  by (induction ps) (simp_all add: bump_def)

lemma fold_add_row_sums:
  "sum_list (map dp_gross (fold add_row rs ps)) = sum_list (map rr_gross rs) + sum_list (map dp_gross ps)"
  "sum_list (map dp_revenue (fold add_row rs ps)) = sum_list (map row_revenue rs) + sum_list (map dp_revenue ps)"
  "sum_list (map dp_count (fold add_row rs ps)) = sum_list (map rr_count rs) + sum_list (map dp_count ps)"
  by (induction rs arbitrary: ps) (simp_all add: add_row_sums)

lemma add_row_dates: "dp_date ` set (add_row r ps) = insert (date_str (rr_day r)) (dp_date ` set ps)"
  by (induction ps) (auto simp: bump_def)

lemma add_row_distinct: "distinct (map dp_date ps) \<Longrightarrow> distinct (map dp_date (add_row r ps))"
proof (induction ps)
  case (Cons p ps)
  have "dp_date p \<notin> dp_date ` set (add_row r ps)" if "dp_date p \<noteq> date_str (rr_day r)"
    using that Cons.prems by (simp add: add_row_dates)
  then show ?case using Cons by (auto simp: bump_def)
qed (simp add: bump_def)

lemma fold_add_row_distinct: "distinct (map dp_date ps) \<Longrightarrow> distinct (map dp_date (fold add_row rs ps))"
  by (induction rs arbitrary: ps) (simp_all add: add_row_distinct)

lemma sum_list_sort_key: "sum_list (map (f :: 'a \<Rightarrow> 'b :: comm_monoid_add) (sort_key k xs)) = sum_list (map f xs)"
proof -
  have "mset (map f (sort_key k xs)) = mset (map f xs)" by simp
  then show ?thesis by (metis sum_mset_sum_list)
qed

text \<open>The totals are those of the invoices, each taken on its own.\<close>

lemma sum_map_filter:
  "(\<And>x. f x = None \<Longrightarrow> h x = (0 :: 'b :: comm_monoid_add)) \<Longrightarrow> (\<And>x y. f x = Some y \<Longrightarrow> g y = h x) \<Longrightarrow>
     sum_list (map g (List.map_filter f xs)) = sum_list (map h xs)"
  by (induction xs) (auto simp: map_filter_simps split: option.split)

definition received :: "time \<Rightarrow> db \<Rightarrow> invoice \<Rightarrow> int" where
  "received start d r = sum_list (map pay_amount_atomic (counted_payments start (inv_id r) d))"

lemma invoice_row_None: "invoice_row start d r = None \<longleftrightarrow> counted_payments start (inv_id r) d = []"
  by (simp add: invoice_row_def split: list.split)

lemma invoice_row_Some:
  "invoice_row start d r = Some y \<Longrightarrow> rr_gross y = received start d r \<and> rr_amount y = inv_amount_atomic r \<and>
     rr_count y = length (counted_payments start (inv_id r) d)"
  by (auto simp: invoice_row_def received_def split: list.splits)

lemma report_totals:
  fixes d mid start
  defines "mine \<equiv> filter (\<lambda>r. inv_merchant r = mid) (db_invoices d)"
  assumes pos: "\<forall>r \<in> set (db_invoices d). 0 \<le> inv_amount_atomic r"
  shows "rv_gross (revenue_report_for start mid d) = sum_list (map (received start d) mine)"
    and "rv_revenue (revenue_report_for start mid d) =
           sum_list (map (\<lambda>r. min (received start d r) (inv_amount_atomic r)) mine)"
    and "rv_payments (revenue_report_for start mid d) =
           sum_list (map (\<lambda>r. length (counted_payments start (inv_id r) d)) mine)"
proof -
  have none: "received start d r = 0" if "invoice_row start d r = None" for r
    using that by (simp add: invoice_row_None received_def)
  have "sum_list (map rr_gross (List.map_filter (invoice_row start d) mine)) = sum_list (map (received start d) mine)"
    by (rule sum_map_filter) (use none invoice_row_Some in auto)
  then show "rv_gross (revenue_report_for start mid d) = sum_list (map (received start d) mine)"
    by (simp add: revenue_report_for_def revenue_rows_def Let_def sum_list_sort_key mine_def)
  have "sum_list (map rr_count (List.map_filter (invoice_row start d) mine)) =
      sum_list (map (\<lambda>r. length (counted_payments start (inv_id r) d)) mine)"
    by (rule sum_map_filter) (use invoice_row_None invoice_row_Some in auto)
  then show "rv_payments (revenue_report_for start mid d) =
      sum_list (map (\<lambda>r. length (counted_payments start (inv_id r) d)) mine)"
    by (simp add: revenue_report_for_def revenue_rows_def Let_def sum_list_sort_key mine_def)
  have "sum_list (map row_revenue (List.map_filter (invoice_row start d) rs)) =
      sum_list (map (\<lambda>r. min (received start d r) (inv_amount_atomic r)) rs)"
    if "\<forall>r \<in> set rs. 0 \<le> inv_amount_atomic r" for rs
    using that
  proof (induction rs)
    case (Cons r rs)
    then show ?case using none[of r] invoice_row_Some[of start d r]
      by (cases "invoice_row start d r") (auto simp: map_filter_simps row_revenue_def)
  qed (simp add: map_filter_simps)
  moreover have "\<forall>r \<in> set mine. 0 \<le> inv_amount_atomic r" using pos by (simp add: mine_def)
  ultimately show "rv_revenue (revenue_report_for start mid d) =
      sum_list (map (\<lambda>r. min (received start d r) (inv_amount_atomic r)) mine)"
    by (simp add: revenue_report_for_def revenue_rows_def Let_def sum_list_sort_key flip: mine_def)
qed

lemma report_days:
  "sum_list (map dp_gross (rv_data (revenue_report_for start mid d))) = rv_gross (revenue_report_for start mid d)"
  "sum_list (map dp_revenue (rv_data (revenue_report_for start mid d))) = rv_revenue (revenue_report_for start mid d)"
  "sum_list (map dp_count (rv_data (revenue_report_for start mid d))) = rv_payments (revenue_report_for start mid d)"
  "distinct (map dp_date (rv_data (revenue_report_for start mid d)))"
  "sorted (map dp_date (rv_data (revenue_report_for start mid d)))"
  using fold_add_row_distinct[of "[]" "revenue_rows start mid d"]
  by (simp_all add: revenue_report_for_def Let_def sum_list_sort_key fold_add_row_sums distinct_map)

lemma status_counts_total: "sum_list (map snd (status_counts rs)) = length rs"
proof -
  have "sum_list (map snd (filter (\<lambda>(s, n). 0 < n) xs)) = sum_list (map snd xs)" for xs :: "(invoice_status \<times> nat) list"
    by (induction xs) auto
  moreover have "(\<Sum>s\<leftarrow>status_order. length (filter (\<lambda>r. inv_status r = s) rs)) = length rs"
  proof (induction rs)
    case (Cons r rs)
    then show ?case by (cases "inv_status r") (simp_all add: status_order_def)
  qed (simp add: status_order_def)
  ultimately show ?thesis by (simp add: status_counts_def comp_def)
qed

end
