(* ===== verification/Log_Redactor.thy ===== *)
theory Log_Redactor
  imports Sessions
begin

text \<open>
  \<open>core/log_redactor.py\<close>: what is cut from every log record. A pattern is a function that, from the
  character before a position (the lookbehind) and the text from there, gives the length of the
  match; \<open>re_sub\<close> is \<open>pattern.sub\<close>: the leftmost match is replaced and the search goes on after it.
\<close>

section \<open>Patterns\<close>

type_synonym matcher = "char option \<Rightarrow> string \<Rightarrow> nat option"

function re_sub :: "matcher \<Rightarrow> string \<Rightarrow> char option \<Rightarrow> string \<Rightarrow> string" where
  "re_sub m repl prev [] = []"
| "re_sub m repl prev (c # cs) = (case m prev (c # cs) of
      Some (Suc n) \<Rightarrow> repl @ re_sub m repl (Some ((c # cs) ! n)) (drop n cs)
    | _ \<Rightarrow> c # re_sub m repl (Some c) cs)"
  by pat_completeness auto
termination by (relation "measure (\<lambda>(m, repl, prev, s). length s)") auto

definition hexc :: "char \<Rightarrow> bool" where
  "hexc c \<longleftrightarrow> hexval c \<noteq> None"

definition prev_is :: "(char \<Rightarrow> bool) \<Rightarrow> char option \<Rightarrow> bool" where
  "prev_is P prev = (case prev of None \<Rightarrow> False | Some c \<Rightarrow> P c)"

definition next_is :: "(char \<Rightarrow> bool) \<Rightarrow> string \<Rightarrow> bool" where
  "next_is P s = (case s of [] \<Rightarrow> False | c # cs \<Rightarrow> P c)"

text \<open>Exactly \<open>n\<close> characters of a class.\<close>

definition exactly :: "nat \<Rightarrow> (char \<Rightarrow> bool) \<Rightarrow> string \<Rightarrow> bool" where
  "exactly n P s \<longleftrightarrow> length (take n s) = n \<and> list_all P (take n s)"

definition match_api_key :: matcher where
  "match_api_key prev s =
     (if (startswith s ''gb_live_'' \<or> startswith s ''gb_test_'') \<and> exactly 32 hexc (drop 8 s) then Some 40 else None)"

definition match_address :: "char \<Rightarrow> matcher" where
  "match_address d prev s = (if next_is (\<lambda>c. c = d) s \<and> exactly 94 base58 (drop 1 s) then Some 95 else None)"

definition match_hex64 :: matcher where
  "match_hex64 prev s =
     (if \<not> prev_is hexc prev \<and> exactly 64 hexc s \<and> \<not> next_is hexc (drop 64 s) then Some 64 else None)"

text \<open>\<open>[a-fA-F0-9]{32,}\<close> is greedy: it takes the whole run.\<close>

definition match_hex :: matcher where
  "match_hex prev s =
     (let run = takeWhile hexc s in if \<not> prev_is hexc prev \<and> 32 \<le> length run then Some (length run) else None)"

definition match_bearer :: matcher where
  "match_bearer prev s =
     (if \<not> startswith s ''Bearer'' then None
      else let spaces = takeWhile is_space (drop 6 s);
               word = takeWhile (\<lambda>c. \<not> is_space c) (drop (6 + length spaces) s)
           in if spaces = [] \<or> word = [] then None else Some (6 + length spaces + length word))"

definition b64c :: "char \<Rightarrow> bool" where
  "b64c c \<longleftrightarrow> b64val c \<noteq> None"

text \<open>A run of 40 or more, at most two equals signs, then neither.\<close>

definition match_b64 :: matcher where
  "match_b64 prev s =
     (let run = takeWhile b64c s; pad = takeWhile (\<lambda>c. c = CHR ''='') (drop (length run) s) in
      if \<not> prev_is b64c prev \<and> 40 \<le> length run \<and> length pad \<le> 2 \<and> \<not> next_is b64c (drop (length run + length pad) s)
      then Some (length run + length pad) else None)"

definition redaction_rules :: "(matcher \<times> string) list" where
  "redaction_rules =
     [(match_api_key, ''[REDACTED_APIKEY]''), (match_address (CHR ''4''), ''[REDACTED_ADDRESS]''),
      (match_address (CHR ''8''), ''[REDACTED_SUBADDRESS]''), (match_hex64, ''[REDACTED_HEX64]''),
      (match_hex, ''[REDACTED_HEX]''), (match_bearer, ''Bearer [REDACTED]''), (match_b64, ''[REDACTED_B64]'')]"

definition redact :: "string \<Rightarrow> string" where
  "redact message = fold (\<lambda>(m, repl) s. re_sub m repl None s) redaction_rules message"

text \<open>A log record: its message, its arguments (texts and others) and the text of its exception.\<close>

datatype log_arg = TextArg string | OtherArg

record log_record =
  lr_msg :: log_arg
  lr_args :: "log_arg list"
  lr_exc_text :: "string option"

fun redact_arg :: "log_arg \<Rightarrow> log_arg" where
  "redact_arg (TextArg s) = TextArg (redact s)"
| "redact_arg OtherArg = OtherArg"

definition redaction_filter :: "log_record \<Rightarrow> bool \<times> log_record" where
  "redaction_filter r = (True, r\<lparr>lr_msg := redact_arg (lr_msg r), lr_args := map redact_arg (lr_args r),
     lr_exc_text := map_option redact (lr_exc_text r)\<rparr>)"

section \<open>No long run of hexadecimal digits survives\<close>

text \<open>\<open>calm k s\<close>: after \<open>k\<close> hexadecimal digits, reading \<open>s\<close> never sees 32 of them in a row.\<close>

fun calm :: "nat \<Rightarrow> string \<Rightarrow> bool" where
  "calm k [] = True"
| "calm k (c # cs) = (if hexc c then Suc k < 32 \<and> calm (Suc k) cs else calm 0 cs)"

lemma calm_mono: "calm k s \<Longrightarrow> j \<le> k \<Longrightarrow> calm j s"
  by (induction s arbitrary: j k) auto

lemma calm_append: "calm k (a @ b) \<Longrightarrow> calm 0 b"
  by (induction a arbitrary: k) (auto dest: calm_mono split: if_splits)

lemma calm_drop: "calm k s \<Longrightarrow> calm 0 (drop n s)"
  using calm_append[of k "take n s" "drop n s"] by simp

lemma calm_run: "calm k (u @ v) \<Longrightarrow> list_all hexc v \<Longrightarrow> length v < 32"
proof -
  have run: "calm j v \<Longrightarrow> list_all hexc v \<Longrightarrow> j < 32 \<Longrightarrow> j + length v < 32" for j
    by (induction v arbitrary: j) fastforce+
  assume "calm k (u @ v)" and "list_all hexc v"
  then show "length v < 32" using run[of 0] calm_append by auto
qed

lemma calm_prefix: "calm k (a @ b) \<Longrightarrow> calm k a"
  by (induction a arbitrary: k) (auto split: if_splits)

text \<open>A replacement in brackets stops a run.\<close>

lemma calm_brackets: "calm k (''[REDACTED_HEX]'' @ t) = calm 0 t" "calm k (''[REDACTED_B64]'' @ t) = calm 0 t"
  by (simp_all add: hexc_def hexval_def)

lemma calm_hex:
  "(if prev_is hexc prev then k + length (takeWhile hexc s) < 32 else k = 0) \<Longrightarrow>
     calm k (re_sub match_hex ''[REDACTED_HEX]'' prev s)"
proof (induction match_hex "''[REDACTED_HEX]''" prev s arbitrary: k rule: re_sub.induct)
  case (2 prev c cs)
  show ?case
  proof (cases "match_hex prev (c # cs)")
    case None
    have "calm (if hexc c then Suc k else 0) (re_sub match_hex ''[REDACTED_HEX]'' (Some c) cs)"
      using 2(1)[OF None, of "if hexc c then Suc k else 0"] 2(4) None
      by (auto simp: match_hex_def prev_is_def Let_def split: if_splits option.splits)
    moreover have "hexc c \<Longrightarrow> Suc k < 32"
      using 2(4) None by (auto simp: match_hex_def Let_def split: if_splits)
    ultimately show ?thesis using None by auto
  next
    case (Some n)
    then obtain j where j: "n = Suc j" and run: "n = length (takeWhile hexc (c # cs))"
      by (cases n) (auto simp: match_hex_def Let_def split: if_splits)
    let ?p = "Some ((c # cs) ! j)"
    have rest: "drop j cs = dropWhile hexc (c # cs)"
      using run j by (metis drop_Suc_Cons dropWhile_eq_drop)
    have "takeWhile hexc (drop j cs) = []" unfolding rest takeWhile_eq_Nil_iff using hd_dropWhile by blast
    then have "calm 0 (re_sub match_hex ''[REDACTED_HEX]'' ?p (drop j cs))"
      using 2(3)[OF Some j, of 0] by simp
    then show ?thesis using Some j calm_brackets(1) by simp
  qed
qed simp

lemma calm_b64: "calm k s \<Longrightarrow> calm k (re_sub match_b64 ''[REDACTED_B64]'' prev s)"
proof (induction match_b64 "''[REDACTED_B64]''" prev s arbitrary: k rule: re_sub.induct)
  case (2 prev c cs)
  show ?case
  proof (cases "\<exists>n. match_b64 prev (c # cs) = Some (Suc n)")
    case True
    then obtain n where n: "match_b64 prev (c # cs) = Some (Suc n)" by blast
    have "calm 0 (drop n cs)" using calm_drop[OF 2(4), of "Suc n"] by simp
    from 2(3)[OF n refl this] show ?thesis using n calm_brackets(2) by simp
  next
    case False
    then show ?thesis using 2(1,2,4) by (auto split: option.split nat.split)
  qed
qed simp

lemma calm_bearer: "calm k s \<Longrightarrow> calm k (re_sub match_bearer ''Bearer [REDACTED]'' prev s)"
proof (induction match_bearer "''Bearer [REDACTED]''" prev s arbitrary: k rule: re_sub.induct)
  case (2 prev c cs)
  show ?case
  proof (cases "\<exists>n. match_bearer prev (c # cs) = Some (Suc n)")
    case True
    then obtain n where n: "match_bearer prev (c # cs) = Some (Suc n)" by blast
    have "calm 0 (drop n cs)" using calm_drop[OF 2(4), of "Suc n"] by simp
    from 2(3)[OF n refl this] have t: "calm 0 (re_sub match_bearer ''Bearer [REDACTED]'' (Some ((c # cs) ! n)) (drop n cs))" .
    have "startswith (c # cs) ''Bearer''" using n by (simp add: match_bearer_def split: if_splits)
    then obtain r where "c # cs = ''Bearer'' @ r" unfolding startswith_def by (metis append_take_drop_id)
    then have "k + 3 < 32" using 2(4) by (simp add: hexc_def hexval_def)
    then show ?thesis using n t by (simp add: hexc_def hexval_def)
  next
    case False
    then show ?thesis using 2(1,2,4) by (auto split: option.split nat.split)
  qed
qed simp

lemma redact_calm: "calm 0 (redact message)"
  unfolding redact_def redaction_rules_def
  by (simp add: calm_b64 calm_bearer calm_hex prev_is_def)

end
