(* ===== verification/Public_Invoice.thy ===== *)
theory Public_Invoice
  imports Webhook_Payloads
begin

text \<open>
  \<open>api/routes/public_invoice.py\<close>: what the payment page shows to anyone who knows the id of an invoice,
  the cache of its QR code, and the event stream. The QR library and the text of a \<open>Decimal\<close> are
  arguments.
\<close>

section \<open>The data of the page\<close>

definition confirmations_required :: int where "confirmations_required = 10"

text \<open>\<open>_validate_uuid\<close>: an id that does not parse is an invoice that does not exist.\<close>

definition validate_uuid :: "string \<Rightarrow> exc + uuid" where
  "validate_uuid invoice_id = (case uuid_parse invoice_id of None \<Rightarrow> Inl (HTTPException 404) | Some i \<Rightarrow> Inr i)"

definition build_monero_uri :: "string \<Rightarrow> string \<Rightarrow> string" where
  "build_monero_uri address amount_xmr = ''monero:'' @ address @ ''?tx_amount='' @ amount_xmr"

definition qr_cache_ttl_max :: int where "qr_cache_ttl_max = 3600"

definition qr_cache_ttl :: "time \<Rightarrow> time \<Rightarrow> int" where
  "qr_cache_ttl now expires_at =
     (let r = expires_at - now; remaining = (if 0 \<le> r then r div 1000000 else - ((- r) div 1000000))
      in max 1 (min qr_cache_ttl_max remaining))"

text \<open>The cache: per invoice the address it was drawn for, the drawing, and when Redis drops it. The
  library \<open>qr\<close> returns the empty text when it fails.\<close>

type_synonym qr_cache = "uuid \<Rightarrow> ((string \<times> string) \<times> time) option"

definition get_cached_qr_svg ::
    "(string \<Rightarrow> string) \<Rightarrow> time \<Rightarrow> invoice \<Rightarrow> string \<Rightarrow> string \<Rightarrow> qr_cache \<Rightarrow> string \<times> qr_cache" where
  "get_cached_qr_svg qr now r monero_uri address c =
     (let hit = (case c (inv_id r) of
            None \<Rightarrow> None
          | Some ((a, svg), expires) \<Rightarrow> if expires \<le> now \<or> a \<noteq> address \<or> svg = [] then None else Some svg)
      in case hit of
           Some svg \<Rightarrow> (svg, c)
         | None \<Rightarrow>
             let svg = qr monero_uri
             in (svg, if svg = [] then c
                      else c(inv_id r \<mapsto> ((address, svg), now + secs (qr_cache_ttl now (inv_expires_at r))))))"

definition invoice_address_text :: "uuid \<Rightarrow> db \<Rightarrow> string" where
  "invoice_address_text i d = (case find (\<lambda>a. adr_invoice a = i) (db_addresses d) of None \<Rightarrow> [] | Some a \<Rightarrow> adr_address a)"

definition live_payments :: "uuid \<Rightarrow> db \<Rightarrow> payment list" where
  "live_payments i d = filter (\<lambda>p. pay_invoice p = i \<and> (pay_status p = PDetected \<or> pay_status p = PConfirmed)) (db_payments d)"

definition paid_total :: "uuid \<Rightarrow> db \<Rightarrow> int" where
  "paid_total i d = sum_list (map pay_amount_atomic (live_payments i d))"

text \<open>\<open>coalesce(max(confirmations), 0)\<close>.\<close>

definition max_confirmations :: "uuid \<Rightarrow> db \<Rightarrow> int" where
  "max_confirmations i d = (case map pay_confirmations (live_payments i d) of [] \<Rightarrow> 0 | c # cs \<Rightarrow> fold max cs c)"

definition shows_description :: "invoice \<Rightarrow> bool" where
  "shows_description r = (case inv_metadata r of None \<Rightarrow> False | Some j \<Rightarrow> jget ''show_description'' j = Some (JBool True))"

record public_data =
  pd_id :: uuid
  pd_amount_xmr :: string
  pd_amount_atomic :: int
  pd_address :: string
  pd_status :: invoice_status
  pd_expires_at :: time
  pd_created_at :: time
  pd_confirmations :: int
  pd_paid_amount_atomic :: int
  pd_monero_uri :: "string option"
  pd_qr_svg :: string
  pd_description :: "string option option"  \<comment> \<open>the field is there only when the merchant shows it\<close>

definition fetch_invoice_public_data ::
    "(rat \<Rightarrow> string) \<Rightarrow> (string \<Rightarrow> string) \<Rightarrow> time \<Rightarrow> uuid \<Rightarrow> db \<Rightarrow> qr_cache \<Rightarrow> public_data option \<times> qr_cache" where
  "fetch_invoice_public_data dec_str qr now i d c =
     (case find_invoice i d of
        None \<Rightarrow> (None, c)
      | Some r \<Rightarrow>
          let address = invoice_address_text i d;
              payable = (address \<noteq> [] \<and> inv_status r = IPending);
              uri = build_monero_uri address (dec_str (inv_amount_xmr r))
          in case (if payable then get_cached_qr_svg qr now r uri address c else ([], c)) of (svg, c') \<Rightarrow>
            (Some \<lparr>pd_id = inv_id r, pd_amount_xmr = dec_str (inv_amount_xmr r), pd_amount_atomic = inv_amount_atomic r,
               pd_address = address, pd_status = inv_status r, pd_expires_at = inv_expires_at r,
               pd_created_at = inv_created_at r, pd_confirmations = max_confirmations i d,
               pd_paid_amount_atomic = paid_total i d, pd_monero_uri = (if payable then Some uri else None),
               pd_qr_svg = svg,
               pd_description = (if shows_description r then Some (inv_description r) else None)\<rparr>, c'))"

text \<open>The JSON that is sent; the event stream leaves out the drawing.\<close>

definition public_json :: "bool \<Rightarrow> public_data \<Rightarrow> json" where
  "public_json with_qr p = JObj
     ([(''invoice_id'', juuid (pd_id p)), (''id'', juuid (pd_id p)), (''amount_xmr'', JStr (pd_amount_xmr p)),
       (''amount_atomic'', JInt (pd_amount_atomic p)), (''monero_address'', JStr (pd_address p)),
       (''address'', JStr (pd_address p)), (''status'', JStr (invoice_status_value (pd_status p))),
       (''expires_at'', JStr (isoformat (pd_expires_at p))), (''created_at'', JStr (isoformat (pd_created_at p))),
       (''confirmations'', JInt (pd_confirmations p)), (''confirmations_required'', JInt confirmations_required),
       (''paid_amount_atomic'', JInt (pd_paid_amount_atomic p)), (''monero_uri'', jopt JStr (pd_monero_uri p))] @
      (if with_qr then [(''qr_svg'', JStr (pd_qr_svg p))] else []) @
      (case pd_description p of None \<Rightarrow> [] | Some x \<Rightarrow> [(''description'', jopt JStr x)]))"

definition get_public_invoice ::
    "(rat \<Rightarrow> string) \<Rightarrow> (string \<Rightarrow> string) \<Rightarrow> time \<Rightarrow> string \<Rightarrow> db \<Rightarrow> qr_cache \<Rightarrow> (exc + json) \<times> qr_cache" where
  "get_public_invoice dec_str qr now invoice_id d c =
     (case validate_uuid invoice_id of
        Inl x \<Rightarrow> (Inl x, c)
      | Inr i \<Rightarrow> (case fetch_invoice_public_data dec_str qr now i d c of
            (None, c') \<Rightarrow> (Inl (HTTPException 404), c')
          | (Some p, c') \<Rightarrow> (Inr (public_json True p), c')))"

section \<open>The event stream\<close>

datatype sse_event = Update json | Close string

definition sse_poll_interval :: nat where "sse_poll_interval = 3"
definition sse_max_duration :: nat where "sse_max_duration = 1800"

definition sse_terminal :: "invoice_status \<Rightarrow> bool" where
  "sse_terminal s \<longleftrightarrow> s = IPaid \<or> s = IExpired \<or> s = ICancelled"

text \<open>
  \<open>event_generator\<close>: \<open>look n\<close> is what the poll after \<open>n\<close> seconds reads, \<open>seen\<close> what was last sent
  (status, confirmations, amount).
\<close>

function sse_loop ::
    "(nat \<Rightarrow> public_data option) \<Rightarrow> nat \<Rightarrow> (invoice_status \<times> int \<times> int) option \<Rightarrow> sse_event list" where
  "sse_loop look elapsed seen =
     (if sse_max_duration \<le> elapsed then [Close ''timeout'']
      else case look elapsed of
        None \<Rightarrow> [Close ''not_found'']
      | Some p \<Rightarrow>
          let now = (pd_status p, pd_confirmations p, pd_paid_amount_atomic p) in
          if seen = Some now then sse_loop look (elapsed + sse_poll_interval) seen
          else Update (public_json False p) #
            (if sse_terminal (pd_status p) then [Close (invoice_status_value (pd_status p))]
             else sse_loop look (elapsed + sse_poll_interval) (Some now)))"
  by pat_completeness auto
termination
  by (relation "measure (\<lambda>(look, elapsed, seen). sse_max_duration - elapsed)")
    (auto simp: sse_poll_interval_def)

declare sse_loop.simps [simp del]

definition invoice_sse :: "string \<Rightarrow> (uuid \<Rightarrow> nat \<Rightarrow> public_data option) \<Rightarrow> exc + sse_event list" where
  "invoice_sse invoice_id look =
     (case validate_uuid invoice_id of
        Inl x \<Rightarrow> Inl x
      | Inr i \<Rightarrow> (case look i 0 of
            None \<Rightarrow> Inl (HTTPException 404) | Some p \<Rightarrow> Inr (sse_loop (look i) 0 None)))"

section \<open>What the page does not show\<close>

text \<open>A database without what is private: who the merchant is, fiat amounts, metadata beyond the one
  flag, a description that is not shown, when an invoice was paid or changed, and every detail of
  a payment but its amount, status, confirmations and invoice.\<close>

definition hide_invoice :: "invoice \<Rightarrow> invoice" where
  "hide_invoice r = r\<lparr>inv_merchant := 0, inv_fiat_currency := None, inv_fiat_amount := None, inv_fiat_rate := None,
     inv_metadata := (if shows_description r then Some (JObj [(''show_description'', JBool True)]) else None),
     inv_description := (if shows_description r then inv_description r else None),
     inv_paid_at := None, inv_updated_at := 0\<rparr>"

definition hide_payment :: "payment \<Rightarrow> payment" where
  "hide_payment p = p\<lparr>pay_tx_hash := [], pay_amount_xmr := 0, pay_block_height := None, pay_detected_at := 0,
     pay_confirmed_at := None, pay_created_at := 0\<rparr>"

definition hide_address :: "invoice_address \<Rightarrow> invoice_address" where
  "hide_address a = a\<lparr>adr_id := 0, adr_index := 0, adr_account := 0, adr_created_at := 0\<rparr>"

definition hide_private :: "db \<Rightarrow> db" where
  "hide_private d = d\<lparr>db_merchants := [], db_invoices := map hide_invoice (db_invoices d),
     db_addresses := map hide_address (db_addresses d),
     db_payments := map hide_payment (db_payments d), db_customers := [], db_subs := [], db_sub_payments := [],
     db_events := [], db_api_keys := [], db_deliveries := [], db_dead_letters := [], db_licenses := [], db_audit := []\<rparr>"

lemma shows_hide [simp]: "shows_description (hide_invoice r) = shows_description r"
  by (simp add: hide_invoice_def shows_description_def)

lemma hide_invoice_fields [simp]:
  "inv_id (hide_invoice r) = inv_id r" "inv_amount_xmr (hide_invoice r) = inv_amount_xmr r"
  "inv_amount_atomic (hide_invoice r) = inv_amount_atomic r" "inv_status (hide_invoice r) = inv_status r"
  "inv_expires_at (hide_invoice r) = inv_expires_at r" "inv_created_at (hide_invoice r) = inv_created_at r"
  "inv_description (hide_invoice r) = (if shows_description r then inv_description r else None)"
  by (simp_all add: hide_invoice_def)

lemma find_hide: "find_invoice i (hide_private d) = map_option hide_invoice (find_invoice i d)"
  by (simp add: find_invoice_def hide_private_def get_row_map)

lemma find_hide_address:
  "find (\<lambda>a. adr_invoice a = i) (map hide_address as) = map_option hide_address (find (\<lambda>a. adr_invoice a = i) as)"
  by (induction as) (auto simp: hide_address_def)

lemma address_hide [simp]: "invoice_address_text i (hide_private d) = invoice_address_text i d"
  by (simp add: invoice_address_text_def hide_private_def find_hide_address hide_address_def split: option.split)

lemma live_hide: "live_payments i (hide_private d) = map hide_payment (live_payments i d)"
  by (simp add: live_payments_def hide_private_def filter_map comp_def hide_payment_def)

lemma totals_hide [simp]:
  "paid_total i (hide_private d) = paid_total i d" "max_confirmations i (hide_private d) = max_confirmations i d"
  by (simp_all add: paid_total_def max_confirmations_def live_hide comp_def hide_payment_def)

lemma qr_hide: "get_cached_qr_svg qr now (hide_invoice r) uri a c = get_cached_qr_svg qr now r uri a c"
  unfolding get_cached_qr_svg_def hide_invoice_fields ..

lemma fetch_hide:
  "fetch_invoice_public_data dec_str qr now i (hide_private d) c = fetch_invoice_public_data dec_str qr now i d c"
  by (simp add: fetch_invoice_public_data_def find_hide qr_hide Let_def split: option.split)

section \<open>The stream ends\<close>

text \<open>Every stream ends with exactly one close event, after at most 600 updates.\<close>

lemma sse_loop_ends:
  "\<exists>us reason. sse_loop look elapsed seen = map Update us @ [Close reason] \<and>
     3 * length us \<le> sse_max_duration - elapsed + 2"
proof (induction look elapsed seen rule: sse_loop.induct)
  case (1 look elapsed seen)
  show ?case
  proof (cases "sse_max_duration \<le> elapsed")
    case True
    then have "sse_loop look elapsed seen = map Update [] @ [Close ''timeout'']" by (simp add: sse_loop.simps)
    then show ?thesis by fastforce
  next
    case time: False
    show ?thesis
    proof (cases "look elapsed")
      case None
      then have "sse_loop look elapsed seen = map Update [] @ [Close ''not_found'']"
        using time by (simp add: sse_loop.simps)
      then show ?thesis by fastforce
    next
      case (Some p)
      let ?now = "(pd_status p, pd_confirmations p, pd_paid_amount_atomic p)"
      show ?thesis
      proof (cases "seen = Some ?now")
        case True
        from 1(1)[OF time Some refl True] obtain us reason where
          "sse_loop look (elapsed + sse_poll_interval) seen = map Update us @ [Close reason]"
          "3 * length us \<le> sse_max_duration - (elapsed + sse_poll_interval) + 2" by blast
        moreover have "sse_loop look elapsed seen = sse_loop look (elapsed + sse_poll_interval) seen"
          using time Some True by (simp add: sse_loop.simps[of look elapsed])
        ultimately show ?thesis by fastforce
      next
        case False
        show ?thesis
        proof (cases "sse_terminal (pd_status p)")
          case True
          then have "sse_loop look elapsed seen =
              map Update [public_json False p] @ [Close (invoice_status_value (pd_status p))]"
            using time Some False by (simp add: sse_loop.simps)
          moreover have "3 * length [public_json False p] \<le> sse_max_duration - elapsed + 2" using time by simp
          ultimately show ?thesis by blast
        next
          case go: False
          from 1(2)[OF time Some refl False go] obtain us reason where
            us: "sse_loop look (elapsed + sse_poll_interval) (Some ?now) = map Update us @ [Close reason]"
            "3 * length us \<le> sse_max_duration - (elapsed + sse_poll_interval) + 2" by blast
          then have "sse_loop look elapsed seen = map Update (public_json False p # us) @ [Close reason]"
            using time Some False go by (simp add: sse_loop.simps[of look elapsed])
          moreover have "3 * length (public_json False p # us) \<le> sse_max_duration - elapsed + 2"
          proof (cases "elapsed + sse_poll_interval \<le> sse_max_duration")
            case True
            with us(2) show ?thesis by (simp add: sse_poll_interval_def)
          next
            case False
            then have "us = []" using us(1) by (simp add: sse_loop.simps)
            then show ?thesis using time by simp
          qed
          ultimately show ?thesis by blast
        qed
      qed
    qed
  qed
qed

end
