(* ===== verification/Command_Line.thy ===== *)
theory Command_Line
  imports Encryption Values
begin

text \<open>
  The command line client \<open>src/cli/ghostbill-cli.py\<close>. A command sends requests, prints and ends: by
  returning, by \<open>sys.exit\<close> or by an exception nobody catches. What it sent and what it handed to
  the console are its trace. The server, \<open>str\<close> and \<open>json.dumps\<close> of a document, \<open>json.loads\<close>, the date
  parser and the texts of exceptions are fields of \<open>terminal\<close>; parsing the arguments and asking for
  confirmation is click's, drawing tables is rich's. Column styles and widths are left out.
\<close>

section \<open>Requests, replies and the console\<close>

record request =
  rq_method :: string
  rq_url :: string
  rq_path :: string
  rq_params :: "(string \<times> json) list"
  rq_body :: "json option"
  rq_auth :: "string option"
  rq_tor :: bool

record response =
  rs_status :: nat
  rs_text :: string
  rs_json :: "json option"

datatype failure = Py exc | ConnectError | TransportError | JSONDecodeError

datatype reply = Answer response | Broken failure

text \<open>What a command hands to \<open>console.print\<close>: a line with its markup, a table with its title, columns
  and rows, a panel with its title and text.\<close>

datatype console_call =
    Line string
  | Table string "string list" "json list list"
  | Panel string string

datatype stop = Exit nat | Raised failure

record trace =
  tr_sent :: "request list"
  tr_printed :: "console_call list"

type_synonym 'a cmd = "trace \<Rightarrow> (stop + 'a) \<times> trace"

record terminal =
  tm_server :: "request \<Rightarrow> reply"
  tm_str :: "json \<Rightarrow> string"
  tm_dumps :: "json \<Rightarrow> string"
  tm_loads :: "string \<Rightarrow> json option"
  tm_time :: "string \<Rightarrow> string option"
  tm_error :: "failure \<Rightarrow> string"
  tm_comma :: "rat \<Rightarrow> string"

record cli_context =
  cx_url :: string
  cx_key :: "string option"
  cx_tor :: bool

definition give :: "'a \<Rightarrow> 'a cmd" where
  "give x t = (Inr x, t)"

definition and_then :: "'a cmd \<Rightarrow> ('a \<Rightarrow> 'b cmd) \<Rightarrow> 'b cmd" where
  "and_then f g t = (case f t of (Inl s, t') \<Rightarrow> (Inl s, t') | (Inr x, t') \<Rightarrow> g x t')"

definition say :: "console_call \<Rightarrow> unit cmd" where
  "say out t = (Inr (), t\<lparr>tr_printed := tr_printed t @ [out]\<rparr>)"

definition sys_exit :: "nat \<Rightarrow> 'a cmd" where
  "sys_exit n t = (Inl (Exit n), t)"

definition python :: "exc + 'a \<Rightarrow> 'a cmd" where
  "python r t = (case r of Inl x \<Rightarrow> (Inl (Raised (Py x)), t) | Inr x \<Rightarrow> (Inr x, t))"

fun say_all :: "console_call list \<Rightarrow> unit cmd" where
  "say_all [] = give ()"
| "say_all (out # outs) = and_then (say out) (\<lambda>_. say_all outs)"

text \<open>\<open>try: ... except Exception\<close>; \<open>SystemExit\<close> is not an \<open>Exception\<close>.\<close>

definition catching :: "'a cmd \<Rightarrow> (failure \<Rightarrow> 'a cmd) \<Rightarrow> 'a cmd" where
  "catching f handler t = (case f t of (Inl (Raised x), t') \<Rightarrow> handler x t' | r \<Rightarrow> r)"

section \<open>Python values\<close>

definition on_value :: "exc + 'a \<Rightarrow> ('a \<Rightarrow> exc + 'b) \<Rightarrow> exc + 'b" where
  "on_value r f = (case r of Inl x \<Rightarrow> Inl x | Inr x \<Rightarrow> f x)"

fun collect :: "(exc + 'a) list \<Rightarrow> exc + 'a list" where
  "collect [] = Inr []"
| "collect (r # rs) = on_value r (\<lambda>x. on_value (collect rs) (\<lambda>xs. Inr (x # xs)))"

text \<open>\<open>j[key]\<close>, \<open>j.get(key, default)\<close>, \<open>if j.get(key)\<close> and \<open>x or y\<close>.\<close>

fun item :: "json \<Rightarrow> string \<Rightarrow> exc + json" where
  "item (JObj kvs) k = (case map_of kvs k of None \<Rightarrow> Inl KeyError | Some v \<Rightarrow> Inr v)"
| "item _ k = Inl TypeError"

fun get_or :: "json \<Rightarrow> string \<Rightarrow> json \<Rightarrow> exc + json" where
  "get_or (JObj kvs) k dflt = (case map_of kvs k of None \<Rightarrow> Inr dflt | Some v \<Rightarrow> Inr v)"
| "get_or _ k dflt = Inl AttributeError"

definition has_entry :: "json \<Rightarrow> string \<Rightarrow> bool" where
  "has_entry j k = (case jget k j of None \<Rightarrow> False | Some v \<Rightarrow> truthy v)"

definition or_else :: "json \<Rightarrow> json \<Rightarrow> json" where
  "or_else x y = (if truthy x then x else y)"

definition em_dash :: string where "em_dash = [CHR 0xE2, CHR 0x80, CHR 0x94]"
definition check_mark :: string where "check_mark = [CHR 0xE2, CHR 0x9C, CHR 0x93]"
definition cross_mark :: string where "cross_mark = [CHR 0xE2, CHR 0x9C, CHR 0x97]"
definition warning_sign :: string where "warning_sign = [CHR 0xE2, CHR 0x9A, CHR 0xA0]"
definition newline :: string where "newline = [CHR 0x0A]"

fun py_str :: "terminal \<Rightarrow> json \<Rightarrow> string" where
  "py_str T JNull = ''None''"
| "py_str T (JBool b) = (if b then ''True'' else ''False'')"
| "py_str T (JInt n) = int_str n"
| "py_str T (JStr s) = s"
| "py_str T j = tm_str T j"

text \<open>The characters of a text, each with its continuation bytes.\<close>

function chars :: "string \<Rightarrow> string list" where
  "chars [] = []"
| "chars (c # cs) = (c # takeWhile cont cs) # chars (dropWhile cont cs)"
  by pat_completeness auto
termination by (relation "measure length") (auto simp: le_imp_less_Suc length_dropWhile_le)

text \<open>\<open>j[:n]\<close>. A slice of a dict is the lookup of a key it does not have.\<close>

fun slice :: "terminal \<Rightarrow> nat \<Rightarrow> json \<Rightarrow> exc + json" where
  "slice T n (JStr s) = Inr (JStr (concat (take n (chars s))))"
| "slice T n (JDec x) = Inr (JStr (concat (take n (chars (tm_str T (JDec x))))))"
| "slice T n (JList xs) = Inr (JList (take n xs))"
| "slice T n (JObj kvs) = Inl KeyError"
| "slice T n _ = Inl TypeError"

text \<open>\<open>j + "suffix"\<close>.\<close>

fun plus_text :: "terminal \<Rightarrow> json \<Rightarrow> string \<Rightarrow> exc + json" where
  "plus_text T (JStr s) suffix = Inr (JStr (s @ suffix))"
| "plus_text T (JDec x) suffix = Inr (JStr (tm_str T (JDec x) @ suffix))"
| "plus_text T _ suffix = Inl TypeError"

text \<open>What \<open>for x in j\<close> runs over.\<close>

fun py_items :: "terminal \<Rightarrow> json \<Rightarrow> exc + json list" where
  "py_items T (JList xs) = Inr xs"
| "py_items T (JObj kvs) = Inr (map (JStr \<circ> fst) kvs)"
| "py_items T (JStr s) = Inr (map JStr (chars s))"
| "py_items T (JDec x) = Inr (map JStr (chars (tm_str T (JDec x))))"
| "py_items T _ = Inl TypeError"

text \<open>\<open>f"{j:,}"\<close>.\<close>

fun thousands :: "nat \<Rightarrow> string" where
  "thousands n = (if n < 1000 then nat_str n else thousands (n div 1000) @ '','' @ decn 3 (n mod 1000))"

declare thousands.simps [simp del]

fun comma :: "terminal \<Rightarrow> json \<Rightarrow> exc + json" where
  "comma T (JInt n) = Inr (JStr ((if n < 0 then ''-'' else []) @ thousands (nat \<bar>n\<bar>)))"
| "comma T (JBool b) = Inr (JStr (if b then ''1'' else ''0''))"
| "comma T (JFloat x) = Inr (JStr (tm_comma T x))"
| "comma T (JStr s) = Inl ValueError"
| "comma T (JDec x) = Inl ValueError"
| "comma T _ = Inl TypeError"

section \<open>Helpers\<close>

definition default_url :: string where "default_url = ''http://127.0.0.1:8013''"

definition get_headers :: "cli_context \<Rightarrow> string cmd" where
  "get_headers c = (case cx_key c of
      Some (ch # key) \<Rightarrow> give (ch # key)
    | _ \<Rightarrow> and_then (say (Line ''[red]Error:[/red] No API key set.''))
           (\<lambda>_. and_then (say (Line ''Set via: export GHOSTBILL_API_KEY=gb_live_...''))
           (\<lambda>_. and_then (say (Line ''Or use: --key gb_live_...'')) (\<lambda>_. sys_exit 1))))"

text \<open>\<open>iso_str.replace("Z", "+00:00")\<close>; whatever the parser raises, the value itself is shown.\<close>

definition replace_z :: "string \<Rightarrow> string" where
  "replace_z s = concat (map (\<lambda>c. if c = CHR ''Z'' then ''+00:00'' else [c]) s)"

definition shown_time :: "terminal \<Rightarrow> string \<Rightarrow> json" where
  "shown_time T s = (case tm_time T (replace_z s) of None \<Rightarrow> JStr s | Some shown \<Rightarrow> JStr shown)"

definition format_time :: "terminal \<Rightarrow> json \<Rightarrow> json" where
  "format_time T j = (if \<not> truthy j then JStr em_dash else case j of
      JStr s \<Rightarrow> shown_time T s | JDec x \<Rightarrow> shown_time T (tm_str T (JDec x)) | _ \<Rightarrow> j)"

definition status_colors :: "(string \<times> string) list" where
  "status_colors = [(''pending'', ''yellow''), (''paid'', ''green''), (''expired'', ''red''), (''partially_paid'', ''cyan''),
     (''overpaid'', ''magenta''), (''late_paid'', ''blue''), (''cancelled'', ''dim''), (''detected'', ''yellow''),
     (''confirmed'', ''green''), (''orphaned'', ''red''), (''delivered'', ''green''), (''failed'', ''red'')]"

definition paint :: "string \<Rightarrow> string \<Rightarrow> string" where
  "paint color s = ''['' @ color @ '']'' @ s @ ''[/'' @ color @ '']''"

text \<open>A list or a dict cannot be looked up in \<open>colors\<close>.\<close>

definition status_color :: "terminal \<Rightarrow> json \<Rightarrow> exc + json" where
  "status_color T j = (case j of
      JList xs \<Rightarrow> Inl TypeError
    | JObj kvs \<Rightarrow> Inl TypeError
    | _ \<Rightarrow> Inr (JStr (paint (case map_of status_colors (py_str T j) of None \<Rightarrow> ''white'' | Some color \<Rightarrow> color)
             (py_str T j))))"

definition error_detail :: "terminal \<Rightarrow> response \<Rightarrow> string" where
  "error_detail T p = (case rs_json p of
      Some (JObj kvs) \<Rightarrow> (case map_of kvs ''detail'' of
          Some d \<Rightarrow> py_str T d | None \<Rightarrow> tm_dumps T (JObj kvs))
    | _ \<Rightarrow> rs_text p)"

definition handle_error :: "terminal \<Rightarrow> response \<Rightarrow> 'a cmd" where
  "handle_error T p =
     and_then (say (Line (''[red]Error '' @ nat_str (rs_status p) @ '':[/red] '' @ error_detail T p)))
       (\<lambda>_. sys_exit 1)"

text \<open>One request: the client of \<open>get_client\<close> (base URL, Tor) and the call.\<close>

definition the_request :: "cli_context \<Rightarrow> string \<Rightarrow> string \<Rightarrow> (string \<times> json) list \<Rightarrow> json option \<Rightarrow> string option \<Rightarrow> request" where
  "the_request c verb path params body auth =
     \<lparr>rq_method = verb, rq_url = cx_url c, rq_path = path, rq_params = params, rq_body = body,
      rq_auth = auth, rq_tor = cx_tor c\<rparr>"

definition send :: "terminal \<Rightarrow> request \<Rightarrow> response cmd" where
  "send T r t = (let t' = t\<lparr>tr_sent := tr_sent t @ [r]\<rparr> in
     case tm_server T r of Answer p \<Rightarrow> (Inr p, t') | Broken x \<Rightarrow> (Inl (Raised x), t'))"

definition resp_json :: "response \<Rightarrow> json cmd" where
  "resp_json p t = (case rs_json p of None \<Rightarrow> (Inl (Raised JSONDecodeError), t) | Some j \<Rightarrow> (Inr j, t))"

text \<open>\<open>if resp.status_code not in ok: handle_error(resp)\<close>.\<close>

definition expecting :: "terminal \<Rightarrow> nat list \<Rightarrow> request \<Rightarrow> (response \<Rightarrow> unit cmd) \<Rightarrow> unit cmd" where
  "expecting T ok r k =
     and_then (send T r) (\<lambda>p. if rs_status p \<notin> set ok then handle_error T p else k p)"

text \<open>Most commands show the JSON of one reply.\<close>

definition showing :: "terminal \<Rightarrow> nat list \<Rightarrow> request \<Rightarrow> (json \<Rightarrow> unit cmd) \<Rightarrow> unit cmd" where
  "showing T ok r k = expecting T ok r (\<lambda>p. and_then (resp_json p) k)"

end
