(* ===== verification/Client_Commands.thy ===== *)
theory Client_Commands
  imports Command_Line
begin

text \<open>
  The commands of \<open>src/cli/ghostbill-cli.py\<close>, one definition each, and the program around them. A row of
  a table is built from values that may raise; the first exception ends the command.
\<close>

section \<open>Rows\<close>

definition row :: "(exc + json) list \<Rightarrow> exc + json list" where
  "row cells = collect cells"

definition entry :: "string \<Rightarrow> exc + json \<Rightarrow> exc + json list" where
  "entry label cell = row [Inr (JStr label), cell]"

definition fields_table :: "string \<Rightarrow> (exc + json list) list \<Rightarrow> exc + console_call" where
  "fields_table title rows = on_value (collect rows) (\<lambda>rs. Inr (Table title [''Field'', ''Value''] rs))"

definition rows_table :: "string \<Rightarrow> string list \<Rightarrow> (exc + json list) list \<Rightarrow> exc + console_call" where
  "rows_table title columns rows = on_value (collect rows) (\<lambda>rs. Inr (Table title columns rs))"

definition shortened :: "terminal \<Rightarrow> nat \<Rightarrow> json \<Rightarrow> string \<Rightarrow> exc + json" where
  "shortened T n j k = on_value (item j k) (\<lambda>v. on_value (slice T n v) (\<lambda>s. plus_text T s ''...''))"

definition status_cell :: "terminal \<Rightarrow> json \<Rightarrow> exc + json" where
  "status_cell T j = on_value (item j ''status'') (status_color T)"

definition time_cell :: "terminal \<Rightarrow> json \<Rightarrow> string \<Rightarrow> exc + json" where
  "time_cell T j k = on_value (item j k) (\<lambda>v. Inr (format_time T v))"

definition opt_time_cell :: "terminal \<Rightarrow> json \<Rightarrow> string \<Rightarrow> exc + json" where
  "opt_time_cell T j k = on_value (get_or j k JNull) (\<lambda>v. Inr (format_time T v))"

definition str_cell :: "terminal \<Rightarrow> exc + json \<Rightarrow> exc + json" where
  "str_cell T r = on_value r (\<lambda>v. Inr (JStr (py_str T v)))"

definition or_dash :: "exc + json \<Rightarrow> exc + json" where
  "or_dash r = on_value r (\<lambda>v. Inr (or_else v (JStr em_dash)))"

text \<open>\<open>f"${doc['fiat_amount']} {doc.get('fiat_currency', default)}"\<close>.\<close>

definition fiat_cell :: "terminal \<Rightarrow> json \<Rightarrow> string \<Rightarrow> exc + json" where
  "fiat_cell T j dflt = on_value (item j ''fiat_amount'') (\<lambda>a.
     on_value (get_or j ''fiat_currency'' (JStr dflt)) (\<lambda>cur.
       Inr (JStr (''$'' @ py_str T a @ '' '' @ py_str T cur))))"

definition given :: "string \<Rightarrow> string option \<Rightarrow> (string \<times> json) list" where
  "given k v = (case v of None \<Rightarrow> [] | Some s \<Rightarrow> if s = [] then [] else [(k, JStr s)])"

definition page_params :: "int \<Rightarrow> int \<Rightarrow> (string \<times> json) list" where
  "page_params limit offset = [(''limit'', JInt limit), (''offset'', JInt offset)]"

definition api_get :: "cli_context \<Rightarrow> string \<Rightarrow> (string \<times> json) list \<Rightarrow> string \<Rightarrow> request" where
  "api_get c path params key = the_request c ''GET'' path params None (Some key)"

definition api_post :: "cli_context \<Rightarrow> string \<Rightarrow> json option \<Rightarrow> string \<Rightarrow> request" where
  "api_post c path body key = the_request c ''POST'' path [] body (Some key)"

section \<open>Registration and status\<close>

definition registered_panel :: "terminal \<Rightarrow> json \<Rightarrow> exc + console_call" where
  "registered_panel T data =
     on_value (on_value (item data ''merchant_id'') (\<lambda>v. plus_text T v newline)) (\<lambda>mid.
     on_value (on_value (item data ''name'') (\<lambda>v. plus_text T v newline)) (\<lambda>nm.
     on_value (on_value (item data ''environment'') (\<lambda>v. plus_text T v (newline @ newline))) (\<lambda>envt.
     on_value (on_value (item data ''api_keys'') (\<lambda>v. item v ''live'')) (\<lambda>live.
     on_value (on_value (item data ''api_keys'') (\<lambda>v. item v ''test'')) (\<lambda>test.
     on_value (item data ''webhook_secret'') (\<lambda>secret.
       Inr (Panel ([CHR 0xE2, CHR 0x9C, CHR 0x85] @ '' Merchant Registered'')
         (''Merchant ID: '' @ py_str T mid @ ''Name: '' @ py_str T nm @ ''Environment: '' @ py_str T envt @
          ''API Keys:'' @ newline @ ''  Live: '' @ py_str T live @ newline @ ''  Test: '' @ py_str T test @ newline @
          newline @ ''Webhook Secret:'' @ newline @ ''  '' @ py_str T secret @ newline @ newline @ warning_sign @
          ''  Store these securely! They will NOT be shown again.''))))))))"

definition register ::
    "terminal \<Rightarrow> cli_context \<Rightarrow> string \<Rightarrow> string \<Rightarrow> string \<Rightarrow> string option \<Rightarrow> string option \<Rightarrow> unit cmd" where
  "register T c address view_key nm email webhook_url =
     showing T [201] (the_request c ''POST'' ''/v1/merchants'' []
         (Some (JObj ([(''primary_address'', JStr address), (''view_key'', JStr view_key), (''name'', JStr nm)] @
            given ''email'' email @ given ''webhook_url'' webhook_url))) None)
       (\<lambda>data. and_then (python (registered_panel T data)) say)"

definition health_lines :: "terminal \<Rightarrow> response \<Rightarrow> unit cmd" where
  "health_lines T p = (if rs_status p = 200 then
       and_then (resp_json p) (\<lambda>data. and_then (python (item data ''status'')) (\<lambda>st.
       and_then (python (get_or data ''version'' (JStr ''?''))) (\<lambda>v.
         say (Line (''  Health:  [green]'' @ check_mark @ '' '' @ py_str T st @ ''[/green] (v'' @ py_str T v @ '')'')))))
     else say (Line (''  Health:  [red]'' @ cross_mark @ '' HTTP '' @ nat_str (rs_status p) @ ''[/red]'')))"

definition price_lines :: "terminal \<Rightarrow> response \<Rightarrow> unit cmd" where
  "price_lines T p = (if rs_status p = 200 then
       and_then (resp_json p) (\<lambda>data. and_then (python (get_or data ''xmr_usd'' JNull)) (\<lambda>x.
       and_then (if truthy x then give x else python (get_or data ''usd'' (JStr ''N/A''))) (\<lambda>usd.
         say (Line (''  Price:   [green]'' @ check_mark @ ''[/green] XMR/USD = '' @ py_str T usd)))))
     else say (Line (''  Price:   [yellow]'' @ warning_sign @ '' HTTP '' @ nat_str (rs_status p) @ ''[/yellow]'')))"

definition auth_lines :: "terminal \<Rightarrow> response \<Rightarrow> unit cmd" where
  "auth_lines T p = (if rs_status p = 200 then
       and_then (resp_json p) (\<lambda>me. and_then (python (item me ''name'')) (\<lambda>nm.
       and_then (python (on_value (item me ''id'') (slice T 8))) (\<lambda>i.
         say (Line (''  Auth:    [green]'' @ check_mark @ ''[/green] Merchant: '' @ py_str T nm @ '' ('' @ py_str T i @ ''...)'')))))
     else say (Line (''  Auth:    [red]'' @ cross_mark @ '' HTTP '' @ nat_str (rs_status p) @ ''[/red]'')))"

definition check_auth :: "terminal \<Rightarrow> cli_context \<Rightarrow> unit cmd" where
  "check_auth T c = (case cx_key c of
      Some (ch # key) \<Rightarrow> and_then (send T (api_get c ''/v1/merchants/me'' [] (ch # key))) (auth_lines T)
    | _ \<Rightarrow> say (Line (''  Auth:    [dim]'' @ em_dash @ '' No API key set[/dim]'')))"

definition status_command :: "terminal \<Rightarrow> cli_context \<Rightarrow> unit cmd" where
  "status_command T c = and_then (say (Line (newline @ ''[bold]Checking '' @ cx_url c @ ''...[/bold]''))) (\<lambda>_.
     catching
       (and_then (and_then (send T (the_request c ''GET'' ''/health'' [] None None)) (health_lines T)) (\<lambda>_.
        and_then (and_then (send T (the_request c ''GET'' ''/v1/price'' [] None None)) (price_lines T)) (\<lambda>_.
        and_then (check_auth T c) (\<lambda>_. say (Line [])))))
       (\<lambda>x. and_then (say (Line (if x = ConnectError
              then ''  [red]'' @ cross_mark @ '' Connection failed: '' @ tm_error T x @ ''[/red]''
              else ''  [red]'' @ cross_mark @ '' Error: '' @ tm_error T x @ ''[/red]''))) (\<lambda>_. sys_exit 1)))"

section \<open>Invoices\<close>

definition invoice_created_table :: "terminal \<Rightarrow> json \<Rightarrow> exc + console_call" where
  "invoice_created_table T doc = fields_table ''Invoice Created''
     ([entry ''ID'' (item doc ''id''), entry ''Status'' (status_cell T doc),
       entry ''Amount XMR'' (item doc ''amount_xmr''),
       entry ''Amount Atomic'' (on_value (item doc ''amount_atomic'') (comma T))] @
      (if has_entry doc ''fiat_amount'' then [entry ''Fiat'' (fiat_cell T doc ''USD'')] else []) @
      [entry ''Address'' (or_dash (item doc ''address'')),
       entry ''Address Index'' (str_cell T (get_or doc ''address_index'' (JStr em_dash))),
       entry ''Expires'' (time_cell T doc ''expires_at'')] @
      (if has_entry doc ''description'' then [entry ''Description'' (item doc ''description'')] else []))"

definition invoice_create ::
    "terminal \<Rightarrow> cli_context \<Rightarrow> string \<Rightarrow> string option \<Rightarrow> int \<Rightarrow> string option \<Rightarrow> unit cmd" where
  "invoice_create T c amount description expires_in metadata =
     and_then (get_headers c) (\<lambda>key.
     and_then (case metadata of
         None \<Rightarrow> give []
       | Some s \<Rightarrow> if s = [] then give []
           else case tm_loads T s of
             Some j \<Rightarrow> give [(''metadata'', j)]
           | None \<Rightarrow> and_then (say (Line ''[red]Error:[/red] Invalid JSON in --metadata'')) (\<lambda>_. sys_exit 1)) (\<lambda>extra.
     showing T [201] (api_post c ''/v1/invoices''
         (Some (JObj ([(''amount_xmr'', JStr amount), (''expires_in'', JInt expires_in)] @
            given ''description'' description @ extra))) key)
       (\<lambda>doc. and_then (python (invoice_created_table T doc)) say)))"

definition invoice_columns :: "string list" where
  "invoice_columns = [''ID'', ''Amount XMR'', ''Status'', ''Created'', ''Expires'', ''Description'']"

definition invoice_line :: "terminal \<Rightarrow> json \<Rightarrow> exc + json list" where
  "invoice_line T doc = row
     [shortened T 12 doc ''id'', item doc ''amount_xmr'', status_cell T doc, time_cell T doc ''created_at'',
      time_cell T doc ''expires_at'',
      on_value (or_dash (get_or doc ''description'' JNull)) (slice T 25)]"

text \<open>\<open>len(data['invoices'])\<close> and \<open>data["total"] > limit\<close>: texts and numbers do not compare.\<close>

fun int_of_json :: "json \<Rightarrow> exc + rat" where
  "int_of_json (JInt n) = Inr (of_int n)"
| "int_of_json (JBool b) = Inr (if b then 1 else 0)"
| "int_of_json (JFloat x) = Inr x"
| "int_of_json _ = Inl TypeError"

definition more_hint :: "terminal \<Rightarrow> json \<Rightarrow> int \<Rightarrow> exc + console_call list" where
  "more_hint T data limit =
     on_value (item data ''total'') (\<lambda>total. on_value (int_of_json total) (\<lambda>n.
       if of_int limit < n then
         on_value (on_value (item data ''invoices'') (py_items T)) (\<lambda>xs.
           Inr [Line (''[dim]Showing '' @ nat_str (length xs) @ ''/'' @ py_str T total @ ''. Use --offset for more.[/dim]'')])
       else Inr []))"

definition invoice_list :: "terminal \<Rightarrow> cli_context \<Rightarrow> string option \<Rightarrow> int \<Rightarrow> int \<Rightarrow> unit cmd" where
  "invoice_list T c inv_status limit offset = and_then (get_headers c) (\<lambda>key.
     showing T [200] (api_get c ''/v1/invoices'' (page_params limit offset @ given ''status'' inv_status) key)
       (\<lambda>data. and_then (python (item data ''total'')) (\<lambda>total.
        and_then (python (on_value (item data ''invoices'') (py_items T))) (\<lambda>docs.
        and_then (python (rows_table (''Invoices (total: '' @ py_str T total @ '')'') invoice_columns (map (invoice_line T) docs))) (\<lambda>tab.
        and_then (say tab) (\<lambda>_.
        and_then (python (more_hint T data limit)) say_all))))))"

definition invoice_details_table :: "terminal \<Rightarrow> json \<Rightarrow> exc + console_call" where
  "invoice_details_table T doc = fields_table ''Invoice Details''
     ([entry ''ID'' (item doc ''id''), entry ''Merchant'' (item doc ''merchant_id''), entry ''Status'' (status_cell T doc),
       entry ''Amount XMR'' (item doc ''amount_xmr''),
       entry ''Amount Atomic'' (on_value (item doc ''amount_atomic'') (comma T))] @
      (if has_entry doc ''fiat_amount''
       then [entry ''Fiat Amount'' (fiat_cell T doc []),
             entry ''Fiat Rate'' (str_cell T (get_or doc ''fiat_rate'' (JStr em_dash)))] else []) @
      [entry ''Address'' (or_dash (get_or doc ''address'' JNull)),
       entry ''Address Index'' (str_cell T (get_or doc ''address_index'' (JStr em_dash))),
       entry ''Description'' (or_dash (get_or doc ''description'' JNull)),
       entry ''Created'' (time_cell T doc ''created_at''), entry ''Expires'' (time_cell T doc ''expires_at''),
       entry ''Paid At'' (opt_time_cell T doc ''paid_at'')] @
      (if has_entry doc ''metadata''
       then [entry ''Metadata'' (on_value (item doc ''metadata'') (\<lambda>j. Inr (JStr (tm_dumps T j))))] else []))"

definition invoice_get :: "terminal \<Rightarrow> cli_context \<Rightarrow> string \<Rightarrow> unit cmd" where
  "invoice_get T c invoice_id = and_then (get_headers c) (\<lambda>key.
     showing T [200] (api_get c (''/v1/invoices/'' @ invoice_id) [] key)
       (\<lambda>doc. and_then (python (invoice_details_table T doc)) say))"

definition invoice_cancel :: "terminal \<Rightarrow> cli_context \<Rightarrow> string \<Rightarrow> unit cmd" where
  "invoice_cancel T c invoice_id = and_then (get_headers c) (\<lambda>key.
     showing T [200] (api_post c (''/v1/invoices/'' @ invoice_id @ ''/cancel'') None key)
       (\<lambda>doc. and_then (python (on_value (item doc ''id'') (slice T 12))) (\<lambda>i.
          say (Line (''[green]'' @ check_mark @ ''[/green] Invoice '' @ py_str T i @ ''... cancelled'')))))"

section \<open>Payments and webhooks\<close>

definition payment_columns :: "string list" where
  "payment_columns = [''ID'', ''Invoice'', ''TX Hash'', ''Amount XMR'', ''Status'', ''Confirmations'', ''Detected'']"

definition payment_row :: "terminal \<Rightarrow> json \<Rightarrow> exc + json list" where
  "payment_row T p = row
     [shortened T 12 p ''id'', shortened T 12 p ''invoice_id'', shortened T 16 p ''tx_hash'', item p ''amount_xmr'',
      status_cell T p, str_cell T (item p ''confirmations''), time_cell T p ''detected_at'']"

definition payments_list ::
    "terminal \<Rightarrow> cli_context \<Rightarrow> string option \<Rightarrow> string option \<Rightarrow> int \<Rightarrow> int \<Rightarrow> unit cmd" where
  "payments_list T c invoice_id pay_status limit offset = and_then (get_headers c) (\<lambda>key.
     showing T [200] (api_get c ''/v1/payments''
         (page_params limit offset @ given ''invoice_id'' invoice_id @ given ''status'' pay_status) key)
       (\<lambda>data. and_then (python (item data ''total'')) (\<lambda>total.
        and_then (python (on_value (item data ''payments'') (py_items T))) (\<lambda>ps.
        and_then (python (rows_table (''Payments (total: '' @ py_str T total @ '')'') payment_columns
          (map (payment_row T) ps))) say))))"

definition payment_details_table :: "terminal \<Rightarrow> json \<Rightarrow> exc + console_call" where
  "payment_details_table T p = fields_table ''Payment Details''
     [entry ''ID'' (item p ''id''), entry ''Invoice'' (item p ''invoice_id''), entry ''TX Hash'' (item p ''tx_hash''),
      entry ''Amount XMR'' (item p ''amount_xmr''), entry ''Amount Atomic'' (on_value (item p ''amount_atomic'') (comma T)),
      entry ''Status'' (status_cell T p), entry ''Confirmations'' (str_cell T (item p ''confirmations'')),
      entry ''Block Height'' (str_cell T (or_dash (get_or p ''block_height'' JNull))),
      entry ''Detected'' (time_cell T p ''detected_at''), entry ''Confirmed'' (opt_time_cell T p ''confirmed_at'')]"

definition payments_get :: "terminal \<Rightarrow> cli_context \<Rightarrow> string \<Rightarrow> unit cmd" where
  "payments_get T c payment_id = and_then (get_headers c) (\<lambda>key.
     showing T [200] (api_get c (''/v1/payments/'' @ payment_id) [] key)
       (\<lambda>p. and_then (python (payment_details_table T p)) say))"

definition webhook_columns :: "string list" where
  "webhook_columns = [''ID'', ''Event'', ''Status'', ''Attempts'', ''Response'', ''Created'']"

definition webhook_row :: "terminal \<Rightarrow> json \<Rightarrow> exc + json list" where
  "webhook_row T w = row
     [shortened T 12 w ''id'', item w ''event_type'', status_cell T w, str_cell T (item w ''attempts''),
      str_cell T (or_dash (get_or w ''response_code'' JNull)), time_cell T w ''created_at'']"

definition webhooks_list ::
    "terminal \<Rightarrow> cli_context \<Rightarrow> string option \<Rightarrow> string option \<Rightarrow> int \<Rightarrow> int \<Rightarrow> unit cmd" where
  "webhooks_list T c invoice_id wh_status limit offset = and_then (get_headers c) (\<lambda>key.
     showing T [200] (api_get c ''/v1/webhooks''
         (page_params limit offset @ given ''invoice_id'' invoice_id @ given ''status'' wh_status) key)
       (\<lambda>data. and_then (python (item data ''total'')) (\<lambda>total.
        and_then (python (on_value (item data ''webhooks'') (py_items T))) (\<lambda>ws.
        and_then (python (rows_table (''Webhook Deliveries (total: '' @ py_str T total @ '')'') webhook_columns
          (map (webhook_row T) ws))) say))))"

definition webhook_details_table :: "terminal \<Rightarrow> json \<Rightarrow> exc + console_call" where
  "webhook_details_table T w = fields_table ''Webhook Delivery''
     ([entry ''ID'' (item w ''id''), entry ''Event'' (item w ''event_type''), entry ''Status'' (status_cell T w),
       entry ''URL'' (get_or w ''url'' (JStr em_dash)),
       entry ''Attempts'' (on_value (item w ''attempts'') (\<lambda>a.
         on_value (get_or w ''max_attempts'' (JInt 7)) (\<lambda>m. Inr (JStr (py_str T a @ ''/'' @ py_str T m))))),
       entry ''Response Code'' (str_cell T (or_dash (get_or w ''response_code'' JNull))),
       entry ''Created'' (time_cell T w ''created_at'')] @
      (if has_entry w ''payload''
       then [entry ''Payload'' (on_value (item w ''payload'') (\<lambda>j. Inr (JStr (tm_dumps T j))))] else []))"

definition webhooks_get :: "terminal \<Rightarrow> cli_context \<Rightarrow> string \<Rightarrow> unit cmd" where
  "webhooks_get T c delivery_id = and_then (get_headers c) (\<lambda>key.
     showing T [200] (api_get c (''/v1/webhooks/'' @ delivery_id) [] key)
       (\<lambda>w. and_then (python (webhook_details_table T w)) say))"

definition shown_id :: "string \<Rightarrow> string" where
  "shown_id i = concat (take 12 (chars i)) @ ''...''"

definition webhooks_retry :: "terminal \<Rightarrow> cli_context \<Rightarrow> string \<Rightarrow> unit cmd" where
  "webhooks_retry T c delivery_id = and_then (get_headers c) (\<lambda>key.
     expecting T [200] (api_post c (''/v1/webhooks/'' @ delivery_id @ ''/retry'') None key)
       (\<lambda>_. say (Line (''[green]'' @ check_mark @ ''[/green] Webhook '' @ shown_id delivery_id @ '' queued for retry''))))"

section \<open>API keys and price\<close>

text \<open>The list is the document itself, or its entry \<open>keys\<close>, \<open>api_keys\<close> or \<open>data\<close>, in that order.\<close>

definition listed_keys :: "json \<Rightarrow> json" where
  "listed_keys data = (case data of
      JList xs \<Rightarrow> JList xs
    | JObj kvs \<Rightarrow> (case map_of kvs ''keys'' of Some v \<Rightarrow> v | None \<Rightarrow>
        (case map_of kvs ''api_keys'' of Some v \<Rightarrow> v | None \<Rightarrow>
        (case map_of kvs ''data'' of Some v \<Rightarrow> v | None \<Rightarrow> JList [])))
    | _ \<Rightarrow> JList [])"

definition key_columns :: "string list" where
  "key_columns = [''ID'', ''Prefix'', ''Environment'', ''Label'', ''Active'', ''Last Used'']"

definition active_cell :: "json \<Rightarrow> json" where
  "active_cell v = JStr (if truthy v then paint ''green'' check_mark else paint ''red'' cross_mark)"

definition key_row :: "terminal \<Rightarrow> json \<Rightarrow> exc + json list" where
  "key_row T k = on_value (get_or k ''is_active'' (JBool True)) (\<lambda>active. row
     [shortened T 12 k ''id'', get_or k ''key_prefix'' (JStr em_dash), get_or k ''environment'' (JStr em_dash),
      get_or k ''label'' (JStr em_dash), Inr (active_cell active), opt_time_cell T k ''last_used_at''])"

definition api_keys_list :: "terminal \<Rightarrow> cli_context \<Rightarrow> unit cmd" where
  "api_keys_list T c = and_then (get_headers c) (\<lambda>key.
     showing T [200] (api_get c ''/v1/api-keys'' [] key)
       (\<lambda>data. and_then (python (py_items T (listed_keys data))) (\<lambda>ks.
        and_then (python (rows_table (''API Keys ('' @ nat_str (length ks) @ '')'') key_columns (map (key_row T) ks))) say)))"

definition key_created_panel :: "terminal \<Rightarrow> string \<Rightarrow> string \<Rightarrow> json \<Rightarrow> exc + console_call" where
  "key_created_panel T label environment data =
     on_value (on_value (item data ''key'') (\<lambda>v. plus_text T v newline)) (\<lambda>k.
     on_value (on_value (item data ''id'') (\<lambda>v. plus_text T v newline)) (\<lambda>i.
     on_value (on_value (get_or data ''environment'' (JStr environment)) (\<lambda>v. plus_text T v newline)) (\<lambda>envt.
       Inr (Panel ([CHR 0xF0, CHR 0x9F, CHR 0x94, CHR 0x91] @ '' API Key Created'')
         (''Key: '' @ py_str T k @ ''ID: '' @ py_str T i @ ''Environment: '' @ py_str T envt @ ''Label: '' @ label @
          newline @ newline @ warning_sign @ ''  Store this key securely! It will NOT be shown again.'')))))"

definition api_keys_create :: "terminal \<Rightarrow> cli_context \<Rightarrow> string \<Rightarrow> string \<Rightarrow> unit cmd" where
  "api_keys_create T c label environment = and_then (get_headers c) (\<lambda>key.
     showing T [200, 201] (api_post c ''/v1/api-keys''
         (Some (JObj [(''label'', JStr label), (''environment'', JStr environment)])) key)
       (\<lambda>data. and_then (python (key_created_panel T label environment data)) say))"

definition api_keys_revoke :: "terminal \<Rightarrow> cli_context \<Rightarrow> string \<Rightarrow> unit cmd" where
  "api_keys_revoke T c key_id = and_then (get_headers c) (\<lambda>key.
     expecting T [200] (the_request c ''DELETE'' (''/v1/api-keys/'' @ key_id) [] None (Some key))
       (\<lambda>_. say (Line (''[green]'' @ check_mark @ ''[/green] API key '' @ shown_id key_id @ '' revoked''))))"

definition price_table :: "terminal \<Rightarrow> json \<Rightarrow> exc + console_call" where
  "price_table T data = (case data of
      JObj kvs \<Rightarrow> fields_table ''XMR Price'' (map (\<lambda>(k, v). entry k (Inr (JStr (py_str T v)))) kvs)
    | _ \<Rightarrow> Inl AttributeError)"

definition price_command :: "terminal \<Rightarrow> cli_context \<Rightarrow> unit cmd" where
  "price_command T c = showing T [200] (the_request c ''GET'' ''/v1/price'' [] None None)
     (\<lambda>data. and_then (python (price_table T data)) say)"

section \<open>The program\<close>

datatype command =
    Register string string string "string option" "string option"
  | Status
  | InvoiceCreate string "string option" int "string option"
  | InvoiceList "string option" int int
  | InvoiceGet string
  | InvoiceCancel string
  | PaymentsList "string option" "string option" int int
  | PaymentsGet string
  | WebhooksList "string option" "string option" int int
  | WebhooksGet string
  | WebhooksRetry string
  | KeysList
  | KeysCreate string string
  | KeysRevoke string
  | Price

fun run_command :: "terminal \<Rightarrow> cli_context \<Rightarrow> command \<Rightarrow> unit cmd" where
  "run_command T c (Register address view_key nm email url) = register T c address view_key nm email url"
| "run_command T c Status = status_command T c"
| "run_command T c (InvoiceCreate amount descr expires_in meta) = invoice_create T c amount descr expires_in meta"
| "run_command T c (InvoiceList st limit offset) = invoice_list T c st limit offset"
| "run_command T c (InvoiceGet i) = invoice_get T c i"
| "run_command T c (InvoiceCancel i) = invoice_cancel T c i"
| "run_command T c (PaymentsList iid st limit offset) = payments_list T c iid st limit offset"
| "run_command T c (PaymentsGet i) = payments_get T c i"
| "run_command T c (WebhooksList iid st limit offset) = webhooks_list T c iid st limit offset"
| "run_command T c (WebhooksGet i) = webhooks_get T c i"
| "run_command T c (WebhooksRetry i) = webhooks_retry T c i"
| "run_command T c KeysList = api_keys_list T c"
| "run_command T c (KeysCreate label environment) = api_keys_create T c label environment"
| "run_command T c (KeysRevoke i) = api_keys_revoke T c i"
| "run_command T c Price = price_command T c"

definition the_context :: "string option \<Rightarrow> string option \<Rightarrow> bool \<Rightarrow> cli_context" where
  "the_context url key tor =
     \<lparr>cx_url = (case url of None \<Rightarrow> default_url | Some u \<Rightarrow> if u = [] then default_url else u),
      cx_key = key, cx_tor = tor\<rparr>"

definition tor_banner :: console_call where
  "tor_banner = Line (''[dim]'' @ [CHR 0xF0, CHR 0x9F, CHR 0xA7, CHR 0x85] @ '' Tor proxy enabled[/dim]'')"

definition cli :: "terminal \<Rightarrow> string option \<Rightarrow> string option \<Rightarrow> bool \<Rightarrow> command \<Rightarrow> (stop + unit) \<times> trace" where
  "cli T url key tor cmd =
     and_then (if tor then say tor_banner else give ())
       (\<lambda>_. run_command T (the_context url key tor) cmd) \<lparr>tr_sent = [], tr_printed = []\<rparr>"

text \<open>A traceback ends Python with status 1.\<close>

fun exit_code :: "stop + unit \<Rightarrow> nat" where
  "exit_code (Inr u) = 0"
| "exit_code (Inl (Exit n)) = n"
| "exit_code (Inl (Raised x)) = 1"

end
