(* ===== verification/Client_Laws.thy ===== *)
theory Client_Laws
  imports Client_Commands
begin

text \<open>
  What every command of the client keeps to: where its requests go and what they carry (\<open>sends\<close>),
  and that a command which ends well had all its requests accepted (\<open>accepted\<close>). Both are closed
  under the way commands are put together, so each command is one application of the rules.
\<close>

section \<open>Requests of a command\<close>

named_theorems client

definition sends :: "(request \<Rightarrow> bool) \<Rightarrow> 'a cmd \<Rightarrow> bool" where
  "sends P f \<longleftrightarrow> (\<forall>t. \<exists>rs. tr_sent (snd (f t)) = tr_sent t @ rs \<and> list_all P rs)"

definition success :: "terminal \<Rightarrow> request \<Rightarrow> bool" where
  "success T r \<longleftrightarrow> (case tm_server T r of Answer p \<Rightarrow> rs_status p \<in> {200, 201} | Broken x \<Rightarrow> False)"

definition accepted :: "terminal \<Rightarrow> 'a cmd \<Rightarrow> bool" where
  "accepted T f \<longleftrightarrow> (\<forall>t. \<not> isl (fst (f t)) \<longrightarrow> (\<exists>rs. tr_sent (snd (f t)) = tr_sent t @ rs \<and> list_all (success T) rs))"


lemma sends_pure [client]:
  "sends P (give x)" "sends P (say out)" "sends P (sys_exit n)" "sends P (python r)" "sends P (resp_json p)"
  by (auto simp: sends_def give_def say_def sys_exit_def python_def resp_json_def split: sum.split option.split)

lemma sends_send [client]: "P r \<Longrightarrow> sends P (send T r)"
  by (auto simp: sends_def send_def Let_def split: reply.split)

lemma sends_and_then [client]:
  assumes "sends P f" and "\<And>x. sends P (g x)"
  shows "sends P (and_then f g)"
proof (unfold sends_def, intro allI)
  fix t
  obtain rs where rs: "tr_sent (snd (f t)) = tr_sent t @ rs" "list_all P rs"
    using assms(1) by (auto simp: sends_def)
  show "\<exists>rs. tr_sent (snd (and_then f g t)) = tr_sent t @ rs \<and> list_all P rs"
  proof (cases "f t")
    case (Pair r t1)
    show ?thesis
    proof (cases r)
      case (Inl s)
      then show ?thesis using Pair rs by (simp add: and_then_def)
    next
      case (Inr x)
      obtain qs where "tr_sent (snd (g x t1)) = tr_sent t1 @ qs" "list_all P qs"
        using assms(2) by (auto simp: sends_def)
      then show ?thesis using Pair Inr rs by (intro exI[of _ "rs @ qs"]) (simp add: and_then_def)
    qed
  qed
qed

lemma sends_catching [client]:
  assumes "sends P f" and "\<And>x. sends P (g x)"
  shows "sends P (catching f g)"
proof (unfold sends_def, intro allI)
  fix t
  obtain rs where rs: "tr_sent (snd (f t)) = tr_sent t @ rs" "list_all P rs"
    using assms(1) by (auto simp: sends_def)
  obtain r t1 where ft: "f t = (r, t1)" by fastforce
  have "\<exists>qs. tr_sent (snd (g x t1)) = tr_sent t1 @ qs \<and> list_all P qs" for x
    using assms(2) by (auto simp: sends_def)
  then obtain qs where qs: "\<And>x. tr_sent (snd (g x t1)) = tr_sent t1 @ qs x \<and> list_all P (qs x)" by metis
  show "\<exists>rs. tr_sent (snd (catching f g t)) = tr_sent t @ rs \<and> list_all P rs"
  proof (cases "\<exists>x. r = Inl (Raised x)")
    case True
    then obtain x where "r = Inl (Raised x)" by blast
    then show ?thesis using ft rs qs[of x] by (intro exI[of _ "rs @ qs x"]) (simp add: catching_def)
  next
    case False
    then have "catching f g t = f t" using ft by (auto simp: catching_def split: sum.split stop.split)
    then show ?thesis using rs by auto
  qed
qed

lemma sends_say_all [client]: "sends P (say_all outs)"
  by (induction outs) (simp_all add: client)

lemma sends_handle_error [client]: "sends P (handle_error T p)"
  by (simp add: handle_error_def client)

lemma sends_expecting [client]: "P r \<Longrightarrow> (\<And>p. sends P (k p)) \<Longrightarrow> sends P (expecting T ok r k)"
  by (simp add: expecting_def client)

lemma sends_showing [client]: "P r \<Longrightarrow> (\<And>j. sends P (k j)) \<Longrightarrow> sends P (showing T ok r k)"
  by (simp add: showing_def client)

lemma sends_get_headers [client]: "sends P (get_headers c)"
  by (simp add: get_headers_def client split: option.split list.split)

text \<open>After \<open>get_headers\<close> a command runs only with a key, and only with that key.\<close>

lemma sends_with_key [client]:
  assumes "\<And>key. cx_key c = Some key \<Longrightarrow> sends P (k key)"
  shows "sends P (and_then (get_headers c) k)"
proof (cases "\<exists>ch key. cx_key c = Some (ch # key)")
  case True
  then obtain ch key where "cx_key c = Some (ch # key)" by blast
  then have "and_then (get_headers c) k = k (ch # key)" by (simp add: get_headers_def and_then_def give_def fun_eq_iff)
  then show ?thesis using assms[OF \<open>cx_key c = Some (ch # key)\<close>] by simp
next
  case False
  then have quiet: "isl (fst (get_headers c t))" for t
    by (auto simp: get_headers_def and_then_def say_def sys_exit_def split: option.split list.split)
  have "and_then (get_headers c) k t = (Inl (projl (fst (get_headers c t))), snd (get_headers c t))" for t
    using quiet[of t] by (cases "get_headers c t"; cases "fst (get_headers c t)") (auto simp: and_then_def)
  moreover have "sends P (get_headers c)" by (rule sends_get_headers)
  ultimately show ?thesis by (simp add: sends_def)
qed

text \<open>Where a request may go: to the configured server, over Tor when it is on, with no other credential
  than the configured key.\<close>

definition proper :: "cli_context \<Rightarrow> request \<Rightarrow> bool" where
  "proper c r \<longleftrightarrow> rq_url r = cx_url c \<and> rq_tor r = cx_tor c \<and> (rq_auth r = None \<or> rq_auth r = cx_key c)"

lemma proper_requests [client]:
  "proper c (the_request c verb path params body None)"
  "cx_key c = Some key \<Longrightarrow> proper c (api_get c path params key)"
  "cx_key c = Some key \<Longrightarrow> proper c (api_post c path body key)"
  "cx_key c = Some key \<Longrightarrow> proper c (the_request c verb path params body (Some key))"
  by (simp_all add: proper_def the_request_def api_get_def api_post_def)

lemmas commands = register_def status_command_def invoice_create_def invoice_list_def invoice_get_def
  invoice_cancel_def payments_list_def payments_get_def webhooks_list_def webhooks_get_def webhooks_retry_def
  api_keys_list_def api_keys_create_def api_keys_revoke_def price_command_def

lemma sends_report [client]:
  "sends P (health_lines T p)" "sends P (price_lines T p)" "sends P (auth_lines T p)"
  by (simp_all add: health_lines_def price_lines_def auth_lines_def client)

lemma sends_check_auth [client]: "sends (proper c) (check_auth T c)"
  by (auto simp: check_auth_def split: option.split list.split intro!: client)

lemma sends_run_command: "sends (proper c) (run_command T c cmd)"
  by (cases cmd) (auto simp: commands split: option.split intro!: client)

section \<open>Commands that end well\<close>

named_theorems accepting

lemma accepted_pure [accepting]:
  "accepted T (give x)" "accepted T (say out)" "accepted T (sys_exit n)" "accepted T (python r)" "accepted T (resp_json p)"
  by (auto simp: accepted_def give_def say_def sys_exit_def python_def resp_json_def split: sum.split option.split)

lemma accepted_and_then [accepting]:
  assumes "accepted T f" and "\<And>x. accepted T (g x)"
  shows "accepted T (and_then f g)"
proof (unfold accepted_def, intro allI impI)
  fix t assume fine: "\<not> isl (fst (and_then f g t))"
  obtain x t1 where ft: "f t = (Inr x, t1)"
    using fine by (cases "f t"; cases "fst (f t)") (auto simp: and_then_def)
  have fg: "and_then f g t = g x t1" using ft by (simp add: and_then_def)
  obtain rs where "tr_sent t1 = tr_sent t @ rs" "list_all (success T) rs"
    using assms(1) ft unfolding accepted_def by (metis fst_conv snd_conv sum.disc(2))
  moreover obtain qs where "tr_sent (snd (g x t1)) = tr_sent t1 @ qs" "list_all (success T) qs"
    using assms(2) fine fg unfolding accepted_def by metis
  ultimately show "\<exists>rs. tr_sent (snd (and_then f g t)) = tr_sent t @ rs \<and> list_all (success T) rs"
    using fg by (intro exI[of _ "rs @ qs"]) simp
qed

lemma accepted_say_all [accepting]: "accepted T (say_all outs)"
  by (induction outs) (simp_all add: accepting)

lemma accepted_get_headers [accepting]: "accepted T (get_headers c)"
  by (simp add: get_headers_def accepting split: option.split list.split)

lemma accepted_expecting [accepting]:
  assumes "set ok \<subseteq> {200, 201}" and k: "\<And>p. accepted T (k p)"
  shows "accepted T (expecting T ok r k)"
proof (unfold accepted_def, intro allI impI)
  fix t assume fine: "\<not> isl (fst (expecting T ok r k t))"
  let ?t = "t\<lparr>tr_sent := tr_sent t @ [r]\<rparr>"
  obtain p where p: "tm_server T r = Answer p"
    using fine by (cases "tm_server T r") (auto simp: expecting_def and_then_def send_def)
  have ok: "rs_status p \<in> set ok"
    using fine p by (auto simp: expecting_def and_then_def send_def handle_error_def say_def sys_exit_def split: if_splits)
  then have run: "expecting T ok r k t = k p ?t" using p by (simp add: expecting_def and_then_def send_def)
  obtain rs where "tr_sent (snd (k p ?t)) = tr_sent ?t @ rs" "list_all (success T) rs"
    using k fine run unfolding accepted_def by metis
  moreover have "success T r" using p ok assms(1) by (auto simp: success_def)
  ultimately show "\<exists>rs. tr_sent (snd (expecting T ok r k t)) = tr_sent t @ rs \<and> list_all (success T) rs"
    using run by (intro exI[of _ "r # rs"]) simp
qed

lemma accepted_showing [accepting]:
  "set ok \<subseteq> {200, 201} \<Longrightarrow> (\<And>j. accepted T (k j)) \<Longrightarrow> accepted T (showing T ok r k)"
  by (simp add: showing_def accepting)

lemma accepted_run_command: "cmd \<noteq> Status \<Longrightarrow> accepted T (run_command T c cmd)"
  by (cases cmd) (auto simp: commands split: option.split intro!: accepting)

section \<open>Runs of a command on a given reply\<close>

text \<open>The server accepts a request with status \<open>n\<close> and the document \<open>j\<close>.\<close>

definition replies :: "terminal \<Rightarrow> request \<Rightarrow> nat \<Rightarrow> json \<Rightarrow> bool" where
  "replies T r n j \<longleftrightarrow> (\<exists>p. tm_server T r = Answer p \<and> rs_status p = n \<and> rs_json p = Some j)"

lemma showing_replies:
  "replies T r n j \<Longrightarrow> n \<in> set ok \<Longrightarrow> showing T ok r k t = k j (t\<lparr>tr_sent := tr_sent t @ [r]\<rparr>)"
  by (auto simp: replies_def showing_def expecting_def and_then_def send_def resp_json_def)

lemma expecting_refused:
  "tm_server T r = Answer p \<Longrightarrow> rs_status p \<notin> set ok \<Longrightarrow> expecting T ok r k t =
     (Inl (Exit 1), t\<lparr>tr_sent := tr_sent t @ [r],
        tr_printed := tr_printed t @ [Line (''[red]Error '' @ nat_str (rs_status p) @ '':[/red] '' @ error_detail T p)]\<rparr>)"
  by (simp add: expecting_def and_then_def send_def handle_error_def say_def sys_exit_def)

lemma get_headers_key: "key \<noteq> [] \<Longrightarrow> cx_key c = Some key \<Longrightarrow> and_then (get_headers c) k = k key"
  by (cases key) (simp_all add: get_headers_def and_then_def give_def fun_eq_iff)

lemma get_headers_none:
  "cx_key c = None \<or> cx_key c = Some [] \<Longrightarrow>
   \<exists>lines. and_then (get_headers c) k t = (Inl (Exit 1), t\<lparr>tr_printed := tr_printed t @ lines\<rparr>)"
  by (auto simp: get_headers_def and_then_def say_def sys_exit_def split: option.split)

text \<open>The program is the command after the banner. All but three commands need a key.\<close>

lemma cli_run:
  "cli T url key tor cmd = run_command T (the_context url key tor) cmd
     \<lparr>tr_sent = [], tr_printed = (if tor then [tor_banner] else [])\<rparr>"
  by (simp add: cli_def and_then_def say_def give_def)

fun needs_key :: "command \<Rightarrow> bool" where
  "needs_key (Register address view_key nm email url) = False"
| "needs_key Status = False"
| "needs_key Price = False"
| "needs_key cmd = True"

lemma without_key:
  assumes "needs_key cmd" and "cx_key c = None \<or> cx_key c = Some []"
  shows "\<exists>lines. run_command T c cmd t = (Inl (Exit 1), t\<lparr>tr_printed := tr_printed t @ lines\<rparr>)"
  using assms(1) by (cases cmd) (simp_all only: run_command.simps commands needs_key.simps get_headers_none[OF assms(2)])

section \<open>Tables\<close>

lemma on_value_Inr [simp]: "on_value (Inr x) f = f x"
  by (simp add: on_value_def)

lemma entry_Inr [simp]: "entry label (Inr v) = Inr [JStr label, v]"
  by (simp add: entry_def row_def)

lemma collect_append: "collect (xs @ ys) = on_value (collect xs) (\<lambda>a. on_value (collect ys) (\<lambda>b. Inr (a @ b)))"
  by (induction xs) (auto simp: on_value_def split: sum.split)

lemma collect_map: "(\<And>x. x \<in> set xs \<Longrightarrow> f x = Inr (g x)) \<Longrightarrow> collect (map f xs) = Inr (map g xs)"
  by (induction xs) simp_all

end
