(* ===== verification/Client_Properties.thy ===== *)
theory Client_Properties
  imports Client_Laws Listings Demo
begin

text \<open>
  Properties of the command line client: where its requests go, and what it makes of the answers
  the server's routes give.
\<close>

section \<open>What is sent\<close>

text \<open>C38: every request of every command goes to the configured server, over Tor exactly when --tor is
  given, and carries no credential but the configured key. A command that needs a key and has none
  sends nothing and exits with status 1, and a command other than status exits with status 0 only
  if the server accepted all its requests.\<close>

theorem client_requests:
  shows "(\<forall>r \<in> set (tr_sent (snd (cli T url key tor cmd))).
        rq_url r = (if url = None \<or> url = Some [] then default_url else the url) \<and> rq_tor r = tor \<and>
        (rq_auth r = None \<or> rq_auth r = key)) \<and>
    (needs_key cmd \<and> (key = None \<or> key = Some []) \<longrightarrow>
        tr_sent (snd (cli T url key tor cmd)) = [] \<and> exit_code (fst (cli T url key tor cmd)) = 1) \<and>
    (cmd \<noteq> Status \<and> fst (cli T url key tor cmd) = Inr () \<longrightarrow>
        list_all (success T) (tr_sent (snd (cli T url key tor cmd))))"
proof (intro conjI impI)
  let ?c = "the_context url key tor" and ?t = "\<lparr>tr_sent = [], tr_printed = (if tor then [tor_banner] else [])\<rparr>"
  have c: "cx_url ?c = (if url = None \<or> url = Some [] then default_url else the url)" "cx_tor ?c = tor" "cx_key ?c = key"
    by (auto simp: the_context_def split: option.split)
  obtain rs where "tr_sent (snd (run_command T ?c cmd ?t)) = tr_sent ?t @ rs" "list_all (proper ?c) rs"
    using sends_run_command[of ?c T cmd] unfolding sends_def by blast
  then show "\<forall>r \<in> set (tr_sent (snd (cli T url key tor cmd))).
      rq_url r = (if url = None \<or> url = Some [] then default_url else the url) \<and> rq_tor r = tor \<and>
      (rq_auth r = None \<or> rq_auth r = key)"
    using c by (simp add: cli_run list_all_iff proper_def)
  { assume "needs_key cmd \<and> (key = None \<or> key = Some [])"
    then obtain lines where "run_command T ?c cmd ?t = (Inl (Exit 1), ?t\<lparr>tr_printed := tr_printed ?t @ lines\<rparr>)"
      using without_key[of cmd ?c T ?t] c(3) by auto
    then show "tr_sent (snd (cli T url key tor cmd)) = []" "exit_code (fst (cli T url key tor cmd)) = 1"
      by (simp_all add: cli_run) }
  assume "cmd \<noteq> Status \<and> fst (cli T url key tor cmd) = Inr ()"
  then show "list_all (success T) (tr_sent (snd (cli T url key tor cmd)))"
    using accepted_run_command[of cmd T ?c] spec[of "\<lambda>t. \<not> isl (fst (run_command T ?c cmd t)) \<longrightarrow>
      (\<exists>rs. tr_sent (snd (run_command T ?c cmd t)) = tr_sent t @ rs \<and> list_all (success T) rs)" ?t]
    by (auto simp: accepted_def cli_run)
qed

text \<open>A terminal whose server answers every request with the same document.\<close>

definition demo_terminal :: "json \<Rightarrow> terminal" where
  "demo_terminal j = \<lparr>tm_server = (\<lambda>r. Answer \<lparr>rs_status = 200, rs_text = [], rs_json = Some j\<rparr>),
     tm_str = (\<lambda>v. ''text''), tm_dumps = (\<lambda>v. ''{}''), tm_loads = (\<lambda>s. None), tm_time = (\<lambda>s. None),
     tm_error = (\<lambda>x. ''error''), tm_comma = (\<lambda>x. ''0'')\<rparr>"

lemma client_requests_witness:
  "tr_sent (snd (cli (demo_terminal JNull) None None True (InvoiceGet ''1''))) = [] \<and>
   exit_code (fst (cli (demo_terminal JNull) None None True (InvoiceGet ''1''))) = 1"
  using client_requests[of "demo_terminal JNull" None None True "InvoiceGet ''1''"] by simp

section \<open>What is shown\<close>

lemma page_response_shape:
  "page_response f p = Inr j \<Longrightarrow>
   \<exists>pg. p = Inr pg \<and> j = JObj [(''data'', JList (map f (pg_data pg))), (''has_more'', JBool (pg_has_more pg))]"
  by (auto simp: page_response_def split: sum.splits)

text \<open>The request of a listing command.\<close>

fun listing_request :: "cli_context \<Rightarrow> string \<Rightarrow> command \<Rightarrow> request option" where
  "listing_request c key (InvoiceList st limit offset) =
     Some (api_get c ''/v1/invoices'' (page_params limit offset @ given ''status'' st) key)"
| "listing_request c key (PaymentsList iid st limit offset) = Some (api_get c ''/v1/payments''
     (page_params limit offset @ given ''invoice_id'' iid @ given ''status'' st) key)"
| "listing_request c key (WebhooksList iid st limit offset) = Some (api_get c ''/v1/webhooks''
     (page_params limit offset @ given ''invoice_id'' iid @ given ''status'' st) key)"
| "listing_request c key cmd = None"

lemma has_key: "cx_key (the_context url (Some key) tor) = Some key"
  by (simp add: the_context_def)

text \<open>C39: the client cannot show any listing of its server. invoice list, payments list and webhooks
  list read data["total"], and the pages of the listing routes have the entries data and has_more:
  whenever the route succeeds, the command dies of a KeyError and prints nothing.\<close>

theorem listing_commands_crash:
  assumes "key \<noteq> []" and "listing_request (the_context url (Some key) tor) key cmd = Some r"
    and "Inr j \<in> {route_list_invoices m st q d, route_list_payments m iid st q d, route_list_deliveries dumps m iid st q d}"
    and "replies T r 200 j"
  shows "cli T url (Some key) tor cmd =
    (Inl (Raised (Py KeyError)), \<lparr>tr_sent = [r], tr_printed = (if tor then [tor_banner] else [])\<rparr>)"
proof -
  obtain xs b where j: "j = JObj [(''data'', xs), (''has_more'', b)]"
    using assms(3) unfolding route_list_invoices_def route_list_payments_def route_list_deliveries_def
    by (metis empty_iff insert_iff page_response_shape)
  have no_total: "item j ''total'' = Inl KeyError" by (simp add: j)
  show ?thesis
    using assms(2,4) no_total unfolding cli_run
    by (cases cmd) (auto simp: commands get_headers_key[OF assms(1) has_key] showing_replies and_then_def[of "python _"] python_def)
qed

definition demo_query :: page_query where
  "demo_query = \<lparr>pq_limit = 20, pq_after = None, pq_before = None\<rparr>"

lemma listing_commands_crash_witness:
  "\<exists>j. route_list_invoices demo_merchant None demo_query (demo_ledger IPending []) = Inr j \<and>
     fst (cli (demo_terminal j) None (Some ''gb_live_0'') False (InvoiceList None 20 0)) = Inl (Raised (Py KeyError))"
proof -
  have "\<exists>pg. page_of_invoices (mer_id demo_merchant) None demo_query (demo_ledger IPending []) = Inr pg"
    by (simp add: page_of_invoices_def list_page_def demo_query_def validate_cursor_params_def enum_param_def
        paginate_cursor_def Let_def split: prod.split)
  then obtain j where j: "route_list_invoices demo_merchant None demo_query (demo_ledger IPending []) = Inr j"
    by (auto simp: route_list_invoices_def page_response_def)
  have "replies (demo_terminal j) r 200 j" for r by (simp add: replies_def demo_terminal_def)
  then have "fst (cli (demo_terminal j) None (Some ''gb_live_0'') False (InvoiceList None 20 0)) = Inl (Raised (Py KeyError))"
    using listing_commands_crash[of "''gb_live_0''" None False "InvoiceList None 20 0" _ j demo_merchant None demo_query
        "demo_ledger IPending []" None "\<lambda>v. []" "demo_terminal j"] j by simp
  with j show ?thesis by blast
qed

text \<open>What \<open>invoice get\<close> is meant to show of an invoice, row by row.\<close>

definition shown_invoice :: "terminal \<Rightarrow> db \<Rightarrow> invoice \<Rightarrow> json list list" where
  "shown_invoice T d r = (let addr = invoice_address_of (inv_id r) d; st = invoice_status_value (inv_status r) in
     [[JStr ''ID'', juuid (inv_id r)], [JStr ''Merchant'', juuid (inv_merchant r)],
      [JStr ''Status'', JStr (paint (the (map_of status_colors st)) st)],
      [JStr ''Amount XMR'', JDec (inv_amount_xmr r)],
      [JStr ''Amount Atomic'', JStr ((if inv_amount_atomic r < 0 then ''-'' else []) @ thousands (nat \<bar>inv_amount_atomic r\<bar>))]] @
     (case inv_fiat_amount r of None \<Rightarrow> [] | Some a \<Rightarrow>
       [[JStr ''Fiat Amount'', JStr (''$'' @ tm_str T (JDec a) @ '' '' @ py_str T (jopt JStr (inv_fiat_currency r)))],
        [JStr ''Fiat Rate'', JStr (py_str T (jopt JDec (inv_fiat_rate r)))]]) @
     [[JStr ''Address'', or_else (jopt (\<lambda>a. JStr (adr_address a)) addr) (JStr em_dash)],
      [JStr ''Address Index'', JStr (py_str T (jopt (\<lambda>a. JInt (adr_index a)) addr))],
      [JStr ''Description'', or_else (jopt JStr (inv_description r)) (JStr em_dash)],
      [JStr ''Created'', format_time T (JStr (isoformat (inv_created_at r)))],
      [JStr ''Expires'', format_time T (JStr (isoformat (inv_expires_at r)))],
      [JStr ''Paid At'', format_time T (jtime (inv_paid_at r))]] @
     (if truthy (jopt id (inv_metadata r)) then [[JStr ''Metadata'', JStr (tm_dumps T (jopt id (inv_metadata r)))]] else []))"

lemma status_known: "map_of status_colors (invoice_status_value st) \<noteq> None"
  by (cases st) (simp_all add: status_colors_def)

lemmas cells = status_cell_def status_color_def or_dash_def str_cell_def time_cell_def opt_time_cell_def fiat_cell_def

lemma invoice_details_shown:
  "invoice_details_table T (invoice_to_detail_response d r) =
     Inr (Table ''Invoice Details'' [''Field'', ''Value''] (shown_invoice T d r))"
  using status_known[of "inv_status r"]
  by (cases "inv_fiat_amount r"; cases "truthy (jopt id (inv_metadata r))")
     (auto simp: invoice_details_table_def fields_table_def shown_invoice_def invoice_to_detail_response_def invoice_fields_def
      Let_def collect_append has_entry_def jopt_def cells split: option.split)

text \<open>C40: invoice get shows the merchant's invoice as it is stored: given what the detail route answers, it
  exits with status 0 after printing one table with its identifiers, status, both amounts, address,
  times and, where they are set, fiat amount, description and metadata.\<close>

theorem invoice_shown:
  assumes "key \<noteq> []" and "route_get_invoice m i d = Inr j"
    and "replies T (api_get (the_context url (Some key) tor) (''/v1/invoices/'' @ text_id) [] key) 200 j"
  shows "\<exists>r. find_invoice i d = Some r \<and> inv_merchant r = mer_id m \<and>
    cli T url (Some key) tor (InvoiceGet text_id) = (Inr (),
      \<lparr>tr_sent = [api_get (the_context url (Some key) tor) (''/v1/invoices/'' @ text_id) [] key],
       tr_printed = (if tor then [tor_banner] else []) @
         [Table ''Invoice Details'' [''Field'', ''Value''] (shown_invoice T d r)]\<rparr>)"
proof -
  obtain r where "find_invoice i d = Some r" "inv_merchant r = mer_id m" "j = invoice_to_detail_response d r"
    using assms(2) by (auto simp: route_get_invoice_def get_invoice_def split: option.splits if_splits)
  moreover have "run_command T (the_context url (Some key) tor) (InvoiceGet text_id) t = (Inr (),
      t\<lparr>tr_sent := tr_sent t @ [api_get (the_context url (Some key) tor) (''/v1/invoices/'' @ text_id) [] key],
        tr_printed := tr_printed t @ [Table ''Invoice Details'' [''Field'', ''Value''] (shown_invoice T d r)]\<rparr>)"
    if "j = invoice_to_detail_response d r" for t r
    unfolding run_command.simps commands get_headers_key[OF assms(1) has_key]
    by (subst showing_replies[OF assms(3)]) (simp_all add: that invoice_details_shown and_then_def python_def say_def)
  ultimately show ?thesis by (simp add: cli_run)
qed

lemma invoice_shown_witness:
  "\<exists>j rows. route_get_invoice demo_merchant 1 (demo_ledger IPending []) = Inr j \<and>
     [JStr ''Amount XMR'', JDec 1] \<in> set rows \<and>
     cli (demo_terminal j) None (Some ''gb_live_0'') False (InvoiceGet ''1'') = (Inr (),
       \<lparr>tr_sent = [api_get (the_context None (Some ''gb_live_0'') False) ''/v1/invoices/1'' [] ''gb_live_0''],
        tr_printed = [Table ''Invoice Details'' [''Field'', ''Value''] rows]\<rparr>)"
proof -
  let ?d = "demo_ledger IPending []" and ?T = "\<lambda>j. demo_terminal j"
  obtain j where j: "route_get_invoice demo_merchant 1 ?d = Inr j"
    by (simp add: route_get_invoice_def get_invoice_def demo_lookup del: One_nat_def) (simp add: demo_invoice_def demo_merchant_def)
  have "replies (?T j) r 200 j" for r by (simp add: replies_def demo_terminal_def)
  then obtain r where r: "find_invoice 1 ?d = Some r" and run:
    "cli (?T j) None (Some ''gb_live_0'') False (InvoiceGet ''1'') = (Inr (),
       \<lparr>tr_sent = [api_get (the_context None (Some ''gb_live_0'') False) ''/v1/invoices/1'' [] ''gb_live_0''],
        tr_printed = [Table ''Invoice Details'' [''Field'', ''Value''] (shown_invoice (?T j) ?d r)]\<rparr>)"
    using invoice_shown[of "''gb_live_0''" demo_merchant 1 ?d j "?T j" None False "''1''"] j by auto
  have "inv_amount_xmr r = 1" using r by (auto simp: demo_lookup demo_invoice_def simp del: One_nat_def)
  then have "[JStr ''Amount XMR'', JDec 1] \<in> set (shown_invoice (?T j) ?d r)"
    by (simp add: shown_invoice_def Let_def)
  with j run show ?thesis by blast
qed

text \<open>\<open>api-keys list\<close> finds its rows under the entry \<open>data\<close>, one for each key of the page.\<close>

definition shown_key :: "terminal \<Rightarrow> api_key \<Rightarrow> json list" where
  "shown_key T k =
     [JStr (concat (take 12 (chars (uuid_str (key_id k)))) @ ''...''), JStr (key_prefix k), JStr (key_environment k),
      jopt JStr (key_label k), active_cell (JBool (key_active k)), format_time T (jtime (key_last_used_at k))]"

lemma key_row_shown: "key_row T (key_to_response k) = Inr (shown_key T k)"
  by (simp add: key_row_def key_to_response_def row_def shortened_def opt_time_cell_def shown_key_def juuid_def)

theorem keys_listed:
  assumes "key \<noteq> []" and "page_of_api_keys (mer_id m) q d = Inr p"
    and "route_list_api_keys m q d = Inr j" and "replies T (api_get (the_context url (Some key) tor) ''/v1/api-keys'' [] key) 200 j"
  shows "cli T url (Some key) tor KeysList = (Inr (),
      \<lparr>tr_sent = [api_get (the_context url (Some key) tor) ''/v1/api-keys'' [] key],
       tr_printed = (if tor then [tor_banner] else []) @
         [Table (''API Keys ('' @ nat_str (length (pg_data p)) @ '')'') key_columns (map (shown_key T) (pg_data p))]\<rparr>)"
proof -
  have j: "py_items T (listed_keys j) = Inr (map key_to_response (pg_data p))"
    using assms(2,3) by (auto simp: route_list_api_keys_def page_response_def listed_keys_def)
  have "collect (map (key_row T) (map key_to_response (pg_data p))) = Inr (map (shown_key T) (pg_data p))"
    by (simp add: collect_map key_row_shown)
  with j have "run_command T (the_context url (Some key) tor) KeysList t = (Inr (),
      t\<lparr>tr_sent := tr_sent t @ [api_get (the_context url (Some key) tor) ''/v1/api-keys'' [] key],
        tr_printed := tr_printed t @
          [Table (''API Keys ('' @ nat_str (length (pg_data p)) @ '')'') key_columns (map (shown_key T) (pg_data p))]\<rparr>)" for t
    unfolding run_command.simps commands get_headers_key[OF assms(1) has_key]
    by (subst showing_replies[OF assms(4)]) (simp_all add: and_then_def python_def rows_table_def say_def)
  then show ?thesis by (simp add: cli_run)
qed

end
