(* ===== verification/Schema.thy ===== *)
theory Schema
  imports Textual
begin

text \<open>
  Database schemas and the DDL statements the migrations run (PostgreSQL's rules for names,
  dependencies and \<open>IF EXISTS\<close>; a statement it refuses is None, and the migration is rolled back).
  Tables have columns and named constraints; the indexes that no constraint owns are kept by
  name. Rows are not part of a schema, so a statement that only the rows could make fail (a
  violated check, a null in a column that becomes NOT NULL) succeeds here.
\<close>

section \<open>Tables\<close>

datatype sql_type = SUuid | SVarchar nat | SText | SBoolean | SJsonb | SJson | STimestamptz | SBigint
  | SInteger | SNumeric nat nat | SEnum string

datatype on_delete = NoAction | Cascade | SetNull | Restrict

datatype key = Asc string | Desc string

fun key_column :: "key \<Rightarrow> string" where
  "key_column (Asc c) = c"
| "key_column (Desc c) = c"

datatype con_kind =
    PrimaryKey "string list"
  | Unique "string list"
  | ForeignKey "string list" string "string list" on_delete
  | Check string

record sql_column =
  cl_name :: string
  cl_type :: sql_type
  cl_null :: bool
  cl_default :: "string option"

record sql_table =
  tb_columns :: "sql_column list"
  tb_constraints :: "(string \<times> con_kind \<times> bool) list"  \<comment> \<open>name, constraint, whether it is validated\<close>

record sql_index =
  ix_table :: string
  ix_keys :: "key list"
  ix_unique :: bool
  ix_where :: "(string \<times> string list) option"  \<comment> \<open>a partial index: a column and the values it may have\<close>

record schema =
  sc_enums :: "(string \<times> string list) list"
  sc_tables :: "(string \<times> sql_table) list"
  sc_indexes :: "(string \<times> sql_index) list"

definition empty_schema :: schema where
  "empty_schema = \<lparr>sc_enums = [], sc_tables = [], sc_indexes = []\<rparr>"

text \<open>A column with what is written behind it: \<open>PRIMARY KEY\<close>, \<open>UNIQUE\<close>, \<open>REFERENCES t(id)\<close>.\<close>

datatype inline = InlineKey | InlineUnique | References string on_delete

type_synonym column_def = "sql_column \<times> inline list"

text \<open>The names PostgreSQL gives to constraints that have none.\<close>

fun inline_constraint :: "string \<Rightarrow> string \<Rightarrow> inline \<Rightarrow> string \<times> con_kind \<times> bool" where
  "inline_constraint t c InlineKey = (t @ ''_pkey'', PrimaryKey [c], True)"
| "inline_constraint t c InlineUnique = (t @ ''_'' @ c @ ''_key'', Unique [c], True)"
| "inline_constraint t c (References r act) = (t @ ''_'' @ c @ ''_fkey'', ForeignKey [c] r [''id''] act, True)"

definition inline_constraints :: "string \<Rightarrow> column_def \<Rightarrow> (string \<times> con_kind \<times> bool) list" where
  "inline_constraints t cd = map (inline_constraint t (cl_name (fst cd))) (snd cd)"

definition make_table :: "string \<Rightarrow> column_def list \<Rightarrow> sql_table" where
  "make_table t cds = \<lparr>tb_columns = map fst cds, tb_constraints = concat (map (inline_constraints t) cds)\<rparr>"

definition put :: "string \<Rightarrow> 'v \<Rightarrow> (string \<times> 'v) list \<Rightarrow> (string \<times> 'v) list" where
  "put k v kvs = map (\<lambda>(k', v'). if k' = k then (k', v) else (k', v')) kvs"

definition del :: "string \<Rightarrow> (string \<times> 'v) list \<Rightarrow> (string \<times> 'v) list" where
  "del k kvs = filter (\<lambda>(k', v). k' \<noteq> k) kvs"

text \<open>Tables, indexes and the indexes behind unique constraints share one space of names.\<close>

fun owns_index :: "con_kind \<Rightarrow> bool" where
  "owns_index (PrimaryKey cs) = True"
| "owns_index (Unique cs) = True"
| "owns_index _ = False"

definition index_constraints :: "schema \<Rightarrow> string list" where
  "index_constraints s = concat (map (\<lambda>(t, tab). map fst (filter (\<lambda>(n, k, v). owns_index k) (tb_constraints tab))) (sc_tables s))"

definition relation_name :: "schema \<Rightarrow> string \<Rightarrow> bool" where
  "relation_name s n \<longleftrightarrow> n \<in> set (map fst (sc_tables s)) \<or> n \<in> set (map fst (sc_indexes s)) \<or> n \<in> set (index_constraints s)"

definition columns_of :: "sql_table \<Rightarrow> string list" where
  "columns_of tab = map cl_name (tb_columns tab)"

fun type_known :: "schema \<Rightarrow> sql_type \<Rightarrow> bool" where
  "type_known s (SEnum n) = (n \<in> set (map fst (sc_enums s)))"
| "type_known s _ = True"

fun inline_known :: "schema \<Rightarrow> string \<Rightarrow> inline \<Rightarrow> bool" where
  "inline_known s t (References r act) = (r = t \<or> r \<in> set (map fst (sc_tables s)))"
| "inline_known s t _ = True"

definition column_known :: "schema \<Rightarrow> string \<Rightarrow> column_def \<Rightarrow> bool" where
  "column_known s t cd \<longleftrightarrow> type_known s (cl_type (fst cd)) \<and> list_all (inline_known s t) (snd cd)"

fun refers_to :: "string \<Rightarrow> con_kind \<Rightarrow> bool" where
  "refers_to t (ForeignKey cs r rcs act) = (r = t)"
| "refers_to t _ = False"

text \<open>The columns a constraint involves; for a check, those its text mentions.\<close>

fun involves :: "string \<Rightarrow> con_kind \<Rightarrow> bool" where
  "involves c (PrimaryKey cs) = (c \<in> set cs)"
| "involves c (Unique cs) = (c \<in> set cs)"
| "involves c (ForeignKey cs r rcs act) = (c \<in> set cs)"
| "involves c (Check e) = contains e c"

section \<open>Statements\<close>

datatype place = AtEnd | Before string | After string

datatype ddl =
    CreateType string "string list"
  | DropTypeIfExists string
  | AddValue string string place bool  \<comment> \<open>the last argument is \<open>IF NOT EXISTS\<close>\<close>
  | CreateTable string "column_def list"
  | DropTable string
  | DropTableCascade string
  | AddColumn string column_def
  | DropColumn string string
  | SetNullable string string bool
  | CreateIndex string string "key list" bool "(string \<times> string list) option" bool  \<comment> \<open>name, table, keys, UNIQUE, WHERE, IF NOT EXISTS\<close>
  | DropIndex string bool  \<comment> \<open>name, \<open>IF EXISTS\<close>\<close>
  | RenameIndex string string
  | AddConstraint string string con_kind bool  \<comment> \<open>table, name, constraint, whether validated at once\<close>
  | AddUniqueUsing string string string  \<comment> \<open>table, name, index\<close>
  | ValidateConstraint string string
  | DropConstraint string string

fun insert_at :: "place \<Rightarrow> string \<Rightarrow> string list \<Rightarrow> string list option" where
  "insert_at AtEnd v vs = Some (vs @ [v])"
| "insert_at (Before w) v vs = (if w \<in> set vs
     then Some (takeWhile (\<lambda>x. x \<noteq> w) vs @ v # dropWhile (\<lambda>x. x \<noteq> w) vs) else None)"
| "insert_at (After w) v vs = (if w \<in> set vs
     then Some (takeWhile (\<lambda>x. x \<noteq> w) vs @ w # v # tl (dropWhile (\<lambda>x. x \<noteq> w) vs)) else None)"

text \<open>Change one table, if it is there and the change is allowed.\<close>

definition on_table :: "string \<Rightarrow> (sql_table \<Rightarrow> sql_table option) \<Rightarrow> schema \<Rightarrow> schema option" where
  "on_table t f s = (case map_of (sc_tables s) t of
      None \<Rightarrow> None
    | Some tab \<Rightarrow> (case f tab of None \<Rightarrow> None | Some tab' \<Rightarrow> Some (s\<lparr>sc_tables := put t tab' (sc_tables s)\<rparr>)))"

definition uses_type :: "string \<Rightarrow> schema \<Rightarrow> bool" where
  "uses_type n s \<longleftrightarrow> list_ex (\<lambda>(t, tab). list_ex (\<lambda>c. cl_type c = SEnum n) (tb_columns tab)) (sc_tables s)"

definition referred :: "string \<Rightarrow> schema \<Rightarrow> bool" where
  "referred t s \<longleftrightarrow> list_ex (\<lambda>(t', tab). t' \<noteq> t \<and> list_ex (\<lambda>(n, k, v). refers_to t k) (tb_constraints tab)) (sc_tables s)"

definition without_table :: "string \<Rightarrow> schema \<Rightarrow> schema" where
  "without_table t s = s\<lparr>sc_tables := del t (sc_tables s),
     sc_indexes := filter (\<lambda>(n, x). ix_table x \<noteq> t) (sc_indexes s)\<rparr>"

definition cut_references :: "string \<Rightarrow> schema \<Rightarrow> schema" where
  "cut_references t s = s\<lparr>sc_tables := map (\<lambda>(t', tab). (t', tab\<lparr>tb_constraints :=
     filter (\<lambda>(n, k, v). \<not> refers_to t k) (tb_constraints tab)\<rparr>)) (sc_tables s)\<rparr>"

definition without_column :: "string \<Rightarrow> sql_table \<Rightarrow> sql_table option" where
  "without_column c tab = (if c \<notin> set (columns_of tab) then None else Some
     \<lparr>tb_columns = filter (\<lambda>x. cl_name x \<noteq> c) (tb_columns tab),
      tb_constraints = filter (\<lambda>(n, k, v). \<not> involves c k) (tb_constraints tab)\<rparr>)"

definition uses_column :: "string \<Rightarrow> string \<Rightarrow> sql_index \<Rightarrow> bool" where
  "uses_column t c x \<longleftrightarrow> ix_table x = t \<and> c \<in> set (map key_column (ix_keys x))"

definition put_nullable :: "string \<Rightarrow> bool \<Rightarrow> sql_table \<Rightarrow> sql_table option" where
  "put_nullable c b tab = (if c \<notin> set (columns_of tab) then None else Some
     (tab\<lparr>tb_columns := map (\<lambda>x. if cl_name x = c then x\<lparr>cl_null := b\<rparr> else x) (tb_columns tab)\<rparr>))"

definition add_constraint :: "string \<Rightarrow> con_kind \<Rightarrow> bool \<Rightarrow> sql_table \<Rightarrow> sql_table option" where
  "add_constraint n k valid tab = (if n \<in> set (map fst (tb_constraints tab)) then None
     else Some (tab\<lparr>tb_constraints := tb_constraints tab @ [(n, k, valid)]\<rparr>))"

fun constraint_known :: "schema \<Rightarrow> string \<Rightarrow> con_kind \<Rightarrow> bool" where
  "constraint_known s n (ForeignKey cs r rcs act) = (r \<in> set (map fst (sc_tables s)))"
| "constraint_known s n (Check e) = True"
| "constraint_known s n _ = (\<not> relation_name s n)"

definition validate :: "string \<Rightarrow> sql_table \<Rightarrow> sql_table option" where
  "validate n tab = (if n \<notin> set (map fst (tb_constraints tab)) then None
     else Some (tab\<lparr>tb_constraints := map (\<lambda>(n', k, v). (n', k, v \<or> n' = n)) (tb_constraints tab)\<rparr>))"

definition drop_constraint :: "string \<Rightarrow> sql_table \<Rightarrow> sql_table option" where
  "drop_constraint n tab = (if n \<notin> set (map fst (tb_constraints tab)) then None
     else Some (tab\<lparr>tb_constraints := del n (tb_constraints tab)\<rparr>))"

fun exec :: "ddl \<Rightarrow> schema \<Rightarrow> schema option" where
  "exec (CreateType n vs) s = (if n \<in> set (map fst (sc_enums s)) then None
     else Some (s\<lparr>sc_enums := sc_enums s @ [(n, vs)]\<rparr>))"
| "exec (DropTypeIfExists n) s = (if uses_type n s then None else Some (s\<lparr>sc_enums := del n (sc_enums s)\<rparr>))"
| "exec (AddValue n v pos ine) s = (case map_of (sc_enums s) n of
      None \<Rightarrow> None
    | Some vs \<Rightarrow> if v \<in> set vs then (if ine then Some s else None)
        else (case insert_at pos v vs of None \<Rightarrow> None | Some vs' \<Rightarrow> Some (s\<lparr>sc_enums := put n vs' (sc_enums s)\<rparr>)))"
| "exec (CreateTable t cds) s = (if relation_name s t \<or> \<not> list_all (column_known s t) cds then None
     else Some (s\<lparr>sc_tables := sc_tables s @ [(t, make_table t cds)]\<rparr>))"
| "exec (DropTable t) s = (if t \<notin> set (map fst (sc_tables s)) \<or> referred t s then None else Some (without_table t s))"
| "exec (DropTableCascade t) s = Some (cut_references t (without_table t s))"
| "exec (AddColumn t cd) s = (if \<not> column_known s t cd then None else on_table t (\<lambda>tab.
     if cl_name (fst cd) \<in> set (columns_of tab) then None
     else Some \<lparr>tb_columns = tb_columns tab @ [fst cd], tb_constraints = tb_constraints tab @ inline_constraints t cd\<rparr>) s)"
| "exec (DropColumn t c) s = (case on_table t (without_column c) s of
      None \<Rightarrow> None
    | Some s' \<Rightarrow> Some (s'\<lparr>sc_indexes := filter (\<lambda>(n, x). \<not> uses_column t c x) (sc_indexes s')\<rparr>))"
| "exec (SetNullable t c b) s = on_table t (put_nullable c b) s"
| "exec (CreateIndex n t ks uniq wh ine) s = (if relation_name s n then (if ine then Some s else None)
     else (case map_of (sc_tables s) t of
        None \<Rightarrow> None
      | Some tab \<Rightarrow> if list_all (\<lambda>k. key_column k \<in> set (columns_of tab)) ks
          then Some (s\<lparr>sc_indexes := sc_indexes s @ [(n, \<lparr>ix_table = t, ix_keys = ks, ix_unique = uniq, ix_where = wh\<rparr>)]\<rparr>)
          else None))"
| "exec (DropIndex n ie) s = (if n \<in> set (map fst (sc_indexes s)) then Some (s\<lparr>sc_indexes := del n (sc_indexes s)\<rparr>)
     else if ie \<and> \<not> relation_name s n then Some s else None)"
| "exec (RenameIndex a b) s = (if a \<notin> set (map fst (sc_indexes s)) \<or> relation_name s b then None
     else Some (s\<lparr>sc_indexes := map (\<lambda>(n, x). (if n = a then b else n, x)) (sc_indexes s)\<rparr>))"
| "exec (AddConstraint t n k valid) s = (if \<not> constraint_known s n k then None else on_table t (add_constraint n k valid) s)"
| "exec (AddUniqueUsing t n i) s = (case map_of (sc_indexes s) i of
      None \<Rightarrow> None
    | Some x \<Rightarrow> if ix_table x \<noteq> t \<or> \<not> ix_unique x \<or> ix_where x \<noteq> None \<or> relation_name s n then None
        else on_table t (add_constraint n (Unique (map key_column (ix_keys x))) True) (s\<lparr>sc_indexes := del i (sc_indexes s)\<rparr>))"
| "exec (ValidateConstraint t n) s = on_table t (validate n) s"
| "exec (DropConstraint t n) s = on_table t (drop_constraint n) s"

fun run_ddl :: "ddl list \<Rightarrow> schema \<Rightarrow> schema option" where
  "run_ddl [] s = Some s"
| "run_ddl (c # cs) s = (case exec c s of None \<Rightarrow> None | Some s' \<Rightarrow> run_ddl cs s')"

lemma run_ddl_append: "run_ddl (cs @ cs') s = (case run_ddl cs s of None \<Rightarrow> None | Some s' \<Rightarrow> run_ddl cs' s')"
  by (induction cs arbitrary: s) (auto split: option.split)

lemma map_of_put [simp]: "map_of (put k v kvs) n = (if n = k then map_option (\<lambda>_. v) (map_of kvs k) else map_of kvs n)"
  by (induction kvs) (auto simp: put_def)

end
