(* ===== verification/Migrations.thy ===== *)
theory Migrations
  imports Schema
begin

text \<open>
  The migrations of \<open>src/backend/migrations/versions\<close>, each file's \<open>upgrade\<close> and \<open>downgrade\<close> as DDL
  statements in their order, and Alembic's walk along \<open>down_revision\<close>. \<open>COMMIT\<close>, \<open>BEGIN\<close>,
  autocommit blocks, \<open>CONCURRENTLY\<close> and the update that fills \<open>billing_anchor_at\<close> do not change the
  schema and have no statement here.
\<close>

section \<open>Columns\<close>

definition column :: "string \<Rightarrow> sql_type \<Rightarrow> column_def" where
  "column n t = (\<lparr>cl_name = n, cl_type = t, cl_null = True, cl_default = None\<rparr>, [])"

definition not_null :: "column_def \<Rightarrow> column_def" where
  "not_null cd = ((fst cd)\<lparr>cl_null := False\<rparr>, snd cd)"

definition defaulting :: "string \<Rightarrow> column_def \<Rightarrow> column_def" where
  "defaulting v cd = ((fst cd)\<lparr>cl_default := Some v\<rparr>, snd cd)"

definition primary :: "column_def \<Rightarrow> column_def" where
  "primary cd = ((fst cd)\<lparr>cl_null := False\<rparr>, snd cd @ [InlineKey])"

definition unique :: "column_def \<Rightarrow> column_def" where
  "unique cd = (fst cd, snd cd @ [InlineUnique])"

definition referring :: "string \<Rightarrow> on_delete \<Rightarrow> column_def \<Rightarrow> column_def" where
  "referring t act cd = (fst cd, snd cd @ [References t act])"

section \<open>Baseline\<close>

definition base_merchants :: "column_def list" where
  "base_merchants =
    [primary (column ''id'' SUuid),
     not_null (column ''name'' (SVarchar 255)),
     column ''email'' (SVarchar 255),
     not_null (column ''monero_address'' (SVarchar 128)),
     column ''view_key_encrypted'' SText,
     column ''webhook_url'' (SVarchar 2048),
     column ''webhook_secret'' (SVarchar 255),
     defaulting ''test'' (not_null (column ''environment'' (SVarchar 10))),
     defaulting ''true'' (not_null (column ''is_active'' SBoolean)),
     column ''metadata_json'' SJsonb,
     defaulting ''now()'' (not_null (column ''created_at'' STimestamptz)),
     defaulting ''now()'' (not_null (column ''updated_at'' STimestamptz))]"

definition base_invoices :: "column_def list" where
  "base_invoices =
    [primary (column ''id'' SUuid),
     referring ''merchants'' NoAction (not_null (column ''merchant_id'' SUuid)),
     not_null (column ''amount_atomic'' SBigint),
     not_null (column ''amount_xmr'' (SNumeric 18 12)),
     column ''fiat_currency'' (SVarchar 3),
     column ''fiat_amount'' (SNumeric 18 2),
     column ''fiat_rate'' (SNumeric 18 8),
     not_null (column ''status'' (SEnum ''invoice_status'')),
     column ''description'' (SVarchar 1024),
     column ''metadata_json'' SJsonb,
     not_null (column ''expires_at'' STimestamptz),
     column ''paid_at'' STimestamptz,
     defaulting ''now()'' (not_null (column ''created_at'' STimestamptz)),
     defaulting ''now()'' (not_null (column ''updated_at'' STimestamptz))]"

definition base_invoice_addresses :: "column_def list" where
  "base_invoice_addresses =
    [primary (column ''id'' SUuid),
     referring ''invoices'' NoAction (not_null (column ''invoice_id'' SUuid)),
     not_null (column ''address'' (SVarchar 128)),
     not_null (column ''address_index'' SInteger),
     not_null (column ''account_index'' SInteger),
     defaulting ''now()'' (not_null (column ''created_at'' STimestamptz))]"

definition base_payments :: "column_def list" where
  "base_payments =
    [primary (column ''id'' SUuid),
     referring ''invoices'' NoAction (not_null (column ''invoice_id'' SUuid)),
     not_null (column ''tx_hash'' (SVarchar 64)),
     not_null (column ''amount_atomic'' SBigint),
     not_null (column ''amount_xmr'' (SNumeric 18 12)),
     not_null (column ''status'' (SEnum ''payment_status'')),
     not_null (column ''confirmations'' SInteger),
     column ''block_height'' SBigint,
     defaulting ''now()'' (not_null (column ''detected_at'' STimestamptz)),
     column ''confirmed_at'' STimestamptz,
     defaulting ''now()'' (not_null (column ''created_at'' STimestamptz))]"

definition base_customers :: "column_def list" where
  "base_customers =
    [primary (column ''id'' SUuid),
     referring ''merchants'' NoAction (not_null (column ''merchant_id'' SUuid)),
     column ''external_id'' (SVarchar 255),
     column ''email'' (SVarchar 255),
     column ''metadata_json'' SJsonb,
     defaulting ''now()'' (not_null (column ''created_at'' STimestamptz))]"

definition base_subscriptions :: "column_def list" where
  "base_subscriptions =
    [primary (column ''id'' SUuid),
     referring ''merchants'' NoAction (not_null (column ''merchant_id'' SUuid)),
     referring ''customers'' NoAction (not_null (column ''customer_id'' SUuid)),
     not_null (column ''amount_atomic'' SBigint),
     not_null (column ''amount_xmr'' (SNumeric 18 12)),
     not_null (column ''interval_days'' SInteger),
     not_null (column ''status'' (SEnum ''subscription_status'')),
     defaulting ''3'' (not_null (column ''grace_days_soft'' SInteger)),
     defaulting ''7'' (not_null (column ''grace_days_hard'' SInteger)),
     column ''next_due_at'' STimestamptz,
     column ''cancelled_at'' STimestamptz,
     defaulting ''now()'' (not_null (column ''created_at'' STimestamptz)),
     defaulting ''now()'' (not_null (column ''updated_at'' STimestamptz))]"

definition base_subscription_payments :: "column_def list" where
  "base_subscription_payments =
    [primary (column ''id'' SUuid),
     referring ''subscriptions'' NoAction (not_null (column ''subscription_id'' SUuid)),
     referring ''invoices'' NoAction (not_null (column ''invoice_id'' SUuid)),
     not_null (column ''period_start'' STimestamptz),
     not_null (column ''period_end'' STimestamptz),
     defaulting ''now()'' (not_null (column ''created_at'' STimestamptz))]"

definition base_wallet_shards :: "column_def list" where
  "base_wallet_shards =
    [primary (column ''id'' SUuid),
     referring ''merchants'' NoAction (not_null (column ''merchant_id'' SUuid)),
     not_null (column ''account_index'' SInteger),
     defaulting ''0'' (not_null (column ''next_address_index'' SInteger)),
     defaulting ''now()'' (not_null (column ''created_at'' STimestamptz))]"

definition base_api_keys :: "column_def list" where
  "base_api_keys =
    [primary (column ''id'' SUuid),
     referring ''merchants'' NoAction (not_null (column ''merchant_id'' SUuid)),
     not_null (column ''key_hash'' (SVarchar 255)),
     not_null (column ''key_prefix'' (SVarchar 20)),
     column ''label'' (SVarchar 255),
     defaulting ''test'' (not_null (column ''environment'' (SVarchar 10))),
     defaulting ''true'' (not_null (column ''is_active'' SBoolean)),
     column ''last_used_at'' STimestamptz,
     defaulting ''now()'' (not_null (column ''created_at'' STimestamptz))]"

definition base_webhook_deliveries :: "column_def list" where
  "base_webhook_deliveries =
    [primary (column ''id'' SUuid),
     referring ''merchants'' NoAction (not_null (column ''merchant_id'' SUuid)),
     referring ''invoices'' NoAction (column ''invoice_id'' SUuid),
     not_null (column ''event_type'' (SVarchar 64)),
     not_null (column ''payload'' SJsonb),
     not_null (column ''url'' (SVarchar 2048)),
     defaulting ''pending'' (not_null (column ''status'' (SEnum ''webhook_status''))),
     defaulting ''0'' (not_null (column ''attempts'' SInteger)),
     defaulting ''7'' (not_null (column ''max_attempts'' SInteger)),
     column ''last_attempt_at'' STimestamptz,
     column ''response_code'' SInteger,
     column ''response_body'' SText,
     column ''next_retry_at'' STimestamptz,
     defaulting ''now()'' (not_null (column ''created_at'' STimestamptz))]"

definition base_audit_log :: "column_def list" where
  "base_audit_log =
    [primary (column ''id'' SUuid),
     referring ''merchants'' NoAction (column ''merchant_id'' SUuid),
     not_null (column ''action'' (SVarchar 128)),
     column ''entity_type'' (SVarchar 64),
     column ''entity_id'' SUuid,
     column ''details'' SJsonb,
     column ''ip_address'' (SVarchar 45),
     defaulting ''now()'' (not_null (column ''created_at'' STimestamptz))]"

definition baseline_up :: "ddl list" where
  "baseline_up =
    [CreateType ''invoice_status'' [''pending'', ''paid'', ''expired'', ''partially_paid'', ''overpaid'', ''late_paid'', ''cancelled''],
     CreateType ''payment_status'' [''detected'', ''confirmed'', ''orphaned''],
     CreateType ''subscription_status'' [''active'', ''paused'', ''cancelled'', ''expired''],
     CreateType ''webhook_status'' [''pending'', ''delivered'', ''failed''],
     CreateTable ''merchants'' base_merchants,
     CreateTable ''invoices'' base_invoices,
     CreateIndex ''ix_invoices_merchant_created'' ''invoices'' [Asc ''merchant_id'', Asc ''created_at''] False None False,
     CreateIndex ''ix_invoices_status_expires'' ''invoices'' [Asc ''status'', Asc ''expires_at''] False (Some (''status'', [''pending''])) False,
     CreateTable ''invoice_addresses'' base_invoice_addresses,
     CreateIndex ''ix_invoice_addresses_index'' ''invoice_addresses'' [Asc ''account_index'', Asc ''address_index''] False None False,
     CreateTable ''payments'' base_payments,
     CreateIndex ''ix_payments_invoice_status'' ''payments'' [Asc ''invoice_id'', Asc ''status''] False None False,
     CreateIndex ''ix_payments_tx_hash'' ''payments'' [Asc ''tx_hash''] False None False,
     CreateTable ''customers'' base_customers,
     CreateIndex ''ix_customers_merchant_external'' ''customers'' [Asc ''merchant_id'', Asc ''external_id''] True None False,
     CreateTable ''subscriptions'' base_subscriptions,
     CreateIndex ''ix_subscriptions_customer_id'' ''subscriptions'' [Asc ''customer_id''] False None False,
     CreateTable ''subscription_payments'' base_subscription_payments,
     CreateIndex ''ix_subscription_payments_invoice_id'' ''subscription_payments'' [Asc ''invoice_id''] False None False,
     CreateTable ''wallet_shards'' base_wallet_shards,
     CreateIndex ''ix_wallet_shards_merchant_account'' ''wallet_shards'' [Asc ''merchant_id'', Asc ''account_index''] True None False,
     CreateTable ''api_keys'' base_api_keys,
     CreateIndex ''ix_api_keys_prefix'' ''api_keys'' [Asc ''key_prefix''] False None False,
     CreateIndex ''ix_api_keys_merchant'' ''api_keys'' [Asc ''merchant_id''] False None False,
     CreateTable ''webhook_deliveries'' base_webhook_deliveries,
     CreateIndex ''ix_webhook_deliveries_merchant'' ''webhook_deliveries'' [Asc ''merchant_id''] False None False,
     CreateIndex ''ix_webhook_deliveries_invoice_id'' ''webhook_deliveries'' [Asc ''invoice_id''] False None False,
     CreateIndex ''ix_webhook_deliveries_retry'' ''webhook_deliveries'' [Asc ''next_retry_at''] False (Some (''status'', [''pending''])) False,
     CreateTable ''audit_log'' base_audit_log,
     CreateIndex ''ix_audit_log_action'' ''audit_log'' [Asc ''action''] False None False,
     CreateIndex ''ix_audit_log_merchant_created'' ''audit_log'' [Asc ''merchant_id'', Asc ''created_at''] False None False]"

definition baseline_tables :: "string list" where
  "baseline_tables = [''audit_log'', ''webhook_deliveries'', ''api_keys'', ''wallet_shards'', ''subscription_payments'',
     ''subscriptions'', ''customers'', ''payments'', ''invoice_addresses'', ''invoices'', ''merchants'']"

definition baseline_down :: "ddl list" where
  "baseline_down = map DropTableCascade baseline_tables @
     map DropTypeIfExists [''webhook_status'', ''subscription_status'', ''payment_status'', ''invoice_status'']"

section \<open>Phases 5 to 8\<close>

definition past_due_up :: "ddl list" where
  "past_due_up = [AddValue ''subscription_status'' ''past_due'' (Before ''cancelled'') True]"

definition past_due_down :: "ddl list" where
  "past_due_down = []"

definition billing_period_up :: "ddl list" where
  "billing_period_up =
    [AddColumn ''subscriptions'' (column ''metadata_json'' SJson),
     AddConstraint ''subscription_payments'' ''uq_subscription_payments_sub_period''
       (Unique [''subscription_id'', ''period_start'']) True,
     CreateIndex ''ix_subscriptions_next_due_active'' ''subscriptions'' [Asc ''next_due_at''] False
       (Some (''status'', [''active'', ''past_due''])) True,
     CreateIndex ''ix_subscription_payments_subscription_id'' ''subscription_payments'' [Asc ''subscription_id''] False None False]"

definition billing_period_down :: "ddl list" where
  "billing_period_down =
    [DropIndex ''ix_subscription_payments_subscription_id'' False,
     DropIndex ''ix_subscriptions_next_due_active'' True,
     DropConstraint ''subscription_payments'' ''uq_subscription_payments_sub_period'',
     DropColumn ''subscriptions'' ''metadata_json'']"

definition pending_changes_up :: "ddl list" where
  "pending_changes_up =
    [AddColumn ''subscriptions'' (column ''pending_amount_atomic'' SBigint),
     AddColumn ''subscriptions'' (column ''pending_amount_xmr'' (SNumeric 18 12)),
     AddColumn ''subscriptions'' (column ''pending_interval_days'' SInteger),
     AddColumn ''subscriptions'' (column ''pending_grace_soft'' SInteger),
     AddColumn ''subscriptions'' (column ''pending_grace_hard'' SInteger),
     AddColumn ''subscriptions'' (column ''billing_anchor_at'' STimestamptz),
     SetNullable ''subscriptions'' ''billing_anchor_at'' False]"

definition pending_changes_down :: "ddl list" where
  "pending_changes_down = map (DropColumn ''subscriptions'')
     [''billing_anchor_at'', ''pending_grace_hard'', ''pending_grace_soft'', ''pending_interval_days'',
      ''pending_amount_xmr'', ''pending_amount_atomic'']"

definition dead_letter_columns :: "column_def list" where
  "dead_letter_columns =
    [defaulting ''gen_random_uuid()'' (primary (column ''id'' SUuid)),
     referring ''webhook_deliveries'' NoAction (not_null (column ''delivery_id'' SUuid)),
     referring ''merchants'' NoAction (not_null (column ''merchant_id'' SUuid)),
     not_null (column ''event_type'' (SVarchar 50)),
     not_null (column ''payload'' SJsonb),
     not_null (column ''original_created_at'' STimestamptz),
     defaulting ''now()'' (not_null (column ''dead_lettered_at'' STimestamptz)),
     defaulting ''0'' (not_null (column ''retry_count'' SInteger)),
     column ''last_retry_at'' STimestamptz,
     column ''last_error'' SText,
     defaulting ''false'' (not_null (column ''resolved'' SBoolean)),
     column ''resolved_at'' STimestamptz,
     defaulting ''now()'' (not_null (column ''created_at'' STimestamptz))]"

definition cursor_tables :: "string list" where
  "cursor_tables = [''invoices'', ''customers'', ''subscriptions'', ''webhook_deliveries'', ''api_keys'']"

definition cursor_index :: "string \<Rightarrow> string" where
  "cursor_index t = ''idx_'' @ t @ ''_cursor''"

definition dlq_up :: "ddl list" where
  "dlq_up =
    [AddValue ''webhook_status'' ''dead_lettered'' (After ''failed'') False,
     CreateTable ''webhook_dead_letters'' dead_letter_columns,
     CreateIndex ''idx_dlq_merchant'' ''webhook_dead_letters''
       [Asc ''merchant_id'', Asc ''resolved'', Desc ''dead_lettered_at''] False None False] @
    map (\<lambda>t. CreateIndex (cursor_index t) t [Asc ''merchant_id'', Desc ''created_at'', Desc ''id''] False None False)
      cursor_tables @
    [CreateIndex (cursor_index ''payments'') ''payments'' [Asc ''invoice_id'', Desc ''detected_at'', Desc ''id'']
       False None False]"

definition dlq_down :: "ddl list" where
  "dlq_down = [DropIndex (cursor_index ''payments'') False] @
     map (\<lambda>t. DropIndex (cursor_index t) False) cursor_tables @
     [DropIndex ''idx_dlq_merchant'' False, DropTable ''webhook_dead_letters'']"

definition renewal_events_up :: "ddl list" where
  "renewal_events_up =
    [CreateTable ''subscription_renewal_events''
      [defaulting ''gen_random_uuid()'' (primary (column ''id'' SUuid)),
       referring ''subscriptions'' Cascade (not_null (column ''subscription_id'' SUuid)),
       not_null (column ''result'' (SVarchar 30)),
       referring ''invoices'' NoAction (column ''invoice_id'' SUuid),
       column ''error_message'' SText,
       column ''details'' SJsonb,
       defaulting ''now()'' (not_null (column ''created_at'' STimestamptz))],
     CreateIndex ''idx_renewal_events_sub'' ''subscription_renewal_events''
       [Asc ''subscription_id'', Desc ''created_at''] False None False]"

definition renewal_events_down :: "ddl list" where
  "renewal_events_down = [DropIndex ''idx_renewal_events_sub'' False, DropTable ''subscription_renewal_events'']"

definition trial_up :: "ddl list" where
  "trial_up =
    [AddValue ''subscription_status'' ''trialing'' AtEnd True,
     AddColumn ''subscriptions'' (column ''trial_days'' SInteger),
     AddColumn ''subscriptions'' (column ''trial_end_at'' STimestamptz)]"

definition trial_down :: "ddl list" where
  "trial_down = [DropColumn ''subscriptions'' ''trial_end_at'', DropColumn ''subscriptions'' ''trial_days'']"

definition prepay_up :: "ddl list" where
  "prepay_up =
    [AddColumn ''merchants'' (column ''prepay_plans'' SJsonb),
     AddColumn ''subscriptions'' (column ''prepaid_until'' STimestamptz),
     AddColumn ''subscriptions'' (referring ''invoices'' NoAction (column ''prepay_invoice_id'' SUuid))]"

definition prepay_down :: "ddl list" where
  "prepay_down =
    [DropColumn ''subscriptions'' ''prepay_invoice_id'', DropColumn ''subscriptions'' ''prepaid_until'',
     DropColumn ''merchants'' ''prepay_plans'']"

definition licenses_up :: "ddl list" where
  "licenses_up =
    [CreateTable ''licenses''
      [defaulting ''gen_random_uuid()'' (primary (column ''id'' SUuid)),
       unique (not_null (column ''key_hash'' (SVarchar 128))),
       not_null (column ''key_prefix'' (SVarchar 30)),
       not_null (column ''email'' (SVarchar 255)),
       not_null (column ''tier'' (SVarchar 20)),
       defaulting ''true'' (not_null (column ''active'' SBoolean)),
       column ''expires_at'' STimestamptz,
       column ''note'' SText,
       defaulting ''now()'' (not_null (column ''created_at'' STimestamptz))],
     CreateIndex ''ix_licenses_key_hash'' ''licenses'' [Asc ''key_hash''] True None False,
     CreateIndex ''ix_licenses_tier_active'' ''licenses'' [Asc ''tier'', Asc ''active''] False None False]"

definition licenses_down :: "ddl list" where
  "licenses_down =
    [DropIndex ''ix_licenses_tier_active'' False, DropIndex ''ix_licenses_key_hash'' False, DropTable ''licenses'']"

section \<open>Wave 1\<close>

definition payments_unique_up :: "ddl list" where
  "payments_unique_up =
    [CreateIndex ''ix_payments_invoice_tx_unique'' ''payments'' [Asc ''invoice_id'', Asc ''tx_hash''] True None True,
     AddUniqueUsing ''payments'' ''uq_payments_invoice_tx'' ''ix_payments_invoice_tx_unique'']"

definition payments_unique_down :: "ddl list" where
  "payments_unique_down = [DropConstraint ''payments'' ''uq_payments_invoice_tx'']"

definition addresses_unique_up :: "ddl list" where
  "addresses_unique_up =
    [CreateIndex ''ix_invoice_addresses_index_unique'' ''invoice_addresses''
       [Asc ''account_index'', Asc ''address_index''] True None True,
     DropIndex ''ix_invoice_addresses_index'' True,
     RenameIndex ''ix_invoice_addresses_index_unique'' ''ix_invoice_addresses_index'']"

definition addresses_unique_down :: "ddl list" where
  "addresses_unique_down =
    [RenameIndex ''ix_invoice_addresses_index'' ''ix_invoice_addresses_index_unique'',
     CreateIndex ''ix_invoice_addresses_index'' ''invoice_addresses''
       [Asc ''account_index'', Asc ''address_index''] False None True,
     DropIndex ''ix_invoice_addresses_index_unique'' True]"

definition fk_indexes :: "(string \<times> string \<times> string) list" where
  "fk_indexes =
    [(''ix_subscriptions_customer_id'', ''subscriptions'', ''customer_id''),
     (''ix_subscriptions_prepay_invoice_id'', ''subscriptions'', ''prepay_invoice_id''),
     (''ix_webhook_deliveries_invoice_id'', ''webhook_deliveries'', ''invoice_id''),
     (''ix_subscription_payments_invoice_id'', ''subscription_payments'', ''invoice_id''),
     (''ix_webhook_dead_letters_delivery_id'', ''webhook_dead_letters'', ''delivery_id''),
     (''ix_subscription_renewal_events_invoice_id'', ''subscription_renewal_events'', ''invoice_id'')]"

definition fk_indexes_up :: "ddl list" where
  "fk_indexes_up = map (\<lambda>(n, t, c). CreateIndex n t [Asc c] False None True) fk_indexes"

definition fk_indexes_down :: "ddl list" where
  "fk_indexes_down = map (\<lambda>(n, t, c). DropIndex n True) (rev fk_indexes)"

definition checks :: "(string \<times> string \<times> string) list" where
  "checks =
    [(''payments'', ''ck_payments_amount_atomic_nonnegative'', ''amount_atomic >= 0''),
     (''payments'', ''ck_payments_confirmations_nonnegative'', ''confirmations >= 0''),
     (''invoices'', ''ck_invoices_amount_atomic_positive'', ''amount_atomic > 0''),
     (''subscriptions'', ''ck_subscriptions_amount_atomic_positive'', ''amount_atomic > 0''),
     (''subscriptions'', ''ck_subscriptions_interval_days_positive'', ''interval_days > 0''),
     (''subscriptions'', ''ck_subscriptions_grace_days_soft_nonnegative'', ''grace_days_soft >= 0''),
     (''subscriptions'', ''ck_subscriptions_grace_days_hard_nonnegative'', ''grace_days_hard >= 0''),
     (''subscriptions'', ''ck_subscriptions_grace_days_order'', ''grace_days_hard >= grace_days_soft''),
     (''subscriptions'', ''ck_subscriptions_trial_days_positive'', ''trial_days IS NULL OR trial_days > 0''),
     (''subscription_payments'', ''ck_subscription_payments_period_order'', ''period_end > period_start''),
     (''webhook_deliveries'', ''ck_webhook_deliveries_attempts_nonnegative'', ''attempts >= 0''),
     (''webhook_dead_letters'', ''ck_webhook_dead_letters_retry_count_nonnegative'', ''retry_count >= 0'')]"

definition checks_up :: "ddl list" where
  "checks_up = concat (map (\<lambda>(t, n, e). [AddConstraint t n (Check e) False, ValidateConstraint t n]) checks)"

definition checks_down :: "ddl list" where
  "checks_down = map (\<lambda>(t, n, e). DropConstraint t n) (rev checks)"

text \<open>Table, columns, referenced table and columns, what a delete does, new name, old name.\<close>

type_synonym fk_change = "string \<times> string list \<times> string \<times> string list \<times> on_delete \<times> string \<times> string"

definition fk_changes :: "fk_change list" where
  "fk_changes =
    [(''invoice_addresses'', [''invoice_id''], ''invoices'', [''id''], Cascade, ''fk_invoice_addresses_invoice_id_invoices'', ''invoice_addresses_invoice_id_fkey''),
     (''audit_log'', [''merchant_id''], ''merchants'', [''id''], SetNull, ''fk_audit_log_merchant_id_merchants'', ''audit_log_merchant_id_fkey''),
     (''api_keys'', [''merchant_id''], ''merchants'', [''id''], Restrict, ''fk_api_keys_merchant_id_merchants'', ''api_keys_merchant_id_fkey''),
     (''customers'', [''merchant_id''], ''merchants'', [''id''], Restrict, ''fk_customers_merchant_id_merchants'', ''customers_merchant_id_fkey''),
     (''invoices'', [''merchant_id''], ''merchants'', [''id''], Restrict, ''fk_invoices_merchant_id_merchants'', ''invoices_merchant_id_fkey''),
     (''payments'', [''invoice_id''], ''invoices'', [''id''], Restrict, ''fk_payments_invoice_id_invoices'', ''payments_invoice_id_fkey''),
     (''subscription_payments'', [''subscription_id''], ''subscriptions'', [''id''], Restrict, ''fk_subscription_payments_subscription_id_subscriptions'', ''subscription_payments_subscription_id_fkey''),
     (''subscription_payments'', [''invoice_id''], ''invoices'', [''id''], Restrict, ''fk_subscription_payments_invoice_id_invoices'', ''subscription_payments_invoice_id_fkey''),
     (''subscription_renewal_events'', [''invoice_id''], ''invoices'', [''id''], Restrict, ''fk_subscription_renewal_events_invoice_id_invoices'', ''subscription_renewal_events_invoice_id_fkey''),
     (''subscriptions'', [''merchant_id''], ''merchants'', [''id''], Restrict, ''fk_subscriptions_merchant_id_merchants'', ''subscriptions_merchant_id_fkey''),
     (''subscriptions'', [''customer_id''], ''customers'', [''id''], Restrict, ''fk_subscriptions_customer_id_customers'', ''subscriptions_customer_id_fkey''),
     (''subscriptions'', [''prepay_invoice_id''], ''invoices'', [''id''], Restrict, ''fk_subscriptions_prepay_invoice_id_invoices'', ''subscriptions_prepay_invoice_id_fkey''),
     (''wallet_shards'', [''merchant_id''], ''merchants'', [''id''], Restrict, ''fk_wallet_shards_merchant_id_merchants'', ''wallet_shards_merchant_id_fkey''),
     (''webhook_deliveries'', [''merchant_id''], ''merchants'', [''id''], Restrict, ''fk_webhook_deliveries_merchant_id_merchants'', ''webhook_deliveries_merchant_id_fkey''),
     (''webhook_deliveries'', [''invoice_id''], ''invoices'', [''id''], Restrict, ''fk_webhook_deliveries_invoice_id_invoices'', ''webhook_deliveries_invoice_id_fkey''),
     (''webhook_dead_letters'', [''merchant_id''], ''merchants'', [''id''], Restrict, ''fk_webhook_dead_letters_merchant_id_merchants'', ''webhook_dead_letters_merchant_id_fkey''),
     (''webhook_dead_letters'', [''delivery_id''], ''webhook_deliveries'', [''id''], Restrict, ''fk_webhook_dead_letters_delivery_id_webhook_deliveries'', ''webhook_dead_letters_delivery_id_fkey'')]"

text \<open>The query on \<open>pg_constraint\<close>, \<open>_replace_fk\<close> and the two directions.\<close>

definition existing_fk_name :: "string \<Rightarrow> string list \<Rightarrow> string \<Rightarrow> schema \<Rightarrow> string option" where
  "existing_fk_name t cs r s = (case map_of (sc_tables s) t of
      None \<Rightarrow> None
    | Some tab \<Rightarrow> map_option fst (find (\<lambda>(n, k, v). case k of
          ForeignKey cs' r' rcs act \<Rightarrow> cs' = cs \<and> r' = r | _ \<Rightarrow> False) (tb_constraints tab)))"

definition replace_fk :: "fk_change \<Rightarrow> schema \<Rightarrow> schema option" where
  "replace_fk change s = (case change of (t, cs, r, rcs, act, name, old) \<Rightarrow>
     run_ddl ((case existing_fk_name t cs r s of None \<Rightarrow> [] | Some existing \<Rightarrow> [DropConstraint t existing]) @
       [AddConstraint t name (ForeignKey cs r rcs act) False, ValidateConstraint t name]) s)"

fun replace_fks :: "fk_change list \<Rightarrow> schema \<Rightarrow> schema option" where
  "replace_fks [] s = Some s"
| "replace_fks (change # changes) s = (case replace_fk change s of None \<Rightarrow> None | Some s' \<Rightarrow> replace_fks changes s')"

definition ondelete_up :: "schema \<Rightarrow> schema option" where
  "ondelete_up s = (case exec (SetNullable ''audit_log'' ''merchant_id'' True) s of
      None \<Rightarrow> None | Some s' \<Rightarrow> replace_fks fk_changes s')"

definition ondelete_down :: "ddl list" where
  "ondelete_down = concat (map (\<lambda>(t, cs, r, rcs, act, name, old).
     [DropConstraint t name, AddConstraint t old (ForeignKey cs r rcs NoAction) False, ValidateConstraint t old])
     (rev fk_changes))"

definition dlq_retry_up :: "ddl list" where
  "dlq_retry_up =
    [AddColumn ''webhook_dead_letters'' (column ''retry_delivery_id'' SUuid),
     AddConstraint ''webhook_dead_letters'' ''fk_webhook_dead_letters_retry_delivery_id_webhook_deliveries''
       (ForeignKey [''retry_delivery_id''] ''webhook_deliveries'' [''id''] SetNull) False,
     ValidateConstraint ''webhook_dead_letters'' ''fk_webhook_dead_letters_retry_delivery_id_webhook_deliveries'',
     CreateIndex ''ix_webhook_dead_letters_retry_delivery'' ''webhook_dead_letters'' [Asc ''retry_delivery_id''] False None True]"

definition dlq_retry_down :: "ddl list" where
  "dlq_retry_down =
    [DropIndex ''ix_webhook_dead_letters_retry_delivery'' True,
     DropConstraint ''webhook_dead_letters'' ''fk_webhook_dead_letters_retry_delivery_id_webhook_deliveries'',
     DropColumn ''webhook_dead_letters'' ''retry_delivery_id'']"

section \<open>The chain\<close>

record revision =
  rv_id :: string
  rv_parent :: "string option"
  rv_upgrade :: "schema \<Rightarrow> schema option"
  rv_downgrade :: "schema \<Rightarrow> schema option"

definition revision :: "string \<Rightarrow> string option \<Rightarrow> ddl list \<Rightarrow> ddl list \<Rightarrow> revision" where
  "revision i parent up down = \<lparr>rv_id = i, rv_parent = parent, rv_upgrade = run_ddl up, rv_downgrade = run_ddl down\<rparr>"

definition revisions :: "revision list" where
  "revisions =
    [revision ''ff232ea503f4'' None baseline_up baseline_down,
     revision ''0b5457cee965'' (Some ''ff232ea503f4'') past_due_up past_due_down,
     revision ''0b5457cee966'' (Some ''0b5457cee965'') billing_period_up billing_period_down,
     revision ''a1b2c3d4e5f6'' (Some ''0b5457cee966'') pending_changes_up pending_changes_down,
     revision ''b2c3d4e5f6a7'' (Some ''a1b2c3d4e5f6'') dlq_up dlq_down,
     revision ''c3d4e5f6a7b8'' (Some ''b2c3d4e5f6a7'') renewal_events_up renewal_events_down,
     revision ''d4e5f6a7b8c9'' (Some ''c3d4e5f6a7b8'') trial_up trial_down,
     revision ''e5f6a7b8c9d0'' (Some ''d4e5f6a7b8c9'') prepay_up prepay_down,
     revision ''f6a7b8c9d0e1'' (Some ''e5f6a7b8c9d0'') licenses_up licenses_down,
     revision ''w1_01a'' (Some ''f6a7b8c9d0e1'') payments_unique_up payments_unique_down,
     revision ''w1_02a'' (Some ''w1_01a'') addresses_unique_up addresses_unique_down,
     revision ''w1_03a'' (Some ''w1_02a'') fk_indexes_up fk_indexes_down,
     revision ''w1_04a'' (Some ''w1_03a'') checks_up checks_down,
     \<lparr>rv_id = ''w1_05a'', rv_parent = Some ''w1_04a'', rv_upgrade = ondelete_up, rv_downgrade = run_ddl ondelete_down\<rparr>,
     revision ''w1_06a'' (Some ''w1_05a'') dlq_retry_up dlq_retry_down]"

text \<open>\<open>alembic upgrade head\<close> from a revision, and \<open>alembic downgrade\<close> over the given revisions.\<close>

fun upgrade_all :: "revision list \<Rightarrow> schema \<Rightarrow> schema option" where
  "upgrade_all [] s = Some s"
| "upgrade_all (v # vs) s = (case rv_upgrade v s of None \<Rightarrow> None | Some s' \<Rightarrow> upgrade_all vs s')"

fun downgrade_all :: "revision list \<Rightarrow> schema \<Rightarrow> schema option" where
  "downgrade_all [] s = Some s"
| "downgrade_all (v # vs) s = (case rv_downgrade v s of None \<Rightarrow> None | Some s' \<Rightarrow> downgrade_all vs s')"

section \<open>Going back\<close>

text \<open>Equal up to the order of constraints and indexes.\<close>

definition same_elements :: "'x list \<Rightarrow> 'x list \<Rightarrow> bool" where
  "same_elements xs ys \<longleftrightarrow> list_all (\<lambda>x. x \<in> set ys) xs \<and> list_all (\<lambda>y. y \<in> set xs) ys"

definition same_schema :: "schema \<Rightarrow> schema \<Rightarrow> bool" where
  "same_schema s s' \<longleftrightarrow> sc_enums s = sc_enums s' \<and>
     list_all2 (\<lambda>(t, a) (t', b). t = t' \<and> tb_columns a = tb_columns b \<and>
       same_elements (tb_constraints a) (tb_constraints b)) (sc_tables s) (sc_tables s') \<and>
     same_elements (sc_indexes s) (sc_indexes s')"

text \<open>The revisions of a chain whose downgrade does not bring back the schema that their upgrade found.\<close>

definition restores :: "revision \<Rightarrow> schema \<Rightarrow> schema \<Rightarrow> bool" where
  "restores v s s' \<longleftrightarrow> (case rv_downgrade v s' of None \<Rightarrow> False | Some s'' \<Rightarrow> same_schema s'' s)"

fun irreversible :: "revision list \<Rightarrow> schema \<Rightarrow> string list" where
  "irreversible [] s = []"
| "irreversible (v # vs) s = (case rv_upgrade v s of
      None \<Rightarrow> rv_id v # map rv_id vs
    | Some s' \<Rightarrow> (if restores v s s' then [] else [rv_id v]) @ irreversible vs s')"

end
