(* ===== verification/Declared_Schema.thy ===== *)
theory Declared_Schema
  imports Migrations
begin

text \<open>
  The tables as \<open>src/backend/app/db/models.py\<close> declares them to SQLAlchemy: columns, constraints of
  \<open>__table_args__\<close> and indexes. Python-side defaults and relationships make no schema. \<open>drift\<close> compares
  a database schema with the declarations, up to the names of constraints and the order of columns,
  and lists every difference.
\<close>

section \<open>Declarations\<close>

record model_table =
  mt_name :: string
  mt_columns :: "column_def list"
  mt_constraints :: "con_kind list"
  mt_indexes :: "(string \<times> sql_index) list"

definition declared_index :: "string \<Rightarrow> string \<Rightarrow> key list \<Rightarrow> bool \<Rightarrow> (string \<times> string list) option \<Rightarrow> string \<times> sql_index" where
  "declared_index n t ks uniq wh = (n, \<lparr>ix_table = t, ix_keys = ks, ix_unique = uniq, ix_where = wh\<rparr>)"

definition model_merchants :: model_table where
  "model_merchants = \<lparr>mt_name = ''merchants'', mt_columns =
    [primary (column ''id'' SUuid),
     not_null (column ''name'' (SVarchar 255)),
     column ''email'' (SVarchar 255),
     not_null (column ''monero_address'' (SVarchar 128)),
     column ''view_key_encrypted'' SText,
     column ''webhook_url'' (SVarchar 2048),
     column ''webhook_secret'' (SVarchar 255),
     not_null (column ''environment'' (SVarchar 10)),
     not_null (column ''is_active'' SBoolean),
     column ''metadata_json'' SJsonb,
     column ''prepay_plans'' SJsonb,
     not_null (column ''created_at'' STimestamptz),
     not_null (column ''updated_at'' STimestamptz)],
   mt_constraints =
    [],
   mt_indexes =
    []\<rparr>"

definition model_invoices :: model_table where
  "model_invoices = \<lparr>mt_name = ''invoices'', mt_columns =
    [primary (column ''id'' SUuid),
     referring ''merchants'' Restrict (not_null (column ''merchant_id'' SUuid)),
     not_null (column ''amount_atomic'' SBigint),
     not_null (column ''amount_xmr'' (SNumeric 18 12)),
     column ''fiat_currency'' (SVarchar 3),
     column ''fiat_amount'' (SNumeric 18 2),
     column ''fiat_rate'' (SNumeric 18 8),
     not_null (column ''status'' (SEnum ''invoice_status'')),
     column ''description'' (SVarchar 1024),
     column ''metadata_json'' SJsonb,
     not_null (column ''expires_at'' STimestamptz),
     column ''paid_at'' STimestamptz,
     not_null (column ''created_at'' STimestamptz),
     not_null (column ''updated_at'' STimestamptz)],
   mt_constraints =
    [Check ''amount_atomic > 0''],
   mt_indexes =
    [declared_index ''ix_invoices_status_expires'' ''invoices'' [Asc ''status'', Asc ''expires_at''] False (Some (''status'', [''pending''])),
     declared_index ''ix_invoices_merchant_created'' ''invoices'' [Asc ''merchant_id'', Asc ''created_at''] False None]\<rparr>"

definition model_invoice_addresses :: model_table where
  "model_invoice_addresses = \<lparr>mt_name = ''invoice_addresses'', mt_columns =
    [primary (column ''id'' SUuid),
     unique (referring ''invoices'' Cascade (not_null (column ''invoice_id'' SUuid))),
     unique (not_null (column ''address'' (SVarchar 128))),
     not_null (column ''address_index'' SInteger),
     not_null (column ''account_index'' SInteger),
     not_null (column ''created_at'' STimestamptz)],
   mt_constraints =
    [],
   mt_indexes =
    [declared_index ''ix_invoice_addresses_index'' ''invoice_addresses'' [Asc ''account_index'', Asc ''address_index''] True None]\<rparr>"

definition model_payments :: model_table where
  "model_payments = \<lparr>mt_name = ''payments'', mt_columns =
    [primary (column ''id'' SUuid),
     referring ''invoices'' Restrict (not_null (column ''invoice_id'' SUuid)),
     not_null (column ''tx_hash'' (SVarchar 64)),
     not_null (column ''amount_atomic'' SBigint),
     not_null (column ''amount_xmr'' (SNumeric 18 12)),
     not_null (column ''status'' (SEnum ''payment_status'')),
     not_null (column ''confirmations'' SInteger),
     column ''block_height'' SBigint,
     not_null (column ''detected_at'' STimestamptz),
     column ''confirmed_at'' STimestamptz,
     not_null (column ''created_at'' STimestamptz)],
   mt_constraints =
    [Unique [''invoice_id'', ''tx_hash''],
     Check ''amount_atomic >= 0'',
     Check ''confirmations >= 0''],
   mt_indexes =
    [declared_index ''ix_payments_tx_hash'' ''payments'' [Asc ''tx_hash''] False None,
     declared_index ''ix_payments_invoice_status'' ''payments'' [Asc ''invoice_id'', Asc ''status''] False None]\<rparr>"

definition model_customers :: model_table where
  "model_customers = \<lparr>mt_name = ''customers'', mt_columns =
    [primary (column ''id'' SUuid),
     referring ''merchants'' Restrict (not_null (column ''merchant_id'' SUuid)),
     column ''external_id'' (SVarchar 255),
     column ''email'' (SVarchar 255),
     column ''metadata_json'' SJsonb,
     not_null (column ''created_at'' STimestamptz)],
   mt_constraints =
    [],
   mt_indexes =
    [declared_index ''ix_customers_merchant_external'' ''customers'' [Asc ''merchant_id'', Asc ''external_id''] True None]\<rparr>"

definition model_subscriptions :: model_table where
  "model_subscriptions = \<lparr>mt_name = ''subscriptions'', mt_columns =
    [primary (column ''id'' SUuid),
     referring ''merchants'' Restrict (not_null (column ''merchant_id'' SUuid)),
     referring ''customers'' Restrict (not_null (column ''customer_id'' SUuid)),
     not_null (column ''amount_atomic'' SBigint),
     not_null (column ''amount_xmr'' (SNumeric 18 12)),
     not_null (column ''interval_days'' SInteger),
     not_null (column ''status'' (SEnum ''subscription_status'')),
     not_null (column ''grace_days_soft'' SInteger),
     not_null (column ''grace_days_hard'' SInteger),
     column ''next_due_at'' STimestamptz,
     column ''cancelled_at'' STimestamptz,
     column ''trial_days'' SInteger,
     column ''trial_end_at'' STimestamptz,
     column ''metadata_json'' SJsonb,
     not_null (column ''billing_anchor_at'' STimestamptz),
     column ''pending_amount_atomic'' SBigint,
     column ''pending_amount_xmr'' (SNumeric 18 12),
     column ''pending_interval_days'' SInteger,
     column ''pending_grace_soft'' SInteger,
     column ''pending_grace_hard'' SInteger,
     column ''prepaid_until'' STimestamptz,
     referring ''invoices'' Restrict (column ''prepay_invoice_id'' SUuid),
     not_null (column ''created_at'' STimestamptz),
     not_null (column ''updated_at'' STimestamptz)],
   mt_constraints =
    [Check ''amount_atomic > 0'',
     Check ''interval_days > 0'',
     Check ''grace_days_soft >= 0'',
     Check ''grace_days_hard >= 0'',
     Check ''grace_days_hard >= grace_days_soft'',
     Check ''trial_days IS NULL OR trial_days > 0''],
   mt_indexes =
    [declared_index ''ix_subscriptions_customer_id'' ''subscriptions'' [Asc ''customer_id''] False None,
     declared_index ''ix_subscriptions_prepay_invoice_id'' ''subscriptions'' [Asc ''prepay_invoice_id''] False None]\<rparr>"

definition model_subscription_payments :: model_table where
  "model_subscription_payments = \<lparr>mt_name = ''subscription_payments'', mt_columns =
    [primary (column ''id'' SUuid),
     referring ''subscriptions'' Restrict (not_null (column ''subscription_id'' SUuid)),
     referring ''invoices'' Restrict (not_null (column ''invoice_id'' SUuid)),
     not_null (column ''period_start'' STimestamptz),
     not_null (column ''period_end'' STimestamptz),
     not_null (column ''created_at'' STimestamptz)],
   mt_constraints =
    [Check ''period_end > period_start''],
   mt_indexes =
    [declared_index ''ix_subscription_payments_invoice_id'' ''subscription_payments'' [Asc ''invoice_id''] False None]\<rparr>"

definition model_subscription_renewal_events :: model_table where
  "model_subscription_renewal_events = \<lparr>mt_name = ''subscription_renewal_events'', mt_columns =
    [primary (column ''id'' SUuid),
     referring ''subscriptions'' Cascade (not_null (column ''subscription_id'' SUuid)),
     not_null (column ''result'' (SVarchar 30)),
     referring ''invoices'' Restrict (column ''invoice_id'' SUuid),
     column ''error_message'' SText,
     column ''details'' SJsonb,
     not_null (column ''created_at'' STimestamptz)],
   mt_constraints =
    [],
   mt_indexes =
    [declared_index ''idx_renewal_events_sub'' ''subscription_renewal_events'' [Asc ''subscription_id'', Desc ''created_at''] False None,
     declared_index ''ix_subscription_renewal_events_invoice_id'' ''subscription_renewal_events'' [Asc ''invoice_id''] False None]\<rparr>"

definition model_wallet_shards :: model_table where
  "model_wallet_shards = \<lparr>mt_name = ''wallet_shards'', mt_columns =
    [primary (column ''id'' SUuid),
     referring ''merchants'' Restrict (not_null (column ''merchant_id'' SUuid)),
     not_null (column ''account_index'' SInteger),
     not_null (column ''next_address_index'' SInteger),
     not_null (column ''created_at'' STimestamptz)],
   mt_constraints =
    [],
   mt_indexes =
    [declared_index ''ix_wallet_shards_merchant_account'' ''wallet_shards'' [Asc ''merchant_id'', Asc ''account_index''] True None]\<rparr>"

definition model_api_keys :: model_table where
  "model_api_keys = \<lparr>mt_name = ''api_keys'', mt_columns =
    [primary (column ''id'' SUuid),
     referring ''merchants'' Restrict (not_null (column ''merchant_id'' SUuid)),
     not_null (column ''key_hash'' (SVarchar 255)),
     not_null (column ''key_prefix'' (SVarchar 20)),
     column ''label'' (SVarchar 255),
     not_null (column ''environment'' (SVarchar 10)),
     not_null (column ''is_active'' SBoolean),
     column ''last_used_at'' STimestamptz,
     not_null (column ''created_at'' STimestamptz)],
   mt_constraints =
    [],
   mt_indexes =
    [declared_index ''ix_api_keys_prefix'' ''api_keys'' [Asc ''key_prefix''] False None,
     declared_index ''ix_api_keys_merchant'' ''api_keys'' [Asc ''merchant_id''] False None]\<rparr>"

definition model_webhook_deliveries :: model_table where
  "model_webhook_deliveries = \<lparr>mt_name = ''webhook_deliveries'', mt_columns =
    [primary (column ''id'' SUuid),
     referring ''merchants'' Restrict (not_null (column ''merchant_id'' SUuid)),
     referring ''invoices'' Restrict (column ''invoice_id'' SUuid),
     not_null (column ''event_type'' (SVarchar 64)),
     not_null (column ''payload'' SJsonb),
     not_null (column ''url'' (SVarchar 2048)),
     not_null (column ''status'' (SEnum ''webhook_status'')),
     not_null (column ''attempts'' SInteger),
     not_null (column ''max_attempts'' SInteger),
     column ''last_attempt_at'' STimestamptz,
     column ''next_retry_at'' STimestamptz,
     column ''response_code'' SInteger,
     column ''response_body'' SText,
     not_null (column ''created_at'' STimestamptz)],
   mt_constraints =
    [Check ''attempts >= 0''],
   mt_indexes =
    [declared_index ''ix_webhook_deliveries_retry'' ''webhook_deliveries'' [Asc ''next_retry_at''] False (Some (''status'', [''pending''])),
     declared_index ''ix_webhook_deliveries_merchant'' ''webhook_deliveries'' [Asc ''merchant_id''] False None,
     declared_index ''ix_webhook_deliveries_invoice_id'' ''webhook_deliveries'' [Asc ''invoice_id''] False None]\<rparr>"

definition model_webhook_dead_letters :: model_table where
  "model_webhook_dead_letters = \<lparr>mt_name = ''webhook_dead_letters'', mt_columns =
    [primary (column ''id'' SUuid),
     referring ''webhook_deliveries'' Restrict (not_null (column ''delivery_id'' SUuid)),
     referring ''merchants'' Restrict (not_null (column ''merchant_id'' SUuid)),
     not_null (column ''event_type'' (SVarchar 50)),
     not_null (column ''payload'' SJsonb),
     not_null (column ''original_created_at'' STimestamptz),
     not_null (column ''dead_lettered_at'' STimestamptz),
     not_null (column ''retry_count'' SInteger),
     referring ''webhook_deliveries'' SetNull (column ''retry_delivery_id'' SUuid),
     column ''last_retry_at'' STimestamptz,
     column ''last_error'' SText,
     not_null (column ''resolved'' SBoolean),
     column ''resolved_at'' STimestamptz,
     not_null (column ''created_at'' STimestamptz)],
   mt_constraints =
    [Check ''retry_count >= 0''],
   mt_indexes =
    [declared_index ''idx_dlq_merchant'' ''webhook_dead_letters'' [Asc ''merchant_id'', Asc ''resolved''] False None,
     declared_index ''ix_webhook_dead_letters_delivery_id'' ''webhook_dead_letters'' [Asc ''delivery_id''] False None,
     declared_index ''ix_webhook_dead_letters_retry_delivery'' ''webhook_dead_letters'' [Asc ''retry_delivery_id''] False None]\<rparr>"

definition model_licenses :: model_table where
  "model_licenses = \<lparr>mt_name = ''licenses'', mt_columns =
    [primary (column ''id'' SUuid),
     unique (not_null (column ''key_hash'' (SVarchar 128))),
     not_null (column ''key_prefix'' (SVarchar 30)),
     not_null (column ''email'' (SVarchar 255)),
     not_null (column ''tier'' (SVarchar 20)),
     not_null (column ''active'' SBoolean),
     column ''expires_at'' STimestamptz,
     column ''note'' SText,
     not_null (column ''created_at'' STimestamptz)],
   mt_constraints =
    [],
   mt_indexes =
    [declared_index ''ix_licenses_key_hash'' ''licenses'' [Asc ''key_hash''] True None,
     declared_index ''ix_licenses_tier_active'' ''licenses'' [Asc ''tier'', Asc ''active''] False None]\<rparr>"

definition model_audit_log :: model_table where
  "model_audit_log = \<lparr>mt_name = ''audit_log'', mt_columns =
    [primary (column ''id'' SUuid),
     referring ''merchants'' SetNull (column ''merchant_id'' SUuid),
     not_null (column ''action'' (SVarchar 128)),
     column ''entity_type'' (SVarchar 64),
     column ''entity_id'' SUuid,
     column ''details'' SJsonb,
     column ''ip_address'' (SVarchar 45),
     not_null (column ''created_at'' STimestamptz)],
   mt_constraints =
    [],
   mt_indexes =
    [declared_index ''ix_audit_log_merchant_created'' ''audit_log'' [Asc ''merchant_id'', Asc ''created_at''] False None,
     declared_index ''ix_audit_log_action'' ''audit_log'' [Asc ''action''] False None]\<rparr>"

definition model_tables :: "model_table list" where
  "model_tables =
    [model_merchants,
     model_invoices,
     model_invoice_addresses,
     model_payments,
     model_customers,
     model_subscriptions,
     model_subscription_payments,
     model_subscription_renewal_events,
     model_wallet_shards,
     model_api_keys,
     model_webhook_deliveries,
     model_webhook_dead_letters,
     model_licenses,
     model_audit_log]"

definition model_enums :: "(string \<times> string list) list" where
  "model_enums =
    [(''invoice_status'', [''pending'', ''paid'', ''expired'', ''partially_paid'', ''overpaid'', ''late_paid'', ''cancelled'']),
     (''payment_status'', [''detected'', ''confirmed'', ''orphaned'']),
     (''subscription_status'', [''active'', ''paused'', ''past_due'', ''cancelled'', ''expired'', ''trialing'']),
     (''webhook_status'', [''pending'', ''delivered'', ''failed'', ''dead_lettered''])]"

section \<open>Differences\<close>

datatype difference =
    MissingTable string
  | MissingColumn string string
  | ColumnDiffers string string sql_type bool sql_type bool  \<comment> \<open>declared and actual type, nullable\<close>
  | ExtraColumn string string
  | MissingConstraint string con_kind
  | ExtraConstraint string con_kind
  | MissingIndex string
  | IndexDiffers string
  | ExtraIndex string
  | EnumDiffers string

definition declared_constraints :: "model_table \<Rightarrow> con_kind list" where
  "declared_constraints m =
     map (\<lambda>(n, k, v). k) (concat (map (inline_constraints (mt_name m)) (mt_columns m))) @ mt_constraints m"

definition column_difference :: "string \<Rightarrow> sql_column list \<Rightarrow> sql_column \<Rightarrow> difference list" where
  "column_difference t actual c = (case find (\<lambda>x. cl_name x = cl_name c) actual of
      None \<Rightarrow> [MissingColumn t (cl_name c)]
    | Some x \<Rightarrow> if cl_type x = cl_type c \<and> cl_null x = cl_null c then []
        else [ColumnDiffers t (cl_name c) (cl_type c) (cl_null c) (cl_type x) (cl_null x)])"

definition table_difference :: "schema \<Rightarrow> model_table \<Rightarrow> difference list" where
  "table_difference s m = (case map_of (sc_tables s) (mt_name m) of
      None \<Rightarrow> [MissingTable (mt_name m)]
    | Some tab \<Rightarrow>
        concat (map (column_difference (mt_name m) (tb_columns tab)) (map fst (mt_columns m))) @
        map (ExtraColumn (mt_name m)) (filter (\<lambda>c. c \<notin> set (map (\<lambda>cd. cl_name (fst cd)) (mt_columns m))) (columns_of tab)) @
        map (MissingConstraint (mt_name m)) (filter (\<lambda>k. k \<notin> set (map (\<lambda>(n, k, v). k) (tb_constraints tab))) (declared_constraints m)) @
        map (ExtraConstraint (mt_name m)) (filter (\<lambda>k. k \<notin> set (declared_constraints m)) (map (\<lambda>(n, k, v). k) (tb_constraints tab))))"

definition index_difference :: "schema \<Rightarrow> string \<times> sql_index \<Rightarrow> difference list" where
  "index_difference s nx = (case map_of (sc_indexes s) (fst nx) of
      None \<Rightarrow> [MissingIndex (fst nx)]
    | Some x \<Rightarrow> if x = snd nx then [] else [IndexDiffers (fst nx)])"

definition drift :: "schema \<Rightarrow> model_table list \<Rightarrow> (string \<times> string list) list \<Rightarrow> difference list" where
  "drift s models enums =
     concat (map (\<lambda>(n, vs). if map_of (sc_enums s) n = Some vs then [] else [EnumDiffers n]) enums) @
     concat (map (table_difference s) models) @
     concat (map (index_difference s) (concat (map mt_indexes models))) @
     map ExtraIndex (filter (\<lambda>n. n \<notin> set (map fst (concat (map mt_indexes models)))) (map fst (sc_indexes s)))"

end
