(* ===== verification/Schema_Names.thy ===== *)
theory Schema_Names
  imports Declared_Schema
begin

text \<open>
  Evaluation of the migrations with short names. The simplifier compares two names of the list
  \<open>names\<close> by their position, and a schema whose names are positions is a small term. \<open>interned\<close> is the
  identity on statements; its equations replace the text of every name by its position.
\<close>

definition names :: "string list" where
  "names =
    [''0'', ''3'', ''7'', ''account_index'', ''action'', ''active'', ''address'', ''address_index'',
     ''amount_atomic'', ''amount_atomic > 0'', ''amount_atomic >= 0'', ''amount_xmr'', ''api_keys'',
     ''api_keys_merchant_id_fkey'', ''api_keys_pkey'', ''attempts'', ''attempts >= 0'', ''audit_log'',
     ''audit_log_merchant_id_fkey'', ''audit_log_pkey'', ''billing_anchor_at'', ''block_height'', ''cancelled'',
     ''cancelled_at'', ''ck_invoices_amount_atomic_positive'', ''ck_payments_amount_atomic_nonnegative'',
     ''ck_payments_confirmations_nonnegative'', ''ck_subscription_payments_period_order'',
     ''ck_subscriptions_amount_atomic_positive'', ''ck_subscriptions_grace_days_hard_nonnegative'',
     ''ck_subscriptions_grace_days_order'', ''ck_subscriptions_grace_days_soft_nonnegative'',
     ''ck_subscriptions_interval_days_positive'', ''ck_subscriptions_trial_days_positive'',
     ''ck_webhook_dead_letters_retry_count_nonnegative'', ''ck_webhook_deliveries_attempts_nonnegative'',
     ''confirmations'', ''confirmations >= 0'', ''confirmed'', ''confirmed_at'', ''created_at'', ''customer_id'',
     ''customers'', ''customers_merchant_id_fkey'', ''customers_pkey'', ''dead_lettered'', ''dead_lettered_at'',
     ''delivered'', ''delivery_id'', ''description'', ''details'', ''detected'', ''detected_at'', ''email'',
     ''entity_id'', ''entity_type'', ''environment'', ''error_message'', ''event_type'', ''expired'', ''expires_at'',
     ''external_id'', ''failed'', ''false'', ''fiat_amount'', ''fiat_currency'', ''fiat_rate'',
     ''fk_api_keys_merchant_id_merchants'', ''fk_audit_log_merchant_id_merchants'',
     ''fk_customers_merchant_id_merchants'', ''fk_invoice_addresses_invoice_id_invoices'',
     ''fk_invoices_merchant_id_merchants'', ''fk_payments_invoice_id_invoices'',
     ''fk_subscription_payments_invoice_id_invoices'', ''fk_subscription_payments_subscription_id_subscriptions'',
     ''fk_subscription_renewal_events_invoice_id_invoices'', ''fk_subscriptions_customer_id_customers'',
     ''fk_subscriptions_merchant_id_merchants'', ''fk_subscriptions_prepay_invoice_id_invoices'',
     ''fk_wallet_shards_merchant_id_merchants'', ''fk_webhook_dead_letters_delivery_id_webhook_deliveries'',
     ''fk_webhook_dead_letters_merchant_id_merchants'',
     ''fk_webhook_dead_letters_retry_delivery_id_webhook_deliveries'', ''fk_webhook_deliveries_invoice_id_invoices'',
     ''fk_webhook_deliveries_merchant_id_merchants'', ''gen_random_uuid()'', ''grace_days_hard'',
     ''grace_days_hard >= 0'', ''grace_days_hard >= grace_days_soft'', ''grace_days_soft'', ''grace_days_soft >= 0'',
     ''id'', ''idx_api_keys_cursor'', ''idx_customers_cursor'', ''idx_dlq_merchant'', ''idx_invoices_cursor'',
     ''idx_payments_cursor'', ''idx_renewal_events_sub'', ''idx_subscriptions_cursor'',
     ''idx_webhook_deliveries_cursor'', ''interval_days'', ''interval_days > 0'', ''invoice_addresses'',
     ''invoice_addresses_address_key'', ''invoice_addresses_invoice_id_fkey'', ''invoice_addresses_invoice_id_key'',
     ''invoice_addresses_pkey'', ''invoice_id'', ''invoice_status'', ''invoices'', ''invoices_merchant_id_fkey'',
     ''invoices_pkey'', ''ip_address'', ''is_active'', ''ix_api_keys_merchant'', ''ix_api_keys_prefix'',
     ''ix_audit_log_action'', ''ix_audit_log_merchant_created'', ''ix_customers_merchant_external'',
     ''ix_invoice_addresses_index'', ''ix_invoice_addresses_index_unique'', ''ix_invoices_merchant_created'',
     ''ix_invoices_status_expires'', ''ix_licenses_key_hash'', ''ix_licenses_tier_active'',
     ''ix_payments_invoice_status'', ''ix_payments_invoice_tx_unique'', ''ix_payments_tx_hash'',
     ''ix_subscription_payments_invoice_id'', ''ix_subscription_payments_subscription_id'',
     ''ix_subscription_renewal_events_invoice_id'', ''ix_subscriptions_customer_id'',
     ''ix_subscriptions_next_due_active'', ''ix_subscriptions_prepay_invoice_id'',
     ''ix_wallet_shards_merchant_account'', ''ix_webhook_dead_letters_delivery_id'',
     ''ix_webhook_dead_letters_retry_delivery'', ''ix_webhook_deliveries_invoice_id'',
     ''ix_webhook_deliveries_merchant'', ''ix_webhook_deliveries_retry'', ''key_hash'', ''key_prefix'', ''label'',
     ''last_attempt_at'', ''last_error'', ''last_retry_at'', ''last_used_at'', ''late_paid'', ''licenses'',
     ''licenses_key_hash_key'', ''licenses_pkey'', ''max_attempts'', ''merchant_id'', ''merchants'',
     ''merchants_pkey'', ''metadata_json'', ''monero_address'', ''name'', ''next_address_index'', ''next_due_at'',
     ''next_retry_at'', ''note'', ''now()'', ''original_created_at'', ''orphaned'', ''overpaid'', ''paid'',
     ''paid_at'', ''partially_paid'', ''past_due'', ''paused'', ''payload'', ''payment_status'', ''payments'',
     ''payments_invoice_id_fkey'', ''payments_pkey'', ''pending'', ''pending_amount_atomic'', ''pending_amount_xmr'',
     ''pending_grace_hard'', ''pending_grace_soft'', ''pending_interval_days'', ''period_end'',
     ''period_end > period_start'', ''period_start'', ''prepaid_until'', ''prepay_invoice_id'', ''prepay_plans'',
     ''resolved'', ''resolved_at'', ''response_body'', ''response_code'', ''result'', ''retry_count'',
     ''retry_count >= 0'', ''retry_delivery_id'', ''status'', ''subscription_id'', ''subscription_payments'',
     ''subscription_payments_invoice_id_fkey'', ''subscription_payments_pkey'',
     ''subscription_payments_subscription_id_fkey'', ''subscription_renewal_events'',
     ''subscription_renewal_events_invoice_id_fkey'', ''subscription_renewal_events_pkey'',
     ''subscription_renewal_events_subscription_id_fkey'', ''subscription_status'', ''subscriptions'',
     ''subscriptions_customer_id_fkey'', ''subscriptions_merchant_id_fkey'', ''subscriptions_pkey'',
     ''subscriptions_prepay_invoice_id_fkey'', ''test'', ''tier'', ''trial_days'',
     ''trial_days IS NULL OR trial_days > 0'', ''trial_end_at'', ''trialing'', ''true'', ''tx_hash'', ''updated_at'',
     ''uq_payments_invoice_tx'', ''uq_subscription_payments_sub_period'', ''url'', ''view_key_encrypted'',
     ''wallet_shards'', ''wallet_shards_merchant_id_fkey'', ''wallet_shards_pkey'', ''webhook_dead_letters'',
     ''webhook_dead_letters_delivery_id_fkey'', ''webhook_dead_letters_merchant_id_fkey'',
     ''webhook_dead_letters_pkey'', ''webhook_deliveries'', ''webhook_deliveries_invoice_id_fkey'',
     ''webhook_deliveries_merchant_id_fkey'', ''webhook_deliveries_pkey'', ''webhook_secret'', ''webhook_status'',
     ''webhook_url'']"

definition nm :: "int \<Rightarrow> string" where
  "nm k = names ! nat k"

definition q :: "string \<Rightarrow> string" where
  "q s = s"

text \<open>The names stand in the order of their bits, so that neighbours are all there is to compare.\<close>

fun char_bits :: "char \<Rightarrow> bool list" where
  "char_bits (Char b0 b1 b2 b3 b4 b5 b6 b7) = [b7, b6, b5, b4, b3, b2, b1, b0]"

fun bits_less :: "bool list \<Rightarrow> bool list \<Rightarrow> bool" where
  "bits_less [] ys = (ys \<noteq> [])"
| "bits_less (x # xs) [] = False"
| "bits_less (x # xs) (y # ys) = (if x = y then bits_less xs ys else y)"

definition text_less :: "string \<Rightarrow> string \<Rightarrow> bool" where
  "text_less s t = bits_less (concat (map char_bits s)) (concat (map char_bits t))"

lemma bits_less_trans: "bits_less xs ys \<Longrightarrow> bits_less ys zs \<Longrightarrow> bits_less xs zs"
proof (induction xs ys arbitrary: zs rule: bits_less.induct)
  case (1 ys)
  then show ?case by (cases zs; cases ys) auto
next
  case (3 x xs y ys)
  then show ?case by (cases zs) (auto split: if_splits)
qed simp

lemma bits_less_irrefl: "\<not> bits_less xs xs"
  by (induction xs) simp_all

fun ascending :: "string list \<Rightarrow> bool" where
  "ascending (x # y # zs) = (text_less x y \<and> ascending (y # zs))"
| "ascending _ = True"

lemma ascending_distinct: "ascending xs \<Longrightarrow> distinct xs"
proof -
  have tr: "text_less a b \<Longrightarrow> text_less b c \<Longrightarrow> text_less a c" for a b c
    unfolding text_less_def by (rule bits_less_trans)
  have heads: "ascending (x # ys) \<Longrightarrow> (\<forall>y \<in> set ys. text_less x y) \<and> ascending ys" for x ys
  proof (induction ys arbitrary: x)
    case (Cons y ys)
    then show ?case using tr by auto
  qed simp
  have irrefl: "\<not> text_less a a" for a by (simp add: text_less_def bits_less_irrefl)
  show "ascending xs \<Longrightarrow> distinct xs"
  proof (induction xs)
    case (Cons x xs)
    then show ?case using heads[of x xs] irrefl by auto
  qed simp
qed

lemma distinct_names: "distinct names"
proof (rule ascending_distinct)
  show "ascending names" unfolding names_def by code_simp
qed

lemma length_names: "length names = 239"
  by (simp add: names_def)

lemma nm_eq: "0 \<le> i \<and> i < 239 \<Longrightarrow> 0 \<le> j \<and> j < 239 \<Longrightarrow> nm i = nm j \<longleftrightarrow> i = j"
  using distinct_names length_names by (auto simp: nm_def nth_eq_iff_index_eq)

lemma names_by_position: "map nm [0..int (length names) - 1] = names"
  by (rule nth_equalityI) (simp_all add: nm_def)

lemma texts:
  "nm 0 = ''0'' \<and> nm 1 = ''3'' \<and> nm 2 = ''7'' \<and> nm 3 = ''account_index'' \<and>
   nm 4 = ''action'' \<and> nm 5 = ''active'' \<and> nm 6 = ''address'' \<and> nm 7 = ''address_index'' \<and>
   nm 8 = ''amount_atomic'' \<and> nm 9 = ''amount_atomic > 0'' \<and> nm 10 = ''amount_atomic >= 0'' \<and>
   nm 11 = ''amount_xmr'' \<and> nm 12 = ''api_keys'' \<and> nm 13 = ''api_keys_merchant_id_fkey'' \<and>
   nm 14 = ''api_keys_pkey'' \<and> nm 15 = ''attempts'' \<and> nm 16 = ''attempts >= 0'' \<and>
   nm 17 = ''audit_log'' \<and> nm 18 = ''audit_log_merchant_id_fkey'' \<and> nm 19 = ''audit_log_pkey'' \<and>
   nm 20 = ''billing_anchor_at'' \<and> nm 21 = ''block_height'' \<and> nm 22 = ''cancelled'' \<and>
   nm 23 = ''cancelled_at'' \<and> nm 24 = ''ck_invoices_amount_atomic_positive'' \<and>
   nm 25 = ''ck_payments_amount_atomic_nonnegative'' \<and>
   nm 26 = ''ck_payments_confirmations_nonnegative'' \<and>
   nm 27 = ''ck_subscription_payments_period_order'' \<and>
   nm 28 = ''ck_subscriptions_amount_atomic_positive'' \<and>
   nm 29 = ''ck_subscriptions_grace_days_hard_nonnegative'' \<and>
   nm 30 = ''ck_subscriptions_grace_days_order'' \<and>
   nm 31 = ''ck_subscriptions_grace_days_soft_nonnegative'' \<and>
   nm 32 = ''ck_subscriptions_interval_days_positive'' \<and>
   nm 33 = ''ck_subscriptions_trial_days_positive'' \<and>
   nm 34 = ''ck_webhook_dead_letters_retry_count_nonnegative'' \<and>
   nm 35 = ''ck_webhook_deliveries_attempts_nonnegative'' \<and> nm 36 = ''confirmations'' \<and>
   nm 37 = ''confirmations >= 0'' \<and> nm 38 = ''confirmed'' \<and> nm 39 = ''confirmed_at'' \<and>
   nm 40 = ''created_at'' \<and> nm 41 = ''customer_id'' \<and> nm 42 = ''customers'' \<and>
   nm 43 = ''customers_merchant_id_fkey'' \<and> nm 44 = ''customers_pkey'' \<and> nm 45 = ''dead_lettered'' \<and>
   nm 46 = ''dead_lettered_at'' \<and> nm 47 = ''delivered'' \<and> nm 48 = ''delivery_id'' \<and>
   nm 49 = ''description'' \<and> nm 50 = ''details'' \<and> nm 51 = ''detected'' \<and>
   nm 52 = ''detected_at'' \<and> nm 53 = ''email'' \<and> nm 54 = ''entity_id'' \<and>
   nm 55 = ''entity_type'' \<and> nm 56 = ''environment'' \<and> nm 57 = ''error_message'' \<and>
   nm 58 = ''event_type'' \<and> nm 59 = ''expired'' \<and> nm 60 = ''expires_at'' \<and>
   nm 61 = ''external_id'' \<and> nm 62 = ''failed'' \<and> nm 63 = ''false'' \<and> nm 64 = ''fiat_amount'' \<and>
   nm 65 = ''fiat_currency'' \<and> nm 66 = ''fiat_rate'' \<and>
   nm 67 = ''fk_api_keys_merchant_id_merchants'' \<and> nm 68 = ''fk_audit_log_merchant_id_merchants'' \<and>
   nm 69 = ''fk_customers_merchant_id_merchants'' \<and>
   nm 70 = ''fk_invoice_addresses_invoice_id_invoices'' \<and> nm 71 = ''fk_invoices_merchant_id_merchants'' \<and>
   nm 72 = ''fk_payments_invoice_id_invoices'' \<and>
   nm 73 = ''fk_subscription_payments_invoice_id_invoices'' \<and>
   nm 74 = ''fk_subscription_payments_subscription_id_subscriptions'' \<and>
   nm 75 = ''fk_subscription_renewal_events_invoice_id_invoices'' \<and>
   nm 76 = ''fk_subscriptions_customer_id_customers'' \<and>
   nm 77 = ''fk_subscriptions_merchant_id_merchants'' \<and>
   nm 78 = ''fk_subscriptions_prepay_invoice_id_invoices'' \<and>
   nm 79 = ''fk_wallet_shards_merchant_id_merchants'' \<and>
   nm 80 = ''fk_webhook_dead_letters_delivery_id_webhook_deliveries'' \<and>
   nm 81 = ''fk_webhook_dead_letters_merchant_id_merchants'' \<and>
   nm 82 = ''fk_webhook_dead_letters_retry_delivery_id_webhook_deliveries'' \<and>
   nm 83 = ''fk_webhook_deliveries_invoice_id_invoices'' \<and>
   nm 84 = ''fk_webhook_deliveries_merchant_id_merchants'' \<and> nm 85 = ''gen_random_uuid()'' \<and>
   nm 86 = ''grace_days_hard'' \<and> nm 87 = ''grace_days_hard >= 0'' \<and>
   nm 88 = ''grace_days_hard >= grace_days_soft'' \<and> nm 89 = ''grace_days_soft'' \<and>
   nm 90 = ''grace_days_soft >= 0'' \<and> nm 91 = ''id'' \<and> nm 92 = ''idx_api_keys_cursor'' \<and>
   nm 93 = ''idx_customers_cursor'' \<and> nm 94 = ''idx_dlq_merchant'' \<and>
   nm 95 = ''idx_invoices_cursor'' \<and> nm 96 = ''idx_payments_cursor'' \<and>
   nm 97 = ''idx_renewal_events_sub'' \<and> nm 98 = ''idx_subscriptions_cursor'' \<and>
   nm 99 = ''idx_webhook_deliveries_cursor'' \<and> nm 100 = ''interval_days'' \<and>
   nm 101 = ''interval_days > 0'' \<and> nm 102 = ''invoice_addresses'' \<and>
   nm 103 = ''invoice_addresses_address_key'' \<and> nm 104 = ''invoice_addresses_invoice_id_fkey'' \<and>
   nm 105 = ''invoice_addresses_invoice_id_key'' \<and> nm 106 = ''invoice_addresses_pkey'' \<and>
   nm 107 = ''invoice_id'' \<and> nm 108 = ''invoice_status'' \<and> nm 109 = ''invoices'' \<and>
   nm 110 = ''invoices_merchant_id_fkey'' \<and> nm 111 = ''invoices_pkey'' \<and> nm 112 = ''ip_address'' \<and>
   nm 113 = ''is_active'' \<and> nm 114 = ''ix_api_keys_merchant'' \<and> nm 115 = ''ix_api_keys_prefix'' \<and>
   nm 116 = ''ix_audit_log_action'' \<and> nm 117 = ''ix_audit_log_merchant_created'' \<and>
   nm 118 = ''ix_customers_merchant_external'' \<and> nm 119 = ''ix_invoice_addresses_index'' \<and>
   nm 120 = ''ix_invoice_addresses_index_unique'' \<and> nm 121 = ''ix_invoices_merchant_created'' \<and>
   nm 122 = ''ix_invoices_status_expires'' \<and> nm 123 = ''ix_licenses_key_hash'' \<and>
   nm 124 = ''ix_licenses_tier_active'' \<and> nm 125 = ''ix_payments_invoice_status'' \<and>
   nm 126 = ''ix_payments_invoice_tx_unique'' \<and> nm 127 = ''ix_payments_tx_hash'' \<and>
   nm 128 = ''ix_subscription_payments_invoice_id'' \<and>
   nm 129 = ''ix_subscription_payments_subscription_id'' \<and>
   nm 130 = ''ix_subscription_renewal_events_invoice_id'' \<and> nm 131 = ''ix_subscriptions_customer_id'' \<and>
   nm 132 = ''ix_subscriptions_next_due_active'' \<and> nm 133 = ''ix_subscriptions_prepay_invoice_id'' \<and>
   nm 134 = ''ix_wallet_shards_merchant_account'' \<and> nm 135 = ''ix_webhook_dead_letters_delivery_id'' \<and>
   nm 136 = ''ix_webhook_dead_letters_retry_delivery'' \<and> nm 137 = ''ix_webhook_deliveries_invoice_id'' \<and>
   nm 138 = ''ix_webhook_deliveries_merchant'' \<and> nm 139 = ''ix_webhook_deliveries_retry'' \<and>
   nm 140 = ''key_hash'' \<and> nm 141 = ''key_prefix'' \<and> nm 142 = ''label'' \<and>
   nm 143 = ''last_attempt_at'' \<and> nm 144 = ''last_error'' \<and> nm 145 = ''last_retry_at'' \<and>
   nm 146 = ''last_used_at'' \<and> nm 147 = ''late_paid'' \<and> nm 148 = ''licenses'' \<and>
   nm 149 = ''licenses_key_hash_key'' \<and> nm 150 = ''licenses_pkey'' \<and> nm 151 = ''max_attempts'' \<and>
   nm 152 = ''merchant_id'' \<and> nm 153 = ''merchants'' \<and> nm 154 = ''merchants_pkey'' \<and>
   nm 155 = ''metadata_json'' \<and> nm 156 = ''monero_address'' \<and> nm 157 = ''name'' \<and>
   nm 158 = ''next_address_index'' \<and> nm 159 = ''next_due_at'' \<and> nm 160 = ''next_retry_at'' \<and>
   nm 161 = ''note'' \<and> nm 162 = ''now()'' \<and> nm 163 = ''original_created_at'' \<and>
   nm 164 = ''orphaned'' \<and> nm 165 = ''overpaid'' \<and> nm 166 = ''paid'' \<and> nm 167 = ''paid_at'' \<and>
   nm 168 = ''partially_paid'' \<and> nm 169 = ''past_due'' \<and> nm 170 = ''paused'' \<and>
   nm 171 = ''payload'' \<and> nm 172 = ''payment_status'' \<and> nm 173 = ''payments'' \<and>
   nm 174 = ''payments_invoice_id_fkey'' \<and> nm 175 = ''payments_pkey'' \<and> nm 176 = ''pending'' \<and>
   nm 177 = ''pending_amount_atomic'' \<and> nm 178 = ''pending_amount_xmr'' \<and>
   nm 179 = ''pending_grace_hard'' \<and> nm 180 = ''pending_grace_soft'' \<and>
   nm 181 = ''pending_interval_days'' \<and> nm 182 = ''period_end'' \<and>
   nm 183 = ''period_end > period_start'' \<and> nm 184 = ''period_start'' \<and> nm 185 = ''prepaid_until'' \<and>
   nm 186 = ''prepay_invoice_id'' \<and> nm 187 = ''prepay_plans'' \<and> nm 188 = ''resolved'' \<and>
   nm 189 = ''resolved_at'' \<and> nm 190 = ''response_body'' \<and> nm 191 = ''response_code'' \<and>
   nm 192 = ''result'' \<and> nm 193 = ''retry_count'' \<and> nm 194 = ''retry_count >= 0'' \<and>
   nm 195 = ''retry_delivery_id'' \<and> nm 196 = ''status'' \<and> nm 197 = ''subscription_id'' \<and>
   nm 198 = ''subscription_payments'' \<and> nm 199 = ''subscription_payments_invoice_id_fkey'' \<and>
   nm 200 = ''subscription_payments_pkey'' \<and> nm 201 = ''subscription_payments_subscription_id_fkey'' \<and>
   nm 202 = ''subscription_renewal_events'' \<and> nm 203 = ''subscription_renewal_events_invoice_id_fkey'' \<and>
   nm 204 = ''subscription_renewal_events_pkey'' \<and>
   nm 205 = ''subscription_renewal_events_subscription_id_fkey'' \<and> nm 206 = ''subscription_status'' \<and>
   nm 207 = ''subscriptions'' \<and> nm 208 = ''subscriptions_customer_id_fkey'' \<and>
   nm 209 = ''subscriptions_merchant_id_fkey'' \<and> nm 210 = ''subscriptions_pkey'' \<and>
   nm 211 = ''subscriptions_prepay_invoice_id_fkey'' \<and> nm 212 = ''test'' \<and> nm 213 = ''tier'' \<and>
   nm 214 = ''trial_days'' \<and> nm 215 = ''trial_days IS NULL OR trial_days > 0'' \<and>
   nm 216 = ''trial_end_at'' \<and> nm 217 = ''trialing'' \<and> nm 218 = ''true'' \<and>
   nm 219 = ''tx_hash'' \<and> nm 220 = ''updated_at'' \<and> nm 221 = ''uq_payments_invoice_tx'' \<and>
   nm 222 = ''uq_subscription_payments_sub_period'' \<and> nm 223 = ''url'' \<and>
   nm 224 = ''view_key_encrypted'' \<and> nm 225 = ''wallet_shards'' \<and>
   nm 226 = ''wallet_shards_merchant_id_fkey'' \<and> nm 227 = ''wallet_shards_pkey'' \<and>
   nm 228 = ''webhook_dead_letters'' \<and> nm 229 = ''webhook_dead_letters_delivery_id_fkey'' \<and>
   nm 230 = ''webhook_dead_letters_merchant_id_fkey'' \<and> nm 231 = ''webhook_dead_letters_pkey'' \<and>
   nm 232 = ''webhook_deliveries'' \<and> nm 233 = ''webhook_deliveries_invoice_id_fkey'' \<and>
   nm 234 = ''webhook_deliveries_merchant_id_fkey'' \<and> nm 235 = ''webhook_deliveries_pkey'' \<and>
   nm 236 = ''webhook_secret'' \<and> nm 237 = ''webhook_status'' \<and> nm 238 = ''webhook_url''"
proof -
  have "map nm [0..238] = names" using names_by_position unfolding length_names by simp
  then show ?thesis unfolding names_def by (simp (no_asm_use) add: upto.simps)
qed

lemma positions:
  "q ''0'' = nm 0 \<and> q ''3'' = nm 1 \<and> q ''7'' = nm 2 \<and> q ''account_index'' = nm 3 \<and>
   q ''action'' = nm 4 \<and> q ''active'' = nm 5 \<and> q ''address'' = nm 6 \<and>
   q ''address_index'' = nm 7 \<and> q ''amount_atomic'' = nm 8 \<and> q ''amount_atomic > 0'' = nm 9 \<and>
   q ''amount_atomic >= 0'' = nm 10 \<and> q ''amount_xmr'' = nm 11 \<and> q ''api_keys'' = nm 12 \<and>
   q ''api_keys_merchant_id_fkey'' = nm 13 \<and> q ''api_keys_pkey'' = nm 14 \<and> q ''attempts'' = nm 15 \<and>
   q ''attempts >= 0'' = nm 16 \<and> q ''audit_log'' = nm 17 \<and>
   q ''audit_log_merchant_id_fkey'' = nm 18 \<and> q ''audit_log_pkey'' = nm 19 \<and>
   q ''billing_anchor_at'' = nm 20 \<and> q ''block_height'' = nm 21 \<and> q ''cancelled'' = nm 22 \<and>
   q ''cancelled_at'' = nm 23 \<and> q ''ck_invoices_amount_atomic_positive'' = nm 24 \<and>
   q ''ck_payments_amount_atomic_nonnegative'' = nm 25 \<and>
   q ''ck_payments_confirmations_nonnegative'' = nm 26 \<and>
   q ''ck_subscription_payments_period_order'' = nm 27 \<and>
   q ''ck_subscriptions_amount_atomic_positive'' = nm 28 \<and>
   q ''ck_subscriptions_grace_days_hard_nonnegative'' = nm 29 \<and>
   q ''ck_subscriptions_grace_days_order'' = nm 30 \<and>
   q ''ck_subscriptions_grace_days_soft_nonnegative'' = nm 31 \<and>
   q ''ck_subscriptions_interval_days_positive'' = nm 32 \<and>
   q ''ck_subscriptions_trial_days_positive'' = nm 33 \<and>
   q ''ck_webhook_dead_letters_retry_count_nonnegative'' = nm 34 \<and>
   q ''ck_webhook_deliveries_attempts_nonnegative'' = nm 35 \<and> q ''confirmations'' = nm 36 \<and>
   q ''confirmations >= 0'' = nm 37 \<and> q ''confirmed'' = nm 38 \<and> q ''confirmed_at'' = nm 39 \<and>
   q ''created_at'' = nm 40 \<and> q ''customer_id'' = nm 41 \<and> q ''customers'' = nm 42 \<and>
   q ''customers_merchant_id_fkey'' = nm 43 \<and> q ''customers_pkey'' = nm 44 \<and>
   q ''dead_lettered'' = nm 45 \<and> q ''dead_lettered_at'' = nm 46 \<and> q ''delivered'' = nm 47 \<and>
   q ''delivery_id'' = nm 48 \<and> q ''description'' = nm 49 \<and> q ''details'' = nm 50 \<and>
   q ''detected'' = nm 51 \<and> q ''detected_at'' = nm 52 \<and> q ''email'' = nm 53 \<and>
   q ''entity_id'' = nm 54 \<and> q ''entity_type'' = nm 55 \<and> q ''environment'' = nm 56 \<and>
   q ''error_message'' = nm 57 \<and> q ''event_type'' = nm 58 \<and> q ''expired'' = nm 59 \<and>
   q ''expires_at'' = nm 60 \<and> q ''external_id'' = nm 61 \<and> q ''failed'' = nm 62 \<and>
   q ''false'' = nm 63 \<and> q ''fiat_amount'' = nm 64 \<and> q ''fiat_currency'' = nm 65 \<and>
   q ''fiat_rate'' = nm 66 \<and> q ''fk_api_keys_merchant_id_merchants'' = nm 67 \<and>
   q ''fk_audit_log_merchant_id_merchants'' = nm 68 \<and> q ''fk_customers_merchant_id_merchants'' = nm 69 \<and>
   q ''fk_invoice_addresses_invoice_id_invoices'' = nm 70 \<and>
   q ''fk_invoices_merchant_id_merchants'' = nm 71 \<and> q ''fk_payments_invoice_id_invoices'' = nm 72 \<and>
   q ''fk_subscription_payments_invoice_id_invoices'' = nm 73 \<and>
   q ''fk_subscription_payments_subscription_id_subscriptions'' = nm 74 \<and>
   q ''fk_subscription_renewal_events_invoice_id_invoices'' = nm 75 \<and>
   q ''fk_subscriptions_customer_id_customers'' = nm 76 \<and>
   q ''fk_subscriptions_merchant_id_merchants'' = nm 77 \<and>
   q ''fk_subscriptions_prepay_invoice_id_invoices'' = nm 78 \<and>
   q ''fk_wallet_shards_merchant_id_merchants'' = nm 79 \<and>
   q ''fk_webhook_dead_letters_delivery_id_webhook_deliveries'' = nm 80 \<and>
   q ''fk_webhook_dead_letters_merchant_id_merchants'' = nm 81 \<and>
   q ''fk_webhook_dead_letters_retry_delivery_id_webhook_deliveries'' = nm 82 \<and>
   q ''fk_webhook_deliveries_invoice_id_invoices'' = nm 83 \<and>
   q ''fk_webhook_deliveries_merchant_id_merchants'' = nm 84 \<and> q ''gen_random_uuid()'' = nm 85 \<and>
   q ''grace_days_hard'' = nm 86 \<and> q ''grace_days_hard >= 0'' = nm 87 \<and>
   q ''grace_days_hard >= grace_days_soft'' = nm 88 \<and> q ''grace_days_soft'' = nm 89 \<and>
   q ''grace_days_soft >= 0'' = nm 90 \<and> q ''id'' = nm 91 \<and> q ''idx_api_keys_cursor'' = nm 92 \<and>
   q ''idx_customers_cursor'' = nm 93 \<and> q ''idx_dlq_merchant'' = nm 94 \<and>
   q ''idx_invoices_cursor'' = nm 95 \<and> q ''idx_payments_cursor'' = nm 96 \<and>
   q ''idx_renewal_events_sub'' = nm 97 \<and> q ''idx_subscriptions_cursor'' = nm 98 \<and>
   q ''idx_webhook_deliveries_cursor'' = nm 99 \<and> q ''interval_days'' = nm 100 \<and>
   q ''interval_days > 0'' = nm 101 \<and> q ''invoice_addresses'' = nm 102 \<and>
   q ''invoice_addresses_address_key'' = nm 103 \<and> q ''invoice_addresses_invoice_id_fkey'' = nm 104 \<and>
   q ''invoice_addresses_invoice_id_key'' = nm 105 \<and> q ''invoice_addresses_pkey'' = nm 106 \<and>
   q ''invoice_id'' = nm 107 \<and> q ''invoice_status'' = nm 108 \<and> q ''invoices'' = nm 109 \<and>
   q ''invoices_merchant_id_fkey'' = nm 110 \<and> q ''invoices_pkey'' = nm 111 \<and>
   q ''ip_address'' = nm 112 \<and> q ''is_active'' = nm 113 \<and> q ''ix_api_keys_merchant'' = nm 114 \<and>
   q ''ix_api_keys_prefix'' = nm 115 \<and> q ''ix_audit_log_action'' = nm 116 \<and>
   q ''ix_audit_log_merchant_created'' = nm 117 \<and> q ''ix_customers_merchant_external'' = nm 118 \<and>
   q ''ix_invoice_addresses_index'' = nm 119 \<and> q ''ix_invoice_addresses_index_unique'' = nm 120 \<and>
   q ''ix_invoices_merchant_created'' = nm 121 \<and> q ''ix_invoices_status_expires'' = nm 122 \<and>
   q ''ix_licenses_key_hash'' = nm 123 \<and> q ''ix_licenses_tier_active'' = nm 124 \<and>
   q ''ix_payments_invoice_status'' = nm 125 \<and> q ''ix_payments_invoice_tx_unique'' = nm 126 \<and>
   q ''ix_payments_tx_hash'' = nm 127 \<and> q ''ix_subscription_payments_invoice_id'' = nm 128 \<and>
   q ''ix_subscription_payments_subscription_id'' = nm 129 \<and>
   q ''ix_subscription_renewal_events_invoice_id'' = nm 130 \<and>
   q ''ix_subscriptions_customer_id'' = nm 131 \<and> q ''ix_subscriptions_next_due_active'' = nm 132 \<and>
   q ''ix_subscriptions_prepay_invoice_id'' = nm 133 \<and> q ''ix_wallet_shards_merchant_account'' = nm 134 \<and>
   q ''ix_webhook_dead_letters_delivery_id'' = nm 135 \<and>
   q ''ix_webhook_dead_letters_retry_delivery'' = nm 136 \<and>
   q ''ix_webhook_deliveries_invoice_id'' = nm 137 \<and> q ''ix_webhook_deliveries_merchant'' = nm 138 \<and>
   q ''ix_webhook_deliveries_retry'' = nm 139 \<and> q ''key_hash'' = nm 140 \<and>
   q ''key_prefix'' = nm 141 \<and> q ''label'' = nm 142 \<and> q ''last_attempt_at'' = nm 143 \<and>
   q ''last_error'' = nm 144 \<and> q ''last_retry_at'' = nm 145 \<and> q ''last_used_at'' = nm 146 \<and>
   q ''late_paid'' = nm 147 \<and> q ''licenses'' = nm 148 \<and> q ''licenses_key_hash_key'' = nm 149 \<and>
   q ''licenses_pkey'' = nm 150 \<and> q ''max_attempts'' = nm 151 \<and> q ''merchant_id'' = nm 152 \<and>
   q ''merchants'' = nm 153 \<and> q ''merchants_pkey'' = nm 154 \<and> q ''metadata_json'' = nm 155 \<and>
   q ''monero_address'' = nm 156 \<and> q ''name'' = nm 157 \<and> q ''next_address_index'' = nm 158 \<and>
   q ''next_due_at'' = nm 159 \<and> q ''next_retry_at'' = nm 160 \<and> q ''note'' = nm 161 \<and>
   q ''now()'' = nm 162 \<and> q ''original_created_at'' = nm 163 \<and> q ''orphaned'' = nm 164 \<and>
   q ''overpaid'' = nm 165 \<and> q ''paid'' = nm 166 \<and> q ''paid_at'' = nm 167 \<and>
   q ''partially_paid'' = nm 168 \<and> q ''past_due'' = nm 169 \<and> q ''paused'' = nm 170 \<and>
   q ''payload'' = nm 171 \<and> q ''payment_status'' = nm 172 \<and> q ''payments'' = nm 173 \<and>
   q ''payments_invoice_id_fkey'' = nm 174 \<and> q ''payments_pkey'' = nm 175 \<and> q ''pending'' = nm 176 \<and>
   q ''pending_amount_atomic'' = nm 177 \<and> q ''pending_amount_xmr'' = nm 178 \<and>
   q ''pending_grace_hard'' = nm 179 \<and> q ''pending_grace_soft'' = nm 180 \<and>
   q ''pending_interval_days'' = nm 181 \<and> q ''period_end'' = nm 182 \<and>
   q ''period_end > period_start'' = nm 183 \<and> q ''period_start'' = nm 184 \<and>
   q ''prepaid_until'' = nm 185 \<and> q ''prepay_invoice_id'' = nm 186 \<and> q ''prepay_plans'' = nm 187 \<and>
   q ''resolved'' = nm 188 \<and> q ''resolved_at'' = nm 189 \<and> q ''response_body'' = nm 190 \<and>
   q ''response_code'' = nm 191 \<and> q ''result'' = nm 192 \<and> q ''retry_count'' = nm 193 \<and>
   q ''retry_count >= 0'' = nm 194 \<and> q ''retry_delivery_id'' = nm 195 \<and> q ''status'' = nm 196 \<and>
   q ''subscription_id'' = nm 197 \<and> q ''subscription_payments'' = nm 198 \<and>
   q ''subscription_payments_invoice_id_fkey'' = nm 199 \<and> q ''subscription_payments_pkey'' = nm 200 \<and>
   q ''subscription_payments_subscription_id_fkey'' = nm 201 \<and>
   q ''subscription_renewal_events'' = nm 202 \<and>
   q ''subscription_renewal_events_invoice_id_fkey'' = nm 203 \<and>
   q ''subscription_renewal_events_pkey'' = nm 204 \<and>
   q ''subscription_renewal_events_subscription_id_fkey'' = nm 205 \<and> q ''subscription_status'' = nm 206 \<and>
   q ''subscriptions'' = nm 207 \<and> q ''subscriptions_customer_id_fkey'' = nm 208 \<and>
   q ''subscriptions_merchant_id_fkey'' = nm 209 \<and> q ''subscriptions_pkey'' = nm 210 \<and>
   q ''subscriptions_prepay_invoice_id_fkey'' = nm 211 \<and> q ''test'' = nm 212 \<and> q ''tier'' = nm 213 \<and>
   q ''trial_days'' = nm 214 \<and> q ''trial_days IS NULL OR trial_days > 0'' = nm 215 \<and>
   q ''trial_end_at'' = nm 216 \<and> q ''trialing'' = nm 217 \<and> q ''true'' = nm 218 \<and>
   q ''tx_hash'' = nm 219 \<and> q ''updated_at'' = nm 220 \<and> q ''uq_payments_invoice_tx'' = nm 221 \<and>
   q ''uq_subscription_payments_sub_period'' = nm 222 \<and> q ''url'' = nm 223 \<and>
   q ''view_key_encrypted'' = nm 224 \<and> q ''wallet_shards'' = nm 225 \<and>
   q ''wallet_shards_merchant_id_fkey'' = nm 226 \<and> q ''wallet_shards_pkey'' = nm 227 \<and>
   q ''webhook_dead_letters'' = nm 228 \<and> q ''webhook_dead_letters_delivery_id_fkey'' = nm 229 \<and>
   q ''webhook_dead_letters_merchant_id_fkey'' = nm 230 \<and> q ''webhook_dead_letters_pkey'' = nm 231 \<and>
   q ''webhook_deliveries'' = nm 232 \<and> q ''webhook_deliveries_invoice_id_fkey'' = nm 233 \<and>
   q ''webhook_deliveries_merchant_id_fkey'' = nm 234 \<and> q ''webhook_deliveries_pkey'' = nm 235 \<and>
   q ''webhook_secret'' = nm 236 \<and> q ''webhook_status'' = nm 237 \<and> q ''webhook_url'' = nm 238"
  by (simp only: q_def texts simp_thms)

lemma default_names:
  "nm 153 @ ''_pkey'' = nm 154" "nm 109 @ ''_pkey'' = nm 111" "nm 102 @ ''_pkey'' = nm 106"
  "nm 173 @ ''_pkey'' = nm 175" "nm 42 @ ''_pkey'' = nm 44" "nm 207 @ ''_pkey'' = nm 210"
  "nm 198 @ ''_pkey'' = nm 200" "nm 225 @ ''_pkey'' = nm 227" "nm 12 @ ''_pkey'' = nm 14"
  "nm 232 @ ''_pkey'' = nm 235" "nm 17 @ ''_pkey'' = nm 19" "nm 228 @ ''_pkey'' = nm 231"
  "nm 202 @ ''_pkey'' = nm 204" "nm 148 @ ''_pkey'' = nm 150" "nm 12 @ CHR ''_'' # nm 152 @ ''_fkey'' = nm 13"
  "nm 17 @ CHR ''_'' # nm 152 @ ''_fkey'' = nm 18" "nm 42 @ CHR ''_'' # nm 152 @ ''_fkey'' = nm 43"
  "nm 102 @ CHR ''_'' # nm 107 @ ''_fkey'' = nm 104" "nm 109 @ CHR ''_'' # nm 152 @ ''_fkey'' = nm 110"
  "nm 173 @ CHR ''_'' # nm 107 @ ''_fkey'' = nm 174" "nm 198 @ CHR ''_'' # nm 107 @ ''_fkey'' = nm 199"
  "nm 198 @ CHR ''_'' # nm 197 @ ''_fkey'' = nm 201" "nm 202 @ CHR ''_'' # nm 107 @ ''_fkey'' = nm 203"
  "nm 202 @ CHR ''_'' # nm 197 @ ''_fkey'' = nm 205" "nm 207 @ CHR ''_'' # nm 41 @ ''_fkey'' = nm 208"
  "nm 207 @ CHR ''_'' # nm 152 @ ''_fkey'' = nm 209" "nm 207 @ CHR ''_'' # nm 186 @ ''_fkey'' = nm 211"
  "nm 225 @ CHR ''_'' # nm 152 @ ''_fkey'' = nm 226" "nm 228 @ CHR ''_'' # nm 48 @ ''_fkey'' = nm 229"
  "nm 228 @ CHR ''_'' # nm 152 @ ''_fkey'' = nm 230" "nm 232 @ CHR ''_'' # nm 107 @ ''_fkey'' = nm 233"
  "nm 232 @ CHR ''_'' # nm 152 @ ''_fkey'' = nm 234" "nm 148 @ CHR ''_'' # nm 140 @ ''_key'' = nm 149"
  "nm 102 @ CHR ''_'' # nm 107 @ ''_key'' = nm 105" "nm 102 @ CHR ''_'' # nm 6 @ ''_key'' = nm 103"
  by (simp_all add: texts)

lemma no_check_on_retry: "\<not> contains (nm 194) (nm 195)"
  unfolding texts by code_simp

text \<open>Statements and columns with the position of every name.\<close>

fun q_type :: "sql_type \<Rightarrow> sql_type" where
  "q_type (SEnum n) = SEnum (q n)"
| "q_type t = t"

definition q_column :: "column_def \<Rightarrow> column_def" where
  "q_column cd = cd"

lemma q_column:
  "q_column (column n ty) = column (q n) (q_type ty)"
  "q_column (not_null cd) = not_null (q_column cd)"
  "q_column (primary cd) = primary (q_column cd)"
  "q_column (unique cd) = unique (q_column cd)"
  "q_column (defaulting v cd) = defaulting (q v) (q_column cd)"
  "q_column (referring t act cd) = referring (q t) act (q_column cd)"
  by (cases ty; simp add: q_column_def q_def)+

fun q_kind :: "con_kind \<Rightarrow> con_kind" where
  "q_kind (PrimaryKey cs) = PrimaryKey (map q cs)"
| "q_kind (Unique cs) = Unique (map q cs)"
| "q_kind (ForeignKey cs t rcs act) = ForeignKey (map q cs) (q t) (map q rcs) act"
| "q_kind (Check e) = Check (q e)"

fun q_key :: "key \<Rightarrow> key" where
  "q_key (Asc c) = Asc (q c)"
| "q_key (Desc c) = Desc (q c)"

fun q_place :: "place \<Rightarrow> place" where
  "q_place AtEnd = AtEnd"
| "q_place (Before v) = Before (q v)"
| "q_place (After v) = After (q v)"

fun interned :: "ddl \<Rightarrow> ddl" where
  "interned (CreateType n vs) = CreateType (q n) (map q vs)"
| "interned (DropTypeIfExists n) = DropTypeIfExists (q n)"
| "interned (AddValue n v p ine) = AddValue (q n) (q v) (q_place p) ine"
| "interned (CreateTable t cds) = CreateTable (q t) (map q_column cds)"
| "interned (DropTable t) = DropTable (q t)"
| "interned (DropTableCascade t) = DropTableCascade (q t)"
| "interned (AddColumn t cd) = AddColumn (q t) (q_column cd)"
| "interned (DropColumn t c) = DropColumn (q t) (q c)"
| "interned (SetNullable t c b) = SetNullable (q t) (q c) b"
| "interned (CreateIndex n t ks u w ine) = CreateIndex (q n) (q t) (map q_key ks) u
     (case w of None \<Rightarrow> None | Some (c, vs) \<Rightarrow> Some (q c, map q vs)) ine"
| "interned (DropIndex n ie) = DropIndex (q n) ie"
| "interned (RenameIndex a b) = RenameIndex (q a) (q b)"
| "interned (AddConstraint t n k v) = AddConstraint (q t) (q n) (q_kind k) v"
| "interned (AddUniqueUsing t n i) = AddUniqueUsing (q t) (q n) (q i)"
| "interned (ValidateConstraint t n) = ValidateConstraint (q t) (q n)"
| "interned (DropConstraint t n) = DropConstraint (q t) (q n)"

lemma q_id: "q = id" by (simp add: fun_eq_iff q_def)

lemma q_kind_same: "q_kind k = k"
  by (cases k) (simp_all add: q_id)

lemma q_key_same: "map q_key ks = ks"
proof (rule map_idI)
  fix k show "q_key k = k" by (cases k) (simp_all add: q_id)
qed

lemma interned_same: "interned c = c"
proof -
  have "q_place p = p" for p by (cases p) (simp_all add: q_id)
  moreover have "map q_column cds = cds" for cds by (rule map_idI) (simp add: q_column_def)
  ultimately show ?thesis
    by (cases c) (simp_all add: q_id q_column_def q_kind_same q_key_same split: option.split)
qed

lemma run_interned: "run_ddl cs s = run_ddl (map interned cs) s"
  by (simp add: interned_same cong: map_cong)

end
