(* ===== verification/Schema_States.thy ===== *)
theory Schema_States
  imports Schema_Names
begin

text \<open>
  The schemas of the migration chain, evaluated one revision at a time from the empty database:
  \<open>S_k\<close> is the schema after \<open>k\<close> revisions. Every revision applies, and its downgrade is tried on the
  schema it made.
\<close>

section \<open>Statements with short names\<close>

lemmas [simp] = q_column positions
lemmas base_columns = base_merchants_def base_invoices_def base_invoice_addresses_def base_payments_def
  base_customers_def base_subscriptions_def base_subscription_payments_def base_wallet_shards_def
  base_api_keys_def base_webhook_deliveries_def base_audit_log_def dead_letter_columns_def cursor_tables_def
  cursor_index_def baseline_tables_def fk_indexes_def checks_def

definition baseline_up_i :: "ddl list" where "baseline_up_i = map interned baseline_up"
lemmas baseline_up_i = baseline_up_i_def[unfolded baseline_up_def base_columns, simplified]
definition baseline_down_i :: "ddl list" where "baseline_down_i = map interned baseline_down"
lemmas baseline_down_i = baseline_down_i_def[unfolded baseline_down_def base_columns, simplified]
definition past_due_up_i :: "ddl list" where "past_due_up_i = map interned past_due_up"
lemmas past_due_up_i = past_due_up_i_def[unfolded past_due_up_def base_columns, simplified]
definition past_due_down_i :: "ddl list" where "past_due_down_i = map interned past_due_down"
lemmas past_due_down_i = past_due_down_i_def[unfolded past_due_down_def base_columns, simplified]
definition billing_period_up_i :: "ddl list" where "billing_period_up_i = map interned billing_period_up"
lemmas billing_period_up_i = billing_period_up_i_def[unfolded billing_period_up_def base_columns, simplified]
definition billing_period_down_i :: "ddl list" where "billing_period_down_i = map interned billing_period_down"
lemmas billing_period_down_i = billing_period_down_i_def[unfolded billing_period_down_def base_columns, simplified]
definition pending_changes_up_i :: "ddl list" where "pending_changes_up_i = map interned pending_changes_up"
lemmas pending_changes_up_i = pending_changes_up_i_def[unfolded pending_changes_up_def base_columns, simplified]
definition pending_changes_down_i :: "ddl list" where "pending_changes_down_i = map interned pending_changes_down"
lemmas pending_changes_down_i = pending_changes_down_i_def[unfolded pending_changes_down_def base_columns, simplified]
definition dlq_up_i :: "ddl list" where "dlq_up_i = map interned dlq_up"
lemmas dlq_up_i = dlq_up_i_def[unfolded dlq_up_def base_columns, simplified]
definition dlq_down_i :: "ddl list" where "dlq_down_i = map interned dlq_down"
lemmas dlq_down_i = dlq_down_i_def[unfolded dlq_down_def base_columns, simplified]
definition renewal_events_up_i :: "ddl list" where "renewal_events_up_i = map interned renewal_events_up"
lemmas renewal_events_up_i = renewal_events_up_i_def[unfolded renewal_events_up_def base_columns, simplified]
definition renewal_events_down_i :: "ddl list" where "renewal_events_down_i = map interned renewal_events_down"
lemmas renewal_events_down_i = renewal_events_down_i_def[unfolded renewal_events_down_def base_columns, simplified]
definition trial_up_i :: "ddl list" where "trial_up_i = map interned trial_up"
lemmas trial_up_i = trial_up_i_def[unfolded trial_up_def base_columns, simplified]
definition trial_down_i :: "ddl list" where "trial_down_i = map interned trial_down"
lemmas trial_down_i = trial_down_i_def[unfolded trial_down_def base_columns, simplified]
definition prepay_up_i :: "ddl list" where "prepay_up_i = map interned prepay_up"
lemmas prepay_up_i = prepay_up_i_def[unfolded prepay_up_def base_columns, simplified]
definition prepay_down_i :: "ddl list" where "prepay_down_i = map interned prepay_down"
lemmas prepay_down_i = prepay_down_i_def[unfolded prepay_down_def base_columns, simplified]
definition licenses_up_i :: "ddl list" where "licenses_up_i = map interned licenses_up"
lemmas licenses_up_i = licenses_up_i_def[unfolded licenses_up_def base_columns, simplified]
definition licenses_down_i :: "ddl list" where "licenses_down_i = map interned licenses_down"
lemmas licenses_down_i = licenses_down_i_def[unfolded licenses_down_def base_columns, simplified]
definition payments_unique_up_i :: "ddl list" where "payments_unique_up_i = map interned payments_unique_up"
lemmas payments_unique_up_i = payments_unique_up_i_def[unfolded payments_unique_up_def base_columns, simplified]
definition payments_unique_down_i :: "ddl list" where "payments_unique_down_i = map interned payments_unique_down"
lemmas payments_unique_down_i = payments_unique_down_i_def[unfolded payments_unique_down_def base_columns, simplified]
definition addresses_unique_up_i :: "ddl list" where "addresses_unique_up_i = map interned addresses_unique_up"
lemmas addresses_unique_up_i = addresses_unique_up_i_def[unfolded addresses_unique_up_def base_columns, simplified]
definition addresses_unique_down_i :: "ddl list" where "addresses_unique_down_i = map interned addresses_unique_down"
lemmas addresses_unique_down_i = addresses_unique_down_i_def[unfolded addresses_unique_down_def base_columns, simplified]
definition fk_indexes_up_i :: "ddl list" where "fk_indexes_up_i = map interned fk_indexes_up"
lemmas fk_indexes_up_i = fk_indexes_up_i_def[unfolded fk_indexes_up_def base_columns, simplified]
definition fk_indexes_down_i :: "ddl list" where "fk_indexes_down_i = map interned fk_indexes_down"
lemmas fk_indexes_down_i = fk_indexes_down_i_def[unfolded fk_indexes_down_def base_columns, simplified]
definition checks_up_i :: "ddl list" where "checks_up_i = map interned checks_up"
lemmas checks_up_i = checks_up_i_def[unfolded checks_up_def base_columns, simplified]
definition checks_down_i :: "ddl list" where "checks_down_i = map interned checks_down"
lemmas checks_down_i = checks_down_i_def[unfolded checks_down_def base_columns, simplified]
definition ondelete_down_i :: "ddl list" where "ondelete_down_i = map interned ondelete_down"
lemmas ondelete_down_i = ondelete_down_i_def[unfolded ondelete_down_def fk_changes_def base_columns, simplified]
definition dlq_retry_up_i :: "ddl list" where "dlq_retry_up_i = map interned dlq_retry_up"
lemmas dlq_retry_up_i = dlq_retry_up_i_def[unfolded dlq_retry_up_def base_columns, simplified]
definition dlq_retry_down_i :: "ddl list" where "dlq_retry_down_i = map interned dlq_retry_down"
lemmas dlq_retry_down_i = dlq_retry_down_i_def[unfolded dlq_retry_down_def base_columns, simplified]

definition q_change :: "fk_change \<Rightarrow> fk_change" where
  "q_change change = (case change of (t, cs, r, rcs, act, name, old) \<Rightarrow>
     (q t, map q cs, q r, map q rcs, act, q name, q old))"

definition fk_changes_i :: "fk_change list" where "fk_changes_i = map q_change fk_changes"
lemmas fk_changes_i = fk_changes_i_def[unfolded fk_changes_def q_change_def, simplified]

lemma ondelete_up_i: "ondelete_up s = (case exec (interned (SetNullable ''audit_log'' ''merchant_id'' True)) s of
     None \<Rightarrow> None | Some s' \<Rightarrow> replace_fks fk_changes_i s')"
proof -
  have "q_change = id" by (simp add: fun_eq_iff q_change_def q_id split: prod.split)
  then show ?thesis unfolding ondelete_up_def interned_same fk_changes_i_def by (simp only: list.map_id)
qed

text \<open>The declared tables.\<close>

definition q_index :: "string \<times> sql_index \<Rightarrow> string \<times> sql_index" where
  "q_index nx = nx"

lemma q_index [simp]:
  "q_index (declared_index n t ks uniq None) = declared_index (q n) (q t) (map q_key ks) uniq None"
  "q_index (declared_index n t ks uniq (Some (c, vs))) =
     declared_index (q n) (q t) (map q_key ks) uniq (Some (q c, map q vs))"
  by (simp_all add: q_index_def q_id q_key_same)

definition q_model :: "model_table \<Rightarrow> model_table" where
  "q_model m = \<lparr>mt_name = q (mt_name m), mt_columns = map q_column (mt_columns m),
     mt_constraints = map q_kind (mt_constraints m), mt_indexes = map q_index (mt_indexes m)\<rparr>"

lemma q_model_same: "q_model m = m"
  by (simp add: q_model_def q_id q_kind_same map_idI q_index_def q_column_def)

definition model_tables_i :: "model_table list" where "model_tables_i = map q_model model_tables"
lemmas model_tables_i = model_tables_i_def[unfolded model_tables_def model_merchants_def model_invoices_def model_invoice_addresses_def model_payments_def model_customers_def model_subscriptions_def model_subscription_payments_def model_subscription_renewal_events_def model_wallet_shards_def model_api_keys_def model_webhook_deliveries_def model_webhook_dead_letters_def model_licenses_def model_audit_log_def q_model_def, simplified]

definition model_enums_i :: "(string \<times> string list) list" where
  "model_enums_i = map (\<lambda>(n, vs). (q n, map q vs)) model_enums"
lemmas model_enums_i = model_enums_i_def[unfolded model_enums_def, simplified]

lemma model_interned: "model_tables = model_tables_i" "model_enums = model_enums_i"
  by (simp_all add: model_tables_i_def model_enums_i_def q_model_same q_id map_idI split: prod.split)

section \<open>The schemas\<close>

lemmas [simp] = column_def not_null_def defaulting_def primary_def unique_def referring_def relation_name_def
  index_constraints_def make_table_def column_known_def inline_constraints_def columns_of_def put_def on_table_def
  del_def add_constraint_def validate_def without_column_def put_nullable_def drop_constraint_def uses_column_def
  replace_fk_def existing_fk_name_def uses_type_def referred_def without_table_def cut_references_def default_names nm_eq no_check_on_retry

lemma inline_reference [simp]:
  "inline_constraint t c (References r act) = (t @ ''_'' @ c @ ''_fkey'', ForeignKey [c] r [q ''id''] act, True)"
  by (simp add: q_id del: positions)

declare inline_constraint.simps(3) [simp del]

definition schema_0 :: schema where "schema_0 = empty_schema"
lemmas schema_0 = schema_0_def[unfolded empty_schema_def]

lemma run_baseline_up: "run_ddl baseline_up = run_ddl baseline_up_i"
  by (rule ext) (unfold baseline_up_i_def, rule run_interned)

definition schema_1 :: schema where "schema_1 = the (run_ddl baseline_up schema_0)"
lemmas schema_1 = schema_1_def[unfolded run_baseline_up baseline_up_i schema_0, simplified]

lemma up_1: "run_ddl baseline_up schema_0 = Some schema_1"
  unfolding run_baseline_up baseline_up_i schema_0 schema_1 by simp

lemma run_baseline_down: "run_ddl baseline_down = run_ddl baseline_down_i"
  by (rule ext) (unfold baseline_down_i_def, rule run_interned)

lemma down_1: "(case run_ddl baseline_down schema_1 of None \<Rightarrow> False | Some s \<Rightarrow> same_schema s schema_0)"
  unfolding run_baseline_down baseline_down_i schema_1 schema_0 by (simp add: same_schema_def same_elements_def)

lemma run_past_due_up: "run_ddl past_due_up = run_ddl past_due_up_i"
  by (rule ext) (unfold past_due_up_i_def, rule run_interned)

definition schema_2 :: schema where "schema_2 = the (run_ddl past_due_up schema_1)"
lemmas schema_2 = schema_2_def[unfolded run_past_due_up past_due_up_i schema_1, simplified]

lemma up_2: "run_ddl past_due_up schema_1 = Some schema_2"
  unfolding run_past_due_up past_due_up_i schema_1 schema_2 by simp

lemma run_past_due_down: "run_ddl past_due_down = run_ddl past_due_down_i"
  by (rule ext) (unfold past_due_down_i_def, rule run_interned)

lemma down_2: "\<not> (case run_ddl past_due_down schema_2 of None \<Rightarrow> False | Some s \<Rightarrow> same_schema s schema_1)"
  unfolding run_past_due_down past_due_down_i schema_2 schema_1 by (simp add: same_schema_def same_elements_def)

lemma run_billing_period_up: "run_ddl billing_period_up = run_ddl billing_period_up_i"
  by (rule ext) (unfold billing_period_up_i_def, rule run_interned)

definition schema_3 :: schema where "schema_3 = the (run_ddl billing_period_up schema_2)"
lemmas schema_3 = schema_3_def[unfolded run_billing_period_up billing_period_up_i schema_2, simplified]

lemma up_3: "run_ddl billing_period_up schema_2 = Some schema_3"
  unfolding run_billing_period_up billing_period_up_i schema_2 schema_3 by simp

lemma run_billing_period_down: "run_ddl billing_period_down = run_ddl billing_period_down_i"
  by (rule ext) (unfold billing_period_down_i_def, rule run_interned)

lemma down_3: "(case run_ddl billing_period_down schema_3 of None \<Rightarrow> False | Some s \<Rightarrow> same_schema s schema_2)"
  unfolding run_billing_period_down billing_period_down_i schema_3 schema_2 by (simp add: same_schema_def same_elements_def)

lemma run_pending_changes_up: "run_ddl pending_changes_up = run_ddl pending_changes_up_i"
  by (rule ext) (unfold pending_changes_up_i_def, rule run_interned)

definition schema_4 :: schema where "schema_4 = the (run_ddl pending_changes_up schema_3)"
lemmas schema_4 = schema_4_def[unfolded run_pending_changes_up pending_changes_up_i schema_3, simplified]

lemma up_4: "run_ddl pending_changes_up schema_3 = Some schema_4"
  unfolding run_pending_changes_up pending_changes_up_i schema_3 schema_4 by simp

lemma run_pending_changes_down: "run_ddl pending_changes_down = run_ddl pending_changes_down_i"
  by (rule ext) (unfold pending_changes_down_i_def, rule run_interned)

lemma down_4: "(case run_ddl pending_changes_down schema_4 of None \<Rightarrow> False | Some s \<Rightarrow> same_schema s schema_3)"
  unfolding run_pending_changes_down pending_changes_down_i schema_4 schema_3 by (simp add: same_schema_def same_elements_def)

lemma run_dlq_up: "run_ddl dlq_up = run_ddl dlq_up_i"
  by (rule ext) (unfold dlq_up_i_def, rule run_interned)

definition schema_5 :: schema where "schema_5 = the (run_ddl dlq_up schema_4)"
lemmas schema_5 = schema_5_def[unfolded run_dlq_up dlq_up_i schema_4, simplified]

lemma up_5: "run_ddl dlq_up schema_4 = Some schema_5"
  unfolding run_dlq_up dlq_up_i schema_4 schema_5 by simp

lemma run_dlq_down: "run_ddl dlq_down = run_ddl dlq_down_i"
  by (rule ext) (unfold dlq_down_i_def, rule run_interned)

lemma down_5: "\<not> (case run_ddl dlq_down schema_5 of None \<Rightarrow> False | Some s \<Rightarrow> same_schema s schema_4)"
  unfolding run_dlq_down dlq_down_i schema_5 schema_4 by (simp add: same_schema_def same_elements_def)

lemma run_renewal_events_up: "run_ddl renewal_events_up = run_ddl renewal_events_up_i"
  by (rule ext) (unfold renewal_events_up_i_def, rule run_interned)

definition schema_6 :: schema where "schema_6 = the (run_ddl renewal_events_up schema_5)"
lemmas schema_6 = schema_6_def[unfolded run_renewal_events_up renewal_events_up_i schema_5, simplified]

lemma up_6: "run_ddl renewal_events_up schema_5 = Some schema_6"
  unfolding run_renewal_events_up renewal_events_up_i schema_5 schema_6 by simp

lemma run_renewal_events_down: "run_ddl renewal_events_down = run_ddl renewal_events_down_i"
  by (rule ext) (unfold renewal_events_down_i_def, rule run_interned)

lemma down_6: "(case run_ddl renewal_events_down schema_6 of None \<Rightarrow> False | Some s \<Rightarrow> same_schema s schema_5)"
  unfolding run_renewal_events_down renewal_events_down_i schema_6 schema_5 by (simp add: same_schema_def same_elements_def)

lemma run_trial_up: "run_ddl trial_up = run_ddl trial_up_i"
  by (rule ext) (unfold trial_up_i_def, rule run_interned)

definition schema_7 :: schema where "schema_7 = the (run_ddl trial_up schema_6)"
lemmas schema_7 = schema_7_def[unfolded run_trial_up trial_up_i schema_6, simplified]

lemma up_7: "run_ddl trial_up schema_6 = Some schema_7"
  unfolding run_trial_up trial_up_i schema_6 schema_7 by simp

lemma run_trial_down: "run_ddl trial_down = run_ddl trial_down_i"
  by (rule ext) (unfold trial_down_i_def, rule run_interned)

lemma down_7: "\<not> (case run_ddl trial_down schema_7 of None \<Rightarrow> False | Some s \<Rightarrow> same_schema s schema_6)"
  unfolding run_trial_down trial_down_i schema_7 schema_6 by (simp add: same_schema_def same_elements_def)

lemma run_prepay_up: "run_ddl prepay_up = run_ddl prepay_up_i"
  by (rule ext) (unfold prepay_up_i_def, rule run_interned)

definition schema_8 :: schema where "schema_8 = the (run_ddl prepay_up schema_7)"
lemmas schema_8 = schema_8_def[unfolded run_prepay_up prepay_up_i schema_7, simplified]

lemma up_8: "run_ddl prepay_up schema_7 = Some schema_8"
  unfolding run_prepay_up prepay_up_i schema_7 schema_8 by simp

lemma run_prepay_down: "run_ddl prepay_down = run_ddl prepay_down_i"
  by (rule ext) (unfold prepay_down_i_def, rule run_interned)

lemma down_8: "(case run_ddl prepay_down schema_8 of None \<Rightarrow> False | Some s \<Rightarrow> same_schema s schema_7)"
  unfolding run_prepay_down prepay_down_i schema_8 schema_7 by (simp add: same_schema_def same_elements_def)

lemma run_licenses_up: "run_ddl licenses_up = run_ddl licenses_up_i"
  by (rule ext) (unfold licenses_up_i_def, rule run_interned)

definition schema_9 :: schema where "schema_9 = the (run_ddl licenses_up schema_8)"
lemmas schema_9 = schema_9_def[unfolded run_licenses_up licenses_up_i schema_8, simplified]

lemma up_9: "run_ddl licenses_up schema_8 = Some schema_9"
  unfolding run_licenses_up licenses_up_i schema_8 schema_9 by simp

lemma run_licenses_down: "run_ddl licenses_down = run_ddl licenses_down_i"
  by (rule ext) (unfold licenses_down_i_def, rule run_interned)

lemma down_9: "(case run_ddl licenses_down schema_9 of None \<Rightarrow> False | Some s \<Rightarrow> same_schema s schema_8)"
  unfolding run_licenses_down licenses_down_i schema_9 schema_8 by (simp add: same_schema_def same_elements_def)

lemma run_payments_unique_up: "run_ddl payments_unique_up = run_ddl payments_unique_up_i"
  by (rule ext) (unfold payments_unique_up_i_def, rule run_interned)

definition schema_10 :: schema where "schema_10 = the (run_ddl payments_unique_up schema_9)"
lemmas schema_10 = schema_10_def[unfolded run_payments_unique_up payments_unique_up_i schema_9, simplified]

lemma up_10: "run_ddl payments_unique_up schema_9 = Some schema_10"
  unfolding run_payments_unique_up payments_unique_up_i schema_9 schema_10 by simp

lemma run_payments_unique_down: "run_ddl payments_unique_down = run_ddl payments_unique_down_i"
  by (rule ext) (unfold payments_unique_down_i_def, rule run_interned)

lemma down_10: "(case run_ddl payments_unique_down schema_10 of None \<Rightarrow> False | Some s \<Rightarrow> same_schema s schema_9)"
  unfolding run_payments_unique_down payments_unique_down_i schema_10 schema_9 by (simp add: same_schema_def same_elements_def)

lemma run_addresses_unique_up: "run_ddl addresses_unique_up = run_ddl addresses_unique_up_i"
  by (rule ext) (unfold addresses_unique_up_i_def, rule run_interned)

definition schema_11 :: schema where "schema_11 = the (run_ddl addresses_unique_up schema_10)"
lemmas schema_11 = schema_11_def[unfolded run_addresses_unique_up addresses_unique_up_i schema_10, simplified]

lemma up_11: "run_ddl addresses_unique_up schema_10 = Some schema_11"
  unfolding run_addresses_unique_up addresses_unique_up_i schema_10 schema_11 by simp

lemma run_addresses_unique_down: "run_ddl addresses_unique_down = run_ddl addresses_unique_down_i"
  by (rule ext) (unfold addresses_unique_down_i_def, rule run_interned)

lemma down_11: "(case run_ddl addresses_unique_down schema_11 of None \<Rightarrow> False | Some s \<Rightarrow> same_schema s schema_10)"
  unfolding run_addresses_unique_down addresses_unique_down_i schema_11 schema_10 by (simp add: same_schema_def same_elements_def)

lemma run_fk_indexes_up: "run_ddl fk_indexes_up = run_ddl fk_indexes_up_i"
  by (rule ext) (unfold fk_indexes_up_i_def, rule run_interned)

definition schema_12 :: schema where "schema_12 = the (run_ddl fk_indexes_up schema_11)"
lemmas schema_12 = schema_12_def[unfolded run_fk_indexes_up fk_indexes_up_i schema_11, simplified]

lemma up_12: "run_ddl fk_indexes_up schema_11 = Some schema_12"
  unfolding run_fk_indexes_up fk_indexes_up_i schema_11 schema_12 by simp

lemma run_fk_indexes_down: "run_ddl fk_indexes_down = run_ddl fk_indexes_down_i"
  by (rule ext) (unfold fk_indexes_down_i_def, rule run_interned)

lemma down_12: "\<not> (case run_ddl fk_indexes_down schema_12 of None \<Rightarrow> False | Some s \<Rightarrow> same_schema s schema_11)"
  unfolding run_fk_indexes_down fk_indexes_down_i schema_12 schema_11 by (simp add: same_schema_def same_elements_def)

lemma run_checks_up: "run_ddl checks_up = run_ddl checks_up_i"
  by (rule ext) (unfold checks_up_i_def, rule run_interned)

definition schema_13 :: schema where "schema_13 = the (run_ddl checks_up schema_12)"
lemmas schema_13 = schema_13_def[unfolded run_checks_up checks_up_i schema_12, simplified]

lemma up_13: "run_ddl checks_up schema_12 = Some schema_13"
  unfolding run_checks_up checks_up_i schema_12 schema_13 by simp

lemma run_checks_down: "run_ddl checks_down = run_ddl checks_down_i"
  by (rule ext) (unfold checks_down_i_def, rule run_interned)

lemma down_13: "(case run_ddl checks_down schema_13 of None \<Rightarrow> False | Some s \<Rightarrow> same_schema s schema_12)"
  unfolding run_checks_down checks_down_i schema_13 schema_12 by (simp add: same_schema_def same_elements_def)

definition schema_14 :: schema where "schema_14 = the (ondelete_up schema_13)"
lemmas schema_14 = schema_14_def[unfolded ondelete_up_i fk_changes_i schema_13, simplified]

lemma up_14: "ondelete_up schema_13 = Some schema_14"
  unfolding ondelete_up_i fk_changes_i schema_13 schema_14 by simp

lemma run_ondelete_down: "run_ddl ondelete_down = run_ddl ondelete_down_i"
  by (rule ext) (unfold ondelete_down_i_def, rule run_interned)

lemma down_14: "(case run_ddl ondelete_down schema_14 of None \<Rightarrow> False | Some s \<Rightarrow> same_schema s schema_13)"
  unfolding run_ondelete_down ondelete_down_i schema_14 schema_13 by (simp add: same_schema_def same_elements_def)

lemma run_dlq_retry_up: "run_ddl dlq_retry_up = run_ddl dlq_retry_up_i"
  by (rule ext) (unfold dlq_retry_up_i_def, rule run_interned)

definition schema_15 :: schema where "schema_15 = the (run_ddl dlq_retry_up schema_14)"
lemmas schema_15 = schema_15_def[unfolded run_dlq_retry_up dlq_retry_up_i schema_14, simplified]

lemma up_15: "run_ddl dlq_retry_up schema_14 = Some schema_15"
  unfolding run_dlq_retry_up dlq_retry_up_i schema_14 schema_15 by simp

lemma run_dlq_retry_down: "run_ddl dlq_retry_down = run_ddl dlq_retry_down_i"
  by (rule ext) (unfold dlq_retry_down_i_def, rule run_interned)

lemma down_15: "(case run_ddl dlq_retry_down schema_15 of None \<Rightarrow> False | Some s \<Rightarrow> same_schema s schema_14)"
  unfolding run_dlq_retry_down dlq_retry_down_i schema_15 schema_14 by (simp add: same_schema_def same_elements_def)

end
