(* ===== verification/Migration_Properties.thy ===== *)
theory Migration_Properties
  imports Schema_States
begin

text \<open>
  Properties of the database migrations: what schema they deploy, against the one the program
  declares, and which of them can be undone.
\<close>

section \<open>The deployed schema\<close>

lemma drift_by_position: "drift schema_15 model_tables model_enums =
  [MissingConstraint (nm 102) (Unique [(nm 107)]),
   MissingConstraint (nm 102) (Unique [(nm 6)]),
   ColumnDiffers (nm 207) (nm 155) SJsonb True SJson True,
   ExtraConstraint (nm 198) (Unique [(nm 197), (nm 184)]),
   IndexDiffers (nm 94), ExtraIndex (nm 132),
   ExtraIndex (nm 129), ExtraIndex (nm 95),
   ExtraIndex (nm 93), ExtraIndex (nm 98),
   ExtraIndex (nm 99), ExtraIndex (nm 92), ExtraIndex (nm 96)]"
  unfolding schema_15 model_interned model_tables_i model_enums_i
  by (simp add: drift_def table_difference_def column_difference_def index_difference_def
      declared_constraints_def declared_index_def)

lemma upgrade_steps: "upgrade_all revisions empty_schema = Some schema_15"
  by (simp add: revisions_def revision_def up_1[unfolded schema_0_def] up_2 up_3 up_4 up_5 up_6 up_7 up_8 up_9 up_10
      up_11 up_12 up_13 up_14 up_15)

text \<open>C35: from an empty database all fifteen migrations apply, in the order of their down_revision, and
  the schema they deploy is the one the models declare (tables, columns with type and
  nullability, keys, foreign keys with what a delete does, checks, indexes, enum values) except for
  the listed differences. The first two are lacking constraints: nothing in the database keeps two
  invoices from sharing an address, or an invoice from having two.\<close>

theorem deployed_schema:
  "map rv_parent (tl revisions) = map (Some \<circ> rv_id) (butlast revisions) \<and>
   (\<exists>s. upgrade_all revisions empty_schema = Some s \<and> drift s model_tables model_enums =
  [MissingConstraint ''invoice_addresses'' (Unique [''invoice_id'']),
   MissingConstraint ''invoice_addresses'' (Unique [''address'']),
   ColumnDiffers ''subscriptions'' ''metadata_json'' SJsonb True SJson True,
   ExtraConstraint ''subscription_payments'' (Unique [''subscription_id'', ''period_start'']),
   IndexDiffers ''idx_dlq_merchant'', ExtraIndex ''ix_subscriptions_next_due_active'',
   ExtraIndex ''ix_subscription_payments_subscription_id'', ExtraIndex ''idx_invoices_cursor'',
   ExtraIndex ''idx_customers_cursor'', ExtraIndex ''idx_subscriptions_cursor'',
   ExtraIndex ''idx_webhook_deliveries_cursor'', ExtraIndex ''idx_api_keys_cursor'', ExtraIndex ''idx_payments_cursor''])"
proof -
  have "map rv_parent (tl revisions) = map (Some \<circ> rv_id) (butlast revisions)"
    by (simp add: revisions_def revision_def)
  then show ?thesis by (simp add: upgrade_steps drift_by_position texts)
qed

section \<open>Going back\<close>

lemma upgrade_steps_11: "upgrade_all (take 11 revisions) empty_schema = Some schema_11"
  by (simp add: revisions_def revision_def up_1[unfolded schema_0_def] up_2 up_3 up_4 up_5 up_6 up_7 up_8 up_9 up_10 up_11)

lemma lost_indexes: "\<exists>s. run_ddl fk_indexes_down schema_12 = Some s \<and>
    filter (\<lambda>n. n \<notin> set (map fst (sc_indexes s))) (map fst (sc_indexes schema_11)) =
    [nm 131, nm 128, nm 137]"
  unfolding run_fk_indexes_down fk_indexes_down_i schema_12 schema_11 by simp

lemma lost_names: "[nm 131, nm 128, nm 137] =
    [''ix_subscriptions_customer_id'', ''ix_subscription_payments_invoice_id'', ''ix_webhook_deliveries_invoice_id'']"
  by (simp add: texts)

text \<open>C36: every migration's downgrade brings back the schema that its upgrade found, up to the order of
  constraints and indexes, except for the four revisions listed. The last of them is to undo the
  foreign key indexes it added, and removes three indexes that the baseline had made.\<close>

theorem downgrades_restore:
  "irreversible revisions empty_schema = [''0b5457cee965'', ''b2c3d4e5f6a7'', ''d4e5f6a7b8c9'', ''w1_03a''] \<and>
   (\<exists>s s' s''. upgrade_all (take 11 revisions) empty_schema = Some s \<and> run_ddl fk_indexes_up s = Some s' \<and>
      run_ddl fk_indexes_down s' = Some s'' \<and>
      filter (\<lambda>n. n \<notin> set (map fst (sc_indexes s''))) (map fst (sc_indexes s)) =
      [''ix_subscriptions_customer_id'', ''ix_subscription_payments_invoice_id'', ''ix_webhook_deliveries_invoice_id''])"
proof
  show "irreversible revisions empty_schema = [''0b5457cee965'', ''b2c3d4e5f6a7'', ''d4e5f6a7b8c9'', ''w1_03a'']"
    by (simp add: revisions_def revision_def restores_def up_1[unfolded schema_0_def] down_1[unfolded schema_0_def]
        up_2 up_3 up_4 up_5 up_6 up_7 up_8 up_9 up_10 up_11 up_12 up_13 up_14 up_15
        down_2 down_3 down_4 down_5 down_6 down_7 down_8 down_9 down_10 down_11 down_12 down_13 down_14 down_15)
  show "\<exists>s s' s''. upgrade_all (take 11 revisions) empty_schema = Some s \<and> run_ddl fk_indexes_up s = Some s' \<and>
      run_ddl fk_indexes_down s' = Some s'' \<and>
      filter (\<lambda>n. n \<notin> set (map fst (sc_indexes s''))) (map fst (sc_indexes s)) =
      [''ix_subscriptions_customer_id'', ''ix_subscription_payments_invoice_id'', ''ix_webhook_deliveries_invoice_id'']"
  proof -
    obtain u where "run_ddl fk_indexes_down schema_12 = Some u"
      "filter (\<lambda>n. n \<notin> set (map fst (sc_indexes u))) (map fst (sc_indexes schema_11)) = [''ix_subscriptions_customer_id'', ''ix_subscription_payments_invoice_id'', ''ix_webhook_deliveries_invoice_id'']"
      using lost_indexes[unfolded lost_names] by (elim exE conjE) (rule that)
    then show ?thesis
      using upgrade_steps_11 up_12 by (intro exI[of _ schema_11] exI[of _ schema_12] exI[of _ u] conjI)
  qed
qed

text \<open>What a statement leaves of the enum types: only \<open>ADD VALUE\<close> and the type statements touch them.\<close>

fun keeps_enums :: "ddl \<Rightarrow> bool" where
  "keeps_enums (CreateType n vs) = False"
| "keeps_enums (DropTypeIfExists n) = False"
| "keeps_enums (AddValue n v p ine) = False"
| "keeps_enums c = True"

lemma on_table_enums: "on_table t f s = Some s' \<Longrightarrow> sc_enums s' = sc_enums s"
  by (auto simp: on_table_def split: option.splits)

lemma exec_enums: "exec c s = Some s' \<Longrightarrow> keeps_enums c \<Longrightarrow> sc_enums s' = sc_enums s"
  by (cases c) (auto dest: on_table_enums simp: without_table_def cut_references_def split: option.splits if_splits)

lemma run_enums: "run_ddl cs s = Some s' \<Longrightarrow> list_all keeps_enums cs \<Longrightarrow> sc_enums s' = sc_enums s"
  by (induction cs arbitrary: s) (auto dest: exec_enums split: option.splits)

text \<open>C37: a database that was downgraded below the dead letter queue cannot be upgraded again: the enum
  value stays behind, and the migration adds it without IF NOT EXISTS.\<close>

theorem dead_letters_not_again:
  assumes "run_ddl dlq_up s = Some s'" and "run_ddl dlq_down s' = Some s''"
  shows "run_ddl dlq_up s'' = None"
proof -
  obtain cs where dlq: "dlq_up = AddValue ''webhook_status'' ''dead_lettered'' (After ''failed'') False # cs" "list_all keeps_enums cs"
    by (simp add: dlq_up_def cursor_tables_def)
  obtain s1 where s1: "exec (AddValue ''webhook_status'' ''dead_lettered'' (After ''failed'') False) s = Some s1" "run_ddl cs s1 = Some s'"
    using assms(1) by (auto simp: dlq(1) simp del: exec.simps put_def split: option.splits)
  have "list_all keeps_enums dlq_down" by (simp add: dlq_down_def cursor_tables_def)
  then have "sc_enums s'' = sc_enums s1"
    using run_enums[OF assms(2)] run_enums[OF s1(2) dlq(2)] by simp
  moreover obtain vs where "map_of (sc_enums s1) ''webhook_status'' = Some vs" "''dead_lettered'' \<in> set vs"
    using s1(1) by (auto simp del: put_def split: option.splits if_splits)
  ultimately show ?thesis by (simp add: dlq(1))
qed

lemma dead_letters_not_again_witness:
  "\<exists>s. run_ddl dlq_down schema_5 = Some s \<and> run_ddl dlq_up s = None"
proof -
  have "run_ddl dlq_down schema_5 \<noteq> None"
    unfolding run_dlq_down dlq_down_i schema_5 by simp
  then obtain s where s: "run_ddl dlq_down schema_5 = Some s" by blast
  from dead_letters_not_again[OF up_5 s] s show ?thesis by blast
qed

end
