(* ===== verification/Http_Middleware.thy ===== *)
theory Http_Middleware
  imports Rate_Limit Public_Invoice
begin

text \<open>
  The response side of the middleware: \<open>middleware/security_headers.py\<close>, \<open>middleware/timing_jitter.py\<close>,
  the headers the public payment routes set themselves, and the order in which \<open>main.py\<close> stacks
  them. The headers of a response are a map from lower-case names to values, as in Starlette.
\<close>

type_synonym headers = "string \<Rightarrow> string option"

definition set_header :: "string \<times> string \<Rightarrow> headers \<Rightarrow> headers" where
  "set_header kv h = h(lower (fst kv) \<mapsto> snd kv)"

definition set_headers :: "(string \<times> string) list \<Rightarrow> headers \<Rightarrow> headers" where
  "set_headers kvs h = fold set_header kvs h"

section \<open>Security headers\<close>

definition content_security_policy :: string where
  "content_security_policy = ''default-src 'none'; frame-ancestors 'none'; base-uri 'none'; form-action 'none'' @ [CHR 0x27]"

definition permissions_policy :: string where
  "permissions_policy = ''accelerometer=(), camera=(), geolocation=(), gyroscope=(), magnetometer=(), microphone=(), payment=(), usb=(), interest-cohort=()''"

definition security_headers_always :: "(string \<times> string) list" where
  "security_headers_always =
     [(''Strict-Transport-Security'', ''max-age=31536000; includeSubDomains''),
      (''Cross-Origin-Opener-Policy'', ''same-origin''), (''Cross-Origin-Resource-Policy'', ''same-origin''),
      (''Permissions-Policy'', permissions_policy), (''Referrer-Policy'', ''no-referrer''),
      (''X-Content-Type-Options'', ''nosniff''), (''X-Frame-Options'', ''DENY''), (''Server'', ''GhostBill'')]"

definition security_headers_api_only :: "(string \<times> string) list" where
  "security_headers_api_only =
     [(''Content-Security-Policy'', content_security_policy),
      (''Cache-Control'', ''no-store, no-cache, must-revalidate, private''), (''Pragma'', ''no-cache'')]"

text \<open>\<open>PUBLIC_PAGE_PATTERN\<close>, ignoring case: the payment page and the public data of an invoice.\<close>

definition public_page_path :: "string \<Rightarrow> bool" where
  "public_page_path path \<longleftrightarrow> (let p = lower path in
     (startswith p ''/pay/'' \<and> id_then (drop 5 p) ['''']) \<or>
     (startswith p ''/v1/invoices/'' \<and> id_then (drop 13 p) [''/public'']))"

definition secure_headers :: "string \<Rightarrow> headers \<Rightarrow> headers" where
  "secure_headers path h =
     (let h1 = set_headers security_headers_always h;
          h2 = (if public_page_path path then h1 else set_headers security_headers_api_only h1)
      in h2(lower ''X-Powered-By'' := None))"

text \<open>What \<open>get_public_invoice\<close> and \<open>serve_payment_page\<close> set.\<close>

definition public_headers :: "(string \<times> string) list" where
  "public_headers =
     [(''Content-Security-Policy'',
       ''default-src 'self'; style-src 'self' 'unsafe-inline'; script-src 'self' 'unsafe-inline'; img-src 'self' data:''),
      (''X-Frame-Options'', ''DENY''), (''X-Content-Type-Options'', ''nosniff''), (''Referrer-Policy'', ''no-referrer''),
      (''Cache-Control'', ''no-store, no-cache, must-revalidate'')]"

text \<open>\<open>serve_payment_page\<close>: the page is a file; whether it is there is an argument.\<close>

definition serve_payment_page :: "bool \<Rightarrow> string \<Rightarrow> headers \<Rightarrow> db \<Rightarrow> exc + headers" where
  "serve_payment_page file_exists invoice_id h d = (case validate_uuid invoice_id of
      Inl x \<Rightarrow> Inl x
    | Inr i \<Rightarrow>
        if find_invoice i d = None then Inl (HTTPException 404)
        else if \<not> file_exists then Inl (HTTPException 500)
        else Inr (set_headers public_headers h))"

section \<open>Timing jitter\<close>

definition jitter_min_ms :: int where "jitter_min_ms = 50"
definition jitter_max_ms :: int where "jitter_max_ms = 200"

text \<open>The delay in milliseconds, for the number \<open>rnd\<close> that \<open>random.randint\<close> draws from its range.\<close>

definition jitter_delay :: "string \<Rightarrow> nat \<Rightarrow> int" where
  "jitter_delay path rnd =
     (if path = ''/health'' then 0
      else jitter_min_ms + int rnd mod (jitter_max_ms - jitter_min_ms + 1))"

section \<open>What every response carries\<close>

lemma set_headers_other: "lower n \<notin> (lower \<circ> fst) ` set kvs \<Longrightarrow> set_headers kvs h (lower n) = h (lower n)"
  by (induction kvs arbitrary: h) (auto simp: set_headers_def set_header_def)

lemma set_headers_in:
  "distinct (map (lower \<circ> fst) kvs) \<Longrightarrow> kv \<in> set kvs \<Longrightarrow> set_headers kvs h (lower (fst kv)) = Some (snd kv)"
proof (induction kvs arbitrary: h)
  case (Cons x xs)
  show ?case
  proof (cases "kv = x")
    case True
    have "set_headers xs (set_header x h) (lower (fst x)) = set_header x h (lower (fst x))"
      using Cons.prems(1) by (intro set_headers_other) auto
    then show ?thesis using True by (simp add: set_headers_def set_header_def)
  next
    case False
    then show ?thesis using Cons by (simp add: set_headers_def)
  qed
qed simp

lemma header_names:
  "distinct (map (lower \<circ> fst) (security_headers_always @ security_headers_api_only))"
  "lower ''X-Powered-By'' \<notin> (lower \<circ> fst) ` set (security_headers_always @ security_headers_api_only)"
  by (code_simp, code_simp)

lemma not_powered_by:
  assumes "kv \<in> set security_headers_always \<or> kv \<in> set security_headers_api_only"
  shows "lower (fst kv) \<noteq> lower ''X-Powered-By''"
proof
  assume e: "lower (fst kv) = lower ''X-Powered-By''"
  have "kv \<in> set (security_headers_always @ security_headers_api_only)" using assms by simp
  then have "(lower \<circ> fst) kv \<in> (lower \<circ> fst) ` set (security_headers_always @ security_headers_api_only)" by (rule imageI)
  then show False using header_names(2) unfolding comp_apply e by blast
qed

lemma secure_headers_always:
  assumes "kv \<in> set security_headers_always"
  shows "secure_headers path h (lower (fst kv)) = Some (snd kv)"
proof -
  have d: "distinct (map (lower \<circ> fst) security_headers_always)" using header_names(1) by simp
  have n: "lower (fst kv) \<notin> (lower \<circ> fst) ` set security_headers_api_only" using header_names(1) assms by auto
  have "lower (fst kv) \<noteq> lower ''X-Powered-By''" using not_powered_by assms by blast
  then show ?thesis using set_headers_in[OF d assms] set_headers_other[OF n] by (simp add: secure_headers_def Let_def)
qed

lemma secure_headers_api:
  assumes "kv \<in> set security_headers_api_only" and "\<not> public_page_path path"
  shows "secure_headers path h (lower (fst kv)) = Some (snd kv)"
proof -
  have d: "distinct (map (lower \<circ> fst) security_headers_api_only)" using header_names(1) by simp
  have "lower (fst kv) \<noteq> lower ''X-Powered-By''" using not_powered_by assms by blast
  then show ?thesis using set_headers_in[OF d assms(1)] assms(2) by (simp add: secure_headers_def Let_def)
qed

lemma secure_headers_public:
  assumes "public_page_path path" and "kv \<in> set security_headers_api_only"
  shows "secure_headers path h (lower (fst kv)) = h (lower (fst kv))"
proof -
  have n: "lower (fst kv) \<notin> (lower \<circ> fst) ` set security_headers_always" using header_names(1) assms(2) by auto
  have "lower (fst kv) \<noteq> lower ''X-Powered-By''" using not_powered_by assms(2) by blast
  then show ?thesis using set_headers_other[OF n] assms(1) by (simp add: secure_headers_def Let_def)
qed

lemma jitter_bounds: "path \<noteq> ''/health'' \<Longrightarrow> 50 \<le> jitter_delay path rnd \<and> jitter_delay path rnd \<le> 200"
  by (simp add: jitter_delay_def jitter_min_ms_def jitter_max_ms_def)

end
