(* ===== verification/Instance.thy ===== *)
theory Instance
  imports Admin_Routes Price_Feed Renewer Detection
begin

text \<open>
  The instance around the services: \<open>config.py\<close> (which settings are accepted, the addresses built from
  them), the CORS origins of \<open>main.py\<close>, and the health reports of \<open>GET /health\<close> and
  \<open>GET /v1/admin/health\<close>.
\<close>

section \<open>Settings\<close>

record settings =
  set_app_env :: string
  set_debug :: bool
  set_secret_key :: string
  set_master_key :: string
  set_onion_dashboard :: string
  set_pg_user :: string
  set_pg_password :: string
  set_pg_host :: string
  set_pg_port :: nat
  set_pg_db :: string
  set_redis_host :: string
  set_redis_port :: nat
  set_redis_password :: string
  set_redis_url :: string

text \<open>\<open>validate_production_secrets\<close>: no settings object exists otherwise.\<close>

definition settings_ok :: "settings \<Rightarrow> bool" where
  "settings_ok s \<longleftrightarrow> \<not> (lower (set_app_env s) = ''production'' \<and> (set_secret_key s = [] \<or> set_master_key s = []))"

definition database_url :: "settings \<Rightarrow> string" where
  "database_url s = ''postgresql+asyncpg://'' @ set_pg_user s @ '':'' @ set_pg_password s @ ''@'' @ set_pg_host s @
     '':'' @ nat_str (set_pg_port s) @ ''/'' @ set_pg_db s"

definition redis_dsn :: "settings \<Rightarrow> string" where
  "redis_dsn s =
     (if set_redis_url s \<noteq> [] then set_redis_url s
      else if set_redis_password s \<noteq> [] then
        ''redis://:'' @ set_redis_password s @ ''@'' @ set_redis_host s @ '':'' @ nat_str (set_redis_port s) @ ''/0''
      else ''redis://'' @ set_redis_host s @ '':'' @ nat_str (set_redis_port s) @ ''/0'')"

definition cors_origins :: "settings \<Rightarrow> string list" where
  "cors_origins s =
     (if set_onion_dashboard s \<noteq> [] then [''http://'' @ set_onion_dashboard s] else []) @
     (if set_debug s then [''http://localhost:3013'', ''http://127.0.0.1:3013''] else [])"

section \<open>Health\<close>

text \<open>\<open>get_health_metrics\<close> reads the three keys the engine writes; an empty value and a failing Redis
  give nulls, a value that is no number makes all three null.\<close>

record redis_health =
  rh_height :: "string option"
  rh_last_sweep :: "string option"
  rh_blocks_behind :: "string option"

definition int_or_none :: "(string \<Rightarrow> int option) \<Rightarrow> string option \<Rightarrow> json option" where
  "int_or_none to_int v = (case v of
      None \<Rightarrow> Some JNull
    | Some s \<Rightarrow> if s = [] then Some JNull else map_option JInt (to_int s))"

definition health_fields :: "json \<Rightarrow> json \<Rightarrow> json \<Rightarrow> json" where
  "health_fields height sweep behind =
     JObj [(''last_scanned_height'', height), (''last_sweep_at'', sweep), (''blocks_behind'', behind)]"

definition get_health_metrics :: "(string \<Rightarrow> int option) \<Rightarrow> redis_health option \<Rightarrow> json" where
  "get_health_metrics to_int r =
     (case r of
        None \<Rightarrow> health_fields JNull JNull JNull
      | Some h \<Rightarrow> (case (int_or_none to_int (rh_height h), int_or_none to_int (rh_blocks_behind h)) of
            (Some height, Some behind) \<Rightarrow> health_fields height (jopt JStr (rh_last_sweep h)) behind
          | _ \<Rightarrow> health_fields JNull JNull JNull))"

definition health_check :: "string \<Rightarrow> string \<Rightarrow> json \<Rightarrow> json" where
  "health_check app_name app_version detection =
     JObj [(''status'', JStr ''healthy''), (''app'', JStr app_name), (''version'', JStr app_version), (''detection'', detection)]"

definition not_connected :: json where
  "not_connected = JObj [(''connected'', JBool False), (''error'', JStr ''Internal error processing request'')]"

text \<open>\<open>detailed_health\<close>: the pool and Redis report what they know (None: the probe raised), the wallet its
  height; the overall status does not depend on them.\<close>

definition detailed_health ::
    "string \<Rightarrow> string \<Rightarrow> json \<Rightarrow> (string \<times> json) list option \<Rightarrow> (string \<times> json) list option \<Rightarrow> (nat \<Rightarrow> int rpc_reply) \<Rightarrow> json" where
  "detailed_health app_name app_version detection pool redis wallet =
     JObj [(''status'', JStr ''healthy''), (''app'', JStr app_name), (''version'', JStr app_version),
       (''uptime_info'', JStr ''check docker ps for container uptime''), (''detection'', detection),
       (''database'', case pool of None \<Rightarrow> not_connected | Some kvs \<Rightarrow> JObj ((''connected'', JBool True) # kvs)),
       (''redis'', case redis of None \<Rightarrow> not_connected | Some kvs \<Rightarrow> JObj ((''connected'', JBool True) # kvs)),
       (''wallet_rpc'', case get_height wallet of
          Inl x \<Rightarrow> not_connected
        | Inr h \<Rightarrow> JObj [(''connected'', JBool True), (''height'', JInt h)]),
       (''background_tasks'', JObj [
          (''detection_last_sweep'', case jget ''last_sweep_at'' detection of None \<Rightarrow> JStr ''unknown'' | Some j \<Rightarrow> j),
          (''detection_blocks_behind'', case jget ''blocks_behind'' detection of None \<Rightarrow> JStr ''unknown'' | Some j \<Rightarrow> j),
          (''tasks_registered'', JInt 6)])]"

section \<open>Triggers\<close>

text \<open>\<open>admin_trigger_renewal\<close>: one sweep; an exception becomes status 500. None: the sweep does not end.\<close>

definition admin_trigger_renewal ::
    "nat \<Rightarrow> env \<Rightarrow> (nat \<Rightarrow> env) \<Rightarrow> env \<Rightarrow> db \<Rightarrow> ((exc + nat \<times> sweep_counts \<times> grace_counts) \<times> db) option" where
  "admin_trigger_renewal fuel e0 es e1 d = (case run_sweep fuel e0 es e1 d of
      None \<Rightarrow> None
    | Some (Inl x, d') \<Rightarrow> Some (Inl (HTTPException 500), d')
    | Some (Inr c, d') \<Rightarrow> Some (Inr c, d'))"

text \<open>One iteration of \<open>price_updater_loop\<close>: nothing without the lease.\<close>

definition price_cycle ::
    "(string \<Rightarrow> rat option) \<Rightarrow> bool \<Rightarrow> time \<Rightarrow> json option \<Rightarrow> json option \<Rightarrow> leases \<Rightarrow> json kv \<Rightarrow>
       json option \<times> leases \<times> json kv" where
  "price_cycle parse redis_up now coingecko kraken held r =
     (case acquire_task_lease redis_up now ''price_updater'' (2 * poll_interval_seconds) held of
        (False, held') \<Rightarrow> (None, held', r)
      | (True, held') \<Rightarrow> (case update_price parse now coingecko kraken r of (p, r') \<Rightarrow> (Some p, held', r')))"

section \<open>A report\<close>

text \<open>What the engine saved is what the report shows.\<close>

lemma health_after_sweep:
  assumes "\<And>n. to_int (int_str n) = Some n" and "\<And>n. int_str n \<noteq> []"
  shows "get_health_metrics to_int
      (Some \<lparr>rh_height = Some (int_str h), rh_last_sweep = Some s, rh_blocks_behind = Some (int_str b)\<rparr>) =
    health_fields (JInt h) (JStr s) (JInt b)"
  using assms by (simp add: get_health_metrics_def int_or_none_def jopt_def)

end
