(* ===== verification/Spec2Isabelle.thy ===== *)
theory Spec2Isabelle
  imports Ledger_Properties Lifecycle_Properties Webhook_Properties Subscription_Properties
    Platform_Properties Access_Properties Service_Properties Client_Properties Migration_Properties Http_Middleware Instance
begin

text \<open>
  GhostBill (\<open>src/backend/app\<close>) is a self-hosted billing server for Monero merchants: a FastAPI
  application over PostgreSQL, Redis and a view-only \<open>monero-wallet-rpc\<close>, with background tasks that
  watch the chain, expire invoices, renew subscriptions, deliver webhooks and clean up. This library
  models its services, its tasks and the routes that change state, and proves what they keep true,
  alone and running together.

  THE STATE. \<open>Models\<close> has one record per table of \<open>db/models.py\<close> with its columns, the enums as
  datatypes, and the record \<open>db\<close> of all tables. A row is looked up by id, as the code does, and a
  table is the list of its rows in insertion order. An operation that runs inside a session has type
  \<open>'a op = db \<Rightarrow> (exc + 'a) \<times> db\<close>: its outcome is an exception of the code or a value, and the new
  state, so that every raise and early return is a branch. \<open>in_transaction\<close> is \<open>get_db\<close>: commit on
  success, all changes undone on an exception. The clock, the address of the wallet and the MAC are
  in the record \<open>env\<close>; the clock stands still within one operation. Fresh identifiers (\<open>uuid4\<close>)
  are the counter \<open>db_next_id\<close>. Replies of the wallet are a parameter indexed by the number of the
  call (\<open>db_rpc_calls\<close>), since the wallet is code we do not have. Amounts in XMR (\<open>Decimal\<close>) are
  rationals, atomic amounts and times (microseconds) are integers. Constraints a write can violate
  (unique keys, foreign keys, numeric ranges) are checked where the code flushes and give an
  exception; a query that fails poisons the session, as in PostgreSQL.

  THE THEORIES, in the order of the code they model.
  \<open>Prelude\<close>: rows in tables, lookups, updates, the \<open>op\<close> combinators, the shared collections of facts.
  \<open>Textual\<close>, \<open>Values\<close>, \<open>Validators\<close>: \<open>str\<close> of numbers, UUIDs and dates, \<open>lower\<close>, \<open>strip\<close>, \<open>split\<close>; JSON
  values; the checks that the request schemas share.
  \<open>Wallet_RPC\<close>: \<open>services/monero_rpc.py\<close>, amounts and the retry loop of \<open>_call\<close>.
  \<open>Tor_Proxy\<close>, \<open>Webhook_Payloads\<close>, \<open>Webhook_Service\<close>: the URL policy, payloads, signatures, queue,
  delivery, dead letters and worker (\<open>core/tor_proxy.py\<close>, \<open>services/webhook_*.py\<close>,
  \<open>tasks/webhook_worker.py\<close>).
  \<open>Invoice_Service\<close>, \<open>Payment_Service\<close>: \<open>services/invoice_service.py\<close>, \<open>services/payment_service.py\<close>
  and the invoice routes. \<open>Detection\<close>: \<open>tasks/detection_*.py\<close>. \<open>Expiration\<close>: the expirer and
  \<open>tasks/data_retention.py\<close>.
  \<open>Subscription_Core\<close>, \<open>_Renewal\<close>, \<open>_Prepay\<close>, \<open>_Grace\<close>, \<open>_Service\<close>, \<open>Renewer\<close>: the files
  \<open>services/subscription_*.py\<close>, the subscription routes and \<open>tasks/subscription_renewer.py\<close>.
  \<open>Pagination\<close>: \<open>utils/pagination.py\<close>. \<open>Rate_Limit\<close>: \<open>core/rate_limit.py\<close>, \<open>middleware/rate_limiter.py\<close>.
  \<open>Encryption\<close>: \<open>core/encryption.py\<close>. \<open>Accounts\<close>, \<open>Sessions\<close>: \<open>core/security.py\<close>, \<open>api/auth.py\<close>, the routes
  of API keys, \<open>core/monero_auth.py\<close> and \<open>api/routes/auth_signature.py\<close>. \<open>Merchant_Routes\<close>: registration and
  profile (\<open>api/routes/merchants.py\<close>) and \<open>core/audit.py\<close>. \<open>Customer_Service\<close>, \<open>License_Service\<close>: the
  services and routes of these names. \<open>Admin_Routes\<close>: \<open>api/routes/admin.py\<close> and the endpoints of \<open>main.py\<close>.
  \<open>Listings\<close>: the listing and single-row routes with their JSON. \<open>Public_Invoice\<close>: the payment page and its
  event stream. \<open>Price_Feed\<close>, \<open>Analytics\<close>: the price and the reports with their caches. \<open>Log_Redactor\<close>:
  \<open>core/log_redactor.py\<close>. \<open>Http_Middleware\<close>, \<open>Instance\<close>: response headers, jitter, \<open>config.py\<close>.
  \<open>Command_Line\<close>, \<open>Client_Commands\<close>: the client \<open>src/cli/ghostbill-cli.py\<close>, its helpers and its commands, each a
  function of the server's replies that gives the requests it sends, what it prints and how it exits.
  \<open>Schema\<close>, \<open>Migrations\<close>: database schemas with the DDL statements of PostgreSQL, and the revisions of
  \<open>src/backend/migrations/versions\<close> in these statements. \<open>Declared_Schema\<close>: the tables as \<open>db/models.py\<close>
  declares them, and the list of differences between them and a schema.

  PARAMETERS. Library code is an argument: the MAC, bcrypt (a record with the law that a hash verifies
  the text it was made from), the AEAD cipher (the law that decryption inverts encryption under the
  same associated data), SHA-256, QR drawing, \<open>json.dumps\<close>, the text of a \<open>Decimal\<close>, \<open>float(text)\<close>, the
  rounding division of PostgreSQL, and every answer that comes over HTTP. Random bytes, salts and nonces
  are arguments too. Texts are their UTF-8 bytes.

  THE PROOFS. \<open>Settlement\<close> defines the balance of the books (\<open>ledger_ok\<close>: the status of every invoice
  is the one its confirmed payments call for) and proves that each ledger operation restores it;
  \<open>Replay\<close> that processing a transfer twice is processing it once. \<open>System_Ledger\<close> extends the
  invariant to the subaddresses and the whole database (\<open>sys_ok\<close>), \<open>System_Steps\<close> and \<open>System_Ops\<close>
  prove that every route and task keeps it and only evolves rows in the allowed directions, and
  \<open>System\<close> puts them together: an inductive relation \<open>billing_step home\<close> with one rule per billing
  request and task. \<open>Account_Frame\<close> shows that no billing operation writes merchants, keys, customers or
  licenses; \<open>System_Accounts\<close> adds the steps of accounts (\<open>account_step K\<close>) and defines the runs of the
  whole server, in any order, \<open>steps home K\<close>, and its reachable states; \<open>Account_Invariant\<close> proves the
  invariant of the account tables over all of them. \<open>Renewal_Laws\<close>, \<open>Webhook_Laws\<close> and \<open>Account_Laws\<close> hold the
  laws of renewals, deliveries and credentials. \<open>Webhook_Refinement\<close> states what the worker promises as an
  abstract machine over the phases of deliveries and proves that a cycle of the worker refines it.
  \<open>Client_Laws\<close> proves of all client commands where their requests go and when they end well, by rules for
  the ways commands are put together. \<open>Schema_Names\<close> and \<open>Schema_States\<close> evaluate the migration chain in the
  kernel, one revision at a time, with names replaced by their positions in a list of distinct names. The
  theories \<open>*_Properties\<close> and this one state the properties, each with a witness on the concrete run of
  \<open>Demo\<close>.

  BOUNDS AND FUEL. \<open>renewal_loop\<close> takes the number of iterations and returns None when they do not
  suffice: the loop of the code has no bound, and \<open>sweep_never_ends\<close> shows that it need not end. The
  retry loop of the wallet client runs over the attempts that are left (\<open>max_retries\<close>, three). \<open>walk\<close>,
  the client that follows cursors, takes fuel; more than the number of rows is enough. The event stream
  of the payment page recurses on the seconds left until its maximal duration (a measure). All other
  recursion is structural. The step relation carries the map from transaction ids to the
  subaddress they pay (\<open>home\<close>) and assumes that the wallet reports each transaction under one
  subaddress: the code finds payments by transaction id alone. It also carries the deployment's bcrypt,
  cipher and master key (\<open>K\<close>), which stay the same along a run.

  NOT MODELLED. Type checks by \<open>isinstance\<close>, overflow of dates, concurrent sessions (row locks,
  SKIP LOCKED; the steps of the system are whole transactions), failures of Redis while it stores
  the checkpoint, the HTTP client itself, logging calls, start-up and the wiring of routers. The list of
  components in the manifest says for each part what is left out and why.
\<close>

section \<open>The running system\<close>



text \<open>C2: a recorded payment is never lost and never altered: along any further run it is still there, on
  the same invoice, with the same transaction and amount, and its status only moves forward
  (detected, confirmed, orphaned).\<close>

theorem payments_durable:
  assumes "reachable home K d" and "steps home K d d'" and "find_payment i d = Some p"
  shows "\<exists>q. find_payment i d' = Some q \<and> pay_invoice q = pay_invoice p \<and> pay_tx_hash q = pay_tx_hash p \<and>
    pay_amount_atomic q = pay_amount_atomic p \<and> payment_moves (pay_status p) (pay_status q)"
  using reachable_steps[OF assms(1,2)] evolvesD(5)[OF _ assms(3)] unfolding same_transfer_def by metis

lemma payments_durable_witness:
  "\<exists>q. find_payment 3 (snd (expirer_cycle (demo_env (secs 7200)) demo_paid)) = Some q \<and> pay_amount_atomic q = 1000000000000"
proof -
  have st: "steps (\<lambda>t. (0, 1)) demo_ring demo_paid (snd (expirer_cycle (demo_env (secs 7200)) demo_paid))"
    by (rule steps_step[OF steps_refl billing[OF expiry]])
  obtain p where "find_payment 3 demo_paid = Some p" "pay_amount_atomic p = 1000000000000"
    using demo_run(2) by (auto simp: find_payment_def)
  then show ?thesis using payments_durable[OF demo_steps(2) st] by metis
qed

text \<open>C3: a cancelled invoice stays cancelled, and no invoice ever changes its amount, merchant, deadline or
  metadata: along any run an invoice that is still there has the same terms, its status has
  followed allowed transitions, and if it was cancelled it still is.\<close>

theorem invoice_history:
  assumes "reachable home K d" and "steps home K d d'"
    and "find_invoice i d = Some r" and "find_invoice i d' = Some r'"
  shows "inv_amount_atomic r' = inv_amount_atomic r \<and> inv_merchant r' = inv_merchant r \<and>
    inv_expires_at r' = inv_expires_at r \<and> inv_metadata r' = inv_metadata r \<and>
    (inv_status r, inv_status r') \<in> {(a, b). can_transition a b}\<^sup>* \<and>
    (inv_status r = ICancelled \<longrightarrow> inv_status r' = ICancelled)"
proof -
  have ev: "evolves d d'" using reachable_steps[OF assms(1,2)] by simp
  note debt = evolvesD(3)[OF ev assms(3,4)] and moves = evolvesD(4)[OF ev assms(3,4)]
  have "b = ICancelled" if "(ICancelled, b) \<in> invoice_moves\<^sup>*" for b
    using that by (induction rule: rtrancl_induct) (simp_all add: invoice_moves_def can_transition_def)
  then show ?thesis using debt moves by (auto simp: same_debt_def invoice_moves_def)
qed

lemma invoice_history_witness:
  "\<exists>r. find_invoice 1 demo_exception = Some r \<and> inv_status r = ICancelled"
proof -
  obtain r where r: "find_invoice 1 demo_cancelled = Some r" "inv_status r = ICancelled"
    using demo_run(3) by (auto simp: find_invoice_def)
  obtain r' where r': "find_invoice 1 demo_exception = Some r'"
    using demo_run(4) by (auto simp: find_invoice_def)
  then show ?thesis using invoice_history[OF demo_steps(3,4) r(1) r'] r(2) by blast
qed

end
